(* ===== verification/Prelude.thy ===== *)
theory Prelude
  imports Main "HOL-Library.Word" "HOL-Library.List_Lexorder"
begin

text \<open>
  Shared vocabulary of the development: the fixed-width integers and byte strings of the crate,
  the result type with the combinators the sources use on it, the checked arithmetic of the Rust
  standard library, and the generic lemmas the component theories share.

  Arithmetic written with plain operators in the sources (\<open>version + 1\<close>) is word arithmetic, which
  wraps: the manifest Cargo.toml sets no profile, so a release build wraps. A debug build panics
  exactly where the wrapped result differs from the integer result.
\<close>

section \<open>Integers, bytes, names\<close>

type_synonym u8 = "8 word"
type_synonym u32 = "32 word"
type_synonym u64 = "64 word"

text \<open>A \<open>usize\<close> is 64 bits wide: the target is a 64-bit platform, so \<open>as usize\<close> and \<open>as u64\<close> are the identity.\<close>

type_synonym usize = "64 word"

type_synonym bytes = "u8 list"

text \<open>
  Fixed-size byte arrays are words, the first byte most significant. The derived order of an array
  (lexicographic on bytes) is then the order of the word, and the first 32 bytes of a longer array
  are its high 256 bits. \<open>XorName\<close> is the crate xor\_name's wrapper of a \<open>[u8; 32]\<close>.
\<close>

type_synonym XorName = "256 word"

section \<open>Fact collections\<close>

named_theorems res_simps \<open>result combinators on concrete results\<close>
named_theorems dispatch \<open>defining equations of accessors and variant dispatch\<close>

section \<open>Results\<close>

abbreviation Ok :: "'a \<Rightarrow> 'e + 'a" where "Ok \<equiv> Inr"
abbreviation Err :: "'e \<Rightarrow> 'e + 'a" where "Err \<equiv> Inl"

definition is_ok :: "'e + 'a \<Rightarrow> bool" where
  "is_ok r = (case r of Inl _ \<Rightarrow> False | Inr _ \<Rightarrow> True)"

definition ok_or :: "'e \<Rightarrow> 'a option \<Rightarrow> 'e + 'a" where
  "ok_or e x = (case x of None \<Rightarrow> Err e | Some a \<Rightarrow> Ok a)"

definition map_err :: "('e \<Rightarrow> 'f) \<Rightarrow> 'e + 'a \<Rightarrow> 'f + 'a" where
  "map_err f r = (case r of Inl e \<Rightarrow> Err (f e) | Inr a \<Rightarrow> Ok a)"

text \<open>\<open>and_then\<close> is also the \<open>?\<close> operator followed by the rest of a body.\<close>

definition and_then :: "'e + 'a \<Rightarrow> ('a \<Rightarrow> 'e + 'b) \<Rightarrow> 'e + 'b" where
  "and_then r f = (case r of Inl e \<Rightarrow> Err e | Inr a \<Rightarrow> f a)"

definition or_else :: "'e + 'a \<Rightarrow> ('e \<Rightarrow> 'f + 'a) \<Rightarrow> 'f + 'a" where
  "or_else r f = (case r of Inl e \<Rightarrow> f e | Inr a \<Rightarrow> Ok a)"

lemma result_combinators [simp, res_simps]:
  "is_ok (Ok a) = True" "is_ok (Err e) = False"
  "ok_or e None = Err e" "ok_or e (Some a) = Ok a"
  "map_err f (Err e) = Err (f e)" "map_err f (Ok a) = Ok a"
  "and_then (Err e) g = Err e" "and_then (Ok a) g = g a"
  "or_else (Err e) h = h e" "or_else (Ok a) h = Ok a"
  by (simp_all add: is_ok_def ok_or_def map_err_def and_then_def or_else_def)

lemma is_ok_iff: "is_ok r \<longleftrightarrow> (\<exists>a. r = Ok a)"
  by (cases r) auto

lemma is_ok_unit: "is_ok r \<longleftrightarrow> r = Ok ()"
  by (cases r) auto

lemma and_then_eq_Ok: "and_then r f = Ok b \<longleftrightarrow> (\<exists>a. r = Ok a \<and> f a = Ok b)"
  by (cases r) auto

lemma ok_or_eq_Ok: "ok_or e x = Ok a \<longleftrightarrow> x = Some a"
  by (cases x) auto

lemma or_else_eq_Ok: "or_else r f = Ok a \<longleftrightarrow> r = Ok a \<or> (\<exists>e. r = Err e \<and> f e = Ok a)"
  by (cases r) auto

section \<open>Options\<close>

text \<open>\<open>Option::or_else\<close> and \<open>Option::and_then\<close>.\<close>

definition option_or_else :: "'a option \<Rightarrow> 'a option \<Rightarrow> 'a option" where
  "option_or_else x y = (case x of None \<Rightarrow> y | Some a \<Rightarrow> Some a)"

lemma option_or_else_simps [simp]:
  "option_or_else None y = y" "option_or_else (Some a) y = Some a"
  by (simp_all add: option_or_else_def)

section \<open>Checked arithmetic\<close>

definition checked_add :: "'l::len word \<Rightarrow> 'l word \<Rightarrow> 'l word option" where
  "checked_add a b = (if unat a + unat b < 2 ^ LENGTH('l) then Some (a + b) else None)"

definition checked_sub :: "'l::len word \<Rightarrow> 'l word \<Rightarrow> 'l word option" where
  "checked_sub a b = (if b \<le> a then Some (a - b) else None)"

definition checked_mul :: "'l::len word \<Rightarrow> 'l word \<Rightarrow> 'l word option" where
  "checked_mul a b = (if unat a * unat b < 2 ^ LENGTH('l) then Some (a * b) else None)"

lemma checked_add_Some:
  "checked_add a b = Some c \<longleftrightarrow> unat c = unat a + unat b" for a b :: "'l::len word"
proof
  assume "checked_add a b = Some c"
  then show "unat c = unat a + unat b"
    by (auto simp: checked_add_def unat_word_ariths split: if_splits)
next
  assume c: "unat c = unat a + unat b"
  then have lt: "unat a + unat b < 2 ^ LENGTH('l)"
    using unsigned_less [of c] by (simp only: c [symmetric])
  have "unat (a + b) = unat c"
    using lt c by (simp add: unat_word_ariths)
  then have "a + b = c" by (simp only: word_unat_eq_iff)
  with lt show "checked_add a b = Some c" by (simp add: checked_add_def)
qed

lemma checked_sub_Some:
  "checked_sub a b = Some c \<longleftrightarrow> unat a = unat b + unat c" for a b :: "'l::len word"
proof
  assume "checked_sub a b = Some c"
  then show "unat a = unat b + unat c"
    by (auto simp: checked_sub_def unat_sub word_le_nat_alt split: if_splits)
next
  assume a: "unat a = unat b + unat c"
  then have le: "b \<le> a" by (simp add: word_le_nat_alt)
  have "unat (a - b) = unat c" using a le by (simp add: unat_sub)
  then have "a - b = c" by (simp only: word_unat_eq_iff)
  with le show "checked_sub a b = Some c" by (simp add: checked_sub_def)
qed

lemma checked_mul_Some:
  "checked_mul a b = Some c \<longleftrightarrow> unat c = unat a * unat b" for a b :: "'l::len word"
proof
  assume "checked_mul a b = Some c"
  then show "unat c = unat a * unat b"
    by (auto simp: checked_mul_def unat_word_ariths split: if_splits)
next
  assume c: "unat c = unat a * unat b"
  then have lt: "unat a * unat b < 2 ^ LENGTH('l)"
    using unsigned_less [of c] by (simp only: c [symmetric])
  have "unat (a * b) = unat c"
    using lt c by (simp add: unat_word_ariths)
  then have "a * b = c" by (simp only: word_unat_eq_iff)
  with lt show "checked_mul a b = Some c" by (simp add: checked_mul_def)
qed

lemma checked_add_None:
  "checked_add a b = None \<longleftrightarrow> 2 ^ LENGTH('l) \<le> unat a + unat b" for a b :: "'l::len word"
  by (simp add: checked_add_def not_less)

lemma checked_sub_None: "checked_sub a b = None \<longleftrightarrow> unat a < unat b" for a b :: "'l::len word"
  by (auto simp: checked_sub_def word_le_nat_alt)

section \<open>Words and natural numbers\<close>

lemma unat_word_of_nat: "n < 2 ^ LENGTH('l) \<Longrightarrow> unat (word_of_nat n :: 'l::len word) = n"
  by (simp add: unsigned_of_nat take_bit_nat_eq_self_iff)

lemma unat_bound64: "unat w < 18446744073709551616" for w :: u64
  using unsigned_less [of w, where 'a = nat] by simp

section \<open>Successors on words\<close>

lemma word_neq_succ: "w \<noteq> w + 1" for w :: "'l::len word"
  by (metis add_cancel_right_right zero_neq_one)

lemma succ_neq_zero: "w \<noteq> - 1 \<Longrightarrow> 1 + w \<noteq> 0" for w :: "'l::len word"
  by (metis add.inverse_unique minus_equation_iff)

lemma unat_succ: "w \<noteq> - 1 \<Longrightarrow> unat (w + 1) = Suc (unat w)" for w :: "'l::len word"
  by (metis unatSuc succ_neq_zero add.commute)

lemma word_less_succ: "w \<noteq> - 1 \<Longrightarrow> w < w + 1" for w :: "'l::len word"
  by (simp add: word_less_nat_alt unat_succ)

end
