(* ===== verification/BTree.thy ===== *)
theory BTree
  imports Prelude
begin

text \<open>
  The ordered containers of the Rust standard library, as far as the sources use them. A
  \<open>BTreeMap\<close> is the list of its entries in strictly ascending key order, which is also the order
  of its iterators; two maps are equal exactly when these lists are. \<open>bt_ok\<close> is the ordering
  invariant. The interface is the locale \<open>ord_map\<close>; its clients (the entry loops of the map
  component) are proved inside it, and the interpretation \<open>bt\<close> discharges its laws.
\<close>

type_synonym ('k, 'v) BTreeMap = "('k \<times> 'v) list"
type_synonym 'k BTreeSet = "('k, unit) BTreeMap"

definition bt_ok :: "('k::linorder, 'v) BTreeMap \<Rightarrow> bool" where
  "bt_ok m = sorted_wrt (<) (map fst m)"

definition bt_new :: "('k, 'v) BTreeMap" where
  "bt_new = []"

definition bt_get :: "('k, 'v) BTreeMap \<Rightarrow> 'k \<Rightarrow> 'v option" where
  "bt_get m k = map_of m k"

fun bt_insert :: "'k::linorder \<Rightarrow> 'v \<Rightarrow> ('k, 'v) BTreeMap \<Rightarrow> ('k, 'v) BTreeMap" where
  "bt_insert k v [] = [(k, v)]"
| "bt_insert k v ((k', v') # m) =
     (if k < k' then (k, v) # (k', v') # m
      else if k = k' then (k, v) # m
      else (k', v') # bt_insert k v m)"

fun bt_remove :: "'k \<Rightarrow> ('k, 'v) BTreeMap \<Rightarrow> ('k, 'v) BTreeMap" where
  "bt_remove k [] = []"
| "bt_remove k ((k', v') # m) = (if k = k' then m else (k', v') # bt_remove k m)"

definition bt_is_empty :: "('k, 'v) BTreeMap \<Rightarrow> bool" where
  "bt_is_empty m = (case m of [] \<Rightarrow> True | _ \<Rightarrow> False)"

definition bt_keys :: "('k, 'v) BTreeMap \<Rightarrow> 'k BTreeSet" where
  "bt_keys m = map (\<lambda>(k, v). (k, ())) m"

definition bt_values :: "('k, 'v) BTreeMap \<Rightarrow> 'v list" where
  "bt_values m = map snd m"

section \<open>Lemmas on sorted entry lists\<close>

lemma bt_ok_Nil [simp]: "bt_ok []"
  by (simp add: bt_ok_def)

lemma bt_ok_Cons:
  "bt_ok ((k, v) # m) \<longleftrightarrow> (\<forall>x \<in> fst ` set m. k < x) \<and> bt_ok m"
  by (auto simp: bt_ok_def)

lemma bt_ok_distinct: "bt_ok m \<Longrightarrow> distinct (map fst m)"
  by (induction m) (auto simp: bt_ok_def)

lemma bt_get_Nil [simp]: "bt_get [] k = None"
  by (simp add: bt_get_def)

lemma bt_get_Cons: "bt_get ((k', v) # m) k = (if k = k' then Some v else bt_get m k)"
  by (simp add: bt_get_def)

lemma bt_get_new [simp]: "bt_get bt_new k = None"
  by (simp add: bt_new_def)

lemma bt_ok_new [simp]: "bt_ok bt_new"
  by (simp add: bt_new_def)

lemma bt_get_insert: "bt_get (bt_insert k v m) x = (if x = k then Some v else bt_get m x)"
  by (induction k v m rule: bt_insert.induct) (auto simp: bt_get_Cons)

lemma keys_insert: "fst ` set (bt_insert k v m) = insert k (fst ` set m)"
  by (induction k v m rule: bt_insert.induct) auto

lemma bt_ok_insert: "bt_ok m \<Longrightarrow> bt_ok (bt_insert k v m)"
  by (induction k v m rule: bt_insert.induct) (auto simp: bt_ok_Cons keys_insert)

lemma keys_remove: "fst ` set (bt_remove k m) \<subseteq> fst ` set m"
  by (induction k m rule: bt_remove.induct) auto

lemma bt_ok_remove: "bt_ok m \<Longrightarrow> bt_ok (bt_remove k m)"
  by (induction k m rule: bt_remove.induct) (use keys_remove in \<open>fastforce simp: bt_ok_Cons\<close>)+

lemma bt_get_None_iff: "bt_get m k = None \<longleftrightarrow> k \<notin> fst ` set m"
  by (auto simp: bt_get_def map_of_eq_None_iff)

lemma bt_get_SomeD: "bt_get m k = Some v \<Longrightarrow> k \<in> fst ` set m"
  using bt_get_None_iff [of m k] by auto

lemma bt_get_remove: "bt_ok m \<Longrightarrow> bt_get (bt_remove k m) x = (if x = k then None else bt_get m x)"
proof (induction k m rule: bt_remove.induct)
  case (2 k k' v' m)
  then show ?case
    using bt_get_None_iff [of m k] by (auto simp: bt_ok_Cons bt_get_Cons)
qed simp

lemma bt_is_empty_iff: "bt_is_empty m \<longleftrightarrow> (\<forall>k. bt_get m k = None)"
  by (cases m) (auto simp: bt_is_empty_def bt_get_def)

lemma bt_is_empty_simps [simp]: "bt_is_empty []" "\<not> bt_is_empty (x # m)"
  by (simp_all add: bt_is_empty_def)

lemma bt_get_in_set: "bt_ok m \<Longrightarrow> bt_get m k = Some v \<longleftrightarrow> (k, v) \<in> set m"
  unfolding bt_get_def by (simp add: bt_ok_distinct)

lemma bt_ext:
  assumes "bt_ok m" "bt_ok n" "\<And>k. bt_get m k = bt_get n k"
  shows "m = n"
  using assms
proof (induction m arbitrary: n)
  case Nil
  then have "bt_is_empty n" by (simp add: bt_is_empty_iff)
  then show ?case by (cases n) auto
next
  case (Cons x m)
  obtain k v where x: "x = (k, v)" by (cases x)
  from Cons.prems(3)[of k] obtain y n' where n: "n = y # n'"
    by (cases n) (auto simp: x bt_get_Cons)
  obtain k' v' where y: "y = (k', v')" by (cases y)
  have le: "\<forall>a \<in> fst ` set m. k < a" "\<forall>a \<in> fst ` set n'. k' < a"
    using Cons.prems(1,2) by (auto simp: x n y bt_ok_Cons)
  have "k = k'"
  proof (rule ccontr)
    assume "k \<noteq> k'"
    then have "k \<in> fst ` set n'" "k' \<in> fst ` set m"
      using Cons.prems(3)[of k] Cons.prems(3)[of k']
      by (auto simp: x n y bt_get_Cons intro: bt_get_SomeD [OF sym] bt_get_SomeD split: if_splits)
    with le show False by (meson less_asym)
  qed
  moreover have "v = v'" using Cons.prems(3)[of k] \<open>k = k'\<close> by (simp add: x n y bt_get_Cons)
  moreover have "m = n'"
  proof (rule Cons.IH)
    show "bt_ok m" "bt_ok n'" using Cons.prems(1,2) by (auto simp: x n y bt_ok_Cons)
    have none: "bt_get m k = None" "bt_get n' k = None"
      using le \<open>k = k'\<close> by (auto simp: bt_get_None_iff)
    show "bt_get m a = bt_get n' a" for a
      using Cons.prems(3)[of a] \<open>k = k'\<close> none
      by (cases "a = k") (auto simp: x n y bt_get_Cons)
  qed
  ultimately show ?case by (simp add: x n y)
qed

section \<open>The interface of an ordered map\<close>

text \<open>What a client of an ordered map relies on: lookups after an insertion and after a removal, and the invariant.\<close>

locale ord_map =
  fixes get :: "'m \<Rightarrow> 'k \<Rightarrow> 'v option"
    and ins :: "'k \<Rightarrow> 'v \<Rightarrow> 'm \<Rightarrow> 'm"
    and rem :: "'k \<Rightarrow> 'm \<Rightarrow> 'm"
    and ok :: "'m \<Rightarrow> bool"
  assumes get_ins: "get (ins k v m) x = (if x = k then Some v else get m x)"
    and get_rem: "ok m \<Longrightarrow> get (rem k m) x = (if x = k then None else get m x)"
    and ok_ins: "ok m \<Longrightarrow> ok (ins k v m)"
    and ok_rem: "ok m \<Longrightarrow> ok (rem k m)"
begin

lemma get_ins_same: "get (ins k v m) k = Some v"
  by (simp add: get_ins)

lemma ok_fold_ins: "ok m \<Longrightarrow> ok (fold (\<lambda>(k, v). ins k v) xs m)"
  by (induction xs arbitrary: m) (auto intro: ok_ins)

lemma get_fold_ins:
  "distinct (map fst xs) \<Longrightarrow>
   get (fold (\<lambda>(k, v). ins k v) xs m) x = (case map_of xs x of None \<Rightarrow> get m x | Some v \<Rightarrow> Some v)"
  by (induction xs arbitrary: m) (force simp: get_ins map_of_eq_None_iff split: option.splits)+

end

interpretation bt: ord_map bt_get bt_insert bt_remove bt_ok
  by unfold_locales (simp_all add: bt_get_insert bt_get_remove bt_ok_insert bt_ok_remove)

section \<open>Loops that edit one entry at a time\<close>

text \<open>
  The entry loops of the map component (\<open>for (key, val) in ... { match new_data.entry(key) ... }\<close>)
  share a shape: the body looks at the current entry of its key and either records an error for the
  key or overwrites or removes the entry. \<open>decide\<close> is the verdict of one body, \<open>step\<close> the body.
\<close>

definition new_entry :: "('e + 'v option) option \<Rightarrow> 'v option \<Rightarrow> 'v option" where
  "new_entry r cur = (case r of Some (Inr x) \<Rightarrow> x | _ \<Rightarrow> cur)"

definition entry_error :: "('e + 'v option) option \<Rightarrow> 'e option \<Rightarrow> 'e option" where
  "entry_error r old = (case r of Some (Inl e) \<Rightarrow> Some e | _ \<Rightarrow> old)"

lemma entry_verdict_simps [simp]:
  "new_entry None cur = cur" "new_entry (Some (Inl e)) cur = cur" "new_entry (Some (Inr x)) cur = x"
  "entry_error None old = old" "entry_error (Some (Inl e)) old = Some e" "entry_error (Some (Inr x)) old = old"
  by (simp_all add: new_entry_def entry_error_def)

locale entry_loop =
  data: ord_map get ins rem ok + errs: ord_map eget eins erem eok
  for get :: "'m \<Rightarrow> 'k \<Rightarrow> 'v option" and ins rem ok
    and eget :: "'n \<Rightarrow> 'k \<Rightarrow> 'e option" and eins erem eok +
  fixes decide :: "'a \<Rightarrow> 'v option \<Rightarrow> 'e + 'v option"
    and step :: "'k \<times> 'a \<Rightarrow> 'm \<times> 'n \<Rightarrow> 'm \<times> 'n"
  assumes step: "step (k, a) (d, es) =
    (case decide a (get d k) of
       Inl x \<Rightarrow> (d, eins k x es)
     | Inr None \<Rightarrow> (rem k d, es)
     | Inr (Some v) \<Rightarrow> (ins k v d, es))"
begin

lemma step_ok:
  assumes "ok d" "eok es" "step ka (d, es) = (d', es')"
  shows "ok d' \<and> eok es'"
  using assms
  by (cases ka) (auto simp: step data.ok_ins data.ok_rem errs.ok_ins split: sum.splits option.splits)

lemma step_get:
  assumes "ok d" "step (k, a) (d, es) = (d', es')"
  shows "get d' x = (if x = k then new_entry (Some (decide a (get d k))) (get d x) else get d x)"
    and "eget es' x = (if x = k then entry_error (Some (decide a (get d k))) (eget es x) else eget es x)"
  using assms
  by (auto simp: step data.get_ins data.get_rem errs.get_ins split: sum.splits option.splits)

lemma loop_ok:
  assumes "ok d" "eok es" "fold step xs (d, es) = (d', es')"
  shows "ok d' \<and> eok es'"
  using assms
proof (induction xs arbitrary: d es)
  case (Cons ka xs)
  then show ?case by (cases "step ka (d, es)") (auto dest: step_ok)
qed simp

lemma loop_get:
  assumes "ok d" "eok es" "distinct (map fst xs)" "fold step xs (d, es) = (d', es')"
  shows "get d' x = new_entry (map_option (\<lambda>a. decide a (get d x)) (map_of xs x)) (get d x) \<and>
         eget es' x = entry_error (map_option (\<lambda>a. decide a (get d x)) (map_of xs x)) (eget es x)"
  using assms
proof (induction xs arbitrary: d es)
  case (Cons ka xs)
  obtain k a where ka: "ka = (k, a)" by (cases ka)
  obtain d1 es1 where s: "step (k, a) (d, es) = (d1, es1)" by (cases "step (k, a) (d, es)")
  have k: "map_of xs k = None" using Cons.prems(3) by (simp add: ka map_of_eq_None_iff)
  have ok1: "ok d1" "eok es1" using step_ok [OF Cons.prems(1,2) s] by simp_all
  have rec: "fold step xs (d1, es1) = (d', es')" using Cons.prems(4) by (simp add: ka s)
  have dist: "distinct (map fst xs)" using Cons.prems(3) by simp
  note IH = Cons.IH [OF ok1 dist rec]
  show ?case
  proof (cases "x = k")
    case True
    show ?thesis unfolding True using IH k step_get [OF Cons.prems(1) s, of k] by (simp add: ka True)
  next
    case False
    then have same: "get d1 x = get d x" "eget es1 x = eget es x"
      using step_get [OF Cons.prems(1) s, of x] by simp_all
    show ?thesis using IH [unfolded same] False by (simp add: ka)
  qed
qed simp

end

end
