(* ===== verification/Errors.thy ===== *)
theory Errors
  imports BTree
begin

text \<open>
  The error values of the crate (src/src/errors.rs) and the result type over them, with the
  two renderings of an error: \<open>Display::fmt\<close> and \<open>Error::description\<close>.
\<close>

datatype EntryError =
    EntryError_NoSuchEntry
  | EntryError_EntryExists u8
  | EntryError_InvalidSuccessor u8

datatype Error =
    AccessDenied
  | NoSuchLoginPacket
  | LoginPacketExists
  | NoSuchData
  | DataExists
  | NoSuchEntry
  | TooManyEntries
  | InvalidEntryActions "(bytes, EntryError) BTreeMap"
  | NoSuchKey
  | DuplicateEntryKeys
  | InvalidOwners
  | InvalidSuccessor u64
  | InvalidOwnersSuccessor u64
  | InvalidPermissionsSuccessor u64
  | InvalidOperation
  | SigningKeyTypeMismatch
  | InvalidSignature
  | DuplicateMessageId
  | NetworkOther string
  | LossOfPrecision
  | ExcessiveValue
  | FailedToParse string
  | TransferIdExists
  | InsufficientBalance
  | NoSuchBalance
  | NoSuchSender
  | NoSuchRecipient
  | BalanceExists
  | ExceededSize

type_synonym 'a Result = "Error + 'a"

text \<open>\<open>From<T: Into<String>> for Error\<close>.\<close>

definition Error_from_string :: "string \<Rightarrow> Error" where
  "Error_from_string err = NetworkOther err"

text \<open>
  \<open>Display::fmt\<close> of an error. The derived \<open>Debug\<close> rendering of the entry-error map is a
  parameter: the standard library produces it.
\<close>

fun Error_fmt :: "((bytes, EntryError) BTreeMap \<Rightarrow> string) \<Rightarrow> Error \<Rightarrow> string" where
  "Error_fmt dbg AccessDenied = ''Access denied''"
| "Error_fmt dbg NoSuchLoginPacket = ''Login packet does not exist''"
| "Error_fmt dbg LoginPacketExists = ''Login packet already exists at this location''"
| "Error_fmt dbg NoSuchData = ''Requested data not found''"
| "Error_fmt dbg DataExists = ''Data given already exists''"
| "Error_fmt dbg NoSuchEntry = ''Requested entry not found''"
| "Error_fmt dbg TooManyEntries = ''Exceeded a limit on a number of entries''"
| "Error_fmt dbg (InvalidEntryActions errors) = ''Entry actions are invalid: '' @ dbg errors"
| "Error_fmt dbg NoSuchKey = ''Key does not exists''"
| "Error_fmt dbg DuplicateEntryKeys = ''Duplicate keys in this push''"
| "Error_fmt dbg InvalidOwners = ''The list of owner keys is invalid''"
| "Error_fmt dbg InvalidOperation = ''Requested operation is not allowed''"
| "Error_fmt dbg (InvalidSuccessor _) = ''Data given is not a valid successor of stored data''"
| "Error_fmt dbg (InvalidOwnersSuccessor _) = ''Data given is not a valid successor of stored data''"
| "Error_fmt dbg (InvalidPermissionsSuccessor _) = ''Data given is not a valid successor of stored data''"
| "Error_fmt dbg SigningKeyTypeMismatch = ''Mismatch between key type and signature type''"
| "Error_fmt dbg InvalidSignature = ''Failed signature validation''"
| "Error_fmt dbg (NetworkOther e) = ''Error on Vault network: '' @ e"
| "Error_fmt dbg LossOfPrecision = ''Lost precision on the amount of money during parsing''"
| "Error_fmt dbg ExcessiveValue = ''Overflow on amount of money (check the MAX_MONEY_VALUE const)''"
| "Error_fmt dbg (FailedToParse e) = ''Failed to parse from a string: '' @ e"
| "Error_fmt dbg TransferIdExists = ''Transfer with a given ID already exists''"
| "Error_fmt dbg InsufficientBalance = ''Not enough money to complete this operation''"
| "Error_fmt dbg NoSuchBalance = ''Balance does not exist''"
| "Error_fmt dbg NoSuchSender = ''Sender does not exist''"
| "Error_fmt dbg NoSuchRecipient = ''Recipient does not exist''"
| "Error_fmt dbg BalanceExists = ''Balance already exists''"
| "Error_fmt dbg DuplicateMessageId = ''MessageId already exists''"
| "Error_fmt dbg ExceededSize = ''Size of the structure exceeds the limit''"

fun Error_description :: "Error \<Rightarrow> string" where
  "Error_description AccessDenied = ''Access denied''"
| "Error_description NoSuchLoginPacket = ''Login packet does not exist''"
| "Error_description LoginPacketExists = ''Login packet already exists at this location''"
| "Error_description NoSuchData = ''No such data''"
| "Error_description DataExists = ''Data exists''"
| "Error_description NoSuchEntry = ''No such entry''"
| "Error_description TooManyEntries = ''Too many entries''"
| "Error_description (InvalidEntryActions _) = ''Invalid entry actions''"
| "Error_description NoSuchKey = ''No such key''"
| "Error_description DuplicateEntryKeys = ''Duplicate keys in this push''"
| "Error_description InvalidOwners = ''Invalid owners''"
| "Error_description (InvalidSuccessor _) = ''Invalid data successor''"
| "Error_description (InvalidOwnersSuccessor _) = ''Invalid owners successor''"
| "Error_description (InvalidPermissionsSuccessor _) = ''Invalid permissions successor''"
| "Error_description InvalidOperation = ''Invalid operation''"
| "Error_description SigningKeyTypeMismatch = ''Key type and signature type mismatch''"
| "Error_description InvalidSignature = ''Invalid signature''"
| "Error_description (NetworkOther e) = e"
| "Error_description LossOfPrecision = ''Lost precision on the amount of money during parsing''"
| "Error_description ExcessiveValue = ''Overflow on amount of money (check the MAX_MONEY_VALUE const)''"
| "Error_description (FailedToParse _) = ''Failed to parse entity''"
| "Error_description TransferIdExists = ''Transfer with a given ID already exists''"
| "Error_description InsufficientBalance = ''Not enough money to complete this operation''"
| "Error_description NoSuchBalance = ''Balance does not exist''"
| "Error_description NoSuchSender = ''Sender does not exist''"
| "Error_description NoSuchRecipient = ''Recipient does not exist''"
| "Error_description BalanceExists = ''Balance already exists''"
| "Error_description DuplicateMessageId = ''MessageId already exists''"
| "Error_description ExceededSize = ''Exceeded the size limit''"

text \<open>\<open>ErrorDebug\<close>: the debug rendering of a result that shows the error and hides the value.\<close>

definition ErrorDebug_fmt :: "(Error \<Rightarrow> string) \<Rightarrow> 'a Result \<Rightarrow> string" where
  "ErrorDebug_fmt dbg r = (case r of Inl e \<Rightarrow> dbg e | Inr _ \<Rightarrow> ''Success'')"

end
