(* ===== verification/Amounts.thy ===== *)
theory Amounts
  imports Errors
begin

text \<open>
  Money amounts (src/src/money.rs) and the reward counter built on them (src/src/rewards.rs):
  checked addition and subtraction, parsing from and printing to decimal strings, and the
  accumulation of rewards. Strings are lists of bytes (a HOL \<open>char\<close> is one byte), so \<open>length\<close>
  is Rust's \<open>str::len\<close>.
\<close>

section \<open>Decimal strings of the standard library\<close>

text \<open>\<open>char::to_digit(10)\<close>.\<close>

definition to_digit :: "char \<Rightarrow> u64 option" where
  "to_digit c = (let n = (of_char c :: nat) in if 48 \<le> n \<and> n \<le> 57 then Some (word_of_nat (n - 48)) else None)"

text \<open>The digit loop of \<open>str::parse::<u64>\<close>: multiply by ten, then add, each checked.\<close>

fun parse_digits :: "u64 \<Rightarrow> string \<Rightarrow> u64 option" where
  "parse_digits acc [] = Some acc"
| "parse_digits acc (c # cs) =
     (case to_digit c of
        None \<Rightarrow> None
      | Some d \<Rightarrow>
          (case checked_mul acc 10 of
             None \<Rightarrow> None
           | Some a \<Rightarrow> (case checked_add a d of None \<Rightarrow> None | Some a' \<Rightarrow> parse_digits a' cs)))"

text \<open>\<open>str::parse::<u64>\<close>: the empty string and a lone sign are errors, one leading plus sign is allowed.\<close>

fun parse_u64 :: "string \<Rightarrow> u64 option" where
  "parse_u64 [] = None"
| "parse_u64 (c # cs) =
     (if c = CHR ''+'' then (if cs = [] then None else parse_digits 0 cs) else parse_digits 0 (c # cs))"

text \<open>\<open>splitn(2, '.')\<close>: the part before the first dot, and the rest when there is a dot.\<close>

fun splitn2_dot :: "string \<Rightarrow> string \<times> string option" where
  "splitn2_dot [] = ([], None)"
| "splitn2_dot (c # cs) =
     (if c = CHR ''.'' then ([], Some cs) else (let (a, b) = splitn2_dot cs in (c # a, b)))"

definition trim_end_zeros :: "string \<Rightarrow> string" where
  "trim_end_zeros s = rev (dropWhile (\<lambda>c. c = CHR ''0'') (rev s))"

definition digit_char :: "nat \<Rightarrow> char" where
  "digit_char n = char_of (48 + n)"

text \<open>The decimal rendering of an unsigned integer, and \<open>{:09}\<close>.\<close>

fun show_dec :: "nat \<Rightarrow> string" where
  "show_dec n = (if n < 10 then [digit_char n] else show_dec (n div 10) @ [digit_char (n mod 10)])"

declare show_dec.simps [simp del]

definition pad9 :: "string \<Rightarrow> string" where
  "pad9 s = replicate (9 - length s) (CHR ''0'') @ s"

section \<open>Money\<close>

definition MONEY_TO_RAW_POWER_OF_10_CONVERSION :: u32 where
  "MONEY_TO_RAW_POWER_OF_10_CONVERSION = 9"

definition MONEY_TO_RAW_CONVERSION :: u64 where
  "MONEY_TO_RAW_CONVERSION = 1000000000"

datatype Money = Money (as_nano: u64)

definition Money_zero :: Money where
  "Money_zero = Money 0"

definition from_nano :: "u64 \<Rightarrow> Money" where
  "from_nano value = Money value"

definition Money_as_nano :: "Money \<Rightarrow> u64" where
  "Money_as_nano self = as_nano self"

definition Money_checked_add :: "Money \<Rightarrow> Money \<Rightarrow> Money option" where
  "Money_checked_add self rhs = map_option from_nano (checked_add (as_nano self) (as_nano rhs))"

definition Money_checked_sub :: "Money \<Rightarrow> Money \<Rightarrow> Money option" where
  "Money_checked_sub self rhs = map_option from_nano (checked_sub (as_nano self) (as_nano rhs))"

text \<open>
  \<open>FromStr::from_str\<close>: the two blocks of the body, in order. \<open>remainder_str.len() as u32\<close> keeps the
  low 32 bits of the length; the product and the final sum are plain operators.
\<close>

definition Money_units :: "string \<Rightarrow> u64 Result" where
  "Money_units s =
     and_then (ok_or (FailedToParse ''Can't parse Money units'') (parse_u64 s)) (\<lambda>units.
       ok_or ExcessiveValue (checked_mul units MONEY_TO_RAW_CONVERSION))"

definition Money_remainder :: "string option \<Rightarrow> u64 Result" where
  "Money_remainder next =
     (let remainder_str = trim_end_zeros (case next of None \<Rightarrow> [] | Some s \<Rightarrow> s) in
      if remainder_str = [] then Ok 0
      else
        and_then (ok_or (FailedToParse ''Can't parse Money remainder'') (parse_u64 remainder_str)) (\<lambda>parsed_remainder.
        and_then (ok_or LossOfPrecision
            (checked_sub MONEY_TO_RAW_POWER_OF_10_CONVERSION (word_of_nat (length remainder_str)))) (\<lambda>remainder_conversion.
          Ok (parsed_remainder * 10 ^ unat remainder_conversion))))"

definition Money_from_str :: "string \<Rightarrow> Money Result" where
  "Money_from_str value_str =
     (let (first, second) = splitn2_dot value_str in
      and_then (Money_units first) (\<lambda>converted_units.
      and_then (Money_remainder second) (\<lambda>remainder.
        Ok (from_nano (converted_units + remainder)))))"

definition Money_fmt :: "Money \<Rightarrow> string" where
  "Money_fmt self =
     (let unit = as_nano self div MONEY_TO_RAW_CONVERSION;
          remainder = as_nano self mod MONEY_TO_RAW_CONVERSION
      in show_dec (unat unit) @ ''.'' @ pad9 (show_dec (unat remainder)))"

section \<open>The reward counter\<close>

record RewardCounter =
  rc_reward :: Money
  rc_work :: u64

definition RewardCounter_add :: "RewardCounter \<Rightarrow> Money \<Rightarrow> RewardCounter option" where
  "RewardCounter_add self reward =
     (case Money_checked_add (rc_reward self) reward of
        None \<Rightarrow> None
      | Some s \<Rightarrow> Some \<lparr>rc_reward = s, rc_work = rc_work self + 1\<rparr>)"

definition RewardCounter_default :: RewardCounter where
  "RewardCounter_default = \<lparr>rc_reward = Money_zero, rc_work = 0\<rparr>"

section \<open>Lemmas on decimal strings\<close>

text \<open>The value of a digit string on natural numbers, with no bound.\<close>

definition dig :: "char \<Rightarrow> nat" where
  "dig c = of_char c - 48"

definition is_dig :: "char \<Rightarrow> bool" where
  "is_dig c \<longleftrightarrow> 48 \<le> (of_char c :: nat) \<and> of_char c \<le> (57 :: nat)"

fun dec_val :: "nat \<Rightarrow> string \<Rightarrow> nat" where
  "dec_val a [] = a"
| "dec_val a (c # cs) = dec_val (10 * a + dig c) cs"

lemma to_digit_Some: "to_digit c = Some d \<longleftrightarrow> is_dig c \<and> d = word_of_nat (dig c)"
  by (auto simp: to_digit_def is_dig_def dig_def Let_def)

lemma to_digit_None: "to_digit c = None \<longleftrightarrow> \<not> is_dig c"
  by (auto simp: to_digit_def is_dig_def Let_def)

lemma is_dig_bound: "is_dig c \<Longrightarrow> dig c < 10"
  by (auto simp: is_dig_def dig_def)

lemma dec_val_mono: "a \<le> dec_val a s"
proof (induction s arbitrary: a)
  case (Cons c cs)
  have "a \<le> 10 * a + dig c" by simp
  then show ?case using Cons.IH [of "10 * a + dig c"] by simp
qed simp

lemma dec_val_append: "dec_val a (s @ t) = dec_val (dec_val a s) t"
  by (induction s arbitrary: a) auto

lemma dec_val_linear: "dec_val a s = a * 10 ^ length s + dec_val 0 s"
proof (induction s arbitrary: a)
  case (Cons c cs)
  show ?case
    using Cons.IH [of "10 * a + dig c"] Cons.IH [of "dig c"] by (simp add: algebra_simps)
qed simp

lemma dec_val_bound: "\<forall>c \<in> set s. is_dig c \<Longrightarrow> dec_val 0 s < 10 ^ length s"
proof (induction s)
  case (Cons c cs)
  then have "dec_val 0 cs < 10 ^ length cs" "dig c < 10" using is_dig_bound by auto
  then have "dig c * 10 ^ length cs + dec_val 0 cs < dig c * 10 ^ length cs + 10 ^ length cs" by simp
  also have "\<dots> = Suc (dig c) * 10 ^ length cs" by simp
  also have "\<dots> \<le> 10 * 10 ^ length cs" using \<open>dig c < 10\<close> by (intro mult_right_mono) auto
  finally show ?case using dec_val_linear [of "dig c" cs] by simp
qed simp

lemma unat_digit: "is_dig c \<Longrightarrow> unat (word_of_nat (dig c) :: u64) = dig c"
  using is_dig_bound [of c] by (simp add: unat_word_of_nat)

text \<open>The checked loop accepts exactly the digit strings whose value fits.\<close>

text \<open>An accumulator that would leave the word stays beyond every word.\<close>

lemma digit_overflow:
  assumes "2 ^ 64 \<le> 10 * unat (acc :: u64) + Amounts.dig c"
  shows "unat (w :: u64) \<noteq> dec_val (unat acc) (c # cs)"
proof -
  have "10 * unat acc + Amounts.dig c \<le> dec_val (unat acc) (c # cs)" using dec_val_mono by simp
  then show ?thesis using assms unat_bound64 [of w] by simp
qed

lemma parse_digits_Some:
  "parse_digits acc s = Some w \<longleftrightarrow> (\<forall>c \<in> set s. is_dig c) \<and> unat w = dec_val (unat acc) s"
proof (induction s arbitrary: acc)
  case Nil
  then show ?case by (auto simp: word_unat_eq_iff)
next
  case (Cons c cs)
  show ?case
  proof (cases "is_dig c")
    case False
    then show ?thesis by (simp add: to_digit_None [THEN iffD2])
  next
    case dig: True
    note d = to_digit_Some [of c "word_of_nat (dig c)", THEN iffD2] dig
    show ?thesis
    proof (cases "checked_mul acc 10")
      case None
      then have "2 ^ 64 \<le> 10 * unat acc + Amounts.dig c" by (simp add: checked_mul_def not_less split: if_splits)
      then show ?thesis using None d digit_overflow [of acc c w cs] by simp
    next
      case a: (Some a)
      then have ua: "unat a = 10 * unat acc" by (simp add: checked_mul_Some)
      show ?thesis
      proof (cases "checked_add a (word_of_nat (Amounts.dig c))")
        case None
        then have "2 ^ 64 \<le> 10 * unat acc + Amounts.dig c"
          using unat_digit [OF dig] ua by (simp add: checked_add_None)
        then show ?thesis using None a d digit_overflow [of acc c w cs] by simp
      next
        case (Some a')
        then have "unat a' = 10 * unat acc + Amounts.dig c"
          using unat_digit [OF dig] ua by (simp add: checked_add_Some)
        then show ?thesis using Some a d dig by (simp add: Cons.IH)
      qed
    qed
  qed
qed

lemma parse_u64_digits:
  assumes "\<forall>c \<in> set s. is_dig c" "s \<noteq> []"
  shows "parse_u64 s = (if dec_val 0 s < 2 ^ 64 then Some (word_of_nat (dec_val 0 s)) else None)"
proof -
  obtain c cs where s: "s = c # cs" using assms(2) by (cases s) auto
  have "c \<noteq> CHR ''+''" using assms(1) by (auto simp: s is_dig_def)
  then have p: "parse_u64 s = parse_digits 0 s" by (simp add: s)
  show ?thesis
  proof (cases "dec_val 0 s < 2 ^ 64")
    case True
    then have "unat (word_of_nat (dec_val 0 s) :: u64) = dec_val 0 s"
      by (simp add: unat_word_of_nat)
    then show ?thesis using True assms(1) by (simp add: p parse_digits_Some)
  next
    case False
    have "parse_digits 0 s \<noteq> Some w" for w
      using False unat_bound64 [of w] by (auto simp: parse_digits_Some)
    then show ?thesis using False by (auto simp: p)
  qed
qed

lemma dec_val_zeros: "dec_val a (replicate n (CHR ''0'')) = a * 10 ^ n"
  by (induction n arbitrary: a) (auto simp: dig_def algebra_simps)

lemma trim_end_zeros_split: "\<exists>n. s = trim_end_zeros s @ replicate n (CHR ''0'')"
proof -
  let ?P = "\<lambda>c. c = CHR ''0''"
  have "rev s = takeWhile ?P (rev s) @ dropWhile ?P (rev s)" by simp
  then have "s = trim_end_zeros s @ rev (takeWhile ?P (rev s))"
    unfolding trim_end_zeros_def by (metis rev_append rev_rev_ident)
  moreover have "rev (takeWhile ?P (rev s)) = replicate (length (takeWhile ?P (rev s))) (CHR ''0'')"
    by (rule replicate_eqI) (auto dest: set_takeWhileD)
  ultimately show ?thesis by metis
qed

text \<open>The fraction of a digit string of at most nine digits, in nano units.\<close>

lemma remainder_digits:
  assumes "\<forall>c \<in> set f. is_dig c" "length f \<le> 9"
  shows "Money_remainder (Some f) = Ok (word_of_nat (dec_val 0 f * 10 ^ (9 - length f)))"
proof -
  obtain n where f: "f = trim_end_zeros f @ replicate n (CHR ''0'')"
    using trim_end_zeros_split by blast
  let ?t = "trim_end_zeros f"
  have len: "length f = length ?t + n" by (metis f length_append length_replicate)
  have val: "dec_val 0 f = dec_val 0 ?t * 10 ^ n" by (metis f dec_val_append dec_val_zeros)
  have digs: "\<forall>c \<in> set ?t. is_dig c" using assms(1) by (metis f Un_iff set_append)
  show ?thesis
  proof (cases "?t = []")
    case True
    then show ?thesis using val by (simp add: Money_remainder_def)
  next
    case False
    have "dec_val 0 ?t < 10 ^ length ?t" using dec_val_bound [OF digs] .
    also have "\<dots> \<le> 10 ^ 9" using len assms(2) by (intro power_increasing) auto
    finally have small: "dec_val 0 ?t < 2 ^ 64" by simp
    have exp: "unat (word_of_nat (9 - length ?t) :: u32) = 9 - length ?t"
      by (rule unat_word_of_nat) simp
    have "unat (word_of_nat (length ?t) :: u32) = length ?t"
      using len assms(2) by (intro unat_word_of_nat) simp
    with exp have conv: "checked_sub MONEY_TO_RAW_POWER_OF_10_CONVERSION (word_of_nat (length ?t)) =
        Some (word_of_nat (9 - length ?t))"
      using len assms(2)
      by (simp add: checked_sub_Some MONEY_TO_RAW_POWER_OF_10_CONVERSION_def del: of_nat_diff)
    have "9 - length ?t = n + (9 - length f)" using len assms(2) by simp
    then have "word_of_nat (dec_val 0 ?t) * 10 ^ (9 - length ?t) =
        (word_of_nat (dec_val 0 f * 10 ^ (9 - length f)) :: u64)"
      by (simp add: val power_add algebra_simps)
    then show ?thesis
      using False small exp parse_u64_digits [OF digs False] conv
      by (simp add: Money_remainder_def del: of_nat_diff)
  qed
qed

lemma splitn2_dot_digits:
  "\<forall>c \<in> set u. is_dig c \<Longrightarrow> splitn2_dot (u @ CHR ''.'' # f) = (u, Some f)"
  by (induction u) (auto simp: is_dig_def)

section \<open>Lemmas on the decimal rendering\<close>

lemma digit_char: "n < 10 \<Longrightarrow> is_dig (digit_char n) \<and> dig (digit_char n) = n"
  by (simp add: digit_char_def is_dig_def dig_def of_char_of)

lemma show_dec_nonempty: "show_dec n \<noteq> []"
  by (subst show_dec.simps) simp

lemma show_dec_digits: "c \<in> set (show_dec n) \<Longrightarrow> is_dig c"
proof (induction n rule: show_dec.induct)
  case (1 n)
  show ?case
  proof (cases "n < 10")
    case True
    then show ?thesis using "1.prems" digit_char by (simp add: show_dec.simps [of n])
  next
    case False
    then show ?thesis
      using "1.prems" "1.IH" digit_char [of "n mod 10"] by (auto simp: show_dec.simps [of n])
  qed
qed

lemma dec_val_show_dec: "dec_val 0 (show_dec n) = n"
proof (induction n rule: show_dec.induct)
  case (1 n)
  then show ?case
    using digit_char [of n] digit_char [of "n mod 10"]
    by (cases "n < 10") (simp_all add: show_dec.simps [of n] dec_val_append)
qed

lemma length_show_dec: "n < 10 ^ Suc k \<Longrightarrow> length (show_dec n) \<le> Suc k"
proof (induction k arbitrary: n)
  case 0
  then show ?case by (simp add: show_dec.simps [of n])
next
  case (Suc k)
  then have "n div 10 < 10 ^ Suc k" by (simp add: less_mult_imp_div_less)
  then show ?case using Suc.IH [of "n div 10"] by (simp add: show_dec.simps [of n])
qed

lemma pad9_show_dec:
  assumes "n < 10 ^ 9"
  shows "length (pad9 (show_dec n)) = 9" "\<forall>c \<in> set (pad9 (show_dec n)). is_dig c"
    "dec_val 0 (pad9 (show_dec n)) = n"
proof -
  have "length (show_dec n) \<le> 9" using length_show_dec [of n 8] assms by simp
  then show "length (pad9 (show_dec n)) = 9" by (simp add: pad9_def)
  show "\<forall>c \<in> set (pad9 (show_dec n)). is_dig c"
    using show_dec_digits by (auto simp: pad9_def is_dig_def)
  show "dec_val 0 (pad9 (show_dec n)) = n"
    by (simp add: pad9_def dec_val_append dec_val_zeros dec_val_show_dec)
qed

section \<open>The interface of a checked amount\<close>

text \<open>
  What a ledger relies on: an addition or subtraction that succeeds is exact, and it fails only
  when the exact result is not an amount.
\<close>

locale amount =
  fixes nano :: "'m \<Rightarrow> nat" and zero :: 'm
    and add :: "'m \<Rightarrow> 'm \<Rightarrow> 'm option" and sub :: "'m \<Rightarrow> 'm \<Rightarrow> 'm option"
  assumes nano_inj: "nano a = nano b \<Longrightarrow> a = b"
    and nano_zero: "nano zero = 0"
    and add_Some: "add a b = Some c \<longleftrightarrow> nano c = nano a + nano b"
    and sub_Some: "sub a b = Some c \<longleftrightarrow> nano a = nano b + nano c"
begin

lemma add_zero: "add a zero = Some a" and sub_zero: "sub a zero = Some a"
  by (simp_all add: add_Some sub_Some nano_zero)

lemma sub_undoes_add: "add a b = Some c \<Longrightarrow> sub c b = Some a"
  by (simp add: add_Some sub_Some)

lemma add_undoes_sub: "sub a b = Some c \<Longrightarrow> add c b = Some a"
  by (simp add: add_Some sub_Some)

lemma add_commutes: "add a b = add b a"
proof -
  have "add a b = Some c \<longleftrightarrow> add b a = Some c" for c
    by (simp add: add_Some add.commute)
  then show ?thesis by (metis option.exhaust)
qed

text \<open>Moving an amount from one balance to another keeps their total.\<close>

lemma move_conserves:
  assumes "sub from x = Some from'" "add to x = Some to'"
  shows "nano from' + nano to' = nano from + nano to"
  using assms by (simp add: sub_Some add_Some)

lemma sub_None: "sub a b = None \<Longrightarrow> nano a < nano b \<or> (\<forall>c. nano c \<noteq> nano a - nano b)"
  by (metis sub_Some le_add_diff_inverse not_less option.distinct(1))

end

lemma Money_add_Some: "Money_checked_add a b = Some c \<longleftrightarrow> unat (as_nano c) = unat (as_nano a) + unat (as_nano b)"
  by (cases c) (auto simp: Money_checked_add_def from_nano_def checked_add_Some)

lemma Money_sub_Some: "Money_checked_sub a b = Some c \<longleftrightarrow> unat (as_nano a) = unat (as_nano b) + unat (as_nano c)"
  by (cases c) (auto simp: Money_checked_sub_def from_nano_def checked_sub_Some)

text \<open>The derived \<open>Ord\<close>: amounts are compared as numbers of nano units.\<close>

instantiation Money :: linorder
begin

definition less_eq_Money :: "Money \<Rightarrow> Money \<Rightarrow> bool" where
  "a \<le> b \<longleftrightarrow> as_nano a \<le> as_nano b"

definition less_Money :: "Money \<Rightarrow> Money \<Rightarrow> bool" where
  "a < b \<longleftrightarrow> as_nano a < as_nano b"

instance
  by standard (auto simp: less_eq_Money_def less_Money_def intro: Money.expand)

end

interpretation money: amount "\<lambda>m. unat (as_nano m)" Money_zero Money_checked_add Money_checked_sub
  by unfold_locales
    (auto simp: Money_add_Some Money_sub_Some Money_zero_def word_unat_eq_iff intro: Money.expand)

lemma from_str_digits:
  assumes "\<forall>c \<in> set u. is_dig c" "u \<noteq> []" "\<forall>c \<in> set f. is_dig c" "length f \<le> 9"
    and "dec_val 0 u * 10 ^ 9 < 2 ^ 64"
  shows "Money_from_str (u @ ''.'' @ f) =
    Ok (Money (word_of_nat (dec_val 0 u * 10 ^ 9 + dec_val 0 f * 10 ^ (9 - length f))))"
proof -
  have u: "unat (word_of_nat (dec_val 0 u) :: u64) = dec_val 0 u"
    using assms(5) by (intro unat_word_of_nat) simp
  then have "Money_units u = Ok (word_of_nat (dec_val 0 u) * MONEY_TO_RAW_CONVERSION)"
    using parse_u64_digits [OF assms(1,2)] assms(5)
    by (simp add: Money_units_def checked_mul_def MONEY_TO_RAW_CONVERSION_def)
  then show ?thesis
    using remainder_digits [OF assms(3,4)] splitn2_dot_digits [OF assms(1), of f]
    by (simp add: Money_from_str_def from_nano_def MONEY_TO_RAW_CONVERSION_def)
qed

section \<open>Properties\<close>

text \<open>
  C26: Printing an amount and parsing the printed string gives the amount back, for every amount
  a \<open>Money\<close> can hold.
\<close>

theorem money_display_parse_roundtrip: "Money_from_str (Money_fmt m) = Ok m"
proof -
  let ?n = "unat (as_nano m)"
  let ?u = "show_dec (?n div 10 ^ 9)" and ?f = "pad9 (show_dec (?n mod 10 ^ 9))"
  have fmt: "Money_fmt m = ?u @ CHR ''.'' # ?f"
    by (simp add: Money_fmt_def Let_def MONEY_TO_RAW_CONVERSION_def unat_div unat_mod)
  have "dec_val 0 ?u < 2 ^ 64"
    using unat_bound64 [of "as_nano m"] by (simp add: dec_val_show_dec div_less_dividend less_mult_imp_div_less)
  then have pu: "parse_u64 ?u = Some (word_of_nat (?n div 10 ^ 9))"
    using parse_u64_digits [of ?u] show_dec_digits show_dec_nonempty by (auto simp: dec_val_show_dec)
  have "unat (word_of_nat (?n div 10 ^ 9) :: u64) = ?n div 10 ^ 9"
    using unat_bound64 [of "as_nano m"] by (intro unat_word_of_nat) (simp add: less_mult_imp_div_less)
  then have units: "Money_units ?u = Ok (word_of_nat (?n div 10 ^ 9) * MONEY_TO_RAW_CONVERSION)"
    using unat_bound64 [of "as_nano m"] pu
    by (simp add: Money_units_def checked_mul_def MONEY_TO_RAW_CONVERSION_def)
  have rem: "Money_remainder (Some ?f) = Ok (word_of_nat (?n mod 10 ^ 9))"
    using remainder_digits [of ?f] pad9_show_dec [of "?n mod 10 ^ 9"] by simp
  have "word_of_nat (?n div 10 ^ 9) * MONEY_TO_RAW_CONVERSION + word_of_nat (?n mod 10 ^ 9) =
      (word_of_nat (?n div 10 ^ 9 * 10 ^ 9 + ?n mod 10 ^ 9) :: u64)"
    unfolding of_nat_add of_nat_mult by (simp add: MONEY_TO_RAW_CONVERSION_def)
  also have "\<dots> = word_of_nat ?n" by (simp only: div_mult_mod_eq)
  also have "\<dots> = as_nano m" by simp
  finally have total: "word_of_nat (?n div 10 ^ 9) * MONEY_TO_RAW_CONVERSION + word_of_nat (?n mod 10 ^ 9) = as_nano m" .
  have "splitn2_dot (Money_fmt m) = (?u, Some ?f)"
    unfolding fmt by (rule splitn2_dot_digits) (auto intro: show_dec_digits)
  then show ?thesis
    by (simp only: Money_from_str_def units rem result_combinators prod.case total from_nano_def Let_def Money.collapse)
qed

text \<open>
  The parser on natural numbers: an unsigned number is a nonempty digit string with an optional plus
  sign; an amount is a number of units and, after the first dot, a fraction whose trailing zeros do not
  count.
\<close>

definition unsigned_number :: "string \<Rightarrow> nat option" where
  "unsigned_number s =
     (let t = (case s of [] \<Rightarrow> [] | c # cs \<Rightarrow> if c = CHR ''+'' then cs else s) in
      if t \<noteq> [] \<and> list_all is_dig t then Some (dec_val 0 t) else None)"

definition money_reference :: "string \<Rightarrow> Money Result" where
  "money_reference s =
     (let (units, fraction) = splitn2_dot s; t = trim_end_zeros (case fraction of None \<Rightarrow> [] | Some f \<Rightarrow> f) in
      case unsigned_number units of
        None \<Rightarrow> Err (FailedToParse ''Can't parse Money units'')
      | Some n \<Rightarrow>
          if 2 ^ 64 \<le> n then Err (FailedToParse ''Can't parse Money units'')
          else if 2 ^ 64 \<le> n * 10 ^ 9 then Err ExcessiveValue
          else if t = [] then Ok (Money (word_of_nat (n * 10 ^ 9)))
          else
            (case unsigned_number t of
               None \<Rightarrow> Err (FailedToParse ''Can't parse Money remainder'')
             | Some r \<Rightarrow>
                 if 2 ^ 64 \<le> r then Err (FailedToParse ''Can't parse Money remainder'')
                 else if 9 < length t then Err LossOfPrecision
                 else Ok (Money (word_of_nat (n * 10 ^ 9 + r * 10 ^ (9 - length t))))))"

lemma parse_digits_value:
  "parse_digits 0 t = (if list_all is_dig t \<and> dec_val 0 t < 2 ^ 64 then Some (word_of_nat (dec_val 0 t)) else None)"
proof (cases "parse_digits 0 t")
  case None
  have "\<not> (list_all is_dig t \<and> dec_val 0 t < 2 ^ 64)"
  proof
    assume t: "list_all is_dig t \<and> dec_val 0 t < 2 ^ 64"
    then have "unat (word_of_nat (dec_val 0 t) :: u64) = dec_val 0 t" by (simp add: unat_word_of_nat)
    then have "parse_digits 0 t = Some (word_of_nat (dec_val 0 t))"
      using t by (simp add: parse_digits_Some list_all_iff)
    then show False using None by simp
  qed
  then show ?thesis using None by simp
next
  case (Some w)
  then have "list_all is_dig t" "unat w = dec_val 0 t" by (simp_all add: parse_digits_Some list_all_iff)
  moreover have "w = word_of_nat (unat w)" by simp
  ultimately show ?thesis using Some unat_bound64 [of w] by simp
qed

lemma parse_u64_value:
  "parse_u64 s = (case unsigned_number s of Some n \<Rightarrow> if n < 2 ^ 64 then Some (word_of_nat n) else None | None \<Rightarrow> None)"
  by (cases s) (auto simp: unsigned_number_def Let_def parse_digits_value simp del: parse_digits.simps)

lemma units_value:
  "Money_units s =
     (case unsigned_number s of
        None \<Rightarrow> Err (FailedToParse ''Can't parse Money units'')
      | Some n \<Rightarrow>
          if 2 ^ 64 \<le> n then Err (FailedToParse ''Can't parse Money units'')
          else if 2 ^ 64 \<le> n * 10 ^ 9 then Err ExcessiveValue
          else Ok (word_of_nat (n * 10 ^ 9)))"
proof (cases "unsigned_number s")
  case (Some n)
  have "checked_mul (word_of_nat n) MONEY_TO_RAW_CONVERSION =
      (if n * 10 ^ 9 < 2 ^ 64 then Some (word_of_nat (n * 10 ^ 9)) else None)" if "n < 2 ^ 64"
    using that by (simp add: checked_mul_def MONEY_TO_RAW_CONVERSION_def unat_word_of_nat)
  then show ?thesis using Some by (simp add: Money_units_def parse_u64_value not_le)
qed (simp add: Money_units_def parse_u64_value)

lemma remainder_value:
  assumes "length t < 2 ^ 32" "t = trim_end_zeros (case next of None \<Rightarrow> [] | Some f \<Rightarrow> f)"
  shows "Money_remainder next =
     (if t = [] then Ok 0
      else case unsigned_number t of
        None \<Rightarrow> Err (FailedToParse ''Can't parse Money remainder'')
      | Some r \<Rightarrow>
          if 2 ^ 64 \<le> r then Err (FailedToParse ''Can't parse Money remainder'')
          else if 9 < length t then Err LossOfPrecision
          else Ok (word_of_nat (r * 10 ^ (9 - length t))))"
proof -
  have len: "unat (word_of_nat (length t) :: u32) = length t" using assms(1) by (simp add: unat_word_of_nat)
  have exp: "checked_sub MONEY_TO_RAW_POWER_OF_10_CONVERSION (word_of_nat (length t)) =
      (if length t \<le> 9 then Some (9 - word_of_nat (length t)) else None)"
    by (simp add: checked_sub_def MONEY_TO_RAW_POWER_OF_10_CONVERSION_def word_le_nat_alt len)
  have "unat (9 - word_of_nat (length t) :: u32) = 9 - length t" if "length t \<le> 9"
    using that len by (simp add: unat_sub word_le_nat_alt)
  then show ?thesis
    by (auto simp: Money_remainder_def Let_def assms(2) [symmetric] exp parse_u64_value not_le split: option.split)
qed

lemma splitn2_dot_length: "splitn2_dot s = (u, Some f) \<Longrightarrow> length f < length s"
  by (induction s arbitrary: u) (auto split: if_splits prod.splits simp: less_SucI)

lemma trim_end_zeros_length: "length (trim_end_zeros s) \<le> length s"
  by (simp add: trim_end_zeros_def) (metis length_dropWhile_le length_rev)

lemma from_str_reference:
  assumes "length s < 2 ^ 32"
  shows "Money_from_str s = money_reference s"
proof -
  obtain a b where split: "splitn2_dot s = (a, b)" by (cases "splitn2_dot s")
  let ?t = "trim_end_zeros (case b of None \<Rightarrow> [] | Some f \<Rightarrow> f)"
  have "length ?t < 2 ^ 32"
  proof (cases b)
    case (Some f)
    then have "length (trim_end_zeros f) < length s"
      using splitn2_dot_length [of s a f] trim_end_zeros_length [of f] split by simp
    then show ?thesis using assms Some by simp
  qed (simp add: trim_end_zeros_def)
  then show ?thesis
    by (auto simp: Money_from_str_def money_reference_def split Let_def units_value remainder_value from_nano_def
        split: option.split)
qed

text \<open>
  C27: The parser of amounts, on every text. It computes the reference on natural numbers: units that
  are no number, or do not fit, fail as units; units whose nano amount does not fit are excessive; then a
  fraction that is no number fails as remainder, one of more than nine places loses precision, and
  otherwise the amount is units times ten to the ninth plus the scaled fraction, as a 64-bit sum. So a
  digit string, a dot and at most nine digits always parse to that value when the units fit. The bound on
  the length is the one below which the cast of the length to 32 bits is exact.
\<close>

theorem money_from_str_value:
  assumes "length s < 2 ^ 32"
  shows "Money_from_str s = money_reference s \<and>
    (s = u @ ''.'' @ f \<and> list_all is_dig u \<and> u \<noteq> [] \<and> list_all is_dig f \<and> length f \<le> 9 \<and> dec_val 0 u * 10 ^ 9 < 2 ^ 64 \<longrightarrow>
       Money_from_str s = Ok (Money (word_of_nat (dec_val 0 u * 10 ^ 9 + dec_val 0 f * 10 ^ (9 - length f)))))"
  using from_str_reference [OF assms] from_str_digits [of u f] by (auto simp: list_all_iff)

theorem money_from_str_value_witness:
  "Money_from_str (''12'' @ ''.'' @ ''05'') = Ok (Money (word_of_nat (12 * 10 ^ 9 + 5 * 10 ^ 7))) \<and>
   Money_from_str ''0.0000000009'' = money_reference ''0.0000000009''"
  using money_from_str_value [of "''12.05''" "''12''" "''05''", THEN conjunct2]
    money_from_str_value [of "''0.0000000009''", THEN conjunct1]
  by (simp add: is_dig_def dig_def)

text \<open>The value of a decimal text in nano units: units before the dot, at most nine places after it.\<close>

definition decimal_nano :: "string \<Rightarrow> string \<Rightarrow> nat" where
  "decimal_nano u f = dec_val 0 u * 10 ^ 9 + dec_val 0 f * 10 ^ (9 - length f)"

lemma fraction_bound:
  assumes "\<forall>c \<in> set f. is_dig c" "length f \<le> 9"
  shows "dec_val 0 f * 10 ^ (9 - length f) < 10 ^ 9"
proof -
  have "dec_val 0 f * 10 ^ (9 - length f) < 10 ^ length f * 10 ^ (9 - length f)"
    using dec_val_bound [OF assms(1)] by simp
  also have "\<dots> = 10 ^ 9" using assms(2) by (simp add: power_add [symmetric])
  finally show ?thesis .
qed

lemma wrap_amount:
  assumes "n * 10 ^ 9 < (2 :: nat) ^ 64" "r < 10 ^ 9"
  shows "2 ^ 64 \<le> n * 10 ^ 9 + r \<longleftrightarrow> n = 18446744073 \<and> 709551616 \<le> r"
    and "unat (word_of_nat (n * 10 ^ 9 + r) :: u64) =
      (if 2 ^ 64 \<le> n * 10 ^ 9 + r then n * 10 ^ 9 + r - 2 ^ 64 else n * 10 ^ 9 + r)"
proof -
  have n: "n \<le> 18446744073" using assms(1) by simp
  have "n = 18446744073" if "2 ^ 64 \<le> n * 10 ^ 9 + r"
  proof (rule ccontr)
    assume "n \<noteq> 18446744073"
    then have "n \<le> 18446744072" using n by simp
    then show False using that assms(2) by simp
  qed
  then show "2 ^ 64 \<le> n * 10 ^ 9 + r \<longleftrightarrow> n = 18446744073 \<and> 709551616 \<le> r" by auto
  have "n * 10 ^ 9 + r < 2 * 2 ^ 64" using assms by simp
  then have "(n * 10 ^ 9 + r) mod 2 ^ 64 = (if 2 ^ 64 \<le> n * 10 ^ 9 + r then n * 10 ^ 9 + r - 2 ^ 64 else n * 10 ^ 9 + r)"
    by (simp add: le_mod_geq)
  moreover have "unat (word_of_nat x :: u64) = x mod 2 ^ 64" for x
    by (simp add: unsigned_of_nat take_bit_eq_mod)
  ultimately show "unat (word_of_nat (n * 10 ^ 9 + r) :: u64) =
      (if 2 ^ 64 \<le> n * 10 ^ 9 + r then n * 10 ^ 9 + r - 2 ^ 64 else n * 10 ^ 9 + r)" by metis
qed

lemma remainder_some:
  assumes "trim_end_zeros f = t" "t \<noteq> []" "unsigned_number t = Some r" "r < 2 ^ 64" "length t \<le> 9"
  shows "Money_remainder (Some f) = Ok (word_of_nat (r * 10 ^ (9 - length t)))"
proof -
  have t: "length t < 2 ^ 32" "t = trim_end_zeros (case Some f of None \<Rightarrow> [] | Some g \<Rightarrow> g)"
    using assms(5) by (simp, simp only: option.case assms(1))
  have "(2 ^ 64 \<le> r) = False" "(9 < length t) = False" "(t = []) = False" using assms(2,4,5) by (simp_all only: not_le not_less simp_thms)
  then show ?thesis
    unfolding remainder_value [OF t] assms(3) by (simp only: option.case if_False)
qed

text \<open>A plus sign before the digits of the fraction takes the place of one digit.\<close>

lemma plus_remainder:
  assumes "\<forall>c \<in> set f. is_dig c" "length f \<le> 8" "dec_val 0 f \<noteq> 0"
  shows "Money_remainder (Some (CHR ''+'' # f)) = Ok (word_of_nat (dec_val 0 f * 10 ^ (8 - length f)))"
proof -
  obtain n where f: "f = trim_end_zeros f @ replicate n (CHR ''0'')"
    using trim_end_zeros_split by blast
  let ?t = "trim_end_zeros f"
  have len: "length f = length ?t + n" by (metis f length_append length_replicate)
  have val: "dec_val 0 f = dec_val 0 ?t * 10 ^ n" by (metis f dec_val_append dec_val_zeros)
  have digs: "\<forall>c \<in> set ?t. is_dig c" using assms(1) by (metis f Un_iff set_append)
  have t: "?t \<noteq> []" using assms(3) val by (metis dec_val.simps(1) mult_zero_left)
  have trim: "trim_end_zeros (CHR ''+'' # f) = CHR ''+'' # ?t"
    using t by (simp add: trim_end_zeros_def dropWhile_append)
  have "dec_val 0 ?t < 10 ^ length ?t" by (rule dec_val_bound [OF digs])
  also have "\<dots> \<le> (10 :: nat) ^ 8" using assms(2) len by (intro power_increasing) simp_all
  finally have "dec_val 0 ?t < 10 ^ 8" .
  then have num: "unsigned_number (CHR ''+'' # ?t) = Some (dec_val 0 ?t)" "dec_val 0 ?t < 2 ^ 64"
    using t digs by (simp_all add: unsigned_number_def Let_def list_all_iff)
  have "10 ^ (8 - length ?t) = (10 :: nat) ^ n * 10 ^ (8 - length f)"
    using len assms(2) by (subst power_add [symmetric]) simp
  then have pow: "dec_val 0 ?t * 10 ^ (9 - length (CHR ''+'' # ?t)) = dec_val 0 f * 10 ^ (8 - length f)"
    by (simp only: val list.size mult.assoc) simp
  show ?thesis
    using remainder_some [OF trim _ num] len assms(2) unfolding pow by simp
qed

lemma from_str_plus:
  assumes "\<forall>c \<in> set u. is_dig c" "u \<noteq> []" "\<forall>c \<in> set f. is_dig c" "length f \<le> 8" "dec_val 0 f \<noteq> 0"
    and "dec_val 0 u * 10 ^ 9 < 2 ^ 64"
  shows "Money_from_str (u @ ''.+'' @ f) = Ok (Money (word_of_nat (dec_val 0 u * 10 ^ 9 + dec_val 0 f * 10 ^ (8 - length f))))"
proof -
  have "hd u \<noteq> CHR ''+''" using assms(1,2) by (cases u) (auto simp: is_dig_def dig_def)
  then have "unsigned_number u = Some (dec_val 0 u)"
    using assms(1,2) by (cases u) (simp_all add: unsigned_number_def list_all_iff)
  then show ?thesis
    using plus_remainder [OF assms(3-5)] assms(6) splitn2_dot_digits [OF assms(1), of "CHR ''+'' # f"]
    by (simp add: Money_from_str_def units_value from_nano_def)
qed

text \<open>
  C38: What the unchecked final sum of the parser does to decimal texts. Every text of digits, a dot and
  at most nine digits whose units fit is accepted; the amount is the value written exactly when that
  value is an amount. The texts it gets wrong are those with units 18446744073 and a fraction beyond
  .709551615: they should be refused as excessive, but each is accepted as an amount below 0.290448384,
  too small by two to the 64th nano units. And a plus sign is accepted in front of a nonzero fraction,
  where it takes a place: the fraction counts for a tenth of what it says.
\<close>

theorem money_from_str_wraps:
  assumes "list_all is_dig u" "u \<noteq> []" "list_all is_dig f" "length f \<le> 9" "dec_val 0 u * 10 ^ 9 < 2 ^ 64"
  shows "(\<exists>m. Money_from_str (u @ ''.'' @ f) = Ok m \<and>
      (unat (as_nano m) = decimal_nano u f \<longleftrightarrow> decimal_nano u f < 2 ^ 64) \<and>
      (2 ^ 64 \<le> decimal_nano u f \<longrightarrow>
         unat (as_nano m) + 2 ^ 64 = decimal_nano u f \<and> unat (as_nano m) < 290448384)) \<and>
    (2 ^ 64 \<le> decimal_nano u f \<longleftrightarrow>
       dec_val 0 u = 18446744073 \<and> 709551616 \<le> dec_val 0 f * 10 ^ (9 - length f)) \<and>
    (length f \<le> 8 \<and> dec_val 0 f \<noteq> 0 \<longrightarrow>
       Money_from_str (u @ ''.+'' @ f) = Money_from_str (u @ ''.0'' @ f))"
proof -
  let ?v = "decimal_nano u f"
  have digs: "\<forall>c \<in> set u. is_dig c" "\<forall>c \<in> set f. is_dig c" using assms(1,3) by (simp_all add: list_all_iff)
  note wrap = wrap_amount [OF assms(5) fraction_bound [OF digs(2) assms(4)], folded decimal_nano_def]
  have parsed: "Money_from_str (u @ ''.'' @ f) = Ok (Money (word_of_nat ?v))"
    unfolding decimal_nano_def by (rule from_str_digits [OF digs(1) assms(2) digs(2) assms(4,5)])
  have small: "?v < 2 ^ 64 + 290448384"
    using wrap(1) fraction_bound [OF digs(2) assms(4)] unfolding decimal_nano_def by (cases "2 ^ 64 \<le> ?v") auto
  have "\<forall>c \<in> set (CHR ''0'' # f). is_dig c" using digs(2) by (simp add: is_dig_def dig_def)
  then have "length f \<le> 8 \<Longrightarrow> dec_val 0 f \<noteq> 0 \<Longrightarrow> Money_from_str (u @ ''.+'' @ f) = Money_from_str (u @ ''.0'' @ f)"
    using from_str_plus [OF digs(1) assms(2) digs(2) _ _ assms(5)] from_str_digits [OF digs(1) assms(2) _ _ assms(5), of "CHR ''0'' # f"]
    by (simp add: dig_def)
  moreover have "unat (word_of_nat ?v :: u64) = ?v \<longleftrightarrow> ?v < 2 ^ 64" "2 ^ 64 \<le> ?v \<Longrightarrow> unat (word_of_nat ?v :: u64) + 2 ^ 64 = ?v"
      "2 ^ 64 \<le> ?v \<Longrightarrow> unat (word_of_nat ?v :: u64) < 290448384"
    using wrap(2) small by (auto simp del: unat_of_nat)
  ultimately show ?thesis using parsed wrap(1) by auto
qed

theorem money_from_str_wraps_witness:
  "(\<exists>m. Money_from_str (''18446744073'' @ ''.'' @ ''71'') = Ok m \<and> unat (as_nano m) < 290448384) \<and>
   Money_from_str (''1'' @ ''.+'' @ ''5'') = Money_from_str (''1'' @ ''.0'' @ ''5'')"
  using money_from_str_wraps [of "''18446744073''" "''71''"] money_from_str_wraps [of "''1''" "''5''"]
  by (auto simp: is_dig_def dig_def decimal_nano_def)

text \<open>
  C28: Checked addition and subtraction are exact and inverse to each other, they fail only on
  overflow and underflow, and agree with the order of amounts: a subtraction fails exactly when more is
  taken than there is, a sum is never less than what was there, and adding the same amount keeps the
  order. Moving an amount between two balances keeps their total.
\<close>

theorem money_transfer_conserves:
  "(Money_checked_add a b = None \<longleftrightarrow> 2 ^ 64 \<le> unat (as_nano a) + unat (as_nano b)) \<and>
   (Money_checked_sub a b = None \<longleftrightarrow> a < b) \<and>
   (Money_checked_add a b = Some c \<longrightarrow> a \<le> c \<and> (Money_checked_add a' b = Some c' \<longrightarrow> a \<le> a' \<longleftrightarrow> c \<le> c')) \<and>
   (Money_checked_add a b = Some c \<longrightarrow> Money_checked_sub c b = Some a) \<and>
   (Money_checked_sub a x = Some a' \<longrightarrow> Money_checked_add b x = Some b' \<longrightarrow>
      unat (as_nano a') + unat (as_nano b') = unat (as_nano a) + unat (as_nano b))"
  using money.sub_undoes_add [of a b c] money.move_conserves [of a x a' b b']
    Money_add_Some [of a b c] Money_add_Some [of a' b c']
  by (auto simp: Money_checked_add_def Money_checked_sub_def checked_add_None checked_sub_None less_Money_def
      less_eq_Money_def word_less_nat_alt word_le_nat_alt)

theorem money_transfer_conserves_witness:
  "Money_checked_sub (Money 9) (Money 4) = Some (Money 5) \<and> Money_checked_add (Money 2) (Money 4) = Some (Money 6) \<and>
   unat (as_nano (Money 5)) + unat (as_nano (Money 6)) = unat (as_nano (Money 9)) + unat (as_nano (Money 2))"
  using money_transfer_conserves [of "Money 9" "Money 2" "Money 11" "Money 4" "Money 5" "Money 6"]
  by (simp add: Money_checked_add_def Money_checked_sub_def checked_add_def checked_sub_def from_nano_def)

text \<open>A worker's counter after a list of rewards: \<open>RewardCounter::add\<close> for each, stopping at the first failure.\<close>

fun rewards_run :: "RewardCounter \<Rightarrow> Money list \<Rightarrow> RewardCounter option" where
  "rewards_run c [] = Some c"
| "rewards_run c (r # rs) = Option.bind (RewardCounter_add c r) (\<lambda>c'. rewards_run c' rs)"

lemma RewardCounter_add_Some:
  "RewardCounter_add c r = Some c' \<longleftrightarrow>
     unat (as_nano (rc_reward c')) = unat (as_nano (rc_reward c)) + unat (as_nano r) \<and> rc_work c' = rc_work c + 1"
proof (cases "Money_checked_add (rc_reward c) r")
  case None
  then have "unat (as_nano (rc_reward c')) \<noteq> unat (as_nano (rc_reward c)) + unat (as_nano r)"
    by (metis Money_add_Some option.distinct(1))
  then show ?thesis using None by (simp add: RewardCounter_add_def)
next
  case (Some s)
  then have "unat (as_nano s) = unat (as_nano (rc_reward c)) + unat (as_nano r)"
    by (simp add: Money_add_Some)
  then show ?thesis
    using Some by (cases c') (auto simp: RewardCounter_add_def intro: money.nano_inj)
qed

lemma rewards_run_iff:
  "rewards_run c rs = Some c' \<longleftrightarrow>
     unat (as_nano (rc_reward c')) = unat (as_nano (rc_reward c)) + (\<Sum>r \<leftarrow> rs. unat (as_nano r)) \<and>
     rc_work c' = rc_work c + word_of_nat (length rs)"
proof (induction rs arbitrary: c)
  case Nil
  then show ?case by (cases c; cases c') (auto intro: money.nano_inj)
next
  case (Cons r rs)
  show ?case
  proof (cases "RewardCounter_add c r")
    case None
    then have "2 ^ 64 \<le> unat (as_nano (rc_reward c)) + unat (as_nano r)"
      by (simp add: RewardCounter_add_def Money_checked_add_def checked_add_None split: option.splits)
    moreover have "unat (as_nano (rc_reward c')) < 2 ^ 64"
      using unat_bound64 [of "as_nano (rc_reward c')"] by simp
    ultimately show ?thesis using None by auto
  next
    case (Some c1)
    then have "unat (as_nano (rc_reward c1)) = unat (as_nano (rc_reward c)) + unat (as_nano r)"
      "rc_work c1 = rc_work c + 1"
      by (simp_all add: RewardCounter_add_Some)
    then show ?thesis using Some by (simp add: Cons.IH [of c1] algebra_simps)
  qed
qed

text \<open>
  C29: A counter started at the default and given a list of rewards succeeds exactly when the total
  fits in 64 bits; it then holds the exact total, and its work is the number of rewards.
\<close>

theorem reward_counter_accumulates:
  "(rewards_run RewardCounter_default rs = None \<longleftrightarrow> 2 ^ 64 \<le> (\<Sum>r \<leftarrow> rs. unat (as_nano r))) \<and>
   (\<forall>c. rewards_run RewardCounter_default rs = Some c \<longrightarrow>
      unat (as_nano (rc_reward c)) = (\<Sum>r \<leftarrow> rs. unat (as_nano r)) \<and> rc_work c = word_of_nat (length rs))"
proof -
  let ?s = "\<Sum>r \<leftarrow> rs. unat (as_nano r)"
  let ?c = "\<lparr>rc_reward = Money (word_of_nat ?s), rc_work = word_of_nat (length rs)\<rparr>"
  have iff: "rewards_run RewardCounter_default rs = Some c \<longleftrightarrow>
      unat (as_nano (rc_reward c)) = ?s \<and> rc_work c = word_of_nat (length rs)" for c
    by (simp add: rewards_run_iff RewardCounter_default_def Money_zero_def)
  have "?s < 2 ^ 64 \<Longrightarrow> rewards_run RewardCounter_default rs = Some ?c"
    using iff [of ?c] unat_word_of_nat [of ?s, where 'l = 64] by simp
  moreover have "rewards_run RewardCounter_default rs = Some c \<Longrightarrow> ?s < 2 ^ 64" for c
    using iff [of c] unat_bound64 [of "as_nano (rc_reward c)"] by simp
  ultimately have "rewards_run RewardCounter_default rs = None \<longleftrightarrow> 2 ^ 64 \<le> ?s"
    by (metis not_less option.exhaust option.distinct(1))
  then show ?thesis using iff by simp
qed

theorem reward_counter_accumulates_witness:
  "rewards_run RewardCounter_default [Money 5, Money 7] = Some \<lparr>rc_reward = Money 12, rc_work = 2\<rparr> \<and>
   unat (as_nano (Money 12)) = (\<Sum>r \<leftarrow> [Money 5, Money 7]. unat (as_nano r))"
proof -
  have "rewards_run RewardCounter_default [Money 5, Money 7] = Some \<lparr>rc_reward = Money 12, rc_work = 2\<rparr>"
    by (simp add: RewardCounter_default_def RewardCounter_add_def Money_checked_add_def checked_add_def
        Money_zero_def from_nano_def)
  then show ?thesis using reward_counter_accumulates [of "[Money 5, Money 7]"] by fastforce
qed

end
