(* ===== verification/Codec.thy ===== *)
theory Codec
  imports Errors
begin

text \<open>
  The serialisation helpers of src/src/utils.rs. The crates bincode (serialisation of a value to
  bytes and back) and multibase (textual encoding of bytes in a base) are parameters: \<open>ser\<close> and
  \<open>de\<close> are the two directions of bincode at one type, and a \<open>Multibase\<close> record holds what the
  helpers call of multibase. \<open>codec\<close> states what is documented of them; its lemma is the round trip
  that every \<open>encode_to_zbase32\<close> and \<open>decode_from_zbase32\<close> pair of the crate instantiates.
\<close>

record 'b Multibase =
  mb_Base32z :: 'b
  mb_encode :: "'b \<Rightarrow> bytes \<Rightarrow> string"
  mb_decode :: "string \<Rightarrow> string + 'b \<times> bytes"
  mb_debug :: "'b \<Rightarrow> string"

text \<open>\<open>serialise\<close> unwraps the result of bincode, which does not fail on the crate's types.\<close>

definition serialise :: "('a \<Rightarrow> bytes) \<Rightarrow> 'a \<Rightarrow> bytes" where
  "serialise ser data = ser data"

definition encode :: "'b Multibase \<Rightarrow> ('a \<Rightarrow> bytes) \<Rightarrow> 'a \<Rightarrow> string" where
  "encode mb ser data = mb_encode mb (mb_Base32z mb) (serialise ser data)"

definition decode :: "'b Multibase \<Rightarrow> (bytes \<Rightarrow> string + 'a) \<Rightarrow> string \<Rightarrow> 'a Result" where
  "decode mb de encoded =
     and_then (map_err FailedToParse (mb_decode mb encoded)) (\<lambda>(base, decoded).
       if base \<noteq> mb_Base32z mb
       then Err (FailedToParse (''Expected z-base-32 encoding, but got '' @ mb_debug mb base))
       else map_err FailedToParse (de decoded))"

text \<open>Multibase decoding inverts encoding in the base used, and bincode reads back what it wrote.\<close>

definition multibase_ok :: "'b Multibase \<Rightarrow> bool" where
  "multibase_ok mb \<longleftrightarrow> (\<forall>b x. mb_decode mb (mb_encode mb b x) = Ok (b, x))"

definition bincode_ok :: "('a \<Rightarrow> bytes) \<Rightarrow> (bytes \<Rightarrow> string + 'a) \<Rightarrow> bool" where
  "bincode_ok ser de \<longleftrightarrow> (\<forall>x. de (ser x) = Ok x)"

lemma bincode_ok_inj: "bincode_ok ser de \<Longrightarrow> inj ser"
  unfolding bincode_ok_def by (metis injI sum.inject(2))

lemma decode_encode:
  assumes "multibase_ok mb" "bincode_ok ser de"
  shows "decode mb de (encode mb ser x) = Ok x"
  using assms by (simp add: decode_def encode_def serialise_def multibase_ok_def bincode_ok_def)

text \<open>Whatever the string, decoding either gives a value that bincode read or a parse error.\<close>

lemma decode_cases:
  "(\<exists>x bs. decode mb de s = Ok x \<and> mb_decode mb s = Ok (mb_Base32z mb, bs) \<and> de bs = Ok x) \<or>
   (\<exists>msg. decode mb de s = Err (FailedToParse msg))"
proof (cases "mb_decode mb s")
  case (Inr r)
  then show ?thesis
    by (cases r; cases "fst r = mb_Base32z mb"; cases "de (snd r)") (auto simp: decode_def)
qed (simp add: decode_def)

lemma decode_err: "decode mb de s = Err e \<Longrightarrow> \<exists>msg. e = FailedToParse msg"
  using decode_cases [of mb de s] by auto

section \<open>Types with a computed field\<close>

text \<open>
  A type whose values are built from their content by \<open>new\<close>, and serialised as that content: reading
  back gives the value built from what was written. Blobs (address) and client and node identities
  (name) are instances.
\<close>

locale content_addressed =
  fixes new :: "'c \<Rightarrow> 'b" and content :: "'b \<Rightarrow> 'c"
    and ser :: "'b \<Rightarrow> bytes" and de :: "bytes \<Rightarrow> string + 'b"
    and ser_c :: "'c \<Rightarrow> bytes" and de_c :: "bytes \<Rightarrow> string + 'c"
  assumes content_new: "content (new c) = c"
    and ser_content: "ser b = ser_c (content b)"
    and de_content: "de bs = (case de_c bs of Inl e \<Rightarrow> Inl e | Inr c \<Rightarrow> Inr (new c))"
    and codec: "bincode_ok ser_c de_c"
begin

definition built :: "'b \<Rightarrow> bool" where
  "built b \<longleftrightarrow> b = new (content b)"

lemma read_is_built: "de bs = Ok b \<Longrightarrow> built b"
  by (auto simp: de_content built_def content_new split: sum.splits)

lemma reread: "de (ser b) = Ok (new (content b))"
  using codec by (simp add: de_content ser_content bincode_ok_def)

lemma built_iff_reread: "built b \<longleftrightarrow> de (ser b) = Ok b"
  by (auto simp: built_def reread)

end

section \<open>Orderings through the serialised form\<close>

datatype Ordering = Less | Equal | Greater

definition cmp_bytes :: "bytes \<Rightarrow> bytes \<Rightarrow> Ordering" where
  "cmp_bytes a b = (if a < b then Less else if a = b then Equal else Greater)"

fun reverse :: "Ordering \<Rightarrow> Ordering" where
  "reverse Less = Greater"
| "reverse Equal = Equal"
| "reverse Greater = Less"

text \<open>
  The hand-written \<open>Ord\<close> instances of the crate compare serialised values. An ordered container
  needs the comparison to be a total order that agrees with equality.
\<close>

locale total_cmp =
  fixes cmp :: "'a \<Rightarrow> 'a \<Rightarrow> Ordering"
  assumes cmp_equal: "cmp a b = Equal \<longleftrightarrow> a = b"
    and cmp_reverse: "cmp b a = reverse (cmp a b)"
    and cmp_trans: "cmp a b = Less \<Longrightarrow> cmp b c = Less \<Longrightarrow> cmp a c = Less"
begin

lemma cmp_irrefl: "cmp a a \<noteq> Less"
  using cmp_equal [of a a] by simp

lemma cmp_asym: "cmp a b = Less \<Longrightarrow> cmp b a \<noteq> Less"
  using cmp_reverse [of a b] by auto

lemma cmp_total: "a \<noteq> b \<Longrightarrow> cmp a b = Less \<or> cmp b a = Less"
  using cmp_equal [of a b] cmp_reverse [of a b] by (cases "cmp a b"; cases "cmp b a") auto

end

lemma cmp_bytes_total: "inj ser \<Longrightarrow> total_cmp (\<lambda>a b. cmp_bytes (ser a) (ser b))"
  by unfold_locales (auto simp: cmp_bytes_def dest: injD split: if_splits)

interpretation bytes: total_cmp cmp_bytes
  using cmp_bytes_total [of "\<lambda>x. x"] by simp

end
