(* ===== verification/Keys.thy ===== *)
theory Keys
  imports Codec
begin

text \<open>
  Keys, signatures and proofs (src/src/keys/mod.rs and src/src/keys/proof.rs). Key material of the
  crates ed25519\_dalek and threshold\_crypto is identified with its fixed-size byte encoding, the
  only view the sources have of it; a \<open>PublicKeySet\<close> has a variable size and is a byte string. The
  cryptographic operations are the fields of the parameter record \<open>Crypto\<close>, and \<open>crypto_ok\<close> states
  what is documented of them: a signature made with a secret key verifies under its public key.
\<close>

section \<open>External key material\<close>

type_synonym Ed25519PublicKey = "256 word"
type_synonym Ed25519Secret = "256 word"
type_synonym Ed25519Signature = "512 word"
type_synonym BlsPublicKey = "384 word"
type_synonym BlsPublicKeyShare = "384 word"
type_synonym BlsSecretKey = "256 word"
type_synonym BlsSecretKeyShare = "256 word"
type_synonym BlsSignature = "768 word"
type_synonym BlsSignatureShare = "768 word"
type_synonym PublicKeySet = bytes

record Ed25519Keypair =
  ed_secret :: Ed25519Secret
  ed_public :: Ed25519PublicKey

record Crypto =
  ed25519_public :: "Ed25519Secret \<Rightarrow> Ed25519PublicKey"
  ed25519_sign :: "Ed25519Keypair \<Rightarrow> bytes \<Rightarrow> Ed25519Signature"
  ed25519_verify :: "Ed25519PublicKey \<Rightarrow> bytes \<Rightarrow> Ed25519Signature \<Rightarrow> bool"
  bls_public_key :: "BlsSecretKey \<Rightarrow> BlsPublicKey"
  bls_sign :: "BlsSecretKey \<Rightarrow> bytes \<Rightarrow> BlsSignature"
  bls_verify :: "BlsPublicKey \<Rightarrow> BlsSignature \<Rightarrow> bytes \<Rightarrow> bool"
  share_public_key :: "BlsSecretKeyShare \<Rightarrow> BlsPublicKeyShare"
  share_sign :: "BlsSecretKeyShare \<Rightarrow> bytes \<Rightarrow> BlsSignatureShare"
  share_verify :: "BlsPublicKeyShare \<Rightarrow> BlsSignatureShare \<Rightarrow> bytes \<Rightarrow> bool"
  set_public_key_share :: "PublicKeySet \<Rightarrow> usize \<Rightarrow> BlsPublicKeyShare"

definition crypto_ok :: "Crypto \<Rightarrow> bool" where
  "crypto_ok C \<longleftrightarrow>
     (\<forall>kp d. ed_public kp = ed25519_public C (ed_secret kp) \<longrightarrow> ed25519_verify C (ed_public kp) d (ed25519_sign C kp d)) \<and>
     (\<forall>sk d. bls_verify C (bls_public_key C sk) (bls_sign C sk d) d) \<and>
     (\<forall>sk d. share_verify C (share_public_key C sk) (share_sign C sk d) d)"

section \<open>Public keys and signatures\<close>

datatype PublicKey =
    PublicKey_Ed25519 Ed25519PublicKey
  | PublicKey_Bls BlsPublicKey
  | PublicKey_BlsShare BlsPublicKeyShare

record SignatureShare =
  ss_index :: usize
  ss_share :: BlsSignatureShare

datatype Signature =
    Signature_Ed25519 Ed25519Signature
  | Signature_Bls BlsSignature
  | Signature_BlsShare SignatureShare

fun PublicKey_ed25519 :: "PublicKey \<Rightarrow> Ed25519PublicKey option" where
  "PublicKey_ed25519 (PublicKey_Ed25519 key) = Some key"
| "PublicKey_ed25519 _ = None"

fun PublicKey_bls :: "PublicKey \<Rightarrow> BlsPublicKey option" where
  "PublicKey_bls (PublicKey_Bls key) = Some key"
| "PublicKey_bls _ = None"

fun PublicKey_bls_share :: "PublicKey \<Rightarrow> BlsPublicKeyShare option" where
  "PublicKey_bls_share (PublicKey_BlsShare key) = Some key"
| "PublicKey_bls_share _ = None"

definition PublicKey_verify :: "Crypto \<Rightarrow> PublicKey \<Rightarrow> Signature \<Rightarrow> bytes \<Rightarrow> unit Result" where
  "PublicKey_verify C self signature data =
     and_then
       (case (self, signature) of
          (PublicKey_Ed25519 pub_key, Signature_Ed25519 sig) \<Rightarrow> Ok (ed25519_verify C pub_key data sig)
        | (PublicKey_Bls pub_key, Signature_Bls sig) \<Rightarrow> Ok (bls_verify C pub_key sig data)
        | (PublicKey_BlsShare pub_key, Signature_BlsShare sig) \<Rightarrow> Ok (share_verify C pub_key (ss_share sig) data)
        | _ \<Rightarrow> Err SigningKeyTypeMismatch)
       (\<lambda>is_valid. if is_valid then Ok () else Err InvalidSignature)"

definition PublicKey_encode_to_zbase32 :: "'b Multibase \<Rightarrow> (PublicKey \<Rightarrow> bytes) \<Rightarrow> PublicKey \<Rightarrow> string" where
  "PublicKey_encode_to_zbase32 mb ser self = encode mb ser self"

definition PublicKey_decode_from_zbase32 ::
    "'b Multibase \<Rightarrow> (bytes \<Rightarrow> string + PublicKey) \<Rightarrow> string \<Rightarrow> PublicKey Result" where
  "PublicKey_decode_from_zbase32 mb de encoded = decode mb de encoded"

definition PublicKey_cmp :: "(PublicKey \<Rightarrow> bytes) \<Rightarrow> PublicKey \<Rightarrow> PublicKey \<Rightarrow> Ordering" where
  "PublicKey_cmp ser self other = cmp_bytes (serialise ser self) (serialise ser other)"

definition PublicKey_partial_cmp :: "(PublicKey \<Rightarrow> bytes) \<Rightarrow> PublicKey \<Rightarrow> PublicKey \<Rightarrow> Ordering option" where
  "PublicKey_partial_cmp ser self other = Some (PublicKey_cmp ser self other)"

text \<open>A hasher is a state \<open>'h\<close> that is fed byte vectors.\<close>

definition PublicKey_hash :: "(PublicKey \<Rightarrow> bytes) \<Rightarrow> (bytes \<Rightarrow> 'h \<Rightarrow> 'h) \<Rightarrow> PublicKey \<Rightarrow> 'h \<Rightarrow> 'h" where
  "PublicKey_hash ser feed self state = feed (serialise ser self) state"

text \<open>
  \<open>From<PublicKey> for XorName\<close>: an Ed25519 key is the name, a BLS key gives its first 32 bytes.
\<close>

definition first_32_bytes :: "384 word \<Rightarrow> XorName" where
  "first_32_bytes bytes = ucast (drop_bit 128 bytes)"

fun PublicKey_to_xorname :: "PublicKey \<Rightarrow> XorName" where
  "PublicKey_to_xorname (PublicKey_Ed25519 pub_key) = pub_key"
| "PublicKey_to_xorname (PublicKey_Bls pub_key) = first_32_bytes pub_key"
| "PublicKey_to_xorname (PublicKey_BlsShare pub_key) = first_32_bytes pub_key"

fun Signature_into_bls :: "Signature \<Rightarrow> BlsSignature option" where
  "Signature_into_bls (Signature_Bls sig) = Some sig"
| "Signature_into_bls _ = None"

definition Signature_from_pair :: "usize \<times> BlsSignatureShare \<Rightarrow> Signature" where
  "Signature_from_pair sig = (let (index, share) = sig in Signature_BlsShare \<lparr>ss_index = index, ss_share = share\<rparr>)"

definition Signature_cmp :: "(Signature \<Rightarrow> bytes) \<Rightarrow> Signature \<Rightarrow> Signature \<Rightarrow> Ordering" where
  "Signature_cmp ser self other = cmp_bytes (serialise ser self) (serialise ser other)"

definition Signature_partial_cmp :: "(Signature \<Rightarrow> bytes) \<Rightarrow> Signature \<Rightarrow> Signature \<Rightarrow> Ordering option" where
  "Signature_partial_cmp ser self other = Some (Signature_cmp ser self other)"

definition Signature_hash :: "(Signature \<Rightarrow> bytes) \<Rightarrow> (bytes \<Rightarrow> 'h \<Rightarrow> 'h) \<Rightarrow> Signature \<Rightarrow> 'h \<Rightarrow> 'h" where
  "Signature_hash ser feed self state = feed (serialise ser self) state"

section \<open>Keypairs\<close>

record BlsKeypair =
  bk_secret :: BlsSecretKey
  bk_public :: BlsPublicKey

record BlsKeypairShare =
  bks_index :: usize
  bks_secret :: BlsSecretKeyShare
  bks_public :: BlsPublicKeyShare
  bks_public_key_set :: PublicKeySet

datatype Keypair =
    Keypair_Ed25519 Ed25519Keypair
  | Keypair_Bls BlsKeypair
  | Keypair_BlsShare BlsKeypairShare

text \<open>A random generator is a state \<open>'r\<close>; the generating function of each crate is a parameter.\<close>

definition Keypair_new_ed25519 :: "('r \<Rightarrow> Ed25519Keypair \<times> 'r) \<Rightarrow> 'r \<Rightarrow> Keypair \<times> 'r" where
  "Keypair_new_ed25519 generate rng = (let (keypair, rng') = generate rng in (Keypair_Ed25519 keypair, rng'))"

definition Keypair_new_bls :: "Crypto \<Rightarrow> ('r \<Rightarrow> BlsSecretKey \<times> 'r) \<Rightarrow> 'r \<Rightarrow> Keypair \<times> 'r" where
  "Keypair_new_bls C gen rng =
     (let (bls_secret_key, rng') = gen rng;
          bls_public_key = bls_public_key C bls_secret_key;
          keypair = \<lparr>bk_secret = bls_secret_key, bk_public = bls_public_key\<rparr>
      in (Keypair_Bls keypair, rng'))"

definition Keypair_new_bls_share :: "Crypto \<Rightarrow> usize \<Rightarrow> BlsSecretKeyShare \<Rightarrow> PublicKeySet \<Rightarrow> Keypair" where
  "Keypair_new_bls_share C index secret_share public_key_set =
     (let public_share = share_public_key C secret_share;
          keypair_share = \<lparr>bks_index = index, bks_secret = secret_share, bks_public = public_share,
                           bks_public_key_set = public_key_set\<rparr>
      in Keypair_BlsShare keypair_share)"

fun Keypair_public_key :: "Keypair \<Rightarrow> PublicKey" where
  "Keypair_public_key (Keypair_Ed25519 keypair) = PublicKey_Ed25519 (ed_public keypair)"
| "Keypair_public_key (Keypair_Bls keypair) = PublicKey_Bls (bk_public keypair)"
| "Keypair_public_key (Keypair_BlsShare keypair) = PublicKey_BlsShare (bks_public keypair)"

fun Keypair_sign :: "Crypto \<Rightarrow> Keypair \<Rightarrow> bytes \<Rightarrow> Signature" where
  "Keypair_sign C (Keypair_Ed25519 keypair) data = Signature_Ed25519 (ed25519_sign C keypair data)"
| "Keypair_sign C (Keypair_Bls keypair) data = Signature_Bls (bls_sign C (bk_secret keypair) data)"
| "Keypair_sign C (Keypair_BlsShare keypair) data =
     (let index = bks_index keypair; share = share_sign C (bks_secret keypair) data
      in Signature_BlsShare \<lparr>ss_index = index, ss_share = share\<rparr>)"

text \<open>
  \<open>Clone\<close> takes an Ed25519 keypair through its bytes and unwraps, \<open>None\<close> being the panic;
  \<open>PartialEq\<close> compares those bytes.
\<close>

fun Keypair_clone :: "(Ed25519Keypair \<Rightarrow> bytes) \<Rightarrow> (bytes \<Rightarrow> Ed25519Keypair option) \<Rightarrow> Keypair \<Rightarrow> Keypair option" where
  "Keypair_clone to_bytes from_bytes (Keypair_Ed25519 keypair) =
     map_option Keypair_Ed25519 (from_bytes (to_bytes keypair))"
| "Keypair_clone to_bytes from_bytes (Keypair_Bls keypair) = Some (Keypair_Bls keypair)"
| "Keypair_clone to_bytes from_bytes (Keypair_BlsShare keypair) = Some (Keypair_BlsShare keypair)"

fun Keypair_eq :: "(Ed25519Keypair \<Rightarrow> bytes) \<Rightarrow> Keypair \<Rightarrow> Keypair \<Rightarrow> bool" where
  "Keypair_eq to_bytes (Keypair_Ed25519 keypair) (Keypair_Ed25519 other) = (to_bytes keypair = to_bytes other)"
| "Keypair_eq to_bytes (Keypair_Bls keypair) (Keypair_Bls other) = (keypair = other)"
| "Keypair_eq to_bytes (Keypair_BlsShare keypair) (Keypair_BlsShare other) = (keypair = other)"
| "Keypair_eq to_bytes _ _ = False"

section \<open>Proofs\<close>

record Ed25519Proof =
  ep_public_key :: Ed25519PublicKey
  ep_signature :: Ed25519Signature

record BlsProof =
  bp_public_key :: BlsPublicKey
  bp_signature :: BlsSignature

record BlsProofShare =
  bps_public_key_set :: PublicKeySet
  bps_index :: usize
  bps_signature_share :: BlsSignatureShare

datatype Proof =
    Proof_Bls BlsProof
  | Proof_BlsShare BlsProofShare
  | Proof_Ed25519 Ed25519Proof

definition Ed25519Proof_id :: "Ed25519Proof \<Rightarrow> PublicKey" where
  "Ed25519Proof_id self = PublicKey_Ed25519 (ep_public_key self)"

definition Ed25519Proof_signature :: "Ed25519Proof \<Rightarrow> Signature" where
  "Ed25519Proof_signature self = Signature_Ed25519 (ep_signature self)"

definition Ed25519Proof_verify :: "Crypto \<Rightarrow> Ed25519Proof \<Rightarrow> bytes \<Rightarrow> bool" where
  "Ed25519Proof_verify C self payload = is_ok (PublicKey_verify C (Ed25519Proof_id self) (Ed25519Proof_signature self) payload)"

definition Ed25519Proof_eq :: "Ed25519Proof \<Rightarrow> Ed25519Proof \<Rightarrow> bool" where
  "Ed25519Proof_eq self other \<longleftrightarrow>
     ep_public_key self = ep_public_key other \<and> ep_signature self = ep_signature other"

definition Ed25519Proof_hash :: "(Ed25519Proof \<Rightarrow> bytes) \<Rightarrow> (bytes \<Rightarrow> 'h \<Rightarrow> 'h) \<Rightarrow> Ed25519Proof \<Rightarrow> 'h \<Rightarrow> 'h" where
  "Ed25519Proof_hash ser feed self state = feed (serialise ser self) state"

definition BlsProof_verify :: "Crypto \<Rightarrow> BlsProof \<Rightarrow> bytes \<Rightarrow> bool" where
  "BlsProof_verify C self payload = bls_verify C (bp_public_key self) (bp_signature self) payload"

definition BlsProof_id :: "BlsProof \<Rightarrow> PublicKey" where
  "BlsProof_id self = PublicKey_Bls (bp_public_key self)"

definition BlsProof_signature :: "BlsProof \<Rightarrow> Signature" where
  "BlsProof_signature self = Signature_Bls (bp_signature self)"

definition BlsProofShare_new :: "Crypto \<Rightarrow> PublicKeySet \<Rightarrow> usize \<Rightarrow> BlsSecretKeyShare \<Rightarrow> bytes \<Rightarrow> BlsProofShare" where
  "BlsProofShare_new C public_key_set index secret_key_share payload =
     \<lparr>bps_public_key_set = public_key_set, bps_index = index,
      bps_signature_share = share_sign C secret_key_share payload\<rparr>"

definition BlsProofShare_id :: "Crypto \<Rightarrow> BlsProofShare \<Rightarrow> PublicKey" where
  "BlsProofShare_id C self = PublicKey_BlsShare (set_public_key_share C (bps_public_key_set self) (bps_index self))"

definition BlsProofShare_signature :: "BlsProofShare \<Rightarrow> Signature" where
  "BlsProofShare_signature self =
     Signature_BlsShare \<lparr>ss_index = bps_index self, ss_share = bps_signature_share self\<rparr>"

definition BlsProofShare_verify :: "Crypto \<Rightarrow> BlsProofShare \<Rightarrow> bytes \<Rightarrow> bool" where
  "BlsProofShare_verify C self payload =
     share_verify C (set_public_key_share C (bps_public_key_set self) (bps_index self)) (bps_signature_share self) payload"

fun Proof_id :: "Crypto \<Rightarrow> Proof \<Rightarrow> PublicKey" where
  "Proof_id C (Proof_Bls proof) = BlsProof_id proof"
| "Proof_id C (Proof_BlsShare proof) = BlsProofShare_id C proof"
| "Proof_id C (Proof_Ed25519 proof) = Ed25519Proof_id proof"

fun Proof_signature :: "Proof \<Rightarrow> Signature" where
  "Proof_signature (Proof_Bls proof) = BlsProof_signature proof"
| "Proof_signature (Proof_BlsShare proof) = BlsProofShare_signature proof"
| "Proof_signature (Proof_Ed25519 proof) = Ed25519Proof_signature proof"

fun Proof_verify :: "Crypto \<Rightarrow> Proof \<Rightarrow> bytes \<Rightarrow> bool" where
  "Proof_verify C (Proof_Bls proof) payload = BlsProof_verify C proof payload"
| "Proof_verify C (Proof_BlsShare proof) payload = BlsProofShare_verify C proof payload"
| "Proof_verify C (Proof_Ed25519 proof) payload = Ed25519Proof_verify C proof payload"

record 'a Proven =
  pv_value :: 'a
  pv_proof :: BlsProof

definition Proven_new :: "'a \<Rightarrow> BlsProof \<Rightarrow> 'a Proven" where
  "Proven_new value proof = \<lparr>pv_value = value, pv_proof = proof\<rparr>"

section \<open>The interface of a signer\<close>

text \<open>
  What the holders of key material promise: a signature made by the holder verifies under the
  public key the holder shows. Keypairs, client, app and node identities and message senders are
  all signers; the clients are proved from this law alone.
\<close>

locale signer =
  fixes sign :: "'k \<Rightarrow> bytes \<Rightarrow> Signature"
    and pub :: "'k \<Rightarrow> PublicKey"
    and verify :: "PublicKey \<Rightarrow> Signature \<Rightarrow> bytes \<Rightarrow> unit Result"
    and wf :: "'k \<Rightarrow> bool"
  assumes sign_verifies: "wf k \<Longrightarrow> verify (pub k) (sign k d) d = Ok ()"
begin

lemma sign_is_ok: "wf k \<Longrightarrow> is_ok (verify (pub k) (sign k d) d)"
  by (simp add: sign_verifies)

text \<open>A holder that shows another signer's key and signs with it is a signer.\<close>

lemma signer_via: "(\<And>h. wf' h \<Longrightarrow> wf (key h)) \<Longrightarrow> signer (\<lambda>h. sign (key h)) (\<lambda>h. pub (key h)) verify wf'"
  by unfold_locales (simp add: sign_verifies)

end

definition Keypair_wf :: "Crypto \<Rightarrow> Keypair \<Rightarrow> bool" where
  "Keypair_wf C k = (case k of
     Keypair_Ed25519 kp \<Rightarrow> ed_public kp = ed25519_public C (ed_secret kp)
   | Keypair_Bls kp \<Rightarrow> bk_public kp = bls_public_key C (bk_secret kp)
   | Keypair_BlsShare kp \<Rightarrow> bks_public kp = share_public_key C (bks_secret kp))"

locale crypto_laws =
  fixes C :: Crypto
  assumes crypto_ok: "crypto_ok C"
begin

lemma ed25519_verifies:
  "ed_public kp = ed25519_public C (ed_secret kp) \<Longrightarrow> ed25519_verify C (ed_public kp) d (ed25519_sign C kp d)"
  and bls_verifies: "bls_verify C (bls_public_key C sk) (bls_sign C sk d) d"
  and share_verifies: "share_verify C (share_public_key C ss) (share_sign C ss d) d"
  using crypto_ok by (auto simp: crypto_ok_def)

lemma keypair_sign_verifies:
  "Keypair_wf C k \<Longrightarrow> PublicKey_verify C (Keypair_public_key k) (Keypair_sign C k d) d = Ok ()"
proof (cases k)
  case (Keypair_Ed25519 kp)
  assume "Keypair_wf C k"
  then have "ed25519_verify C (ed_public kp) d (ed25519_sign C kp d)"
    by (intro ed25519_verifies) (simp add: Keypair_Ed25519 Keypair_wf_def)
  then show ?thesis by (simp add: Keypair_Ed25519 PublicKey_verify_def)
qed (simp_all add: Keypair_wf_def PublicKey_verify_def bls_verifies share_verifies)

end

sublocale crypto_laws \<subseteq> keypair: signer "Keypair_sign C" Keypair_public_key "PublicKey_verify C" "Keypair_wf C"
  by unfold_locales (rule keypair_sign_verifies)

context crypto_laws begin

lemma keypair_signs: "Keypair_wf C k \<Longrightarrow> PublicKey_verify C (Keypair_public_key k) (Keypair_sign C k d) d = Ok ()"
  by (rule keypair.sign_verifies)

end

text \<open>
  A concrete instance of the cryptographic parameter, for witnesses: a public key is the secret
  shifted by one, a signature adds the length of the message to the key.
\<close>

definition demo_crypto :: Crypto where
  "demo_crypto = \<lparr>
     ed25519_public = (\<lambda>s. s + 1),
     ed25519_sign = (\<lambda>kp d. ucast (ed_secret kp) + 1 + word_of_nat (length d)),
     ed25519_verify = (\<lambda>pk d sg. ucast (pk - 1) + 1 + word_of_nat (length d) = sg),
     bls_public_key = (\<lambda>s. ucast s + 1),
     bls_sign = (\<lambda>s d. ucast (ucast s + 1 :: 384 word) + word_of_nat (length d)),
     bls_verify = (\<lambda>pk sg d. sg = ucast pk + word_of_nat (length d)),
     share_public_key = (\<lambda>s. ucast s + 2),
     share_sign = (\<lambda>s d. ucast (ucast s + 2 :: 384 word) + word_of_nat (length d)),
     share_verify = (\<lambda>pk sg d. sg = ucast pk + word_of_nat (length d)),
     set_public_key_share = (\<lambda>pks i. word_of_nat (length pks) + ucast i)\<rparr>"

text \<open>A generator that gives matching pairs, counting its secrets up.\<close>

definition demo_gen :: "Ed25519Secret \<Rightarrow> Ed25519Keypair \<times> Ed25519Secret" where
  "demo_gen r = (\<lparr>ed_secret = r, ed_public = r + 1\<rparr>, r + 1)"

lemma demo_crypto_ok: "crypto_ok demo_crypto"
  by (simp add: crypto_ok_def demo_crypto_def)

interpretation demo: crypto_laws demo_crypto
  by unfold_locales (rule demo_crypto_ok)

section \<open>Lemmas\<close>

lemma PublicKey_verify_cases:
  "PublicKey_verify C k s d = Ok () \<or> PublicKey_verify C k s d = Err InvalidSignature \<or>
   PublicKey_verify C k s d = Err SigningKeyTypeMismatch"
  by (cases k; cases s) (auto simp: PublicKey_verify_def)

lemma Keypair_new_wf:
  "ed_public (fst (gen rng)) = ed25519_public C (ed_secret (fst (gen rng))) \<Longrightarrow>
     Keypair_wf C (fst (Keypair_new_ed25519 gen rng))"
  "Keypair_wf C (fst (Keypair_new_bls C gen' rng'))"
  "Keypair_wf C (Keypair_new_bls_share C i sk pks)"
  by (simp_all add: Keypair_wf_def Keypair_new_ed25519_def Keypair_new_bls_def
      Keypair_new_bls_share_def Let_def case_prod_beta)

text \<open>A proof verifies exactly when its signature verifies under its id.\<close>

lemma Proof_verify_iff: "Proof_verify C p d \<longleftrightarrow> PublicKey_verify C (Proof_id C p) (Proof_signature p) d = Ok ()"
  by (cases p)
    (auto simp: BlsProof_verify_def BlsProof_id_def BlsProof_signature_def BlsProofShare_verify_def
      BlsProofShare_id_def BlsProofShare_signature_def Ed25519Proof_verify_def PublicKey_verify_def
      Ed25519Proof_id_def Ed25519Proof_signature_def is_ok_iff and_then_def)

text \<open>The name of a BLS key is the leading 32 of its 48 bytes.\<close>

lemma first_32_bytes_unat: "unat (first_32_bytes w) = unat w div 2 ^ 128"
proof -
  have "unat w < 2 ^ 384" using unsigned_less [of w, where 'a = nat] by simp
  then have "unat w div 2 ^ 128 < 2 ^ 256" by (simp add: less_mult_imp_div_less)
  then have "take_bit 256 (unat w div 2 ^ 128) = unat w div 2 ^ 128"
    by (simp add: take_bit_nat_eq_self_iff)
  moreover have "unat (first_32_bytes w) = take_bit 256 (unat w div 2 ^ 128)"
    by (simp only: first_32_bytes_def unsigned_ucast_eq unat_drop_bit_eq drop_bit_eq_div) (simp add: unat_div)
  ultimately show ?thesis by simp
qed

section \<open>Properties\<close>

text \<open>
  Verification is decided by the key kinds first: it fails with a type mismatch exactly when
  key and signature are of different kinds, whatever the data; with matching kinds it succeeds or
  fails with an invalid signature as the scheme of that kind says. The index of a signature share
  plays no part.
\<close>

theorem public_key_verify_spec:
  "PublicKey_verify C k s d =
     (case (k, s) of
        (PublicKey_Ed25519 pk, Signature_Ed25519 sg) \<Rightarrow> if ed25519_verify C pk d sg then Ok () else Err InvalidSignature
      | (PublicKey_Bls pk, Signature_Bls sg) \<Rightarrow> if bls_verify C pk sg d then Ok () else Err InvalidSignature
      | (PublicKey_BlsShare pk, Signature_BlsShare sh) \<Rightarrow>
          if share_verify C pk (ss_share sh) d then Ok () else Err InvalidSignature
      | _ \<Rightarrow> Err SigningKeyTypeMismatch) \<and>
   PublicKey_verify C k (Signature_BlsShare (sh\<lparr>ss_index := i\<rparr>)) d = PublicKey_verify C k (Signature_BlsShare sh) d"
  by (cases k; cases s) (auto simp: PublicKey_verify_def)

text \<open>
  C25: With a correct signature scheme, every keypair the constructors build, of each of the three kinds,
  signs messages that verify under the public key it shows, provided the generator of Ed25519 keypairs
  gives a matching pair; and so does the proof share a node builds from its key share when the public
  key set assigns the share's public key to its index. The key shown is of the kind constructed, and
  that of the generated secret.
\<close>

theorem keypair_sign_verify:
  assumes "crypto_ok C" "ed_public (fst (gen rng)) = ed25519_public C (ed_secret (fst (gen rng)))"
    and "k \<in> {fst (Keypair_new_ed25519 gen rng), fst (Keypair_new_bls C gen' rng'), Keypair_new_bls_share C j share pks'}"
  shows "PublicKey_verify C (Keypair_public_key k) (Keypair_sign C k d) d = Ok () \<and>
    Keypair_public_key (fst (Keypair_new_ed25519 gen rng)) = PublicKey_Ed25519 (ed25519_public C (ed_secret (fst (gen rng)))) \<and>
    Keypair_public_key (fst (Keypair_new_bls C gen' rng')) = PublicKey_Bls (bls_public_key C (fst (gen' rng'))) \<and>
    Keypair_public_key (Keypair_new_bls_share C j share pks') = PublicKey_BlsShare (share_public_key C share) \<and>
    (set_public_key_share C pks i = share_public_key C sk \<longrightarrow>
      Proof_verify C (Proof_BlsShare (BlsProofShare_new C pks i sk d)) d)"
proof -
  have "Keypair_wf C k" using assms(3) Keypair_new_wf(1) [of gen rng C] assms(2) by (auto simp: Keypair_new_wf(2,3))
  then show ?thesis
    using crypto_laws.keypair_signs [OF crypto_laws.intro [OF assms(1)], of k d]
      crypto_laws.share_verifies [OF crypto_laws.intro [OF assms(1)]] assms(2)
    by (simp add: BlsProofShare_verify_def BlsProofShare_new_def Keypair_new_ed25519_def Keypair_new_bls_def
        Keypair_new_bls_share_def split_beta Let_def)
qed

theorem keypair_sign_verify_witness:
  "PublicKey_verify demo_crypto (Keypair_public_key (Keypair_new_bls_share demo_crypto 1 7 [3]))
     (Keypair_sign demo_crypto (Keypair_new_bls_share demo_crypto 1 7 [3]) [1, 2]) [1, 2] = Ok () \<and>
   PublicKey_verify demo_crypto (Keypair_public_key (fst (Keypair_new_bls demo_crypto (\<lambda>r. (r, r + 1)) 5)))
     (Keypair_sign demo_crypto (fst (Keypair_new_bls demo_crypto (\<lambda>r. (r, r + 1)) 5)) [1, 2]) [1, 2] = Ok () \<and>
   PublicKey_verify demo_crypto (PublicKey_BlsShare 9) (Signature_BlsShare \<lparr>ss_index = 0, ss_share = 9\<rparr>) [1, 2] =
     Err InvalidSignature \<and>
   Proof_verify demo_crypto (Proof_BlsShare (BlsProofShare_new demo_crypto [3, 3, 3] 1 2 [1])) [1]"
proof -
  have gen: "ed_public (fst (demo_gen 4)) = ed25519_public demo_crypto (ed_secret (fst (demo_gen 4)))"
    by (simp add: demo_gen_def demo_crypto_def)
  have "set_public_key_share demo_crypto [3, 3, 3] 1 = share_public_key demo_crypto 2"
      "PublicKey_verify demo_crypto (PublicKey_BlsShare 9) (Signature_BlsShare \<lparr>ss_index = 0, ss_share = 9\<rparr>) [1, 2] =
     Err InvalidSignature"
    by (simp_all add: demo_crypto_def PublicKey_verify_def)
  then show ?thesis
    using keypair_sign_verify [of demo_crypto demo_gen 4 "Keypair_new_bls_share demo_crypto 1 7 [3]" "\<lambda>r. (r, r + 1)" 5 1 7 "[3]"
        "[1, 2]", OF demo_crypto_ok gen]
      keypair_sign_verify [of demo_crypto demo_gen 4 "fst (Keypair_new_bls demo_crypto (\<lambda>r. (r, r + 1)) 5)" "\<lambda>r. (r, r + 1)" 5
        1 7 "[3]" "[1, 2]", OF demo_crypto_ok gen]
      keypair_sign_verify [of demo_crypto demo_gen 4 "Keypair_new_bls_share demo_crypto 1 7 [3]" "\<lambda>r. (r, r + 1)" 5 1 7 "[3]"
        "[1]" "[3, 3, 3]" 1 2, OF demo_crypto_ok gen]
    by blast
qed

end
