(* ===== verification/MapTypes.thy ===== *)
theory MapTypes
  imports Keys
begin

text \<open>
  The data of the Map component (src/src/map.rs): kinds, addresses, values, permission sets, entry
  actions, and the two flavours of a map with the operations the macro \<open>impl_map!\<close> generates for
  both. The macro is written once here: a flavour is a record over its value type. Permissions are a
  partial function from keys, since nothing observes the order in which they are kept; entries are
  an ordered map, whose iteration order is visible.
\<close>

section \<open>Kinds and addresses\<close>

datatype MapKind = MapKind_Unseq | MapKind_Seq

definition MapKind_from_flag :: "bool \<Rightarrow> MapKind" where
  "MapKind_from_flag sequenced = (if sequenced then MapKind_Seq else MapKind_Unseq)"

definition MapKind_is_seq :: "MapKind \<Rightarrow> bool" where
  "MapKind_is_seq self \<longleftrightarrow> self = MapKind_Seq"

definition MapKind_is_unseq :: "MapKind \<Rightarrow> bool" where
  "MapKind_is_unseq self \<longleftrightarrow> \<not> MapKind_is_seq self"

datatype MapAddress =
    MapAddress_Unseq XorName u64
  | MapAddress_Seq XorName u64

fun MapAddress_from_kind :: "MapKind \<Rightarrow> XorName \<Rightarrow> u64 \<Rightarrow> MapAddress" where
  "MapAddress_from_kind MapKind_Seq name tag = MapAddress_Seq name tag"
| "MapAddress_from_kind MapKind_Unseq name tag = MapAddress_Unseq name tag"

fun MapAddress_kind :: "MapAddress \<Rightarrow> MapKind" where
  "MapAddress_kind (MapAddress_Seq _ _) = MapKind_Seq"
| "MapAddress_kind (MapAddress_Unseq _ _) = MapKind_Unseq"

fun MapAddress_name :: "MapAddress \<Rightarrow> XorName" where
  "MapAddress_name (MapAddress_Unseq name _) = name"
| "MapAddress_name (MapAddress_Seq name _) = name"

fun MapAddress_tag :: "MapAddress \<Rightarrow> u64" where
  "MapAddress_tag (MapAddress_Unseq _ tag) = tag"
| "MapAddress_tag (MapAddress_Seq _ tag) = tag"

definition MapAddress_is_seq :: "MapAddress \<Rightarrow> bool" where
  "MapAddress_is_seq self = MapKind_is_seq (MapAddress_kind self)"

definition MapAddress_is_unseq :: "MapAddress \<Rightarrow> bool" where
  "MapAddress_is_unseq self = MapKind_is_unseq (MapAddress_kind self)"

definition MapAddress_encode_to_zbase32 :: "'b Multibase \<Rightarrow> (MapAddress \<Rightarrow> bytes) \<Rightarrow> MapAddress \<Rightarrow> string" where
  "MapAddress_encode_to_zbase32 mb ser self = encode mb ser self"

definition MapAddress_decode_from_zbase32 ::
    "'b Multibase \<Rightarrow> (bytes \<Rightarrow> string + MapAddress) \<Rightarrow> string \<Rightarrow> MapAddress Result" where
  "MapAddress_decode_from_zbase32 mb de encoded = decode mb de encoded"

section \<open>Values, entries and permission sets\<close>

record SeqValue =
  sv_data :: bytes
  sv_version :: u64

datatype MapValue = MapValue_Seq SeqValue | MapValue_Unseq bytes

datatype MapValues = MapValues_Seq "SeqValue list" | MapValues_Unseq "bytes list"

type_synonym SeqEntries = "(bytes, SeqValue) BTreeMap"
type_synonym UnseqEntries = "(bytes, bytes) BTreeMap"

datatype MapEntries = MapEntries_Seq SeqEntries | MapEntries_Unseq UnseqEntries

datatype MapAction =
    MapAction_Read
  | MapAction_Insert
  | MapAction_Update
  | MapAction_Delete
  | MapAction_ManagePermissions

record PermissionSet =
  ps_permissions :: "MapAction set"

definition PermissionSet_new :: PermissionSet where
  "PermissionSet_new = \<lparr>ps_permissions = {}\<rparr>"

definition PermissionSet_allow :: "PermissionSet \<Rightarrow> MapAction \<Rightarrow> PermissionSet" where
  "PermissionSet_allow self action = self\<lparr>ps_permissions := insert action (ps_permissions self)\<rparr>"

definition PermissionSet_deny :: "PermissionSet \<Rightarrow> MapAction \<Rightarrow> PermissionSet" where
  "PermissionSet_deny self action = self\<lparr>ps_permissions := ps_permissions self - {action}\<rparr>"

definition PermissionSet_is_allowed :: "PermissionSet \<Rightarrow> MapAction \<Rightarrow> bool" where
  "PermissionSet_is_allowed self action \<longleftrightarrow> action \<in> ps_permissions self"

section \<open>Entry actions\<close>

datatype SeqEntryAction =
    SeqEntryAction_Ins SeqValue
  | SeqEntryAction_Update SeqValue
  | SeqEntryAction_Del u64

fun SeqEntryAction_version :: "SeqEntryAction \<Rightarrow> u64" where
  "SeqEntryAction_version (SeqEntryAction_Ins value) = sv_version value"
| "SeqEntryAction_version (SeqEntryAction_Update value) = sv_version value"
| "SeqEntryAction_version (SeqEntryAction_Del v) = v"

fun SeqEntryAction_set_version :: "SeqEntryAction \<Rightarrow> u64 \<Rightarrow> SeqEntryAction" where
  "SeqEntryAction_set_version (SeqEntryAction_Ins value) version = SeqEntryAction_Ins (value\<lparr>sv_version := version\<rparr>)"
| "SeqEntryAction_set_version (SeqEntryAction_Update value) version = SeqEntryAction_Update (value\<lparr>sv_version := version\<rparr>)"
| "SeqEntryAction_set_version (SeqEntryAction_Del v) version = SeqEntryAction_Del version"

datatype UnseqEntryAction =
    UnseqEntryAction_Ins bytes
  | UnseqEntryAction_Update bytes
  | UnseqEntryAction_Del

type_synonym SeqEntryActions = "(bytes, SeqEntryAction) BTreeMap"
type_synonym UnseqEntryActions = "(bytes, UnseqEntryAction) BTreeMap"

definition SeqEntryActions_new :: SeqEntryActions where
  "SeqEntryActions_new = bt_new"

definition SeqEntryActions_ins :: "SeqEntryActions \<Rightarrow> bytes \<Rightarrow> bytes \<Rightarrow> u64 \<Rightarrow> SeqEntryActions" where
  "SeqEntryActions_ins self key content version =
     bt_insert key (SeqEntryAction_Ins \<lparr>sv_data = content, sv_version = version\<rparr>) self"

definition SeqEntryActions_update :: "SeqEntryActions \<Rightarrow> bytes \<Rightarrow> bytes \<Rightarrow> u64 \<Rightarrow> SeqEntryActions" where
  "SeqEntryActions_update self key content version =
     bt_insert key (SeqEntryAction_Update \<lparr>sv_data = content, sv_version = version\<rparr>) self"

definition SeqEntryActions_del :: "SeqEntryActions \<Rightarrow> bytes \<Rightarrow> u64 \<Rightarrow> SeqEntryActions" where
  "SeqEntryActions_del self key version = bt_insert key (SeqEntryAction_Del version) self"

definition SeqEntryActions_add_action :: "SeqEntryActions \<Rightarrow> bytes \<Rightarrow> SeqEntryAction \<Rightarrow> SeqEntryActions" where
  "SeqEntryActions_add_action self key action = bt_insert key action self"

definition UnseqEntryActions_new :: UnseqEntryActions where
  "UnseqEntryActions_new = bt_new"

definition UnseqEntryActions_ins :: "UnseqEntryActions \<Rightarrow> bytes \<Rightarrow> bytes \<Rightarrow> UnseqEntryActions" where
  "UnseqEntryActions_ins self key content = bt_insert key (UnseqEntryAction_Ins content) self"

definition UnseqEntryActions_update :: "UnseqEntryActions \<Rightarrow> bytes \<Rightarrow> bytes \<Rightarrow> UnseqEntryActions" where
  "UnseqEntryActions_update self key content = bt_insert key (UnseqEntryAction_Update content) self"

definition UnseqEntryActions_del :: "UnseqEntryActions \<Rightarrow> bytes \<Rightarrow> UnseqEntryActions" where
  "UnseqEntryActions_del self key = bt_insert key UnseqEntryAction_Del self"

definition UnseqEntryActions_add_action :: "UnseqEntryActions \<Rightarrow> bytes \<Rightarrow> UnseqEntryAction \<Rightarrow> UnseqEntryActions" where
  "UnseqEntryActions_add_action self key action = bt_insert key action self"

text \<open>The structs have the one field \<open>actions\<close>.\<close>

definition SeqEntryActions_actions :: "SeqEntryActions \<Rightarrow> (bytes, SeqEntryAction) BTreeMap" where
  "SeqEntryActions_actions self = self"

definition SeqEntryActions_into_actions :: "SeqEntryActions \<Rightarrow> (bytes, SeqEntryAction) BTreeMap" where
  "SeqEntryActions_into_actions self = self"

definition SeqEntryActions_into_map :: "SeqEntryActions \<Rightarrow> (bytes, SeqEntryAction) BTreeMap" where
  "SeqEntryActions_into_map actions = actions"

definition SeqEntryActions_from_map :: "(bytes, SeqEntryAction) BTreeMap \<Rightarrow> SeqEntryActions" where
  "SeqEntryActions_from_map actions = actions"

definition UnseqEntryActions_actions :: "UnseqEntryActions \<Rightarrow> (bytes, UnseqEntryAction) BTreeMap" where
  "UnseqEntryActions_actions self = self"

definition UnseqEntryActions_into_actions :: "UnseqEntryActions \<Rightarrow> (bytes, UnseqEntryAction) BTreeMap" where
  "UnseqEntryActions_into_actions self = self"

definition UnseqEntryActions_into_map :: "UnseqEntryActions \<Rightarrow> (bytes, UnseqEntryAction) BTreeMap" where
  "UnseqEntryActions_into_map actions = actions"

definition UnseqEntryActions_from_map :: "(bytes, UnseqEntryAction) BTreeMap \<Rightarrow> UnseqEntryActions" where
  "UnseqEntryActions_from_map actions = actions"

datatype EntryActions = EntryActions_Seq SeqEntryActions | EntryActions_Unseq UnseqEntryActions

fun EntryActions_kind :: "EntryActions \<Rightarrow> MapKind" where
  "EntryActions_kind (EntryActions_Seq _) = MapKind_Seq"
| "EntryActions_kind (EntryActions_Unseq _) = MapKind_Unseq"

section \<open>The flavours of a map\<close>

record 'v MapFlavour =
  mf_address :: MapAddress
  mf_data :: "(bytes, 'v) BTreeMap"
  mf_permissions :: "PublicKey \<rightharpoonup> PermissionSet"
  mf_version :: u64
  mf_owner :: PublicKey

type_synonym SeqData = "SeqValue MapFlavour"
type_synonym UnseqData = "bytes MapFlavour"

definition UnseqData_new :: "XorName \<Rightarrow> u64 \<Rightarrow> PublicKey \<Rightarrow> UnseqData" where
  "UnseqData_new name tag owner =
     \<lparr>mf_address = MapAddress_Unseq name tag, mf_data = bt_new, mf_permissions = Map.empty, mf_version = 0,
      mf_owner = owner\<rparr>"

definition UnseqData_new_with_data ::
    "XorName \<Rightarrow> u64 \<Rightarrow> UnseqEntries \<Rightarrow> (PublicKey \<rightharpoonup> PermissionSet) \<Rightarrow> PublicKey \<Rightarrow> UnseqData" where
  "UnseqData_new_with_data name tag data permissions owner =
     \<lparr>mf_address = MapAddress_Unseq name tag, mf_data = data, mf_permissions = permissions, mf_version = 0,
      mf_owner = owner\<rparr>"

definition SeqData_new :: "XorName \<Rightarrow> u64 \<Rightarrow> PublicKey \<Rightarrow> SeqData" where
  "SeqData_new name tag owner =
     \<lparr>mf_address = MapAddress_Seq name tag, mf_data = bt_new, mf_permissions = Map.empty, mf_version = 0,
      mf_owner = owner\<rparr>"

definition SeqData_new_with_data ::
    "XorName \<Rightarrow> u64 \<Rightarrow> SeqEntries \<Rightarrow> (PublicKey \<rightharpoonup> PermissionSet) \<Rightarrow> PublicKey \<Rightarrow> SeqData" where
  "SeqData_new_with_data name tag data permissions owner =
     \<lparr>mf_address = MapAddress_Seq name tag, mf_data = data, mf_permissions = permissions, mf_version = 0,
      mf_owner = owner\<rparr>"

definition MapFlavour_get :: "'v MapFlavour \<Rightarrow> bytes \<Rightarrow> 'v option" where
  "MapFlavour_get self key = bt_get (mf_data self) key"

definition MapFlavour_values :: "'v MapFlavour \<Rightarrow> 'v list" where
  "MapFlavour_values self = bt_values (mf_data self)"

definition MapFlavour_entries :: "'v MapFlavour \<Rightarrow> (bytes, 'v) BTreeMap" where
  "MapFlavour_entries self = mf_data self"

definition MapFlavour_take_entries :: "'v MapFlavour \<Rightarrow> 'v MapFlavour \<times> (bytes, 'v) BTreeMap" where
  "MapFlavour_take_entries self = (self\<lparr>mf_data := bt_new\<rparr>, mf_data self)"

subsection \<open>The operations of the macro\<close>

definition MapFlavour_name :: "'v MapFlavour \<Rightarrow> XorName" where
  "MapFlavour_name self = MapAddress_name (mf_address self)"

definition MapFlavour_tag :: "'v MapFlavour \<Rightarrow> u64" where
  "MapFlavour_tag self = MapAddress_tag (mf_address self)"

definition MapFlavour_kind :: "'v MapFlavour \<Rightarrow> MapKind" where
  "MapFlavour_kind self = MapAddress_kind (mf_address self)"

definition MapFlavour_keys :: "'v MapFlavour \<Rightarrow> bytes BTreeSet" where
  "MapFlavour_keys self = bt_keys (mf_data self)"

definition MapFlavour_address :: "'v MapFlavour \<Rightarrow> MapAddress" where
  "MapFlavour_address self = mf_address self"

definition MapFlavour_version :: "'v MapFlavour \<Rightarrow> u64" where
  "MapFlavour_version self = mf_version self"

definition MapFlavour_owner :: "'v MapFlavour \<Rightarrow> PublicKey" where
  "MapFlavour_owner self = mf_owner self"

definition MapFlavour_permissions :: "'v MapFlavour \<Rightarrow> PublicKey \<rightharpoonup> PermissionSet" where
  "MapFlavour_permissions self = mf_permissions self"

definition MapFlavour_shell :: "'v MapFlavour \<Rightarrow> 'v MapFlavour" where
  "MapFlavour_shell self =
     \<lparr>mf_address = mf_address self, mf_data = bt_new, mf_permissions = mf_permissions self,
      mf_version = mf_version self, mf_owner = mf_owner self\<rparr>"

definition MapFlavour_user_permissions :: "'v MapFlavour \<Rightarrow> PublicKey \<Rightarrow> PermissionSet Result" where
  "MapFlavour_user_permissions self user = ok_or NoSuchKey (mf_permissions self user)"

definition MapFlavour_check_is_owner :: "'v MapFlavour \<Rightarrow> PublicKey \<Rightarrow> unit Result" where
  "MapFlavour_check_is_owner self requester = (if mf_owner self = requester then Ok () else Err AccessDenied)"

definition MapFlavour_check_permissions :: "'v MapFlavour \<Rightarrow> MapAction \<Rightarrow> PublicKey \<Rightarrow> unit Result" where
  "MapFlavour_check_permissions self action requester =
     (if mf_owner self = requester then Ok ()
      else
        and_then (map_err (\<lambda>_. AccessDenied) (MapFlavour_user_permissions self requester)) (\<lambda>permissions.
          if PermissionSet_is_allowed permissions action then Ok () else Err AccessDenied))"

definition MapFlavour_set_user_permissions ::
    "'v MapFlavour \<Rightarrow> PublicKey \<Rightarrow> PermissionSet \<Rightarrow> u64 \<Rightarrow> 'v MapFlavour \<times> unit Result" where
  "MapFlavour_set_user_permissions self user permissions version =
     (if version \<noteq> mf_version self + 1 then (self, Err (InvalidSuccessor (mf_version self)))
      else (self\<lparr>mf_permissions := (mf_permissions self)(user \<mapsto> permissions), mf_version := version\<rparr>, Ok ()))"

definition MapFlavour_del_user_permissions ::
    "'v MapFlavour \<Rightarrow> PublicKey \<Rightarrow> u64 \<Rightarrow> 'v MapFlavour \<times> unit Result" where
  "MapFlavour_del_user_permissions self user version =
     (if version \<noteq> mf_version self + 1 then (self, Err (InvalidSuccessor (mf_version self)))
      else if mf_permissions self user = None then (self, Err NoSuchKey)
      else (self\<lparr>mf_permissions := (mf_permissions self)(user := None), mf_version := version\<rparr>, Ok ()))"

definition MapFlavour_del_user_permissions_without_validation ::
    "'v MapFlavour \<Rightarrow> PublicKey \<Rightarrow> u64 \<Rightarrow> 'v MapFlavour \<times> bool" where
  "MapFlavour_del_user_permissions_without_validation self user version =
     (if version \<le> mf_version self then (self, False)
      else (self\<lparr>mf_permissions := (mf_permissions self)(user := None), mf_version := version\<rparr>, True))"

definition MapFlavour_change_owner :: "'v MapFlavour \<Rightarrow> PublicKey \<Rightarrow> u64 \<Rightarrow> 'v MapFlavour \<times> unit Result" where
  "MapFlavour_change_owner self new_owner version =
     (if version \<noteq> mf_version self + 1 then (self, Err (InvalidSuccessor (mf_version self)))
      else (self\<lparr>mf_owner := new_owner, mf_version := version\<rparr>, Ok ()))"

definition MapFlavour_change_owner_without_validation ::
    "'v MapFlavour \<Rightarrow> PublicKey \<Rightarrow> u64 \<Rightarrow> 'v MapFlavour \<times> bool" where
  "MapFlavour_change_owner_without_validation self new_owner version =
     (if version \<le> mf_version self then (self, False)
      else (self\<lparr>mf_owner := new_owner, mf_version := version\<rparr>, True))"

definition MapFlavour_is_action_allowed :: "'v MapFlavour \<Rightarrow> PublicKey \<Rightarrow> MapAction \<Rightarrow> bool" where
  "MapFlavour_is_action_allowed self requester action =
     (case mf_permissions self requester of
        Some perms \<Rightarrow> PermissionSet_is_allowed perms action
      | None \<Rightarrow> False)"

end
