(* ===== verification/MapShell.thy ===== *)
theory MapShell
  imports MapTypes "HOL-Library.Multiset"
begin

text \<open>
  The shell of a map: permissions, owner and version. The operations that change it share one
  optimistic-concurrency contract, the locale \<open>versioned_op\<close>; the lemmas about runs of operations
  are proved from the contract and hold for every flavour by interpretation.
\<close>

section \<open>The contract of a versioned operation\<close>

text \<open>A run of requests, each with the version it carries, and the versions that were accepted.\<close>

fun run_ops :: "('o \<Rightarrow> 's \<Rightarrow> u64 \<Rightarrow> 's \<times> unit Result) \<Rightarrow> ('o \<times> u64) list \<Rightarrow> 's \<Rightarrow> 's" where
  "run_ops step [] s = s"
| "run_ops step ((op, v) # ops) s = run_ops step ops (fst (step op s v))"

fun accepted_versions :: "('o \<Rightarrow> 's \<Rightarrow> u64 \<Rightarrow> 's \<times> unit Result) \<Rightarrow> ('o \<times> u64) list \<Rightarrow> 's \<Rightarrow> u64 list" where
  "accepted_versions step [] s = []"
| "accepted_versions step ((op, v) # ops) s =
     (let (s', r) = step op s v in
      if r = Ok () then v # accepted_versions step ops s' else accepted_versions step ops s')"

locale versioned_op =
  fixes version :: "'s \<Rightarrow> u64"
    and step :: "'o \<Rightarrow> 's \<Rightarrow> u64 \<Rightarrow> 's \<times> unit Result"
  assumes accept: "step op s v = (s', Ok ()) \<Longrightarrow> v = version s + 1 \<and> version s' = v"
    and reject: "step op s v = (s', Err e) \<Longrightarrow> s' = s"
    and stale: "v \<noteq> version s + 1 \<Longrightarrow> step op s v = (s, Err (InvalidSuccessor (version s)))"
begin

text \<open>An accepted operation cannot be replayed, and its version number is taken for every rival.\<close>

lemma taken:
  assumes "step op s v = (s', Ok ())"
  shows "step op' s' v = (s', Err (InvalidSuccessor v))"
  using accept [OF assms] stale [of v s' op'] word_neq_succ [of v] by auto

lemma increases:
  assumes "step op s v = (s', Ok ())" "version s \<noteq> - 1"
  shows "version s < version s'"
  using accept [OF assms(1)] word_less_succ [OF assms(2)] by auto

text \<open>
  The versions a run accepts are the consecutive successors of the starting version, whatever is
  in the run, and the final version counts them.
\<close>

lemma accepted_consecutive:
  "accepted_versions step ops s =
     map (\<lambda>i. version s + 1 + word_of_nat i) [0..<length (accepted_versions step ops s)] \<and>
   version (run_ops step ops s) = version s + word_of_nat (length (accepted_versions step ops s))"
proof (induction ops arbitrary: s)
  case (Cons opv ops)
  obtain op v where opv: "opv = (op, v)" by (cases opv)
  obtain s' r where st: "step op s v = (s', r)" by (cases "step op s v")
  show ?case
  proof (cases r)
    case (Inl e)
    then have "s' = s" using st reject by blast
    then show ?thesis using Cons.IH [of s] st Inl by (simp add: opv)
  next
    case (Inr u)
    then have v: "v = version s + 1" "version s' = v" using accept st by auto
    have "map (\<lambda>i. version s + 1 + word_of_nat i) [0..<Suc n] =
        v # map (\<lambda>i. version s' + 1 + word_of_nat i) [0..<n]" for n
      by (simp add: v upt_conv_Cons map_Suc_upt [symmetric] comp_def algebra_simps del: upt_Suc)
    then show ?thesis using Cons.IH [of s'] st Inr v by (simp add: opv del: upt_Suc)
  qed
qed simp

end

section \<open>The shell operations of a flavour\<close>

text \<open>The three versioned operations of the macro, as requests.\<close>

datatype ShellOp =
    SetUserPermissions PublicKey PermissionSet
  | DelUserPermissions PublicKey
  | ChangeOwner PublicKey

fun shell_step :: "ShellOp \<Rightarrow> 'v MapFlavour \<Rightarrow> u64 \<Rightarrow> 'v MapFlavour \<times> unit Result" where
  "shell_step (SetUserPermissions user perms) s v = MapFlavour_set_user_permissions s user perms v"
| "shell_step (DelUserPermissions user) s v = MapFlavour_del_user_permissions s user v"
| "shell_step (ChangeOwner new_owner) s v = MapFlavour_change_owner s new_owner v"

lemmas shell_defs = MapFlavour_set_user_permissions_def MapFlavour_del_user_permissions_def
  MapFlavour_change_owner_def

interpretation shell: versioned_op mf_version shell_step
proof unfold_locales
  show "shell_step op s v = (s', Ok ()) \<Longrightarrow> v = mf_version s + 1 \<and> mf_version s' = v" for op and s s' :: "'v MapFlavour" and v
    by (cases op) (auto simp: shell_defs split: if_splits)
  show "shell_step op s v = (s', Err e) \<Longrightarrow> s' = s" for op and s s' :: "'v MapFlavour" and v e
    by (cases op) (auto simp: shell_defs split: if_splits)
  show "v \<noteq> mf_version s + 1 \<Longrightarrow> shell_step op s v = (s, Err (InvalidSuccessor (mf_version s)))"
    for op and s :: "'v MapFlavour" and v
    by (cases op) (auto simp: shell_defs)
qed

text \<open>What an operation leaves alone.\<close>

lemma shell_step_frame:
  "mf_data (fst (shell_step op s v)) = mf_data s" "mf_address (fst (shell_step op s v)) = mf_address s"
  by (cases op; simp add: shell_defs)+

lemma shell_run_frame:
  "mf_data (run_ops shell_step ops s) = mf_data s \<and> mf_address (run_ops shell_step ops s) = mf_address s"
  by (induction ops arbitrary: s) (auto simp: shell_step_frame)

section \<open>Properties\<close>

text \<open>
  In any run of shell changes, with any versions in any order, the versions accepted are exactly
  the consecutive successors of the starting version, each once, the final version counts them, and
  the entries and the address of the map are untouched.
\<close>

lemma map_shell_run_consecutive:
  "accepted_versions shell_step ops s = map (\<lambda>i. mf_version s + 1 + word_of_nat i) [0..<length (accepted_versions shell_step ops s)] \<and>
   mf_version (run_ops shell_step ops s) = mf_version s + word_of_nat (length (accepted_versions shell_step ops s)) \<and>
   mf_data (run_ops shell_step ops s) = mf_data s \<and> mf_address (run_ops shell_step ops s) = mf_address s"
  using shell.accepted_consecutive [of ops s] shell_run_frame [of ops s] by blast

text \<open>
  C15: A versioned change of a map's shell (permissions or owner) is accepted only with the current
  version plus one, which becomes the new version; a stale or skipped version is refused with the
  current version in the error; a refused change leaves the map as it was; and once a version is
  accepted, every further change that carries it is refused, so a request cannot be replayed. In any
  run of such changes, with any versions in any order, the versions accepted are exactly the consecutive
  successors of the starting version, each once, the final version counts them, and the entries and
  the address of the map are untouched.
\<close>

theorem map_shell_version_check:
  "(shell_step op s v = (s', Ok ()) \<longrightarrow>
      v = mf_version s + 1 \<and> mf_version s' = v \<and> mf_data s' = mf_data s \<and>
      shell_step op' s' v = (s', Err (InvalidSuccessor v))) \<and>
   (shell_step op s v = (s', Err e) \<longrightarrow> s' = s) \<and>
   (v \<noteq> mf_version s + 1 \<longrightarrow> shell_step op s v = (s, Err (InvalidSuccessor (mf_version s)))) \<and>
   (v = mf_version s + 1 \<longrightarrow>
      snd (shell_step op s v) =
        (case op of DelUserPermissions user \<Rightarrow> if mf_permissions s user = None then Err NoSuchKey else Ok () | _ \<Rightarrow> Ok ())) \<and>
   accepted_versions shell_step ops s = map (\<lambda>i. mf_version s + 1 + word_of_nat i) [0..<length (accepted_versions shell_step ops s)] \<and>
   mf_version (run_ops shell_step ops s) = mf_version s + word_of_nat (length (accepted_versions shell_step ops s)) \<and>
   mf_data (run_ops shell_step ops s) = mf_data s \<and> mf_address (run_ops shell_step ops s) = mf_address s"
proof -
  have "mf_data s' = mf_data s" if "shell_step op s v = (s', Ok ())"
    using shell_step_frame(1) [of op s v] that by simp
  moreover have "snd (shell_step op s (mf_version s + 1)) =
      (case op of DelUserPermissions user \<Rightarrow> if mf_permissions s user = None then Err NoSuchKey else Ok () | _ \<Rightarrow> Ok ())"
    by (cases op) (simp_all add: shell_defs)
  moreover note run = map_shell_run_consecutive [of ops s]
  ultimately show ?thesis
    using shell.accept [of op s v s'] shell.taken [of op s v s' op'] shell.reject [of op s v s' e]
      shell.stale [of v s op] by (intro conjI run [THEN conjunct1] run [THEN conjunct2, THEN conjunct1]
        run [THEN conjunct2, THEN conjunct2, THEN conjunct1] run [THEN conjunct2, THEN conjunct2, THEN conjunct2]) metis+
qed

theorem map_shell_version_check_witness:
  "shell_step (ChangeOwner (PublicKey_Ed25519 2)) (SeqData_new 1 5 (PublicKey_Ed25519 1)) 1 =
     ((SeqData_new 1 5 (PublicKey_Ed25519 1))\<lparr>mf_owner := PublicKey_Ed25519 2, mf_version := 1\<rparr>, Ok ()) \<and>
   shell_step (DelUserPermissions (PublicKey_Ed25519 3))
     ((SeqData_new 1 5 (PublicKey_Ed25519 1))\<lparr>mf_owner := PublicKey_Ed25519 2, mf_version := 1\<rparr>) 1 =
     ((SeqData_new 1 5 (PublicKey_Ed25519 1))\<lparr>mf_owner := PublicKey_Ed25519 2, mf_version := 1\<rparr>, Err (InvalidSuccessor 1))"
proof -
  let ?s = "SeqData_new 1 5 (PublicKey_Ed25519 1)"
  let ?s' = "?s\<lparr>mf_owner := PublicKey_Ed25519 2, mf_version := 1\<rparr>"
  have "shell_step (ChangeOwner (PublicKey_Ed25519 2)) ?s 1 = (?s', Ok ())"
    by (simp add: MapFlavour_change_owner_def SeqData_new_def)
  then show ?thesis
    using map_shell_version_check [of "ChangeOwner (PublicKey_Ed25519 2)" ?s 1 ?s'] by blast
qed

text \<open>
  The unvalidated operations, as a replica receives them: it applies whatever arrives, each with the
  version it carries, and the answer says whether it took effect.
\<close>

datatype RawOp = Raw_owner PublicKey | Raw_del PublicKey

fun raw_step :: "RawOp \<times> u64 \<Rightarrow> 'e MapFlavour \<Rightarrow> 'e MapFlavour \<times> bool" where
  "raw_step (Raw_owner k, v) s = MapFlavour_change_owner_without_validation s k v"
| "raw_step (Raw_del k, v) s = MapFlavour_del_user_permissions_without_validation s k v"

fun raw_effect :: "RawOp \<Rightarrow> 'e MapFlavour \<Rightarrow> 'e MapFlavour" where
  "raw_effect (Raw_owner k) s = s\<lparr>mf_owner := k\<rparr>"
| "raw_effect (Raw_del k) s = s\<lparr>mf_permissions := (mf_permissions s)(k := None)\<rparr>"

definition raw_run :: "(RawOp \<times> u64) list \<Rightarrow> 'e MapFlavour \<Rightarrow> 'e MapFlavour" where
  "raw_run = fold (\<lambda>op s. fst (raw_step op s))"

lemma raw_step_eq:
  "raw_step (op, v) s = (if mf_version s < v then ((raw_effect op s)\<lparr>mf_version := v\<rparr>, True) else (s, False))"
  by (cases op) (auto simp: MapFlavour_change_owner_without_validation_def
      MapFlavour_del_user_permissions_without_validation_def not_less)

lemma raw_run_version: "mf_version (raw_run ops s) = fold max (map snd ops) (mf_version s)"
  unfolding raw_run_def
  by (induction ops arbitrary: s) (auto simp: raw_step_eq max_def not_less)

text \<open>Owner changes with different versions commute, so any two arrival orders give the same state.\<close>

lemma raw_owners_commute:
  assumes "v \<noteq> w \<or> k = l"
  shows "fst (raw_step (Raw_owner k, v) (fst (raw_step (Raw_owner l, w) s))) =
    fst (raw_step (Raw_owner l, w) (fst (raw_step (Raw_owner k, v) s)))"
  using assms by (auto simp: raw_step_eq simp del: raw_step.simps)

lemma raw_owners_order:
  fixes s :: "'e MapFlavour"
  assumes "mset xs = mset ys" "distinct (map snd xs)" "fst ` set xs \<subseteq> range Raw_owner"
  shows "raw_run xs s = raw_run ys s"
proof -
  let ?apply = "\<lambda>op (s :: 'e MapFlavour). fst (raw_step op s)"
  have "?apply x \<circ> ?apply y = ?apply y \<circ> ?apply x"
    if xy: "x \<in> set xs" "y \<in> set xs" for x y
  proof -
    have "fst x \<in> range Raw_owner" "fst y \<in> range Raw_owner" using assms(3) xy by blast+
    then obtain k v l w where eqs: "x = (Raw_owner k, v)" "y = (Raw_owner l, w)"
      by (cases x; cases y) auto
    have "v \<noteq> w \<or> k = l"
      using assms(2) xy inj_onD [of snd "set xs" x y] by (auto simp: eqs distinct_map)
    then show ?thesis by (simp add: fun_eq_iff eqs raw_owners_commute del: raw_step.simps)
  qed
  then have "fold ?apply xs = fold ?apply ys" using assms(1) by (intro fold_multiset_equiv) simp_all
  then show ?thesis by (simp add: raw_run_def)
qed

lemma raw_run_snoc: "raw_run (ops @ [op]) s = fst (raw_step op (raw_run ops s))"
  by (simp add: raw_run_def)

text \<open>
  C34: The unvalidated owner change is last-writer-wins: whatever order a set of changes with different
  versions arrives in, the map ends in the same state, and a change whose version exceeds all others
  and the current one makes its owner the owner. The version of a map is the greatest it has seen,
  and nothing else about an operation matters for it. A revocation is no such register: it takes
  effect exactly when its version is above every version seen before, so one that is overtaken by
  a later owner change is dropped and the user keeps the permissions, while in the order of the
  versions both take effect.
\<close>

theorem map_change_owner_without_validation_commutes:
  assumes "mset xs = mset ys" "distinct (map snd xs)" "fst ` set xs \<subseteq> range Raw_owner"
  shows "raw_run xs s = raw_run ys s \<and>
    ((Raw_owner k, v) \<in> set xs \<longrightarrow> mf_version s < v \<longrightarrow> (\<forall>w \<in> snd ` set xs. w \<le> v) \<longrightarrow>
       mf_owner (raw_run xs s) = k \<and> mf_version (raw_run xs s) = v) \<and>
    mf_version (raw_run ops s) = fold max (map snd ops) (mf_version s) \<and>
    mf_permissions (raw_run (ops @ [(Raw_del user, u)]) s) user =
      (if mf_version (raw_run ops s) < u then None else mf_permissions (raw_run ops s) user) \<and>
    (mf_version s < u \<longrightarrow> u < v \<longrightarrow>
       mf_permissions (raw_run [(Raw_owner k, v), (Raw_del user, u)] s) user = mf_permissions s user \<and>
       mf_permissions (raw_run [(Raw_del user, u), (Raw_owner k, v)] s) user = None)"
proof (intro conjI impI)
  show "raw_run xs s = raw_run ys s" by (rule raw_owners_order [OF assms])
next
  assume in_xs: "(Raw_owner k, v) \<in> set xs" and v: "mf_version s < v" "\<forall>w \<in> snd ` set xs. w \<le> v"
  then obtain as bs where xs: "xs = as @ (Raw_owner k, v) # bs" by (meson split_list)
  have "raw_run xs s = raw_run (as @ bs @ [(Raw_owner k, v)]) s"
    by (rule raw_owners_order [OF _ assms(2,3)]) (simp add: xs)
  moreover have "mf_version (raw_run (as @ bs) s) < v"
  proof -
    have "v \<notin> snd ` set (as @ bs)" using assms(2) by (auto simp: xs)
    moreover have "\<forall>w \<in> snd ` set (as @ bs). w \<le> v" using v(2) by (auto simp: xs)
    ultimately have "\<forall>w \<in> snd ` set (as @ bs). w < v" by (metis order.strict_iff_order)
    moreover have "fold max ws x < v" if "x < v" "\<forall>w \<in> set ws. w < v" for x and ws :: "u64 list"
      using that by (induction ws arbitrary: x) simp_all
    ultimately show ?thesis using v(1) by (simp add: raw_run_version)
  qed
  ultimately show "mf_owner (raw_run xs s) = k" "mf_version (raw_run xs s) = v"
    by (simp_all add: raw_run_snoc [of "as @ bs", simplified] raw_step_eq del: raw_step.simps)
next
  show "mf_version (raw_run ops s) = fold max (map snd ops) (mf_version s)" by (rule raw_run_version)
next
  show "mf_permissions (raw_run (ops @ [(Raw_del user, u)]) s) user =
      (if mf_version (raw_run ops s) < u then None else mf_permissions (raw_run ops s) user)"
    unfolding raw_run_snoc raw_step_eq by simp
next
  assume "mf_version s < u" "u < v"
  then show "mf_permissions (raw_run [(Raw_owner k, v), (Raw_del user, u)] s) user = mf_permissions s user"
    "mf_permissions (raw_run [(Raw_del user, u), (Raw_owner k, v)] s) user = None"
    by (auto simp: raw_run_def raw_step_eq simp del: raw_step.simps)
qed

theorem map_change_owner_without_validation_commutes_witness:
  "mf_owner (raw_run [(Raw_owner (PublicKey_Ed25519 2), 7), (Raw_owner (PublicKey_Ed25519 3), 4)]
     (SeqData_new 1 5 (PublicKey_Ed25519 1))) = PublicKey_Ed25519 2 \<and>
   raw_run [(Raw_owner (PublicKey_Ed25519 2), 7), (Raw_owner (PublicKey_Ed25519 3), 4)] (SeqData_new 1 5 (PublicKey_Ed25519 1)) =
   raw_run [(Raw_owner (PublicKey_Ed25519 3), 4), (Raw_owner (PublicKey_Ed25519 2), 7)] (SeqData_new 1 5 (PublicKey_Ed25519 1))"
proof -
  let ?xs = "[(Raw_owner (PublicKey_Ed25519 2), 7 :: u64), (Raw_owner (PublicKey_Ed25519 3), 4)]"
  let ?ys = "[(Raw_owner (PublicKey_Ed25519 3), 4 :: u64), (Raw_owner (PublicKey_Ed25519 2), 7)]"
  have hyps: "mset ?xs = mset ?ys" "distinct (map snd ?xs)" "fst ` set ?xs \<subseteq> range Raw_owner" by auto
  have "mf_version (SeqData_new 1 5 (PublicKey_Ed25519 1)) < 7" by (simp add: SeqData_new_def)
  then show ?thesis
    using map_change_owner_without_validation_commutes
      [OF hyps, of "SeqData_new 1 5 (PublicKey_Ed25519 1)" "PublicKey_Ed25519 2" 7] by fastforce
qed

text \<open>
  The permission check of a map succeeds for the owner whatever the permissions, and otherwise
  exactly for a user whose permission set contains the action; it has no other error than a denied
  access, and on users other than the owner it agrees with \<open>is_action_allowed\<close>.
\<close>

lemma map_check_permissions_spec:
  "MapFlavour_check_permissions s action requester =
     (if mf_owner s = requester \<or> (\<exists>p. mf_permissions s requester = Some p \<and> action \<in> ps_permissions p)
      then Ok () else Err AccessDenied) \<and>
   (mf_owner s \<noteq> requester \<longrightarrow>
      (MapFlavour_check_permissions s action requester = Ok () \<longleftrightarrow> MapFlavour_is_action_allowed s requester action))"
  by (auto simp: MapFlavour_check_permissions_def MapFlavour_user_permissions_def PermissionSet_is_allowed_def
      MapFlavour_is_action_allowed_def split: option.splits)

end
