(* ===== verification/MapMutate.thy ===== *)
theory MapMutate
  imports MapShell
begin

text \<open>
  \<open>mutate_entries\<close> of both flavours (src/src/map.rs): the actions are sorted into insertions,
  updates and deletions, the permissions are checked, the three loops edit a copy of the entries
  and collect errors, and the copy replaces the entries only when there were no errors. Each loop
  body is an instance of \<open>entry_loop\<close>; the three loops together are \<open>three_phase\<close>, and the whole
  operation is \<open>bulk_mutation\<close>, instantiated once per flavour. The specification is one verdict per key, \<open>seq_verdict\<close> and \<open>unseq_verdict\<close>.
\<close>

section \<open>Unsequenced maps\<close>

definition unseq_sort_action ::
    "bytes \<times> UnseqEntryAction \<Rightarrow> UnseqEntries \<times> UnseqEntries \<times> bytes BTreeSet \<Rightarrow> UnseqEntries \<times> UnseqEntries \<times> bytes BTreeSet" where
  "unseq_sort_action = (\<lambda>(key, item) (insert, update, delete).
     case item of
       UnseqEntryAction_Ins value \<Rightarrow> (bt_insert key value insert, update, delete)
     | UnseqEntryAction_Update value \<Rightarrow> (insert, bt_insert key value update, delete)
     | UnseqEntryAction_Del \<Rightarrow> (insert, update, bt_insert key () delete))"

definition unseq_sort_actions :: "UnseqEntryActions \<Rightarrow> UnseqEntries \<times> UnseqEntries \<times> bytes BTreeSet" where
  "unseq_sort_actions actions = fold unseq_sort_action actions (bt_new, bt_new, bt_new)"

type_synonym EntryErrors = "(bytes, EntryError) BTreeMap"

definition unseq_insert_body :: "bytes \<times> bytes \<Rightarrow> UnseqEntries \<times> EntryErrors \<Rightarrow> UnseqEntries \<times> EntryErrors" where
  "unseq_insert_body = (\<lambda>(key, val) (new_data, errors).
     case bt_get new_data key of
       Some _ \<Rightarrow> (new_data, bt_insert key (EntryError_EntryExists 0) errors)
     | None \<Rightarrow> (bt_insert key val new_data, errors))"

definition unseq_update_body :: "bytes \<times> bytes \<Rightarrow> UnseqEntries \<times> EntryErrors \<Rightarrow> UnseqEntries \<times> EntryErrors" where
  "unseq_update_body = (\<lambda>(key, val) (new_data, errors).
     case bt_get new_data key of
       Some _ \<Rightarrow> (bt_insert key val new_data, errors)
     | None \<Rightarrow> (new_data, bt_insert key EntryError_NoSuchEntry errors))"

definition unseq_delete_body :: "bytes \<times> unit \<Rightarrow> UnseqEntries \<times> EntryErrors \<Rightarrow> UnseqEntries \<times> EntryErrors" where
  "unseq_delete_body = (\<lambda>(key, _) (new_data, errors).
     case bt_get new_data key of
       Some _ \<Rightarrow> (bt_remove key new_data, errors)
     | None \<Rightarrow> (new_data, bt_insert key EntryError_NoSuchEntry errors))"

definition UnseqData_mutate_entries :: "UnseqData \<Rightarrow> UnseqEntryActions \<Rightarrow> PublicKey \<Rightarrow> UnseqData \<times> unit Result" where
  "UnseqData_mutate_entries self actions requester =
     (let (insert, update, delete) = unseq_sort_actions actions in
      if mf_owner self \<noteq> requester \<and>
         (\<not> bt_is_empty insert \<and> \<not> MapFlavour_is_action_allowed self requester MapAction_Insert \<or>
          \<not> bt_is_empty update \<and> \<not> MapFlavour_is_action_allowed self requester MapAction_Update \<or>
          \<not> bt_is_empty delete \<and> \<not> MapFlavour_is_action_allowed self requester MapAction_Delete)
      then (self, Err AccessDenied)
      else
        let (new_data, errors) =
              fold unseq_delete_body delete (fold unseq_update_body update (fold unseq_insert_body insert (mf_data self, bt_new)))
        in if \<not> bt_is_empty errors then (self, Err (InvalidEntryActions errors))
           else (self\<lparr>mf_data := new_data\<rparr>, Ok ()))"

section \<open>Sequenced maps\<close>

definition seq_sort_action ::
    "bytes \<times> SeqEntryAction \<Rightarrow> SeqEntries \<times> SeqEntries \<times> (bytes, u64) BTreeMap \<Rightarrow> SeqEntries \<times> SeqEntries \<times> (bytes, u64) BTreeMap" where
  "seq_sort_action = (\<lambda>(key, item) (insert, update, delete).
     case item of
       SeqEntryAction_Ins value \<Rightarrow> (bt_insert key value insert, update, delete)
     | SeqEntryAction_Update value \<Rightarrow> (insert, bt_insert key value update, delete)
     | SeqEntryAction_Del version \<Rightarrow> (insert, update, bt_insert key version delete))"

definition seq_sort_actions :: "SeqEntryActions \<Rightarrow> SeqEntries \<times> SeqEntries \<times> (bytes, u64) BTreeMap" where
  "seq_sort_actions actions = fold seq_sort_action actions (bt_new, bt_new, bt_new)"

text \<open>\<open>version as u8\<close> keeps the low eight bits.\<close>

definition seq_insert_body :: "bytes \<times> SeqValue \<Rightarrow> SeqEntries \<times> EntryErrors \<Rightarrow> SeqEntries \<times> EntryErrors" where
  "seq_insert_body = (\<lambda>(key, val) (new_data, errors).
     case bt_get new_data key of
       Some entry \<Rightarrow> (new_data, bt_insert key (EntryError_EntryExists (ucast (sv_version entry))) errors)
     | None \<Rightarrow> (bt_insert key val new_data, errors))"

definition seq_update_body :: "bytes \<times> SeqValue \<Rightarrow> SeqEntries \<times> EntryErrors \<Rightarrow> SeqEntries \<times> EntryErrors" where
  "seq_update_body = (\<lambda>(key, val) (new_data, errors).
     case bt_get new_data key of
       Some entry \<Rightarrow>
         (let current_version = sv_version entry in
          if sv_version val = current_version + 1 then (bt_insert key val new_data, errors)
          else (new_data, bt_insert key (EntryError_InvalidSuccessor (ucast current_version)) errors))
     | None \<Rightarrow> (new_data, bt_insert key EntryError_NoSuchEntry errors))"

definition seq_delete_body :: "bytes \<times> u64 \<Rightarrow> SeqEntries \<times> EntryErrors \<Rightarrow> SeqEntries \<times> EntryErrors" where
  "seq_delete_body = (\<lambda>(key, version) (new_data, errors).
     case bt_get new_data key of
       Some entry \<Rightarrow>
         (let current_version = sv_version entry in
          if version = current_version + 1 then (bt_remove key new_data, errors)
          else (new_data, bt_insert key (EntryError_InvalidSuccessor (ucast current_version)) errors))
     | None \<Rightarrow> (new_data, bt_insert key EntryError_NoSuchEntry errors))"

definition SeqData_mutate_entries :: "SeqData \<Rightarrow> SeqEntryActions \<Rightarrow> PublicKey \<Rightarrow> SeqData \<times> unit Result" where
  "SeqData_mutate_entries self actions requester =
     (let (insert, update, delete) = seq_sort_actions actions in
      if mf_owner self \<noteq> requester \<and>
         (\<not> bt_is_empty insert \<and> \<not> MapFlavour_is_action_allowed self requester MapAction_Insert \<or>
          \<not> bt_is_empty update \<and> \<not> MapFlavour_is_action_allowed self requester MapAction_Update \<or>
          \<not> bt_is_empty delete \<and> \<not> MapFlavour_is_action_allowed self requester MapAction_Delete)
      then (self, Err AccessDenied)
      else
        let (new_data, errors) =
              fold seq_delete_body delete (fold seq_update_body update (fold seq_insert_body insert (mf_data self, bt_new)))
        in if \<not> bt_is_empty errors then (self, Err (InvalidEntryActions errors))
           else (self\<lparr>mf_data := new_data\<rparr>, Ok ()))"

section \<open>Verdicts per key\<close>

fun insert_verdict :: "('v \<Rightarrow> u8) \<Rightarrow> 'v \<Rightarrow> 'v option \<Rightarrow> EntryError + 'v option" where
  "insert_verdict ver val None = Ok (Some val)"
| "insert_verdict ver val (Some entry) = Err (EntryError_EntryExists (ver entry))"

fun unseq_update_verdict :: "bytes \<Rightarrow> bytes option \<Rightarrow> EntryError + bytes option" where
  "unseq_update_verdict val None = Err EntryError_NoSuchEntry"
| "unseq_update_verdict val (Some _) = Ok (Some val)"

fun unseq_delete_verdict :: "unit \<Rightarrow> bytes option \<Rightarrow> EntryError + bytes option" where
  "unseq_delete_verdict _ None = Err EntryError_NoSuchEntry"
| "unseq_delete_verdict _ (Some _) = Ok None"

fun seq_update_verdict :: "SeqValue \<Rightarrow> SeqValue option \<Rightarrow> EntryError + SeqValue option" where
  "seq_update_verdict val None = Err EntryError_NoSuchEntry"
| "seq_update_verdict val (Some entry) =
     (if sv_version val = sv_version entry + 1 then Ok (Some val)
      else Err (EntryError_InvalidSuccessor (ucast (sv_version entry))))"

fun seq_delete_verdict :: "u64 \<Rightarrow> SeqValue option \<Rightarrow> EntryError + SeqValue option" where
  "seq_delete_verdict version None = Err EntryError_NoSuchEntry"
| "seq_delete_verdict version (Some entry) =
     (if version = sv_version entry + 1 then Ok None
      else Err (EntryError_InvalidSuccessor (ucast (sv_version entry))))"

fun unseq_verdict :: "UnseqEntryAction \<Rightarrow> bytes option \<Rightarrow> EntryError + bytes option" where
  "unseq_verdict (UnseqEntryAction_Ins val) cur = insert_verdict (\<lambda>_. 0) val cur"
| "unseq_verdict (UnseqEntryAction_Update val) cur = unseq_update_verdict val cur"
| "unseq_verdict UnseqEntryAction_Del cur = unseq_delete_verdict () cur"

fun seq_verdict :: "SeqEntryAction \<Rightarrow> SeqValue option \<Rightarrow> EntryError + SeqValue option" where
  "seq_verdict (SeqEntryAction_Ins val) cur = insert_verdict (\<lambda>e. ucast (sv_version e)) val cur"
| "seq_verdict (SeqEntryAction_Update val) cur = seq_update_verdict val cur"
| "seq_verdict (SeqEntryAction_Del version) cur = seq_delete_verdict version cur"

fun unseq_needs :: "UnseqEntryAction \<Rightarrow> MapAction" where
  "unseq_needs (UnseqEntryAction_Ins _) = MapAction_Insert"
| "unseq_needs (UnseqEntryAction_Update _) = MapAction_Update"
| "unseq_needs UnseqEntryAction_Del = MapAction_Delete"

fun seq_needs :: "SeqEntryAction \<Rightarrow> MapAction" where
  "seq_needs (SeqEntryAction_Ins _) = MapAction_Insert"
| "seq_needs (SeqEntryAction_Update _) = MapAction_Update"
| "seq_needs (SeqEntryAction_Del _) = MapAction_Delete"

section \<open>The loops\<close>

interpretation unseq_ins: entry_loop bt_get bt_insert bt_remove bt_ok bt_get bt_insert bt_remove bt_ok
  "insert_verdict (\<lambda>_. 0)" unseq_insert_body
  by unfold_locales (auto simp: unseq_insert_body_def split: option.splits)

interpretation unseq_upd: entry_loop bt_get bt_insert bt_remove bt_ok bt_get bt_insert bt_remove bt_ok
  unseq_update_verdict unseq_update_body
  by unfold_locales (auto simp: unseq_update_body_def split: option.splits)

interpretation unseq_del: entry_loop bt_get bt_insert bt_remove bt_ok bt_get bt_insert bt_remove bt_ok
  unseq_delete_verdict unseq_delete_body
  by unfold_locales (auto simp: unseq_delete_body_def split: option.splits)

interpretation seq_ins: entry_loop bt_get bt_insert bt_remove bt_ok bt_get bt_insert bt_remove bt_ok
  "insert_verdict (\<lambda>e. ucast (sv_version e))" seq_insert_body
  by unfold_locales (auto simp: seq_insert_body_def split: option.splits)

interpretation seq_upd: entry_loop bt_get bt_insert bt_remove bt_ok bt_get bt_insert bt_remove bt_ok
  seq_update_verdict seq_update_body
  by unfold_locales (auto simp: seq_update_body_def Let_def split: option.splits)

interpretation seq_del: entry_loop bt_get bt_insert bt_remove bt_ok bt_get bt_insert bt_remove bt_ok
  seq_delete_verdict seq_delete_body
  by unfold_locales (auto simp: seq_delete_body_def Let_def split: option.splits)

text \<open>
  Three loops over disjoint sets of keys, one after the other on the same data and errors: each key
  meets the verdict of the loop it is in, on the entry the data had at the start.
\<close>

locale three_phase =
  ins: entry_loop get ins rem ok eget eins erem eok decide1 step1 +
  upd: entry_loop get ins rem ok eget eins erem eok decide2 step2 +
  del: entry_loop get ins rem ok eget eins erem eok decide3 step3
  for get :: "'m \<Rightarrow> 'k \<Rightarrow> 'v option" and ins rem ok and eget :: "'n \<Rightarrow> 'k \<Rightarrow> 'e option" and eins erem eok
    and decide1 :: "'a \<Rightarrow> 'v option \<Rightarrow> 'e + 'v option" and step1
    and decide2 :: "'b \<Rightarrow> 'v option \<Rightarrow> 'e + 'v option" and step2
    and decide3 :: "'c \<Rightarrow> 'v option \<Rightarrow> 'e + 'v option" and step3
begin

lemma phases:
  assumes "ok d" "eok es"
    and "distinct (map fst xs)" "distinct (map fst ys)" "distinct (map fst zs)"
    and "map_of ys k \<noteq> None \<Longrightarrow> map_of xs k = None" "map_of zs k \<noteq> None \<Longrightarrow> map_of xs k = None"
      "map_of zs k \<noteq> None \<Longrightarrow> map_of ys k = None"
    and "fold step3 zs (fold step2 ys (fold step1 xs (d, es))) = (d', es')"
  shows "ok d' \<and> eok es' \<and>
    (let r = option_or_else (map_option (\<lambda>a. decide1 a (get d k)) (map_of xs k))
           (option_or_else (map_option (\<lambda>b. decide2 b (get d k)) (map_of ys k))
              (map_option (\<lambda>c. decide3 c (get d k)) (map_of zs k)))
     in get d' k = new_entry r (get d k) \<and> eget es' k = entry_error r (eget es k))"
proof -
  obtain d1 es1 where 1: "fold step1 xs (d, es) = (d1, es1)" by (cases "fold step1 xs (d, es)")
  obtain d2 es2 where 2: "fold step2 ys (d1, es1) = (d2, es2)" by (cases "fold step2 ys (d1, es1)")
  have 3: "fold step3 zs (d2, es2) = (d', es')" using assms(9) 1 2 by simp
  have ok1: "ok d1" "eok es1" using ins.loop_ok [OF assms(1,2) 1] by simp_all
  have ok2: "ok d2" "eok es2" using upd.loop_ok [OF ok1 2] by simp_all
  have ok3: "ok d'" "eok es'" using del.loop_ok [OF ok2 3] by simp_all
  show ?thesis
    using ins.loop_get [OF assms(1,2,3) 1, of k] upd.loop_get [OF ok1 assms(4) 2, of k]
      del.loop_get [OF ok2 assms(5) 3, of k] assms(6-8) ok3
    by (cases "map_of xs k"; cases "map_of ys k"; cases "map_of zs k") simp_all
qed

end

section \<open>The specification of a bulk mutation\<close>

text \<open>The verdict on a key, if the key has an action.\<close>

definition key_verdict ::
    "('a \<Rightarrow> 'v option \<Rightarrow> EntryError + 'v option) \<Rightarrow> (bytes, 'a) BTreeMap \<Rightarrow> (bytes, 'v) BTreeMap \<Rightarrow>
     bytes \<Rightarrow> (EntryError + 'v option) option" where
  "key_verdict verdict actions data k = map_option (\<lambda>a. verdict a (bt_get data k)) (bt_get actions k)"

text \<open>The requester is not the owner and lacks the permission for some action in the batch.\<close>

definition batch_denied :: "('a \<Rightarrow> MapAction) \<Rightarrow> 'v MapFlavour \<Rightarrow> (bytes, 'a) BTreeMap \<Rightarrow> PublicKey \<Rightarrow> bool" where
  "batch_denied needs s actions requester \<longleftrightarrow>
     mf_owner s \<noteq> requester \<and>
     (\<exists>k a. bt_get actions k = Some a \<and> \<not> MapFlavour_is_action_allowed s requester (needs a))"

text \<open>What a bulk mutation promises of its result.\<close>

definition mutation_result ::
    "('a \<Rightarrow> 'v option \<Rightarrow> EntryError + 'v option) \<Rightarrow> ('a \<Rightarrow> MapAction) \<Rightarrow> 'v MapFlavour \<Rightarrow> (bytes, 'a) BTreeMap \<Rightarrow>
     PublicKey \<Rightarrow> 'v MapFlavour \<times> unit Result \<Rightarrow> bool" where
  "mutation_result verdict needs s actions requester out \<longleftrightarrow>
     (if batch_denied needs s actions requester then out = (s, Err AccessDenied)
      else if \<exists>k e. key_verdict verdict actions (mf_data s) k = Some (Inl e)
      then \<exists>errs. out = (s, Err (InvalidEntryActions errs)) \<and> bt_ok errs \<and>
             (\<forall>k. bt_get errs k = entry_error (key_verdict verdict actions (mf_data s) k) None)
      else \<exists>d. out = (s\<lparr>mf_data := d\<rparr>, Ok ()) \<and> bt_ok d \<and>
             (\<forall>k. bt_get d k = new_entry (key_verdict verdict actions (mf_data s) k) (bt_get (mf_data s) k)))"

lemma mutation_result_intro:
  assumes "\<not> batch_denied needs s actions requester" "bt_ok d \<and> bt_ok errs"
    and "\<And>k. bt_get d k = new_entry (key_verdict verdict actions (mf_data s) k) (bt_get (mf_data s) k) \<and>
             bt_get errs k = entry_error (key_verdict verdict actions (mf_data s) k) None"
  shows "mutation_result verdict needs s actions requester
    (if \<not> bt_is_empty errs then (s, Err (InvalidEntryActions errs)) else (s\<lparr>mf_data := d\<rparr>, Ok ()))"
proof -
  have "bt_is_empty errs \<longleftrightarrow> \<not> (\<exists>k e. key_verdict verdict actions (mf_data s) k = Some (Inl e))"
    using assms(3) by (auto simp: bt_is_empty_iff entry_error_def split: option.splits sum.splits)
  then show ?thesis using assms by (auto simp: mutation_result_def)
qed

section \<open>Bulk mutation of one flavour\<close>

text \<open>
  What the two flavours share: an action is an insertion, an update or a deletion with its payload,
  the fold sorts the actions by these, the permissions are checked for the sorts that occur, and the
  three loops run. \<open>classify\<close> reads the sort off an action.
\<close>

datatype ('i, 'u, 'd) Sorted = To_insert 'i | To_update 'u | To_delete 'd

locale bulk_mutation =
  three_phase bt_get bt_insert bt_remove bt_ok bt_get bt_insert bt_remove bt_ok decide1 step1 decide2 step2 decide3 step3
  for decide1 :: "'i \<Rightarrow> 'v option \<Rightarrow> EntryError + 'v option"
    and step1 :: "bytes \<times> 'i \<Rightarrow> (bytes, 'v) BTreeMap \<times> EntryErrors \<Rightarrow> (bytes, 'v) BTreeMap \<times> EntryErrors"
    and decide2 :: "'u \<Rightarrow> 'v option \<Rightarrow> EntryError + 'v option" and step2
    and decide3 :: "'d \<Rightarrow> 'v option \<Rightarrow> EntryError + 'v option" and step3 +
  fixes classify :: "'a \<Rightarrow> ('i, 'u, 'd) Sorted"
    and sort_action :: "bytes \<times> 'a \<Rightarrow> (bytes, 'i) BTreeMap \<times> (bytes, 'u) BTreeMap \<times> (bytes, 'd) BTreeMap \<Rightarrow>
      (bytes, 'i) BTreeMap \<times> (bytes, 'u) BTreeMap \<times> (bytes, 'd) BTreeMap"
    and verdict :: "'a \<Rightarrow> 'v option \<Rightarrow> EntryError + 'v option"
    and needs :: "'a \<Rightarrow> MapAction"
    and mutate :: "'v MapFlavour \<Rightarrow> (bytes, 'a) BTreeMap \<Rightarrow> PublicKey \<Rightarrow> 'v MapFlavour \<times> unit Result"
  assumes sort_action: "sort_action (k, a) (i, u, d) =
      (case classify a of
         To_insert x \<Rightarrow> (bt_insert k x i, u, d)
       | To_update y \<Rightarrow> (i, bt_insert k y u, d)
       | To_delete z \<Rightarrow> (i, u, bt_insert k z d))"
    and verdict: "verdict a cur =
      (case classify a of To_insert x \<Rightarrow> decide1 x cur | To_update y \<Rightarrow> decide2 y cur | To_delete z \<Rightarrow> decide3 z cur)"
    and needs: "needs a =
      (case classify a of To_insert _ \<Rightarrow> MapAction_Insert | To_update _ \<Rightarrow> MapAction_Update | To_delete _ \<Rightarrow> MapAction_Delete)"
    and mutate: "mutate s actions requester =
      (let (i, u, d) = fold sort_action actions (bt_new, bt_new, bt_new) in
       if mf_owner s \<noteq> requester \<and>
          (\<not> bt_is_empty i \<and> \<not> MapFlavour_is_action_allowed s requester MapAction_Insert \<or>
           \<not> bt_is_empty u \<and> \<not> MapFlavour_is_action_allowed s requester MapAction_Update \<or>
           \<not> bt_is_empty d \<and> \<not> MapFlavour_is_action_allowed s requester MapAction_Delete)
       then (s, Err AccessDenied)
       else
         let (d', es) = fold step3 d (fold step2 u (fold step1 i (mf_data s, bt_new)))
         in if \<not> bt_is_empty es then (s, Err (InvalidEntryActions es)) else (s\<lparr>mf_data := d'\<rparr>, Ok ()))"
begin

lemma sort_get:
  assumes "distinct (map fst actions)" "fold sort_action actions (i, u, d) = (i', u', d')"
  shows "bt_get i' k = (case map_option classify (map_of actions k) of Some (To_insert x) \<Rightarrow> Some x | _ \<Rightarrow> bt_get i k) \<and>
         bt_get u' k = (case map_option classify (map_of actions k) of Some (To_update y) \<Rightarrow> Some y | _ \<Rightarrow> bt_get u k) \<and>
         bt_get d' k = (case map_option classify (map_of actions k) of Some (To_delete z) \<Rightarrow> Some z | _ \<Rightarrow> bt_get d k)"
  using assms
proof (induction actions arbitrary: i u d)
  case (Cons x actions)
  obtain k0 a where x: "x = (k0, a)" by (cases x)
  have k0: "map_of actions k0 = None" using Cons.prems(1) by (simp add: x map_of_eq_None_iff)
  obtain i1 u1 d1 where 1: "sort_action x (i, u, d) = (i1, u1, d1)"
    by (cases "sort_action x (i, u, d)")
  have rest: "fold sort_action actions (i1, u1, d1) = (i', u', d')" using Cons.prems(2) 1 by simp
  show ?case
    using Cons.IH [OF _ rest] Cons.prems(1) 1 k0
    by (cases "classify a"; cases "k = k0") (auto simp: x sort_action bt_get_insert cong: option.case_cong Sorted.case_cong)
qed simp

lemma sort_ok:
  assumes "bt_ok i" "bt_ok u" "bt_ok d" "fold sort_action actions (i, u, d) = (i', u', d')"
  shows "bt_ok i' \<and> bt_ok u' \<and> bt_ok d'"
proof -
  have "(\<lambda>(i, u, d). bt_ok i \<and> bt_ok u \<and> bt_ok d) (fold sort_action actions (i, u, d))"
    by (rule fold_invariant [where Q = "\<lambda>_. True"])
       (auto simp: assms sort_action bt_ok_insert split: prod.splits Sorted.splits)
  then show ?thesis by (simp add: assms(4))
qed

text \<open>A sort has entries exactly when the batch has an action of that sort.\<close>

lemma sort_denied:
  assumes "bt_ok actions" "fold sort_action actions (bt_new, bt_new, bt_new) = (i, u, d)"
  shows "batch_denied needs s actions requester \<longleftrightarrow> mf_owner s \<noteq> requester \<and>
    (\<not> bt_is_empty i \<and> \<not> MapFlavour_is_action_allowed s requester MapAction_Insert \<or>
     \<not> bt_is_empty u \<and> \<not> MapFlavour_is_action_allowed s requester MapAction_Update \<or>
     \<not> bt_is_empty d \<and> \<not> MapFlavour_is_action_allowed s requester MapAction_Delete)"
proof -
  have "(\<exists>x. bt_get i k = Some x) \<longleftrightarrow> (\<exists>a x. bt_get actions k = Some a \<and> classify a = To_insert x)"
      "(\<exists>y. bt_get u k = Some y) \<longleftrightarrow> (\<exists>a y. bt_get actions k = Some a \<and> classify a = To_update y)"
      "(\<exists>z. bt_get d k = Some z) \<longleftrightarrow> (\<exists>a z. bt_get actions k = Some a \<and> classify a = To_delete z)" for k
    using sort_get [OF bt_ok_distinct [OF assms(1)] assms(2), of k]
    by (cases "map_of actions k"; auto simp: bt_get_def bt_new_def split: Sorted.splits)+
  then have some: "\<not> bt_is_empty i \<longleftrightarrow> (\<exists>k a x. bt_get actions k = Some a \<and> classify a = To_insert x)"
      "\<not> bt_is_empty u \<longleftrightarrow> (\<exists>k a y. bt_get actions k = Some a \<and> classify a = To_update y)"
      "\<not> bt_is_empty d \<longleftrightarrow> (\<exists>k a z. bt_get actions k = Some a \<and> classify a = To_delete z)"
    by (simp_all add: bt_is_empty_iff)
  have sorts: "classify a = To_insert x \<Longrightarrow> needs a = MapAction_Insert" "classify a = To_update y \<Longrightarrow> needs a = MapAction_Update"
      "classify a = To_delete z \<Longrightarrow> needs a = MapAction_Delete" for a x y z
    by (simp_all add: needs)
  have "(\<exists>k a. bt_get actions k = Some a \<and> P (needs a)) \<longleftrightarrow>
      (\<exists>k a x. bt_get actions k = Some a \<and> classify a = To_insert x) \<and> P MapAction_Insert \<or>
      (\<exists>k a y. bt_get actions k = Some a \<and> classify a = To_update y) \<and> P MapAction_Update \<or>
      (\<exists>k a z. bt_get actions k = Some a \<and> classify a = To_delete z) \<and> P MapAction_Delete" (is "?some \<longleftrightarrow> ?sorted") for P
  proof
    assume ?some
    then obtain k a where "bt_get actions k = Some a" "P (needs a)" by blast
    then show ?sorted by (cases "classify a") (auto simp: sorts)
  next
    assume ?sorted
    then show ?some by (elim disjE conjE exE) (metis sorts)+
  qed
  from this [of "\<lambda>x. \<not> MapFlavour_is_action_allowed s requester x"] show ?thesis
    by (simp add: batch_denied_def some)
qed

lemma mutation:
  assumes data: "bt_ok (mf_data s)" and acts: "bt_ok actions"
  shows "mutation_result verdict needs s actions requester (mutate s actions requester)"
proof -
  obtain i u d where sort: "fold sort_action actions (bt_new, bt_new, bt_new) = (i, u, d)"
    by (cases "fold sort_action actions (bt_new, bt_new, bt_new)")
  note denied = sort_denied [OF acts sort] and get = sort_get [OF bt_ok_distinct [OF acts] sort]
  have ok: "bt_ok i" "bt_ok u" "bt_ok d" using sort_ok [OF _ _ _ sort] by simp_all
  obtain d' es where loops: "fold step3 d (fold step2 u (fold step1 i (mf_data s, bt_new))) = (d', es)"
    by (cases "fold step3 d (fold step2 u (fold step1 i (mf_data s, bt_new)))")
  have run: "bt_ok d' \<and> bt_ok es \<and>
      bt_get d' k = new_entry (key_verdict verdict actions (mf_data s) k) (bt_get (mf_data s) k) \<and>
      bt_get es k = entry_error (key_verdict verdict actions (mf_data s) k) None" for k
    using phases [OF data bt_ok_new bt_ok_distinct [OF ok(1)] bt_ok_distinct [OF ok(2)]
        bt_ok_distinct [OF ok(3)] _ _ _ loops, of k] get [of k]
    by (cases "map_of actions k")
       (auto simp: bt_get_def bt_new_def key_verdict_def verdict Let_def split: Sorted.splits)
  show ?thesis
  proof (cases "batch_denied needs s actions requester")
    case True
    then show ?thesis
      unfolding mutate sort Let_def prod.case denied [symmetric] by (simp add: mutation_result_def)
  next
    case False
    then have "mutation_result verdict needs s actions requester
      (if \<not> bt_is_empty es then (s, Err (InvalidEntryActions es)) else (s\<lparr>mf_data := d'\<rparr>, Ok ()))"
      using run by (intro mutation_result_intro) simp_all
    then show ?thesis
      using False unfolding mutate sort Let_def prod.case denied [symmetric] loops by simp
  qed
qed

end

fun unseq_classify :: "UnseqEntryAction \<Rightarrow> (bytes, bytes, unit) Sorted" where
  "unseq_classify (UnseqEntryAction_Ins value) = To_insert value"
| "unseq_classify (UnseqEntryAction_Update value) = To_update value"
| "unseq_classify UnseqEntryAction_Del = To_delete ()"

fun seq_classify :: "SeqEntryAction \<Rightarrow> (SeqValue, SeqValue, u64) Sorted" where
  "seq_classify (SeqEntryAction_Ins value) = To_insert value"
| "seq_classify (SeqEntryAction_Update value) = To_update value"
| "seq_classify (SeqEntryAction_Del version) = To_delete version"

lemma unseq_sort_simps:
  "unseq_sort_action (k, UnseqEntryAction_Ins v) (i, u, d) = (bt_insert k v i, u, d)"
  "unseq_sort_action (k, UnseqEntryAction_Update v) (i, u, d) = (i, bt_insert k v u, d)"
  "unseq_sort_action (k, UnseqEntryAction_Del) (i, u, d) = (i, u, bt_insert k () d)"
  by (simp_all add: unseq_sort_action_def)

lemma seq_sort_simps:
  "seq_sort_action (k, SeqEntryAction_Ins v) (i, u, d) = (bt_insert k v i, u, d)"
  "seq_sort_action (k, SeqEntryAction_Update v) (i, u, d) = (i, bt_insert k v u, d)"
  "seq_sort_action (k, SeqEntryAction_Del version) (i, u, d) = (i, u, bt_insert k version d)"
  by (simp_all add: seq_sort_action_def)

interpretation unseq_bulk: bulk_mutation
  "insert_verdict (\<lambda>_. 0)" unseq_insert_body unseq_update_verdict unseq_update_body unseq_delete_verdict unseq_delete_body
  unseq_classify unseq_sort_action unseq_verdict unseq_needs UnseqData_mutate_entries
proof unfold_locales
  show "unseq_sort_action (k, a) (i, u, d) =
      (case unseq_classify a of
         To_insert x \<Rightarrow> (bt_insert k x i, u, d)
       | To_update y \<Rightarrow> (i, bt_insert k y u, d)
       | To_delete z \<Rightarrow> (i, u, bt_insert k z d))" for k a i u d
    by (cases a) (simp_all add: unseq_sort_simps)
  show "unseq_verdict a cur = (case unseq_classify a of
      To_insert x \<Rightarrow> insert_verdict (\<lambda>_. 0) x cur | To_update y \<Rightarrow> unseq_update_verdict y cur
    | To_delete z \<Rightarrow> unseq_delete_verdict z cur)" for a cur
    by (cases a) simp_all
  show "unseq_needs a = (case unseq_classify a of
      To_insert _ \<Rightarrow> MapAction_Insert | To_update _ \<Rightarrow> MapAction_Update | To_delete _ \<Rightarrow> MapAction_Delete)" for a
    by (cases a) simp_all
qed (unfold UnseqData_mutate_entries_def unseq_sort_actions_def, rule refl)

interpretation seq_bulk: bulk_mutation
  "insert_verdict (\<lambda>e. ucast (sv_version e))" seq_insert_body seq_update_verdict seq_update_body seq_delete_verdict seq_delete_body
  seq_classify seq_sort_action seq_verdict seq_needs SeqData_mutate_entries
proof unfold_locales
  show "seq_sort_action (k, a) (i, u, d) =
      (case seq_classify a of
         To_insert x \<Rightarrow> (bt_insert k x i, u, d)
       | To_update y \<Rightarrow> (i, bt_insert k y u, d)
       | To_delete z \<Rightarrow> (i, u, bt_insert k z d))" for k a i u d
    by (cases a) (simp_all add: seq_sort_simps)
  show "seq_verdict a cur = (case seq_classify a of
      To_insert x \<Rightarrow> insert_verdict (\<lambda>e. ucast (sv_version e)) x cur | To_update y \<Rightarrow> seq_update_verdict y cur
    | To_delete z \<Rightarrow> seq_delete_verdict z cur)" for a cur
    by (cases a) simp_all
  show "seq_needs a = (case seq_classify a of
      To_insert _ \<Rightarrow> MapAction_Insert | To_update _ \<Rightarrow> MapAction_Update | To_delete _ \<Rightarrow> MapAction_Delete)" for a
    by (cases a) simp_all
qed (unfold SeqData_mutate_entries_def seq_sort_actions_def, rule refl)

lemmas unseq_mutation = unseq_bulk.mutation
lemmas seq_mutation = seq_bulk.mutation

section \<open>Properties\<close>

text \<open>
  C2: A bulk mutation of a sequenced map is all or nothing, and each key meets the verdict of its own
  action on the entry it had before: a requester who is not the owner and lacks a needed permission
  is refused; otherwise any key whose verdict is an error makes the whole batch fail with exactly
  those errors and the data unchanged; otherwise every key takes its new entry. An update or a
  deletion is accepted only at the current version plus one, an insertion only on a vacant key.
\<close>

theorem seq_mutate_entries_spec:
  assumes "bt_ok (mf_data s)" "bt_ok actions"
  shows "mutation_result seq_verdict seq_needs s actions requester (SeqData_mutate_entries s actions requester)"
  using assms by (rule seq_mutation)

definition demo_seq :: SeqData where
  "demo_seq = SeqData_new_with_data 7 9
     (bt_insert [1] \<lparr>sv_data = [10], sv_version = 4\<rparr> (bt_insert [2] \<lparr>sv_data = [20], sv_version = 0\<rparr> bt_new))
     Map.empty (PublicKey_Ed25519 5)"

definition demo_seq_actions :: SeqEntryActions where
  "demo_seq_actions = SeqEntryActions_del (SeqEntryActions_update (SeqEntryActions_ins SeqEntryActions_new [3] [30] 8) [1] [11] 5) [2] 1"

theorem seq_mutate_entries_spec_witness:
  "mutation_result seq_verdict seq_needs demo_seq demo_seq_actions (PublicKey_Ed25519 5)
     (SeqData_mutate_entries demo_seq demo_seq_actions (PublicKey_Ed25519 5)) \<and>
   SeqData_mutate_entries demo_seq demo_seq_actions (PublicKey_Ed25519 5) =
     (demo_seq\<lparr>mf_data := [([1], \<lparr>sv_data = [11], sv_version = 5\<rparr>), ([3], \<lparr>sv_data = [30], sv_version = 8\<rparr>)]\<rparr>, Ok ())"
proof
  show "mutation_result seq_verdict seq_needs demo_seq demo_seq_actions (PublicKey_Ed25519 5)
     (SeqData_mutate_entries demo_seq demo_seq_actions (PublicKey_Ed25519 5))"
    by (rule seq_mutate_entries_spec)
       (simp_all add: demo_seq_def SeqData_new_with_data_def bt_ok_insert demo_seq_actions_def SeqEntryActions_del_def
          SeqEntryActions_update_def SeqEntryActions_ins_def SeqEntryActions_new_def)
  show "SeqData_mutate_entries demo_seq demo_seq_actions (PublicKey_Ed25519 5) =
     (demo_seq\<lparr>mf_data := [([1], \<lparr>sv_data = [11], sv_version = 5\<rparr>), ([3], \<lparr>sv_data = [30], sv_version = 8\<rparr>)]\<rparr>, Ok ())"
    by (simp add: demo_seq_def SeqData_new_with_data_def bt_new_def demo_seq_actions_def SeqEntryActions_del_def
          SeqEntryActions_update_def SeqEntryActions_ins_def SeqEntryActions_new_def SeqData_mutate_entries_def
          seq_sort_actions_def seq_sort_simps seq_insert_body_def seq_update_body_def seq_delete_body_def bt_get_Cons)
qed

text \<open>
  C3: The same contract for an unsequenced map, where an update or a deletion needs only an existing
  entry, an insertion only a vacant one, and the reported version of an existing entry is 0.
\<close>

theorem unseq_mutate_entries_spec:
  assumes "bt_ok (mf_data s)" "bt_ok actions"
  shows "mutation_result unseq_verdict unseq_needs s actions requester (UnseqData_mutate_entries s actions requester)"
  using assms by (rule unseq_mutation)

definition demo_unseq :: UnseqData where
  "demo_unseq = UnseqData_new_with_data 7 9 (bt_insert [1] [10] (bt_insert [2] [20] bt_new))
     Map.empty (PublicKey_Ed25519 5)"

definition demo_unseq_actions :: UnseqEntryActions where
  "demo_unseq_actions = UnseqEntryActions_del (UnseqEntryActions_update (UnseqEntryActions_ins UnseqEntryActions_new [1] [30]) [2] [11]) [4]"

theorem unseq_mutate_entries_spec_witness:
  "mutation_result unseq_verdict unseq_needs demo_unseq demo_unseq_actions (PublicKey_Ed25519 5)
     (UnseqData_mutate_entries demo_unseq demo_unseq_actions (PublicKey_Ed25519 5)) \<and>
   UnseqData_mutate_entries demo_unseq demo_unseq_actions (PublicKey_Ed25519 5) =
     (demo_unseq, Err (InvalidEntryActions [([1], EntryError_EntryExists 0), ([4], EntryError_NoSuchEntry)]))"
proof
  show "mutation_result unseq_verdict unseq_needs demo_unseq demo_unseq_actions (PublicKey_Ed25519 5)
     (UnseqData_mutate_entries demo_unseq demo_unseq_actions (PublicKey_Ed25519 5))"
    by (rule unseq_mutate_entries_spec)
       (simp_all add: demo_unseq_def UnseqData_new_with_data_def bt_ok_insert demo_unseq_actions_def UnseqEntryActions_del_def
          UnseqEntryActions_update_def UnseqEntryActions_ins_def UnseqEntryActions_new_def)
  show "UnseqData_mutate_entries demo_unseq demo_unseq_actions (PublicKey_Ed25519 5) =
     (demo_unseq, Err (InvalidEntryActions [([1], EntryError_EntryExists 0), ([4], EntryError_NoSuchEntry)]))"
    by (simp add: demo_unseq_def UnseqData_new_with_data_def bt_new_def demo_unseq_actions_def UnseqEntryActions_del_def
          UnseqEntryActions_update_def UnseqEntryActions_ins_def UnseqEntryActions_new_def UnseqData_mutate_entries_def
          unseq_sort_actions_def unseq_sort_simps unseq_insert_body_def unseq_update_body_def unseq_delete_body_def bt_get_Cons)
qed

end
