(* ===== verification/MapData.thy ===== *)
theory MapData
  imports MapMutate
begin

text \<open>
  The enum \<open>Data\<close> of src/src/map.rs (the crate's \<open>Map\<close>): every operation goes to the flavour inside.
  The lemmas show that dispatch never mixes the flavours up: the address kind keeps telling which
  flavour a map is, and the entries stay ordered, under every operation.
\<close>

datatype Map =
    Map_Seq SeqData
  | Map_Unseq UnseqData

section \<open>Accessors\<close>

fun Map_address :: "Map \<Rightarrow> MapAddress" where
  "Map_address (Map_Seq data) = mf_address data"
| "Map_address (Map_Unseq data) = mf_address data"

definition Map_kind :: "Map \<Rightarrow> MapKind" where
  "Map_kind self = MapAddress_kind (Map_address self)"

definition Map_name :: "Map \<Rightarrow> XorName" where
  "Map_name self = MapAddress_name (Map_address self)"

definition Map_tag :: "Map \<Rightarrow> u64" where
  "Map_tag self = MapAddress_tag (Map_address self)"

definition Map_is_seq :: "Map \<Rightarrow> bool" where
  "Map_is_seq self = MapKind_is_seq (Map_kind self)"

definition Map_is_unseq :: "Map \<Rightarrow> bool" where
  "Map_is_unseq self = MapKind_is_unseq (Map_kind self)"

fun Map_version :: "Map \<Rightarrow> u64" where
  "Map_version (Map_Seq data) = mf_version data"
| "Map_version (Map_Unseq data) = mf_version data"

fun Map_keys :: "Map \<Rightarrow> bytes BTreeSet" where
  "Map_keys (Map_Seq data) = MapFlavour_keys data"
| "Map_keys (Map_Unseq data) = MapFlavour_keys data"

fun Map_shell :: "Map \<Rightarrow> Map" where
  "Map_shell (Map_Seq data) = Map_Seq (MapFlavour_shell data)"
| "Map_shell (Map_Unseq data) = Map_Unseq (MapFlavour_shell data)"

fun Map_permissions :: "Map \<Rightarrow> (PublicKey \<rightharpoonup> PermissionSet)" where
  "Map_permissions (Map_Seq data) = mf_permissions data"
| "Map_permissions (Map_Unseq data) = mf_permissions data"

fun Map_user_permissions :: "Map \<Rightarrow> PublicKey \<Rightarrow> PermissionSet Result" where
  "Map_user_permissions (Map_Seq data) user = MapFlavour_user_permissions data user"
| "Map_user_permissions (Map_Unseq data) user = MapFlavour_user_permissions data user"

fun Map_check_permissions :: "Map \<Rightarrow> MapAction \<Rightarrow> PublicKey \<Rightarrow> unit Result" where
  "Map_check_permissions (Map_Seq data) action requester = MapFlavour_check_permissions data action requester"
| "Map_check_permissions (Map_Unseq data) action requester = MapFlavour_check_permissions data action requester"

fun Map_check_is_owner :: "Map \<Rightarrow> PublicKey \<Rightarrow> unit Result" where
  "Map_check_is_owner (Map_Seq data) requester = MapFlavour_check_is_owner data requester"
| "Map_check_is_owner (Map_Unseq data) requester = MapFlavour_check_is_owner data requester"

fun Map_owner :: "Map \<Rightarrow> PublicKey" where
  "Map_owner (Map_Seq data) = mf_owner data"
| "Map_owner (Map_Unseq data) = mf_owner data"

section \<open>Operations that change the map\<close>

fun Map_set_user_permissions :: "Map \<Rightarrow> PublicKey \<Rightarrow> PermissionSet \<Rightarrow> u64 \<Rightarrow> Map \<times> unit Result" where
  "Map_set_user_permissions (Map_Seq data) user permissions version =
     apfst Map_Seq (MapFlavour_set_user_permissions data user permissions version)"
| "Map_set_user_permissions (Map_Unseq data) user permissions version =
     apfst Map_Unseq (MapFlavour_set_user_permissions data user permissions version)"

fun Map_del_user_permissions :: "Map \<Rightarrow> PublicKey \<Rightarrow> u64 \<Rightarrow> Map \<times> unit Result" where
  "Map_del_user_permissions (Map_Seq data) user version =
     apfst Map_Seq (MapFlavour_del_user_permissions data user version)"
| "Map_del_user_permissions (Map_Unseq data) user version =
     apfst Map_Unseq (MapFlavour_del_user_permissions data user version)"

fun Map_mutate_entries :: "Map \<Rightarrow> EntryActions \<Rightarrow> PublicKey \<Rightarrow> Map \<times> unit Result" where
  "Map_mutate_entries (Map_Seq data) (EntryActions_Seq actions) requester =
     apfst Map_Seq (SeqData_mutate_entries data actions requester)"
| "Map_mutate_entries (Map_Unseq data) (EntryActions_Unseq actions) requester =
     apfst Map_Unseq (UnseqData_mutate_entries data actions requester)"
| "Map_mutate_entries self actions requester = (self, Err InvalidOperation)"

section \<open>Well-formed maps\<close>

definition flavour_wf :: "MapKind \<Rightarrow> 'v MapFlavour \<Rightarrow> bool" where
  "flavour_wf kind s \<longleftrightarrow> MapFlavour_kind s = kind \<and> bt_ok (mf_data s)"

fun Map_wf :: "Map \<Rightarrow> bool" where
  "Map_wf (Map_Seq data) \<longleftrightarrow> flavour_wf MapKind_Seq data"
| "Map_wf (Map_Unseq data) \<longleftrightarrow> flavour_wf MapKind_Unseq data"

fun actions_wf :: "EntryActions \<Rightarrow> bool" where
  "actions_wf (EntryActions_Seq actions) \<longleftrightarrow> bt_ok actions"
| "actions_wf (EntryActions_Unseq actions) \<longleftrightarrow> bt_ok actions"

datatype MapOp =
    Op_set_user_permissions PublicKey PermissionSet u64
  | Op_del_user_permissions PublicKey u64
  | Op_mutate_entries EntryActions PublicKey

fun map_step :: "MapOp \<Rightarrow> Map \<Rightarrow> Map \<times> unit Result" where
  "map_step (Op_set_user_permissions user perms version) m = Map_set_user_permissions m user perms version"
| "map_step (Op_del_user_permissions user version) m = Map_del_user_permissions m user version"
| "map_step (Op_mutate_entries actions requester) m = Map_mutate_entries m actions requester"

fun op_wf :: "MapOp \<Rightarrow> bool" where
  "op_wf (Op_mutate_entries actions _) \<longleftrightarrow> actions_wf actions"
| "op_wf _ \<longleftrightarrow> True"

lemma mutation_result_keeps:
  assumes "mutation_result verdict needs s actions requester out" "bt_ok (mf_data s)"
  shows "bt_ok (mf_data (fst out))" "mf_address (fst out) = mf_address s" "mf_owner (fst out) = mf_owner s"
    "fst out \<noteq> s \<Longrightarrow> is_ok (snd out)" "snd out \<noteq> Err InvalidOperation"
  using assms by (auto simp: mutation_result_def split: if_splits)

lemmas seq_mutation_keeps = mutation_result_keeps [OF seq_mutation]
lemmas unseq_mutation_keeps = mutation_result_keeps [OF unseq_mutation]

lemma shell_ops_keep:
  "mf_data (fst (MapFlavour_set_user_permissions s user perms version)) = mf_data s"
  "mf_address (fst (MapFlavour_set_user_permissions s user perms version)) = mf_address s"
  "mf_owner (fst (MapFlavour_set_user_permissions s user perms version)) = mf_owner s"
  "mf_data (fst (MapFlavour_del_user_permissions s user version)) = mf_data s"
  "mf_address (fst (MapFlavour_del_user_permissions s user version)) = mf_address s"
  "mf_owner (fst (MapFlavour_del_user_permissions s user version)) = mf_owner s"
  by (simp_all add: MapFlavour_set_user_permissions_def MapFlavour_del_user_permissions_def)

lemma shell_ops_err:
  "fst (MapFlavour_set_user_permissions s user perms version) \<noteq> s \<Longrightarrow>
     is_ok (snd (MapFlavour_set_user_permissions s user perms version))"
  "fst (MapFlavour_del_user_permissions s user version) \<noteq> s \<Longrightarrow>
     is_ok (snd (MapFlavour_del_user_permissions s user version))"
  by (auto simp: MapFlavour_set_user_permissions_def MapFlavour_del_user_permissions_def split: if_splits)

lemma map_step_keeps:
  assumes "Map_wf m" "op_wf op"
  shows "Map_wf (fst (map_step op m)) \<and> Map_address (fst (map_step op m)) = Map_address m \<and>
    Map_owner (fst (map_step op m)) = Map_owner m \<and>
    (is_ok (snd (map_step op m)) \<or> fst (map_step op m) = m)"
proof (cases op)
  case (Op_mutate_entries actions requester)
  then show ?thesis using assms
    by (cases m; cases actions)
       (auto simp: flavour_wf_def MapFlavour_kind_def seq_mutation_keeps unseq_mutation_keeps)
qed (use assms in \<open>cases m; auto simp: flavour_wf_def MapFlavour_kind_def shell_ops_keep shell_ops_err\<close>)+

lemma map_steps_keep:
  assumes "Map_wf m" "list_all op_wf ops"
  shows "Map_wf (fold (\<lambda>op m. fst (map_step op m)) ops m) \<and>
    Map_address (fold (\<lambda>op m. fst (map_step op m)) ops m) = Map_address m \<and>
    Map_owner (fold (\<lambda>op m. fst (map_step op m)) ops m) = Map_owner m"
  using assms by (induction ops arbitrary: m) (simp_all add: map_step_keeps)

lemma Map_new_wf:
  "Map_wf (Map_Seq (SeqData_new name tag owner))"
  "Map_wf (Map_Unseq (UnseqData_new name tag owner))"
  by (simp_all add: flavour_wf_def MapFlavour_kind_def SeqData_new_def UnseqData_new_def)

text \<open>
  From a new map of either flavour, any sequence of permission changes and bulk mutations keeps
  the entries in key order, the address and with it the kind (so the flavour and the kind of the
  address always agree), and the owner; the only operation that changes the owner is \<open>change_owner\<close>.
\<close>

lemma map_reachable_wf:
  assumes "list_all op_wf ops"
  shows "Map_wf (fold (\<lambda>op m. fst (map_step op m)) ops (Map_Seq (SeqData_new name tag owner))) \<and>
    Map_wf (fold (\<lambda>op m. fst (map_step op m)) ops (Map_Unseq (UnseqData_new name tag owner))) \<and>
    Map_kind (fold (\<lambda>op m. fst (map_step op m)) ops (Map_Seq (SeqData_new name tag owner))) = MapKind_Seq \<and>
    Map_kind (fold (\<lambda>op m. fst (map_step op m)) ops (Map_Unseq (UnseqData_new name tag owner))) = MapKind_Unseq \<and>
    Map_owner (fold (\<lambda>op m. fst (map_step op m)) ops (Map_Seq (SeqData_new name tag owner))) = owner"
  using map_steps_keep [OF Map_new_wf(1) assms, of name tag owner] map_steps_keep [OF Map_new_wf(2) assms, of name tag owner]
  by (simp add: Map_kind_def SeqData_new_def UnseqData_new_def)

text \<open>
  Entry actions of the wrong kind are refused with \<open>InvalidOperation\<close> and change nothing, and
  this error means nothing else: on a well-formed map it is returned exactly when the kind of the
  actions differs from the kind of the map. Any other failure leaves the map as it was, too.
\<close>

lemma map_mutate_kind_mismatch:
  assumes "Map_wf m" "actions_wf actions"
  shows "(snd (Map_mutate_entries m actions requester) = Err InvalidOperation \<longleftrightarrow> EntryActions_kind actions \<noteq> Map_kind m) \<and>
    (is_ok (snd (Map_mutate_entries m actions requester)) \<or> fst (Map_mutate_entries m actions requester) = m)"
  using assms map_step_keeps [of m "Op_mutate_entries actions requester"]
  by (cases m; cases actions)
     (auto simp: Map_kind_def flavour_wf_def MapFlavour_kind_def seq_mutation_keeps unseq_mutation_keeps)

end
