(* ===== verification/MapHistory.thy ===== *)
theory MapHistory
  imports MapData
begin

text \<open>
  What optimistic concurrency gives the users of a sequenced map (src/src/map.rs): the life of one
  entry under any interleaving of bulk mutations and permission changes by any requesters.
\<close>

section \<open>Updates of one entry\<close>

text \<open>The values that accepted updates write to a key in a run of operations.\<close>

definition update_of :: "bytes \<Rightarrow> MapOp \<Rightarrow> SeqValue option" where
  "update_of k op =
     (case op of
        Op_mutate_entries (EntryActions_Seq actions) _ \<Rightarrow>
          (case bt_get actions k of Some (SeqEntryAction_Update v) \<Rightarrow> Some v | _ \<Rightarrow> None)
      | _ \<Rightarrow> None)"

fun accepted_updates :: "bytes \<Rightarrow> MapOp list \<Rightarrow> Map \<Rightarrow> SeqValue list" where
  "accepted_updates k [] m = []"
| "accepted_updates k (op # ops) m =
     (let (m', r) = map_step op m in
      case (is_ok r, update_of k op) of
        (True, Some v) \<Rightarrow> v # accepted_updates k ops m'
      | _ \<Rightarrow> accepted_updates k ops m')"

definition deletes :: "bytes \<Rightarrow> MapOp \<Rightarrow> bool" where
  "deletes k op \<longleftrightarrow>
     (case op of
        Op_mutate_entries (EntryActions_Seq actions) _ \<Rightarrow> (\<exists>version. bt_get actions k = Some (SeqEntryAction_Del version))
      | _ \<Rightarrow> False)"

definition entry_at :: "Map \<Rightarrow> bytes \<Rightarrow> SeqValue option" where
  "entry_at m k = (case m of Map_Seq s \<Rightarrow> bt_get (mf_data s) k | Map_Unseq _ \<Rightarrow> None)"

lemma seq_step_entry:
  assumes "bt_ok (mf_data s)" "bt_ok actions" "bt_get (mf_data s) k = Some e"
    and "\<forall>version. bt_get actions k \<noteq> Some (SeqEntryAction_Del version)"
    and "SeqData_mutate_entries s actions requester = (s', r)"
  shows "case (is_ok r, bt_get actions k) of
      (True, Some (SeqEntryAction_Update v)) \<Rightarrow> sv_version v = sv_version e + 1 \<and> bt_get (mf_data s') k = Some v
    | _ \<Rightarrow> bt_get (mf_data s') k = Some e"
proof -
  have "is_ok r \<Longrightarrow> (\<forall>e'. key_verdict seq_verdict actions (mf_data s) k \<noteq> Some (Inl e')) \<and>
      bt_get (mf_data s') k = new_entry (key_verdict seq_verdict actions (mf_data s) k) (bt_get (mf_data s) k)"
    "\<not> is_ok r \<Longrightarrow> s' = s"
    using seq_mutation [OF assms(1,2), of requester] unfolding assms(5)
    by (auto simp: mutation_result_def split: if_splits)
  then show ?thesis
    using assms(3,4)
    by (cases "is_ok r"; cases "bt_get actions k")
       (auto simp: key_verdict_def split: if_splits SeqEntryAction.splits)
qed

lemma map_step_entry:
  assumes "Map_wf m" "op_wf op" "entry_at m k = Some e" "\<not> deletes k op"
  shows "case (is_ok (snd (map_step op m)), update_of k op) of
      (True, Some v) \<Rightarrow> sv_version v = sv_version e + 1 \<and> entry_at (fst (map_step op m)) k = Some v
    | _ \<Rightarrow> entry_at (fst (map_step op m)) k = Some e"
proof -
  obtain s where m: "m = Map_Seq s" using assms(3) by (cases m) (simp_all add: entry_at_def)
  show ?thesis
  proof (cases op)
    case (Op_mutate_entries actions requester)
    show ?thesis
    proof (cases actions)
      case (EntryActions_Seq acts)
      obtain s' r where run: "SeqData_mutate_entries s acts requester = (s', r)"
        by (cases "SeqData_mutate_entries s acts requester")
      show ?thesis
        using seq_step_entry [OF _ _ _ _ run, of k e] assms
        by (simp add: m Op_mutate_entries EntryActions_Seq run flavour_wf_def entry_at_def deletes_def update_of_def
            split: bool.splits option.splits SeqEntryAction.splits)
    next
      case (EntryActions_Unseq acts)
      then show ?thesis using assms(3) by (simp add: m Op_mutate_entries entry_at_def update_of_def split: bool.split)
    qed
  qed (use assms(3) in \<open>simp_all add: m entry_at_def update_of_def shell_ops_keep split: bool.split\<close>)
qed

lemma updates_history:
  assumes "Map_wf m" "list_all op_wf ops" "list_all (\<lambda>op. \<not> deletes k op) ops" "entry_at m k = Some e"
  shows "map sv_version (accepted_updates k ops m) =
      map (\<lambda>i. sv_version e + 1 + word_of_nat i) [0..<length (accepted_updates k ops m)] \<and>
    entry_at (fold (\<lambda>op m. fst (map_step op m)) ops m) k = Some (last (e # accepted_updates k ops m))"
  using assms
proof (induction ops arbitrary: m e)
  case (Cons op ops)
  obtain m' r where st: "map_step op m = (m', r)" by (cases "map_step op m")
  have step: "case (is_ok r, update_of k op) of
      (True, Some v) \<Rightarrow> sv_version v = sv_version e + 1 \<and> entry_at m' k = Some v | _ \<Rightarrow> entry_at m' k = Some e"
    using map_step_entry [OF Cons.prems(1) _ Cons.prems(4), of op, unfolded st fst_conv snd_conv] Cons.prems(2,3) by simp
  have wf: "Map_wf m'" using map_step_keeps [OF Cons.prems(1), of op] Cons.prems(2) by (simp add: st)
  have IH: "entry_at m' k = Some e' \<Longrightarrow> map sv_version (accepted_updates k ops m') =
        map (\<lambda>i. sv_version e' + 1 + word_of_nat i) [0..<length (accepted_updates k ops m')] \<and>
      entry_at (fold (\<lambda>op m. fst (map_step op m)) ops m') k = Some (last (e' # accepted_updates k ops m'))" for e'
    using Cons.IH [OF wf] Cons.prems(2,3) by simp
  show ?case
  proof (cases "is_ok r \<and> update_of k op \<noteq> None")
    case True
    then obtain v where v: "is_ok r" "update_of k op = Some v" by auto
    have e': "sv_version v = sv_version e + 1" "entry_at m' k = Some v" using step by (simp_all add: v)
    have "map (\<lambda>i. sv_version e + 1 + word_of_nat i) [0..<Suc n] =
        sv_version v # map (\<lambda>i. sv_version v + 1 + word_of_nat i) [0..<n]" for n
      by (simp add: e'(1) upt_conv_Cons map_Suc_upt [symmetric] comp_def algebra_simps del: upt_Suc)
    then show ?thesis using IH [OF e'(2)] by (simp add: st v del: upt_Suc)
  next
    case False
    then have "entry_at m' k = Some e" "accepted_updates k (op # ops) m = accepted_updates k ops m'"
      using step by (auto simp: st split: bool.splits option.splits)
    then show ?thesis using IH by (simp add: st)
  qed
qed simp

section \<open>The life of one entry\<close>

text \<open>The actions on a key in the accepted batches of a run, and what a sequence of actions does to an entry.\<close>

definition action_on :: "bytes \<Rightarrow> MapOp \<Rightarrow> SeqEntryAction option" where
  "action_on k op =
     (case op of Op_mutate_entries (EntryActions_Seq actions) _ \<Rightarrow> bt_get actions k | _ \<Rightarrow> None)"

fun accepted_actions :: "bytes \<Rightarrow> MapOp list \<Rightarrow> Map \<Rightarrow> SeqEntryAction list" where
  "accepted_actions k [] m = []"
| "accepted_actions k (op # ops) m =
     (let (m', r) = map_step op m in
      case (is_ok r, action_on k op) of
        (True, Some a) \<Rightarrow> a # accepted_actions k ops m'
      | _ \<Rightarrow> accepted_actions k ops m')"

fun entry_path :: "SeqValue option \<Rightarrow> SeqEntryAction list \<Rightarrow> SeqValue option \<Rightarrow> bool" where
  "entry_path cur [] fin \<longleftrightarrow> cur = fin"
| "entry_path None (SeqEntryAction_Ins v # acts) fin \<longleftrightarrow> entry_path (Some v) acts fin"
| "entry_path (Some e) (SeqEntryAction_Update v # acts) fin \<longleftrightarrow> sv_version v = sv_version e + 1 \<and> entry_path (Some v) acts fin"
| "entry_path (Some e) (SeqEntryAction_Del n # acts) fin \<longleftrightarrow> n = sv_version e + 1 \<and> entry_path None acts fin"
| "entry_path _ _ _ \<longleftrightarrow> False"

lemma verdict_path: "seq_verdict a cur = Inr nxt \<Longrightarrow> entry_path nxt acts fin \<Longrightarrow> entry_path cur (a # acts) fin"
  by (cases a; cases cur) (auto split: if_splits)

lemma map_step_action:
  assumes "Map_wf m" "op_wf op"
  shows "case (is_ok (snd (map_step op m)), action_on k op) of
      (True, Some a) \<Rightarrow> seq_verdict a (entry_at m k) = Inr (entry_at (fst (map_step op m)) k)
    | _ \<Rightarrow> entry_at (fst (map_step op m)) k = entry_at m k"
proof (cases op)
  case (Op_mutate_entries actions requester)
  consider (seq) s acts where "m = Map_Seq s" "actions = EntryActions_Seq acts"
    | (unseq) s acts where "m = Map_Unseq s" "actions = EntryActions_Unseq acts"
    | (mixed) "map_step op m = (m, Err InvalidOperation)"
    by (cases m; cases actions) (simp_all add: Op_mutate_entries)
  then show ?thesis
  proof cases
    case seq
    obtain s' r where run: "SeqData_mutate_entries s acts requester = (s', r)"
      by (cases "SeqData_mutate_entries s acts requester")
    have ok: "bt_ok (mf_data s)" "bt_ok acts" using assms by (simp_all add: seq Op_mutate_entries flavour_wf_def)
    have "is_ok r \<Longrightarrow> (\<forall>e'. key_verdict seq_verdict acts (mf_data s) k \<noteq> Some (Inl e')) \<and>
        bt_get (mf_data s') k = new_entry (key_verdict seq_verdict acts (mf_data s) k) (bt_get (mf_data s) k)"
      "\<not> is_ok r \<Longrightarrow> s' = s"
      using seq_mutation [OF ok, of requester] unfolding run by (auto simp: mutation_result_def split: if_splits)
    then show ?thesis
      by (cases "is_ok r"; cases "bt_get acts k"; cases "key_verdict seq_verdict acts (mf_data s) k")
         (auto simp: Op_mutate_entries seq run action_on_def entry_at_def key_verdict_def new_entry_def split: sum.splits)
  next
    case unseq
    then show ?thesis by (simp add: Op_mutate_entries action_on_def entry_at_def split: bool.split)
  next
    case mixed
    then show ?thesis by (simp split: option.split)
  qed
qed (cases m; simp add: entry_at_def action_on_def shell_ops_keep split: bool.split)+

lemma entry_life:
  assumes "Map_wf m" "list_all op_wf ops"
  shows "entry_path (entry_at m k) (accepted_actions k ops m) (entry_at (fold (\<lambda>op m. fst (map_step op m)) ops m) k)"
  using assms
proof (induction ops arbitrary: m)
  case (Cons op ops)
  obtain m' r where st: "map_step op m = (m', r)" by (cases "map_step op m")
  have IH: "entry_path (entry_at m' k) (accepted_actions k ops m') (entry_at (fold (\<lambda>op m. fst (map_step op m)) ops m') k)"
    using Cons.IH map_step_keeps [OF Cons.prems(1), of op] Cons.prems(2) by (simp add: st)
  have "case (is_ok r, action_on k op) of
      (True, Some a) \<Rightarrow> seq_verdict a (entry_at m k) = Inr (entry_at m' k) | _ \<Rightarrow> entry_at m' k = entry_at m k"
    using map_step_action [OF Cons.prems(1), of op k, unfolded st fst_conv snd_conv] Cons.prems(2) by simp
  then show ?case
    using IH verdict_path by (cases "is_ok r"; cases "action_on k op") (simp_all add: st)
qed simp

text \<open>
  C4: The life of one entry of a sequenced map, under any interleaving of bulk mutations and permission
  changes by any requesters. The accepted actions on the key are a legal life: an insertion only while the
  key is vacant, an update or a deletion only at the current version plus one. No update is lost: while
  nobody deletes a present key, the accepted updates carry the consecutive versions after the starting
  one, each exactly once, so of two requesters that race for a version only one wins, and the entry is
  the value of the last accepted update.
\<close>

theorem map_entry_history:
  assumes "Map_wf m" "list_all op_wf ops"
  shows "entry_path (entry_at m k) (accepted_actions k ops m) (entry_at (fold (\<lambda>op m. fst (map_step op m)) ops m) k) \<and>
    (list_all (\<lambda>op. \<not> deletes k op) ops \<and> entry_at m k = Some e \<longrightarrow>
      map sv_version (accepted_updates k ops m) =
        map (\<lambda>i. sv_version e + 1 + word_of_nat i) [0..<length (accepted_updates k ops m)] \<and>
      entry_at (fold (\<lambda>op m. fst (map_step op m)) ops m) k = Some (last (e # accepted_updates k ops m)))"
  using entry_life [OF assms] updates_history [OF assms] by blast

definition demo_race :: "MapOp list" where
  "demo_race =
     [Op_mutate_entries (EntryActions_Seq (SeqEntryActions_update SeqEntryActions_new [1] [11] 5)) (PublicKey_Ed25519 5),
      Op_mutate_entries (EntryActions_Seq (SeqEntryActions_update SeqEntryActions_new [1] [12] 5)) (PublicKey_Ed25519 5),
      Op_mutate_entries (EntryActions_Seq (SeqEntryActions_update SeqEntryActions_new [1] [13] 6)) (PublicKey_Ed25519 5)]"

text \<open>
  A version counts only within one life of a key: after a deletion and an insertion that carries the
  old version again, an update that was accepted before is accepted once more.
\<close>

definition demo_replay :: "MapOp list" where
  "demo_replay =
     [Op_mutate_entries (EntryActions_Seq (SeqEntryActions_update SeqEntryActions_new [1] [11] 5)) (PublicKey_Ed25519 5),
      Op_mutate_entries (EntryActions_Seq (SeqEntryActions_del SeqEntryActions_new [1] 6)) (PublicKey_Ed25519 5),
      Op_mutate_entries (EntryActions_Seq (SeqEntryActions_ins SeqEntryActions_new [1] [99] 4)) (PublicKey_Ed25519 5),
      Op_mutate_entries (EntryActions_Seq (SeqEntryActions_update SeqEntryActions_new [1] [11] 5)) (PublicKey_Ed25519 5)]"

theorem map_entry_history_witness:
  "entry_path (Some \<lparr>sv_data = [10], sv_version = 4\<rparr>)
     [SeqEntryAction_Update \<lparr>sv_data = [11], sv_version = 5\<rparr>, SeqEntryAction_Del 6,
      SeqEntryAction_Ins \<lparr>sv_data = [99], sv_version = 4\<rparr>, SeqEntryAction_Update \<lparr>sv_data = [11], sv_version = 5\<rparr>]
     (entry_at (fold (\<lambda>op m. fst (map_step op m)) demo_replay (Map_Seq demo_seq)) [1]) \<and>
   accepted_updates [1] demo_race (Map_Seq demo_seq) = [\<lparr>sv_data = [11], sv_version = 5\<rparr>, \<lparr>sv_data = [13], sv_version = 6\<rparr>] \<and>
   entry_at (fold (\<lambda>op m. fst (map_step op m)) demo_race (Map_Seq demo_seq)) [1] = Some \<lparr>sv_data = [13], sv_version = 6\<rparr>"
proof -
  note run = demo_seq_def SeqData_new_with_data_def bt_new_def SeqEntryActions_update_def SeqEntryActions_del_def
    SeqEntryActions_ins_def SeqEntryActions_new_def SeqData_mutate_entries_def seq_sort_actions_def seq_sort_simps
    seq_insert_body_def seq_update_body_def seq_delete_body_def bt_get_Cons
  have acc: "accepted_updates [1] demo_race (Map_Seq demo_seq) =
      [\<lparr>sv_data = [11], sv_version = 5\<rparr>, \<lparr>sv_data = [13], sv_version = 6\<rparr>]"
    by (simp add: demo_race_def run update_of_def)
  have life: "accepted_actions [1] demo_replay (Map_Seq demo_seq) =
     [SeqEntryAction_Update \<lparr>sv_data = [11], sv_version = 5\<rparr>, SeqEntryAction_Del 6,
      SeqEntryAction_Ins \<lparr>sv_data = [99], sv_version = 4\<rparr>, SeqEntryAction_Update \<lparr>sv_data = [11], sv_version = 5\<rparr>]"
    by (simp add: demo_replay_def run action_on_def)
  have wf: "Map_wf (Map_Seq demo_seq)"
    by (simp add: flavour_wf_def MapFlavour_kind_def demo_seq_def SeqData_new_with_data_def bt_ok_insert)
  have start: "entry_at (Map_Seq demo_seq) [1] = Some \<lparr>sv_data = [10], sv_version = 4\<rparr>"
    by (simp add: entry_at_def demo_seq_def SeqData_new_with_data_def bt_get_insert)
  have ops: "list_all op_wf demo_race" "list_all (\<lambda>op. \<not> deletes [1] op) demo_race" "list_all op_wf demo_replay"
    by (simp_all add: demo_race_def demo_replay_def deletes_def SeqEntryActions_update_def SeqEntryActions_del_def
        SeqEntryActions_ins_def SeqEntryActions_new_def bt_ok_insert bt_get_insert)
  show ?thesis
    using map_entry_history [OF wf ops(1), of "[1]"] map_entry_history [OF wf ops(3), of "[1]"] acc
    by (simp add: start ops(2) life del: entry_path.simps)
qed

end
