(* ===== verification/Simulation.thy ===== *)
theory Simulation
  imports Prelude
begin

text \<open>
  Refinement of one deterministic object by another: every operation of the concrete object, from a
  state that satisfies the invariant, has the result and the effect of the abstract operation on the
  abstract view. The lemmas carry this from single operations to runs.
\<close>

fun run :: "('o \<Rightarrow> 's \<Rightarrow> 's \<times> 'r) \<Rightarrow> 'o list \<Rightarrow> 's \<Rightarrow> 's \<times> 'r list" where
  "run step [] s = (s, [])"
| "run step (op # ops) s =
     (let (s', r) = step op s; (s'', rs) = run step ops s' in (s'', r # rs))"

lemma fst_run: "fst (run step ops s) = fold (\<lambda>op s. fst (step op s)) ops s"
  by (induction ops arbitrary: s) (simp_all add: split_beta Let_def)

lemma run_append:
  "run step (ops @ ops') s = (fst (run step ops' (fst (run step ops s))), snd (run step ops s) @ snd (run step ops' (fst (run step ops s))))"
  by (induction ops arbitrary: s) (simp_all add: split_beta Let_def)

locale simulation =
  fixes step :: "'o \<Rightarrow> 's \<Rightarrow> 's \<times> 'r"
    and astep :: "'o \<Rightarrow> 'a \<Rightarrow> 'a \<times> 'q"
    and view :: "'s \<Rightarrow> 'a"
    and result :: "'r \<Rightarrow> 'q"
    and inv :: "'s \<Rightarrow> bool"
    and legal :: "'o \<Rightarrow> bool"
  assumes keeps: "inv s \<Longrightarrow> legal op \<Longrightarrow> inv (fst (step op s))"
    and effect: "inv s \<Longrightarrow> legal op \<Longrightarrow> view (fst (step op s)) = fst (astep op (view s))"
    and answer: "inv s \<Longrightarrow> legal op \<Longrightarrow> result (snd (step op s)) = snd (astep op (view s))"
begin

lemma refines:
  assumes "inv s" "list_all legal ops"
  shows "inv (fst (run step ops s)) \<and>
    view (fst (run step ops s)) = fst (run astep ops (view s)) \<and>
    map result (snd (run step ops s)) = snd (run astep ops (view s))"
  using assms
proof (induction ops arbitrary: s)
  case (Cons op ops)
  then show ?case
    using Cons.IH [OF keeps [OF Cons.prems(1)], of op] effect [OF Cons.prems(1), of op] answer [OF Cons.prems(1), of op]
    by (simp add: split_beta Let_def)
qed simp

end

end
