(* ===== verification/MapRefine.thy ===== *)
theory MapRefine
  imports MapData Simulation
begin

text \<open>
  The map component (src/src/map.rs) against an abstract object: entries and permissions are partial
  functions, a bulk mutation is judged key by key in one step, and an error of a bulk mutation is the
  partial function of the failed keys. Every operation of the enum refines the abstract one, and the
  abstract view determines the map, so the two are interchangeable for their users.
\<close>

section \<open>The abstract object\<close>

record 'v AbsMap =
  am_address :: MapAddress
  am_entries :: "bytes \<rightharpoonup> 'v"
  am_permissions :: "PublicKey \<rightharpoonup> MapAction set"
  am_version :: u64
  am_owner :: PublicKey

datatype AbsResult =
    R_Ok
  | R_Stale u64
  | R_NoSuchKey
  | R_Denied
  | R_WrongKind
  | R_Entries "bytes \<rightharpoonup> EntryError"
  | R_Other Error

definition abs_allowed :: "'v AbsMap \<Rightarrow> PublicKey \<Rightarrow> MapAction \<Rightarrow> bool" where
  "abs_allowed m user action \<longleftrightarrow> am_owner m = user \<or> (\<exists>p. am_permissions m user = Some p \<and> action \<in> p)"

definition abs_errors :: "('a \<Rightarrow> 'v option \<Rightarrow> EntryError + 'v option) \<Rightarrow> (bytes \<rightharpoonup> 'a) \<Rightarrow> (bytes \<rightharpoonup> 'v) \<Rightarrow> (bytes \<rightharpoonup> EntryError)" where
  "abs_errors verdict actions entries k =
     (case actions k of
        Some a \<Rightarrow> (case verdict a (entries k) of Inl e \<Rightarrow> Some e | Inr _ \<Rightarrow> None)
      | None \<Rightarrow> None)"

definition abs_entries :: "('a \<Rightarrow> 'v option \<Rightarrow> EntryError + 'v option) \<Rightarrow> (bytes \<rightharpoonup> 'a) \<Rightarrow> (bytes \<rightharpoonup> 'v) \<Rightarrow> (bytes \<rightharpoonup> 'v)" where
  "abs_entries verdict actions entries k =
     (case actions k of
        Some a \<Rightarrow> (case verdict a (entries k) of Inl _ \<Rightarrow> entries k | Inr e \<Rightarrow> e)
      | None \<Rightarrow> entries k)"

definition abs_mutate ::
    "('a \<Rightarrow> 'v option \<Rightarrow> EntryError + 'v option) \<Rightarrow> ('a \<Rightarrow> MapAction) \<Rightarrow> (bytes \<rightharpoonup> 'a) \<Rightarrow> PublicKey \<Rightarrow>
     'v AbsMap \<Rightarrow> 'v AbsMap \<times> AbsResult" where
  "abs_mutate verdict needs actions requester m =
     (if \<exists>a \<in> ran actions. \<not> abs_allowed m requester (needs a) then (m, R_Denied)
      else if abs_errors verdict actions (am_entries m) \<noteq> Map.empty
      then (m, R_Entries (abs_errors verdict actions (am_entries m)))
      else (m\<lparr>am_entries := abs_entries verdict actions (am_entries m)\<rparr>, R_Ok))"

definition abs_set_permissions :: "PublicKey \<Rightarrow> MapAction set \<Rightarrow> u64 \<Rightarrow> 'v AbsMap \<Rightarrow> 'v AbsMap \<times> AbsResult" where
  "abs_set_permissions user p version m =
     (if version = am_version m + 1
      then (m\<lparr>am_permissions := (am_permissions m)(user \<mapsto> p), am_version := version\<rparr>, R_Ok)
      else (m, R_Stale (am_version m)))"

definition abs_del_permissions :: "PublicKey \<Rightarrow> u64 \<Rightarrow> 'v AbsMap \<Rightarrow> 'v AbsMap \<times> AbsResult" where
  "abs_del_permissions user version m =
     (if version \<noteq> am_version m + 1 then (m, R_Stale (am_version m))
      else if am_permissions m user = None then (m, R_NoSuchKey)
      else (m\<lparr>am_permissions := (am_permissions m)(user := None), am_version := version\<rparr>, R_Ok))"

datatype AbsData = A_Seq "SeqValue AbsMap" | A_Unseq "bytes AbsMap"

fun abs_step :: "MapOp \<Rightarrow> AbsData \<Rightarrow> AbsData \<times> AbsResult" where
  "abs_step (Op_set_user_permissions user p version) (A_Seq m) =
     apfst A_Seq (abs_set_permissions user (ps_permissions p) version m)"
| "abs_step (Op_set_user_permissions user p version) (A_Unseq m) =
     apfst A_Unseq (abs_set_permissions user (ps_permissions p) version m)"
| "abs_step (Op_del_user_permissions user version) (A_Seq m) = apfst A_Seq (abs_del_permissions user version m)"
| "abs_step (Op_del_user_permissions user version) (A_Unseq m) = apfst A_Unseq (abs_del_permissions user version m)"
| "abs_step (Op_mutate_entries (EntryActions_Seq actions) requester) (A_Seq m) =
     apfst A_Seq (abs_mutate seq_verdict seq_needs (bt_get actions) requester m)"
| "abs_step (Op_mutate_entries (EntryActions_Unseq actions) requester) (A_Unseq m) =
     apfst A_Unseq (abs_mutate unseq_verdict unseq_needs (bt_get actions) requester m)"
| "abs_step (Op_mutate_entries _ _) m = (m, R_WrongKind)"

section \<open>The abstract view\<close>

definition view_flavour :: "'v MapFlavour \<Rightarrow> 'v AbsMap" where
  "view_flavour s =
     \<lparr>am_address = mf_address s, am_entries = bt_get (mf_data s),
      am_permissions = map_option ps_permissions \<circ> mf_permissions s, am_version = mf_version s, am_owner = mf_owner s\<rparr>"

fun view_map :: "Map \<Rightarrow> AbsData" where
  "view_map (Map_Seq s) = A_Seq (view_flavour s)"
| "view_map (Map_Unseq s) = A_Unseq (view_flavour s)"

fun view_result :: "unit Result \<Rightarrow> AbsResult" where
  "view_result (Inr _) = R_Ok"
| "view_result (Inl (InvalidSuccessor v)) = R_Stale v"
| "view_result (Inl NoSuchKey) = R_NoSuchKey"
| "view_result (Inl AccessDenied) = R_Denied"
| "view_result (Inl InvalidOperation) = R_WrongKind"
| "view_result (Inl (InvalidEntryActions errs)) = R_Entries (bt_get errs)"
| "view_result (Inl e) = R_Other e"

lemma ps_permissions_inj: "ps_permissions (p :: PermissionSet) = ps_permissions q \<longleftrightarrow> p = q"
  by (cases p; cases q) simp

lemma view_flavour_inj:
  assumes "bt_ok (mf_data s)" "bt_ok (mf_data t)" "view_flavour s = view_flavour t"
  shows "s = t"
proof -
  have "map_option ps_permissions (mf_permissions s u) = map_option ps_permissions (mf_permissions t u)" for u
    using assms(3) by (simp add: view_flavour_def fun_eq_iff)
  then have "mf_permissions s u = mf_permissions t u" for u
    using option.inj_map_strong [of "mf_permissions s u" "mf_permissions t u" ps_permissions ps_permissions]
    by (simp add: ps_permissions_inj)
  moreover have "mf_data s = mf_data t"
    using assms by (intro bt_ext) (simp_all add: view_flavour_def)
  ultimately show ?thesis
    using assms(3) by (cases s; cases t) (auto simp: view_flavour_def)
qed

lemma view_map_inj: "Map_wf m \<Longrightarrow> Map_wf n \<Longrightarrow> view_map m = view_map n \<longleftrightarrow> m = n"
  by (cases m; cases n) (auto simp: flavour_wf_def intro: view_flavour_inj)

section \<open>Each operation refines the abstract one\<close>

lemma abs_allowed_view:
  "abs_allowed (view_flavour s) user action \<longleftrightarrow> mf_owner s = user \<or> MapFlavour_is_action_allowed s user action"
  by (auto simp: abs_allowed_def view_flavour_def MapFlavour_is_action_allowed_def PermissionSet_is_allowed_def
      split: option.splits)

lemma abs_denied_view:
  "(\<exists>a \<in> ran (bt_get actions). \<not> abs_allowed (view_flavour s) requester (needs a)) \<longleftrightarrow> batch_denied needs s actions requester"
  by (auto simp: batch_denied_def abs_allowed_view ran_def)

lemma abs_errors_verdict:
  "abs_errors verdict (bt_get actions) (bt_get data) k = entry_error (key_verdict verdict actions data k) None"
  by (auto simp: abs_errors_def key_verdict_def entry_error_def split: option.splits sum.splits)

lemma abs_entries_verdict:
  "abs_entries verdict (bt_get actions) (bt_get data) k = new_entry (key_verdict verdict actions data k) (bt_get data k)"
  by (auto simp: abs_entries_def key_verdict_def new_entry_def split: option.splits sum.splits)

lemma abs_errors_empty_iff:
  "abs_errors verdict (bt_get actions) (bt_get data) = Map.empty \<longleftrightarrow>
     \<not> (\<exists>k e. key_verdict verdict actions data k = Some (Inl e))"
  by (auto simp: fun_eq_iff abs_errors_verdict entry_error_def split: option.splits sum.splits)

lemma mutation_refines:
  assumes "mutation_result verdict needs s actions requester out"
  shows "view_flavour (fst out) = fst (abs_mutate verdict needs (bt_get actions) requester (view_flavour s)) \<and>
    view_result (snd out) = snd (abs_mutate verdict needs (bt_get actions) requester (view_flavour s))"
proof -
  let ?es = "abs_errors verdict (bt_get actions) (bt_get (mf_data s))"
  have entries: "am_entries (view_flavour s) = bt_get (mf_data s)" by (simp add: view_flavour_def)
  consider (denied) "batch_denied needs s actions requester"
    | (errors) "\<not> batch_denied needs s actions requester" "?es \<noteq> Map.empty"
    | (applied) "\<not> batch_denied needs s actions requester" "?es = Map.empty" by blast
  then show ?thesis
  proof cases
    case denied
    then show ?thesis using assms by (simp add: mutation_result_def abs_mutate_def abs_denied_view)
  next
    case errors
    then obtain errs where out: "out = (s, Err (InvalidEntryActions errs))" and "\<forall>k. bt_get errs k = ?es k"
      using assms by (auto simp: mutation_result_def abs_errors_empty_iff abs_errors_verdict)
    then have "bt_get errs = ?es" by (simp add: fun_eq_iff)
    then show ?thesis using errors by (simp add: out abs_mutate_def abs_denied_view entries)
  next
    case applied
    then obtain d where out: "out = (s\<lparr>mf_data := d\<rparr>, Ok ())"
      and "\<forall>k. bt_get d k = abs_entries verdict (bt_get actions) (bt_get (mf_data s)) k"
      using assms by (auto simp: mutation_result_def abs_errors_empty_iff abs_entries_verdict)
    then have "bt_get d = abs_entries verdict (bt_get actions) (bt_get (mf_data s))" by (simp add: fun_eq_iff)
    then show ?thesis using applied by (simp add: out abs_mutate_def abs_denied_view entries) (simp add: view_flavour_def)
  qed
qed

lemmas seq_refines = mutation_refines [OF seq_mutation]
lemmas unseq_refines = mutation_refines [OF unseq_mutation]

lemma set_permissions_refines:
  "view_flavour (fst (MapFlavour_set_user_permissions s user p version)) =
     fst (abs_set_permissions user (ps_permissions p) version (view_flavour s))"
  "view_result (snd (MapFlavour_set_user_permissions s user p version)) =
     snd (abs_set_permissions user (ps_permissions p) version (view_flavour s))"
  by (simp_all add: MapFlavour_set_user_permissions_def abs_set_permissions_def view_flavour_def fun_eq_iff)

lemma del_permissions_refines:
  "view_flavour (fst (MapFlavour_del_user_permissions s user version)) = fst (abs_del_permissions user version (view_flavour s))"
  "view_result (snd (MapFlavour_del_user_permissions s user version)) = snd (abs_del_permissions user version (view_flavour s))"
  by (simp_all add: MapFlavour_del_user_permissions_def abs_del_permissions_def view_flavour_def fun_eq_iff)

lemma map_step_refines:
  assumes "Map_wf m" "op_wf op"
  shows "view_map (fst (map_step op m)) = fst (abs_step op (view_map m)) \<and>
    view_result (snd (map_step op m)) = snd (abs_step op (view_map m))"
proof (cases op)
  case (Op_mutate_entries actions requester)
  then show ?thesis using assms
    by (cases m; cases actions) (simp_all add: flavour_wf_def seq_refines unseq_refines)
qed (cases m; simp add: set_permissions_refines del_permissions_refines)+

interpretation map_sim: simulation map_step abs_step view_map view_result Map_wf op_wf
  by unfold_locales (simp_all add: map_step_keeps map_step_refines)

section \<open>The reads of the view\<close>

fun abs_address :: "AbsData \<Rightarrow> MapAddress" where
  "abs_address (A_Seq m) = am_address m"
| "abs_address (A_Unseq m) = am_address m"

fun abs_version :: "AbsData \<Rightarrow> u64" where
  "abs_version (A_Seq m) = am_version m"
| "abs_version (A_Unseq m) = am_version m"

fun abs_owner :: "AbsData \<Rightarrow> PublicKey" where
  "abs_owner (A_Seq m) = am_owner m"
| "abs_owner (A_Unseq m) = am_owner m"

fun abs_keys :: "AbsData \<Rightarrow> bytes set" where
  "abs_keys (A_Seq m) = dom (am_entries m)"
| "abs_keys (A_Unseq m) = dom (am_entries m)"

fun abs_may :: "AbsData \<Rightarrow> PublicKey \<Rightarrow> MapAction \<Rightarrow> bool" where
  "abs_may (A_Seq m) user action = abs_allowed m user action"
| "abs_may (A_Unseq m) user action = abs_allowed m user action"

lemma keys_view: "fst ` set (bt_keys d) = dom (bt_get d)"
  using bt_get_None_iff [of d] by (auto simp: bt_keys_def dom_def image_image split_beta)

lemma check_permissions_view:
  "MapFlavour_check_permissions s action user = (if abs_allowed (view_flavour s) user action then Ok () else Err AccessDenied)"
  by (cases "mf_permissions s user")
     (auto simp: abs_allowed_def view_flavour_def MapFlavour_check_permissions_def MapFlavour_user_permissions_def
        PermissionSet_is_allowed_def)

lemma map_reads_view:
  "Map_address m = abs_address (view_map m)" "Map_version m = abs_version (view_map m)"
  "Map_owner m = abs_owner (view_map m)" "fst ` set (Map_keys m) = abs_keys (view_map m)"
  "Map_check_permissions m action user = (if abs_may (view_map m) user action then Ok () else Err AccessDenied)"
  by (cases m; simp add: check_permissions_view MapFlavour_keys_def keys_view; simp add: view_flavour_def)+

section \<open>Properties\<close>

text \<open>
  C1: The map implements an abstract object of partial functions. From a new map of either flavour any
  run of permission changes and bulk mutations, of either kind and by anyone, has exactly the results
  of the abstract run, where a batch is judged key by key in one step, a wrong-kind batch is refused,
  and the final map is exactly the abstract object's: the address never changes and tells the flavour,
  the version, the owner, the set of keys and the permission check are those of the object, and two
  maps with the same view are equal.
\<close>

theorem map_refines_spec:
  assumes "list_all op_wf ops" "m = Map_Seq (SeqData_new name tag owner) \<or> m = Map_Unseq (UnseqData_new name tag owner)"
    and "m' = fst (run map_step ops m)" "a' = fst (run abs_step ops (view_map m))"
  shows "Map_wf m' \<and> view_map m' = a' \<and>
    map view_result (snd (run map_step ops m)) = snd (run abs_step ops (view_map m)) \<and>
    Map_address m' = Map_address m \<and> Map_kind m' = Map_kind m \<and> Map_owner m' = owner \<and>
    Map_version m' = abs_version a' \<and> fst ` set (Map_keys m') = abs_keys a' \<and>
    (Map_check_permissions m' action user = (if abs_may a' user action then Ok () else Err AccessDenied)) \<and>
    (Map_wf n \<and> view_map n = a' \<longrightarrow> n = m')"
proof -
  have wf: "Map_wf m" "Map_owner m = owner" using assms(2) Map_new_wf by (auto simp: SeqData_new_def UnseqData_new_def)
  note ref = map_sim.refines [OF wf(1) assms(1)]
  have keep: "Map_address m' = Map_address m" "Map_owner m' = owner"
    using map_steps_keep [OF wf(1) assms(1)] wf(2) by (simp_all add: assms(3) fst_run)
  show ?thesis
    using ref keep view_map_inj [of n m'] map_reads_view [of m'] by (auto simp: assms(3,4) Map_kind_def)
qed

definition demo_ops :: "MapOp list" where
  "demo_ops =
     [Op_set_user_permissions (PublicKey_Ed25519 2) (PermissionSet_allow PermissionSet_new MapAction_Insert) 1,
      Op_mutate_entries (EntryActions_Seq (SeqEntryActions_ins SeqEntryActions_new [1] [10] 0)) (PublicKey_Ed25519 2),
      Op_mutate_entries (EntryActions_Seq (SeqEntryActions_del SeqEntryActions_new [1] 1)) (PublicKey_Ed25519 2),
      Op_mutate_entries (EntryActions_Seq (SeqEntryActions_update SeqEntryActions_new [1] [11] 7)) (PublicKey_Ed25519 5),
      Op_mutate_entries (EntryActions_Unseq []) (PublicKey_Ed25519 5),
      Op_del_user_permissions (PublicKey_Ed25519 2) 1]"

theorem map_refines_spec_witness:
  "map view_result (snd (run map_step demo_ops (Map_Seq (SeqData_new 7 9 (PublicKey_Ed25519 5))))) =
     snd (run abs_step demo_ops (view_map (Map_Seq (SeqData_new 7 9 (PublicKey_Ed25519 5))))) \<and>
   Map_owner (fst (run map_step demo_ops (Map_Seq (SeqData_new 7 9 (PublicKey_Ed25519 5))))) = PublicKey_Ed25519 5"
  using map_refines_spec [of demo_ops "Map_Seq (SeqData_new 7 9 (PublicKey_Ed25519 5))" 7 9 "PublicKey_Ed25519 5", OF _ _ refl refl]
  by (simp add: demo_ops_def SeqEntryActions_del_def SeqEntryActions_update_def SeqEntryActions_ins_def
      SeqEntryActions_new_def bt_ok_insert)

section \<open>Who may do what after a run\<close>

text \<open>The operations of a run that were accepted, in order, and what one of them grants a user.\<close>

fun accepted_ops :: "MapOp list \<Rightarrow> Map \<Rightarrow> MapOp list" where
  "accepted_ops [] m = []"
| "accepted_ops (op # ops) m =
     (let (m', r) = map_step op m in if is_ok r then op # accepted_ops ops m' else accepted_ops ops m')"

fun grants :: "PublicKey \<Rightarrow> MapOp \<Rightarrow> PermissionSet option option" where
  "grants user (Op_set_user_permissions user' p _) = (if user' = user then Some (Some p) else None)"
| "grants user (Op_del_user_permissions user' _) = (if user' = user then Some None else None)"
| "grants user (Op_mutate_entries _ _) = None"

definition last_grant :: "PublicKey \<Rightarrow> MapOp list \<Rightarrow> Map \<Rightarrow> PermissionSet option" where
  "last_grant user ops m = last (Map_permissions m user # List.map_filter (grants user) (accepted_ops ops m))"

fun needed :: "EntryActions \<Rightarrow> MapAction set" where
  "needed (EntryActions_Seq actions) = seq_needs ` ran (bt_get actions)"
| "needed (EntryActions_Unseq actions) = unseq_needs ` ran (bt_get actions)"

lemma map_step_grant:
  assumes "Map_wf m" "op_wf op"
  shows "Map_permissions (fst (map_step op m)) user =
    (case (is_ok (snd (map_step op m)), grants user op) of (True, Some g) \<Rightarrow> g | _ \<Rightarrow> Map_permissions m user)"
proof (cases op)
  case (Op_mutate_entries actions requester)
  have keeps: "mutation_result verdict needs s acts requester out \<Longrightarrow> mf_permissions (fst out) = mf_permissions s"
    for verdict needs and s :: "'v MapFlavour" and acts out
    by (auto simp: mutation_result_def split: if_splits)
  show ?thesis using assms Op_mutate_entries
    by (cases m; cases actions) (auto simp: flavour_wf_def keeps [OF seq_mutation] keeps [OF unseq_mutation] split: bool.split)
qed (cases m; auto simp: MapFlavour_set_user_permissions_def MapFlavour_del_user_permissions_def)+

lemma last_grant_Cons:
  "last_grant user (op # ops) m =
    (case (is_ok (snd (map_step op m)), grants user op) of
       (True, Some g) \<Rightarrow> last (g # List.map_filter (grants user) (accepted_ops ops (fst (map_step op m))))
     | (True, None) \<Rightarrow> last (Map_permissions m user # List.map_filter (grants user) (accepted_ops ops (fst (map_step op m))))
     | (False, _) \<Rightarrow> last (Map_permissions m user # List.map_filter (grants user) (accepted_ops ops (fst (map_step op m)))))"
  by (cases "map_step op m"; cases "grants user op") (simp_all add: last_grant_def map_filter_simps)

lemma map_run_grant:
  assumes "Map_wf m" "list_all op_wf ops"
  shows "Map_permissions (fst (run map_step ops m)) user = last_grant user ops m"
  using assms
proof (induction ops arbitrary: m)
  case (Cons op ops)
  obtain m' r where st: "map_step op m = (m', r)" by (cases "map_step op m")
  have IH: "Map_permissions (fst (run map_step ops m')) user = last_grant user ops m'"
    using Cons.IH map_step_keeps [OF Cons.prems(1), of op] Cons.prems(2) by (simp add: st)
  have "Map_permissions m' user = (case (is_ok r, grants user op) of (True, Some g) \<Rightarrow> g | _ \<Rightarrow> Map_permissions m user)"
    using map_step_grant [OF Cons.prems(1), of op user] Cons.prems(2) by (simp add: st)
  then show ?case
    using IH by (cases "grants user op"; cases "is_ok r") (simp_all add: last_grant_Cons st split_beta last_grant_def)
qed (simp add: last_grant_def map_filter_simps)

lemma mutation_denied:
  assumes "mutation_result verdict needs s actions requester out"
  shows "snd out = Err AccessDenied \<longleftrightarrow> batch_denied needs s actions requester"
  using assms by (auto simp: mutation_result_def split: if_splits)

lemma map_mutate_denied:
  assumes "Map_wf m" "actions_wf actions" "EntryActions_kind actions = Map_kind m"
  shows "snd (Map_mutate_entries m actions user) = Err AccessDenied \<longleftrightarrow>
    (\<exists>action \<in> needed actions. Map_check_permissions m action user = Err AccessDenied)"
  using assms
  by (cases m; cases actions)
     (simp_all add: flavour_wf_def Map_kind_def MapFlavour_kind_def mutation_denied [OF seq_mutation]
        mutation_denied [OF unseq_mutation] abs_denied_view [symmetric] check_permissions_view)

text \<open>
  C5: Who may do what is decided by the accepted requests alone. After any run on a map, a user other
  than the owner has exactly the permissions of the last accepted grant or revocation for that user,
  refused and stale requests and requests for others leaving them alone; the check of an action and
  the permissions the map reports follow them; and a bulk mutation of the map's kind is denied exactly
  when the batch has some action that the check denies.
\<close>

theorem map_permission_history:
  assumes "Map_wf m" "list_all op_wf ops" "m' = fst (run map_step ops m)"
  shows "Map_check_permissions m' action user =
      (if Map_owner m = user \<or> (\<exists>p. last_grant user ops m = Some p \<and> action \<in> ps_permissions p)
       then Ok () else Err AccessDenied) \<and>
    Map_user_permissions m' user = ok_or NoSuchKey (last_grant user ops m) \<and>
    (actions_wf actions \<and> EntryActions_kind actions = Map_kind m \<longrightarrow>
      (snd (Map_mutate_entries m' actions user) = Err AccessDenied \<longleftrightarrow>
        (\<exists>action \<in> needed actions. Map_check_permissions m' action user = Err AccessDenied)))"
proof -
  have keep: "Map_wf m'" "Map_owner m' = Map_owner m" "Map_kind m' = Map_kind m"
    using map_steps_keep [OF assms(1,2)] by (simp_all add: assms(3) fst_run Map_kind_def)
  have grant: "Map_permissions m' user = last_grant user ops m"
    using map_run_grant [OF assms(1,2)] by (simp add: assms(3))
  have "Map_check_permissions m' action user =
      (if Map_owner m' = user \<or> (\<exists>p. Map_permissions m' user = Some p \<and> action \<in> ps_permissions p)
       then Ok () else Err AccessDenied)"
    by (cases m') (auto simp: check_permissions_view abs_allowed_def view_flavour_def)
  moreover have "Map_user_permissions m' user = ok_or NoSuchKey (Map_permissions m' user)"
    by (cases m') (simp_all add: MapFlavour_user_permissions_def)
  ultimately show ?thesis
    using map_mutate_denied [OF keep(1), of actions user] by (simp add: keep grant)
qed

theorem map_permission_history_witness:
  "Map_check_permissions (fst (run map_step demo_ops (Map_Seq (SeqData_new 7 9 (PublicKey_Ed25519 5)))))
     MapAction_Insert (PublicKey_Ed25519 2) = Ok () \<and>
   Map_check_permissions (fst (run map_step demo_ops (Map_Seq (SeqData_new 7 9 (PublicKey_Ed25519 5)))))
     MapAction_Delete (PublicKey_Ed25519 2) = Err AccessDenied"
proof -
  let ?m = "Map_Seq (SeqData_new 7 9 (PublicKey_Ed25519 5))"
  have wf: "Map_wf ?m" "list_all op_wf demo_ops"
    by (simp_all add: Map_new_wf demo_ops_def SeqEntryActions_del_def SeqEntryActions_update_def SeqEntryActions_ins_def
        SeqEntryActions_new_def bt_ok_insert del: Map_wf.simps)
  have "last_grant (PublicKey_Ed25519 2) demo_ops ?m = Some (PermissionSet_allow PermissionSet_new MapAction_Insert)"
    by (simp add: last_grant_def List.map_filter_def demo_ops_def split_beta Let_def SeqData_new_def
        MapFlavour_set_user_permissions_def MapFlavour_del_user_permissions_def
        SeqEntryActions_del_def SeqEntryActions_update_def SeqEntryActions_ins_def
        SeqEntryActions_new_def SeqData_mutate_entries_def seq_sort_actions_def seq_sort_simps seq_insert_body_def
        seq_update_body_def seq_delete_body_def bt_get_Cons bt_new_def MapFlavour_is_action_allowed_def
        PermissionSet_is_allowed_def PermissionSet_allow_def PermissionSet_new_def)
  then show ?thesis
    using map_permission_history [OF wf refl, of MapAction_Insert "PublicKey_Ed25519 2"]
      map_permission_history [OF wf refl, of MapAction_Delete "PublicKey_Ed25519 2"]
    by (simp add: PermissionSet_allow_def PermissionSet_new_def SeqData_new_def)
qed

end
