(* ===== verification/SeqMeta.thy ===== *)
theory SeqMeta
  imports Keys
begin

text \<open>
  The data of the Sequence component (src/src/sequence/metadata.rs): actions, addresses, indices,
  owners, and the public and private permission sets. The trait \<open>Perm\<close> is the locale \<open>perm\<close>, with
  one interpretation per implementation. Permission maps are partial functions, as nothing observes
  the order in which they are kept.
\<close>

datatype SequenceAction =
    SequenceAction_Read
  | SequenceAction_Append
  | SequenceAction_ManagePermissions

type_synonym Entry = bytes
type_synonym Entries = "Entry list"

section \<open>Addresses and kinds\<close>

datatype SequenceKind = SequenceKind_Public | SequenceKind_Private

definition SequenceKind_is_pub :: "SequenceKind \<Rightarrow> bool" where
  "SequenceKind_is_pub self \<longleftrightarrow> self = SequenceKind_Public"

definition SequenceKind_is_private :: "SequenceKind \<Rightarrow> bool" where
  "SequenceKind_is_private self \<longleftrightarrow> \<not> SequenceKind_is_pub self"

datatype SequenceAddress =
    SequenceAddress_Public XorName u64
  | SequenceAddress_Private XorName u64

fun SequenceAddress_from_kind :: "SequenceKind \<Rightarrow> XorName \<Rightarrow> u64 \<Rightarrow> SequenceAddress" where
  "SequenceAddress_from_kind SequenceKind_Public name tag = SequenceAddress_Public name tag"
| "SequenceAddress_from_kind SequenceKind_Private name tag = SequenceAddress_Private name tag"

fun SequenceAddress_kind :: "SequenceAddress \<Rightarrow> SequenceKind" where
  "SequenceAddress_kind (SequenceAddress_Public _ _) = SequenceKind_Public"
| "SequenceAddress_kind (SequenceAddress_Private _ _) = SequenceKind_Private"

fun SequenceAddress_name :: "SequenceAddress \<Rightarrow> XorName" where
  "SequenceAddress_name (SequenceAddress_Public name _) = name"
| "SequenceAddress_name (SequenceAddress_Private name _) = name"

fun SequenceAddress_tag :: "SequenceAddress \<Rightarrow> u64" where
  "SequenceAddress_tag (SequenceAddress_Public _ tag) = tag"
| "SequenceAddress_tag (SequenceAddress_Private _ tag) = tag"

definition SequenceAddress_is_pub :: "SequenceAddress \<Rightarrow> bool" where
  "SequenceAddress_is_pub self = SequenceKind_is_pub (SequenceAddress_kind self)"

definition SequenceAddress_is_private :: "SequenceAddress \<Rightarrow> bool" where
  "SequenceAddress_is_private self = SequenceKind_is_private (SequenceAddress_kind self)"

definition SequenceAddress_encode_to_zbase32 :: "'b Multibase \<Rightarrow> (SequenceAddress \<Rightarrow> bytes) \<Rightarrow> SequenceAddress \<Rightarrow> string" where
  "SequenceAddress_encode_to_zbase32 mb ser self = encode mb ser self"

definition SequenceAddress_decode_from_zbase32 ::
    "'b Multibase \<Rightarrow> (bytes \<Rightarrow> string + SequenceAddress) \<Rightarrow> string \<Rightarrow> SequenceAddress Result" where
  "SequenceAddress_decode_from_zbase32 mb de encoded = decode mb de encoded"

section \<open>Indices and owners\<close>

datatype Index = FromStart u64 | FromEnd u64

definition Index_from_u64 :: "u64 \<Rightarrow> Index" where
  "Index_from_u64 index = FromStart index"

record Indices =
  ix_entries_index :: u64
  ix_owners_index :: u64
  ix_permissions_index :: u64

definition Indices_new :: "u64 \<Rightarrow> u64 \<Rightarrow> u64 \<Rightarrow> Indices" where
  "Indices_new entries_index owners_index permissions_index =
     \<lparr>ix_entries_index = entries_index, ix_owners_index = owners_index, ix_permissions_index = permissions_index\<rparr>"

definition Indices_entries_index :: "Indices \<Rightarrow> u64" where
  "Indices_entries_index self = ix_entries_index self"

definition Indices_owners_index :: "Indices \<Rightarrow> u64" where
  "Indices_owners_index self = ix_owners_index self"

definition Indices_permissions_index :: "Indices \<Rightarrow> u64" where
  "Indices_permissions_index self = ix_permissions_index self"

record Owner =
  ow_public_key :: PublicKey
  ow_entries_index :: u64
  ow_permissions_index :: u64

section \<open>Permission sets\<close>

record PubUserPermissions =
  pu_append :: "bool option"
  pu_manage_permissions :: "bool option"

definition PubUserPermissions_new :: "bool option \<Rightarrow> bool option \<Rightarrow> PubUserPermissions" where
  "PubUserPermissions_new app manage_perms = \<lparr>pu_append = app, pu_manage_permissions = manage_perms\<rparr>"

definition PubUserPermissions_set_perms :: "PubUserPermissions \<Rightarrow> bool option \<Rightarrow> bool option \<Rightarrow> PubUserPermissions" where
  "PubUserPermissions_set_perms self app manage_perms =
     self\<lparr>pu_append := app, pu_manage_permissions := manage_perms\<rparr>"

fun PubUserPermissions_is_allowed :: "PubUserPermissions \<Rightarrow> SequenceAction \<Rightarrow> bool option" where
  "PubUserPermissions_is_allowed self SequenceAction_Read = Some True"
| "PubUserPermissions_is_allowed self SequenceAction_Append = pu_append self"
| "PubUserPermissions_is_allowed self SequenceAction_ManagePermissions = pu_manage_permissions self"

record PrivUserPermissions =
  pr_read :: bool
  pr_append :: bool
  pr_manage_permissions :: bool

definition PrivUserPermissions_new :: "bool \<Rightarrow> bool \<Rightarrow> bool \<Rightarrow> PrivUserPermissions" where
  "PrivUserPermissions_new read app manage_perms =
     \<lparr>pr_read = read, pr_append = app, pr_manage_permissions = manage_perms\<rparr>"

definition PrivUserPermissions_set_perms :: "PrivUserPermissions \<Rightarrow> bool \<Rightarrow> bool \<Rightarrow> bool \<Rightarrow> PrivUserPermissions" where
  "PrivUserPermissions_set_perms self read app manage_perms =
     self\<lparr>pr_read := read, pr_append := app, pr_manage_permissions := manage_perms\<rparr>"

fun PrivUserPermissions_is_allowed :: "PrivUserPermissions \<Rightarrow> SequenceAction \<Rightarrow> bool" where
  "PrivUserPermissions_is_allowed self SequenceAction_Read = pr_read self"
| "PrivUserPermissions_is_allowed self SequenceAction_Append = pr_append self"
| "PrivUserPermissions_is_allowed self SequenceAction_ManagePermissions = pr_manage_permissions self"

datatype User = User_Anyone | User_Key PublicKey

datatype UserPermissions =
    UserPermissions_Public PubUserPermissions
  | UserPermissions_Priv PrivUserPermissions

record PublicPermissions =
  pup_permissions :: "User \<rightharpoonup> PubUserPermissions"
  pup_entries_index :: u64
  pup_owners_index :: u64

record PrivatePermissions =
  prp_permissions :: "PublicKey \<rightharpoonup> PrivUserPermissions"
  prp_entries_index :: u64
  prp_owners_index :: u64

definition PublicPermissions_entries_index :: "PublicPermissions \<Rightarrow> u64" where
  "PublicPermissions_entries_index self = pup_entries_index self"

definition PublicPermissions_owners_index :: "PublicPermissions \<Rightarrow> u64" where
  "PublicPermissions_owners_index self = pup_owners_index self"

definition PrivatePermissions_entries_index :: "PrivatePermissions \<Rightarrow> u64" where
  "PrivatePermissions_entries_index self = prp_entries_index self"

definition PrivatePermissions_owners_index :: "PrivatePermissions \<Rightarrow> u64" where
  "PrivatePermissions_owners_index self = prp_owners_index self"

datatype Permissions =
    Permissions_Public PublicPermissions
  | Permissions_Priv PrivatePermissions

definition PublicPermissions_is_action_allowed_by_user ::
    "PublicPermissions \<Rightarrow> User \<Rightarrow> SequenceAction \<Rightarrow> bool option" where
  "PublicPermissions_is_action_allowed_by_user self user action =
     Option.bind (pup_permissions self user) (\<lambda>perms. PubUserPermissions_is_allowed perms action)"

definition PublicPermissions_is_action_allowed :: "PublicPermissions \<Rightarrow> PublicKey \<Rightarrow> SequenceAction \<Rightarrow> unit Result" where
  "PublicPermissions_is_action_allowed self requester action =
     (case option_or_else (PublicPermissions_is_action_allowed_by_user self (User_Key requester) action)
             (PublicPermissions_is_action_allowed_by_user self User_Anyone action) of
        Some True \<Rightarrow> Ok ()
      | Some False \<Rightarrow> Err AccessDenied
      | None \<Rightarrow> Err AccessDenied)"

definition PublicPermissions_user_permissions :: "PublicPermissions \<Rightarrow> User \<Rightarrow> UserPermissions option" where
  "PublicPermissions_user_permissions self user = map_option UserPermissions_Public (pup_permissions self user)"

definition PrivatePermissions_is_action_allowed :: "PrivatePermissions \<Rightarrow> PublicKey \<Rightarrow> SequenceAction \<Rightarrow> unit Result" where
  "PrivatePermissions_is_action_allowed self requester action =
     (case prp_permissions self requester of
        Some perms \<Rightarrow> if PrivUserPermissions_is_allowed perms action then Ok () else Err AccessDenied
      | None \<Rightarrow> Err AccessDenied)"

fun PrivatePermissions_user_permissions :: "PrivatePermissions \<Rightarrow> User \<Rightarrow> UserPermissions option" where
  "PrivatePermissions_user_permissions self User_Anyone = None"
| "PrivatePermissions_user_permissions self (User_Key key) = map_option UserPermissions_Priv (prp_permissions self key)"

section \<open>The trait\<close>

text \<open>
  What callers rely on: a check answers \<open>Ok\<close> or \<open>AccessDenied\<close>, and a user set found in the
  permissions is the one that decides whenever it has an opinion on the action (\<open>opinion\<close>).
\<close>

fun opinion :: "UserPermissions \<Rightarrow> SequenceAction \<Rightarrow> bool option" where
  "opinion (UserPermissions_Public p) action = PubUserPermissions_is_allowed p action"
| "opinion (UserPermissions_Priv p) action = Some (PrivUserPermissions_is_allowed p action)"

locale perm =
  fixes is_action_allowed :: "'p \<Rightarrow> PublicKey \<Rightarrow> SequenceAction \<Rightarrow> unit Result"
    and user_permissions :: "'p \<Rightarrow> User \<Rightarrow> UserPermissions option"
  assumes answers: "is_action_allowed p requester action \<in> {Ok (), Err AccessDenied}"
    and own_set_decides:
      "user_permissions p (User_Key requester) = Some perms \<Longrightarrow> opinion perms action = Some b \<Longrightarrow>
       is_action_allowed p requester action = (if b then Ok () else Err AccessDenied)"
    and nobody_denied:
      "user_permissions p (User_Key requester) = None \<Longrightarrow> user_permissions p User_Anyone = None \<Longrightarrow>
       is_action_allowed p requester action = Err AccessDenied"
begin

lemma denied_iff: "is_action_allowed p requester action = Err e \<longleftrightarrow>
    e = AccessDenied \<and> \<not> is_ok (is_action_allowed p requester action)"
  using answers [of p requester action] by auto

lemma allowed_someone:
  assumes "is_ok (is_action_allowed p requester action)"
  shows "user_permissions p (User_Key requester) \<noteq> None \<or> user_permissions p User_Anyone \<noteq> None"
proof (rule ccontr)
  assume "\<not> (user_permissions p (User_Key requester) \<noteq> None \<or> user_permissions p User_Anyone \<noteq> None)"
  then have "is_action_allowed p requester action = Err AccessDenied" by (simp add: nobody_denied)
  with assms show False by simp
qed

end

interpretation pub_perm: perm PublicPermissions_is_action_allowed PublicPermissions_user_permissions
  by unfold_locales
     (auto simp: PublicPermissions_is_action_allowed_def PublicPermissions_user_permissions_def
        PublicPermissions_is_action_allowed_by_user_def option_or_else_def split: option.splits bool.splits)

interpretation priv_perm: perm PrivatePermissions_is_action_allowed PrivatePermissions_user_permissions
  by unfold_locales (auto simp: PrivatePermissions_is_action_allowed_def split: option.splits)

section \<open>Properties\<close>

text \<open>
  Public permissions: a set of the requester's own decides when it has an opinion on the action,
  an explicit denial included; otherwise the set of \<open>Anyone\<close> decides; with no opinion on either side
  the action is denied. Reading is denied exactly when neither of the two has a set.
\<close>

lemma public_permissions_spec:
  "(PublicPermissions_is_action_allowed p requester action = Ok ()) =
     (case Option.bind (pup_permissions p (User_Key requester)) (\<lambda>s. PubUserPermissions_is_allowed s action) of
        Some b \<Rightarrow> b
      | None \<Rightarrow> Option.bind (pup_permissions p User_Anyone) (\<lambda>s. PubUserPermissions_is_allowed s action) = Some True) \<and>
   (PublicPermissions_is_action_allowed p requester SequenceAction_Read = Err AccessDenied) =
     (pup_permissions p (User_Key requester) = None \<and> pup_permissions p User_Anyone = None) \<and>
   PublicPermissions_is_action_allowed p requester action \<in> {Ok (), Err AccessDenied}"
  using pub_perm.answers [of p requester action]
  by (cases "pup_permissions p (User_Key requester)"; cases "pup_permissions p User_Anyone")
     (simp_all add: PublicPermissions_is_action_allowed_def PublicPermissions_is_action_allowed_by_user_def
        split: option.split bool.split)

end
