(* ===== verification/Replication.thy ===== *)
theory Replication
  imports Prelude "HOL-Library.Multiset"
begin

text \<open>
  Replicated state under causal delivery, independent of what is replicated: operations that are
  not ordered by the causal relation commute, and then any two delivery orders of the same
  operations that both respect it lead to the same state. The sequence component instantiates it.
\<close>

text \<open>No operation is delivered after one that it causally precedes.\<close>

fun causal_order :: "('o \<Rightarrow> 'o \<Rightarrow> bool) \<Rightarrow> 'o list \<Rightarrow> bool" where
  "causal_order hb [] \<longleftrightarrow> True"
| "causal_order hb (x # xs) \<longleftrightarrow> (\<forall>y \<in> set xs. y \<noteq> x \<longrightarrow> \<not> hb y x) \<and> causal_order hb xs"

lemma causal_order_append:
  "causal_order hb (xs @ ys) \<longleftrightarrow>
     causal_order hb xs \<and> causal_order hb ys \<and> (\<forall>x \<in> set xs. \<forall>y \<in> set ys. y \<noteq> x \<longrightarrow> \<not> hb y x)"
  by (induction xs) auto

locale causal_replica =
  fixes apply_op :: "'o \<Rightarrow> 's \<Rightarrow> 's"
    and hb :: "'o \<Rightarrow> 'o \<Rightarrow> bool"
  assumes concurrent_commute:
    "a \<noteq> b \<Longrightarrow> \<not> hb a b \<Longrightarrow> \<not> hb b a \<Longrightarrow> apply_op a (apply_op b s) = apply_op b (apply_op a s)"
begin

lemma pull_front:
  assumes "\<forall>y \<in> set ys. y \<noteq> x \<and> \<not> hb x y \<and> \<not> hb y x"
  shows "fold apply_op (ys @ x # zs) s = fold apply_op (ys @ zs) (apply_op x s)"
  using assms
proof (induction ys arbitrary: s)
  case (Cons y ys)
  then have "apply_op x (apply_op y s) = apply_op y (apply_op x s)"
    by (intro concurrent_commute) auto
  with Cons show ?case by simp
qed simp

lemma converge:
  assumes "mset xs = mset ys" "causal_order hb xs" "causal_order hb ys"
  shows "fold apply_op xs s = fold apply_op ys s"
  using assms
proof (induction xs arbitrary: ys s)
  case (Cons x xs)
  have "x \<in> set ys" using Cons.prems(1) by (metis list.set_intros(1) mset_eq_setD)
  then obtain ys1 ys2 where ys: "ys = ys1 @ x # ys2" "x \<notin> set ys1"
    by (meson split_list_first)
  have sub: "mset xs = mset (ys1 @ ys2)" using Cons.prems(1) by (simp add: ys(1))
  have "set ys1 \<subseteq> set xs" using mset_eq_setD [OF sub] by auto
  then have "\<forall>y \<in> set ys1. y \<noteq> x \<and> \<not> hb x y \<and> \<not> hb y x"
    using Cons.prems(2,3) ys(2) by (auto simp: ys(1) causal_order_append)
  then have "fold apply_op ys s = fold apply_op (ys1 @ ys2) (apply_op x s)"
    unfolding ys(1) by (rule pull_front)
  moreover have "fold apply_op xs (apply_op x s) = fold apply_op (ys1 @ ys2) (apply_op x s)"
    using Cons.prems(2,3) sub by (intro Cons.IH) (auto simp: ys(1) causal_order_append)
  ultimately show ?case by simp
qed simp

end

text \<open>
  Networks in which what was sent can be delivered to whoever has not received it yet: deliveries
  alone can bring any number of receivers up to date, and lose nothing already received.
\<close>

locale delivery =
  fixes net :: "'n \<Rightarrow> bool"
    and hist :: "'n \<Rightarrow> 'h"
    and sent :: "'h \<Rightarrow> 'm set"
    and received :: "'n \<Rightarrow> 'a \<Rightarrow> 'm set"
    and deliver :: "'a \<Rightarrow> 'm \<Rightarrow> 'n \<Rightarrow> 'n"
  assumes finite_sent: "finite (sent h)"
    and deliver_net: "net n \<Longrightarrow> x \<in> sent (hist n) \<Longrightarrow> x \<notin> received n a \<Longrightarrow> net (deliver a x n)"
    and deliver_hist: "hist (deliver a x n) = hist n"
    and deliver_received: "received (deliver a x n) b = (if b = a then insert x (received n b) else received n b)"
begin

lemma catch_up:
  assumes "net n"
  shows "\<exists>ds n'. n' = fold (case_prod deliver) ds n \<and> set ds \<subseteq> {a} \<times> sent (hist n) \<and>
    net n' \<and> hist n' = hist n \<and> sent (hist n) \<subseteq> received n' a \<and> (\<forall>b. received n b \<subseteq> received n' b)"
  using assms
proof (induction "card (sent (hist n) - received n a)" arbitrary: n rule: less_induct)
  case less
  show ?case
  proof (cases "sent (hist n) \<subseteq> received n a")
    case True
    then show ?thesis using less.prems by (intro exI [of _ "[]"] exI [of _ n]) simp
  next
    case False
    then obtain x where x: "x \<in> sent (hist n)" "x \<notin> received n a" by blast
    have "card (sent (hist (deliver a x n)) - received (deliver a x n) a) < card (sent (hist n) - received n a)"
      using x by (intro psubset_card_mono) (auto simp: deliver_hist deliver_received finite_sent)
    from less.hyps [OF this deliver_net [OF less.prems x]] obtain ds n' where n': "n' = fold (case_prod deliver) ds (deliver a x n)" "set ds \<subseteq> {a} \<times> sent (hist (deliver a x n))"
        "net n'" "hist n' = hist (deliver a x n)" "sent (hist (deliver a x n)) \<subseteq> received n' a"
        "\<forall>b. received (deliver a x n) b \<subseteq> received n' b"
      by blast
    have "received n b \<subseteq> received n' b" for b
      using n'(6) by (auto simp: deliver_received split: if_splits)
    with n' x(1) show ?thesis
      unfolding deliver_hist by (intro exI [of _ "(a, x) # ds"] exI [of _ n']) simp
  qed
qed

text \<open>Any number of receivers: the deliveries go to them alone and carry only what was sent.\<close>

lemma all_catch_up:
  assumes "net n"
  shows "\<exists>ds n'. n' = fold (case_prod deliver) ds n \<and> set ds \<subseteq> set actors \<times> sent (hist n) \<and>
    net n' \<and> hist n' = hist n \<and> (\<forall>a \<in> set actors. sent (hist n) \<subseteq> received n' a)"
proof (induction actors)
  case Nil
  then show ?case using assms by (intro exI [of _ "[]"] exI [of _ n]) simp
next
  case (Cons a actors)
  then obtain ds m where m: "m = fold (case_prod deliver) ds n" "set ds \<subseteq> set actors \<times> sent (hist n)"
      "net m" "hist m = hist n" "\<forall>a \<in> set actors. sent (hist n) \<subseteq> received m a" by blast
  from catch_up [OF m(3), of a] obtain es n' where n': "n' = fold (case_prod deliver) es m" "set es \<subseteq> {a} \<times> sent (hist m)"
      "net n'" "hist n' = hist m" "sent (hist m) \<subseteq> received n' a" "\<forall>b. received m b \<subseteq> received n' b" by blast
  have all: "sent (hist n) \<subseteq> received n' b" if "b \<in> set (a # actors)" for b
    using that m(4,5) n'(5,6) by fastforce
  have run: "n' = fold (case_prod deliver) (ds @ es) n" by (simp add: n'(1) m(1))
  have "set (ds @ es) \<subseteq> set (a # actors) \<times> sent (hist n)" using m(2,4) n'(2) by auto
  then show ?case using n'(3,4) m(4) all run by metis
qed

end

end
