(* ===== verification/SeqCrdt.thy ===== *)
theory SeqCrdt
  imports SeqMeta Replication
begin

text \<open>
  \<open>SequenceCrdt\<close> (src/src/sequence/seq\_crdt.rs): three histories (entries, permissions, owners), each
  a replicated sequence of the crate crdts. That crate is not part of the sources: its \<open>LSeq\<close> is the
  parameter record \<open>LSeqOps\<close> over a carrier \<open>'c\<close> and an operation type \<open>'o\<close>, tagged with the element
  type, and the locale \<open>lseq\<close> states what it documents.
\<close>

section \<open>The external sequence type\<close>

datatype ('t, 'c) LSeq = LSeq 'c
datatype ('t, 'o) Op = Op 'o

record ('t, 'a, 'c, 'o) LSeqOps =
  ls_new :: "'a \<Rightarrow> u8 \<Rightarrow> u64 \<Rightarrow> ('t, 'c) LSeq"
  ls_append :: "('t, 'c) LSeq \<Rightarrow> 't \<Rightarrow> ('t, 'c) LSeq \<times> ('t, 'o) Op"
  ls_apply :: "('t, 'o) Op \<Rightarrow> ('t, 'c) LSeq \<Rightarrow> ('t, 'c) LSeq"
  ls_get :: "('t, 'c) LSeq \<Rightarrow> usize \<Rightarrow> 't option"
  ls_last :: "('t, 'c) LSeq \<Rightarrow> 't option"
  ls_len :: "('t, 'c) LSeq \<Rightarrow> usize"
  ls_iter :: "('t, 'c) LSeq \<Rightarrow> 't list"
  ls_is_insert :: "('t, 'o) Op \<Rightarrow> bool"

text \<open>
  Reading agrees with iterating; an append puts the value last and equals applying the insertion it
  returns; operations not ordered by \<open>hb\<close> commute; and the name of the local actor does not show in
  the contents.
\<close>

locale lseq =
  fixes L :: "('t, 'a, 'c, 'o) LSeqOps"
    and hb :: "('t, 'o) Op \<Rightarrow> ('t, 'o) Op \<Rightarrow> bool"
  assumes iter_new: "ls_iter L (ls_new L a b c) = []"
    and iter_append: "ls_iter L (fst (ls_append L s v)) = ls_iter L s @ [v]"
    and apply_append: "ls_apply L (snd (ls_append L s v)) s = fst (ls_append L s v)"
    and insert_append: "ls_is_insert L (snd (ls_append L s v))"
    and get_iter: "ls_get L s i = (if unat i < length (ls_iter L s) then Some (ls_iter L s ! unat i) else None)"
    and last_iter: "ls_last L s = (if ls_iter L s = [] then None else Some (last (ls_iter L s)))"
    and len_iter: "ls_len L s = word_of_nat (length (ls_iter L s))"
    and commute: "x \<noteq> y \<Longrightarrow> \<not> hb x y \<Longrightarrow> \<not> hb y x \<Longrightarrow> ls_apply L x (ls_apply L y s) = ls_apply L y (ls_apply L x s)"
    and actor_free: "ls_iter L (fold (ls_apply L) ops (ls_new L a b c)) = ls_iter L (fold (ls_apply L) ops (ls_new L a' b c))"

section \<open>The state and its operations\<close>

definition LSEQ_BOUNDARY :: u64 where
  "LSEQ_BOUNDARY = 1"

definition LSEQ_TREE_BASE :: u8 where
  "LSEQ_TREE_BASE = 10"

record ('p, 'c) SequenceCrdt =
  sq_address :: SequenceAddress
  sq_data :: "(Entry, 'c) LSeq"
  sq_permissions :: "('p, 'c) LSeq"
  sq_owners :: "(Owner, 'c) LSeq"

text \<open>The three instances of the external type that one sequence uses.\<close>

record ('p, 'a, 'c, 'o) Backend =
  be_entries :: "(Entry, 'a, 'c, 'o) LSeqOps"
  be_perms :: "('p, 'a, 'c, 'o) LSeqOps"
  be_owners :: "(Owner, 'a, 'c, 'o) LSeqOps"

fun to_absolute_index :: "Index \<Rightarrow> usize \<Rightarrow> usize option" where
  "to_absolute_index (FromStart index) cnt = (if index \<le> cnt then Some index else None)"
| "to_absolute_index (FromEnd index) cnt = checked_sub cnt index"

definition SequenceCrdt_new :: "('p, 'a, 'c, 'o) Backend \<Rightarrow> 'a \<Rightarrow> SequenceAddress \<Rightarrow> ('p, 'c) SequenceCrdt" where
  "SequenceCrdt_new B actor address =
     \<lparr>sq_address = address,
      sq_data = ls_new (be_entries B) actor LSEQ_TREE_BASE LSEQ_BOUNDARY,
      sq_permissions = ls_new (be_perms B) actor LSEQ_TREE_BASE LSEQ_BOUNDARY,
      sq_owners = ls_new (be_owners B) actor LSEQ_TREE_BASE LSEQ_BOUNDARY\<rparr>"

definition SequenceCrdt_address :: "('p, 'c) SequenceCrdt \<Rightarrow> SequenceAddress" where
  "SequenceCrdt_address self = sq_address self"

definition SequenceCrdt_entries_index :: "('p, 'a, 'c, 'o) Backend \<Rightarrow> ('p, 'c) SequenceCrdt \<Rightarrow> u64" where
  "SequenceCrdt_entries_index B self = ls_len (be_entries B) (sq_data self)"

definition SequenceCrdt_owners_index :: "('p, 'a, 'c, 'o) Backend \<Rightarrow> ('p, 'c) SequenceCrdt \<Rightarrow> u64" where
  "SequenceCrdt_owners_index B self = ls_len (be_owners B) (sq_owners self)"

definition SequenceCrdt_permissions_index :: "('p, 'a, 'c, 'o) Backend \<Rightarrow> ('p, 'c) SequenceCrdt \<Rightarrow> u64" where
  "SequenceCrdt_permissions_index B self = ls_len (be_perms B) (sq_permissions self)"

definition SequenceCrdt_append ::
    "('p, 'a, 'c, 'o) Backend \<Rightarrow> ('p, 'c) SequenceCrdt \<Rightarrow> Entry \<Rightarrow> ('p, 'c) SequenceCrdt \<times> (Entry, 'o) Op" where
  "SequenceCrdt_append B self entry =
     apfst (\<lambda>data. self\<lparr>sq_data := data\<rparr>) (ls_append (be_entries B) (sq_data self) entry)"

definition SequenceCrdt_apply_crdt_op ::
    "('p, 'a, 'c, 'o) Backend \<Rightarrow> ('p, 'c) SequenceCrdt \<Rightarrow> (Entry, 'o) Op \<Rightarrow> ('p, 'c) SequenceCrdt" where
  "SequenceCrdt_apply_crdt_op B self op = self\<lparr>sq_data := ls_apply (be_entries B) op (sq_data self)\<rparr>"

definition SequenceCrdt_get :: "('p, 'a, 'c, 'o) Backend \<Rightarrow> ('p, 'c) SequenceCrdt \<Rightarrow> Index \<Rightarrow> Entry option" where
  "SequenceCrdt_get B self index =
     Option.bind (to_absolute_index index (SequenceCrdt_entries_index B self)) (\<lambda>i. ls_get (be_entries B) (sq_data self) i)"

definition SequenceCrdt_last_entry :: "('p, 'a, 'c, 'o) Backend \<Rightarrow> ('p, 'c) SequenceCrdt \<Rightarrow> Entry option" where
  "SequenceCrdt_last_entry B self = ls_last (be_entries B) (sq_data self)"

definition SequenceCrdt_permissions :: "('p, 'a, 'c, 'o) Backend \<Rightarrow> ('p, 'c) SequenceCrdt \<Rightarrow> Index \<Rightarrow> 'p option" where
  "SequenceCrdt_permissions B self index =
     Option.bind (to_absolute_index index (ls_len (be_perms B) (sq_permissions self)))
       (\<lambda>i. ls_get (be_perms B) (sq_permissions self) i)"

definition SequenceCrdt_owner :: "('p, 'a, 'c, 'o) Backend \<Rightarrow> ('p, 'c) SequenceCrdt \<Rightarrow> Index \<Rightarrow> Owner option" where
  "SequenceCrdt_owner B self owners_index =
     Option.bind (to_absolute_index owners_index (ls_len (be_owners B) (sq_owners self)))
       (\<lambda>i. ls_get (be_owners B) (sq_owners self) i)"

text \<open>\<open>iter().enumerate()\<close> counts in \<open>usize\<close>.\<close>

definition enumerate_usize :: "'x list \<Rightarrow> (usize \<times> 'x) list" where
  "enumerate_usize xs = zip (map word_of_nat [0..<length xs]) xs"

definition SequenceCrdt_in_range ::
    "('p, 'a, 'c, 'o) Backend \<Rightarrow> ('p, 'c) SequenceCrdt \<Rightarrow> Index \<Rightarrow> Index \<Rightarrow> Entries option" where
  "SequenceCrdt_in_range B self start fin =
     Option.bind (to_absolute_index start (SequenceCrdt_entries_index B self)) (\<lambda>start_index.
     Option.bind (to_absolute_index fin (SequenceCrdt_entries_index B self)) (\<lambda>end_index.
       let range = List.map_filter (\<lambda>(i, entry). if start_index \<le> i \<and> i < end_index then Some entry else None)
                     (enumerate_usize (ls_iter (be_entries B) (sq_data self)))
       in if range = [] then None else Some range))"

definition SequenceCrdt_indices :: "('p, 'a, 'c, 'o) Backend \<Rightarrow> ('p, 'c) SequenceCrdt \<Rightarrow> Indices Result" where
  "SequenceCrdt_indices B self =
     Ok (Indices_new (SequenceCrdt_entries_index B self) (SequenceCrdt_owners_index B self)
           (SequenceCrdt_permissions_index B self))"

definition SequenceCrdt_append_permissions ::
    "('p, 'a, 'c, 'o) Backend \<Rightarrow> ('p, 'c) SequenceCrdt \<Rightarrow> 'p \<Rightarrow> ('p, 'c) SequenceCrdt \<times> ('p, 'o) Op" where
  "SequenceCrdt_append_permissions B self permissions =
     apfst (\<lambda>perms. self\<lparr>sq_permissions := perms\<rparr>) (ls_append (be_perms B) (sq_permissions self) permissions)"

definition SequenceCrdt_apply_crdt_perms_op ::
    "('p, 'a, 'c, 'o) Backend \<Rightarrow> ('p, 'c) SequenceCrdt \<Rightarrow> ('p, 'o) Op \<Rightarrow> ('p, 'c) SequenceCrdt" where
  "SequenceCrdt_apply_crdt_perms_op B self op =
     self\<lparr>sq_permissions := ls_apply (be_perms B) op (sq_permissions self)\<rparr>"

definition SequenceCrdt_append_owner ::
    "('p, 'a, 'c, 'o) Backend \<Rightarrow> ('p, 'c) SequenceCrdt \<Rightarrow> PublicKey \<Rightarrow> ('p, 'c) SequenceCrdt \<times> (Owner, 'o) Op" where
  "SequenceCrdt_append_owner B self public_key =
     apfst (\<lambda>owners. self\<lparr>sq_owners := owners\<rparr>)
       (ls_append (be_owners B) (sq_owners self)
          \<lparr>ow_public_key = public_key, ow_entries_index = SequenceCrdt_entries_index B self,
           ow_permissions_index = SequenceCrdt_permissions_index B self\<rparr>)"

definition SequenceCrdt_apply_crdt_owner_op ::
    "('p, 'a, 'c, 'o) Backend \<Rightarrow> ('p, 'c) SequenceCrdt \<Rightarrow> (Owner, 'o) Op \<Rightarrow> ('p, 'c) SequenceCrdt" where
  "SequenceCrdt_apply_crdt_owner_op B self op = self\<lparr>sq_owners := ls_apply (be_owners B) op (sq_owners self)\<rparr>"

definition SequenceCrdt_check_is_last_owner ::
    "('p, 'a, 'c, 'o) Backend \<Rightarrow> ('p, 'c) SequenceCrdt \<Rightarrow> PublicKey \<Rightarrow> unit Result" where
  "SequenceCrdt_check_is_last_owner B self requester =
     and_then (ok_or InvalidOwners (SequenceCrdt_owner B self (FromEnd 1))) (\<lambda>owner.
       if ow_public_key owner = requester then Ok () else Err AccessDenied)"

section \<open>The abstract sequence\<close>

text \<open>What an observer can learn of a sequence: the address and the contents of the three histories.\<close>

record 'p SeqView =
  vw_address :: SequenceAddress
  vw_entries :: "Entry list"
  vw_perms :: "'p list"
  vw_owners :: "Owner list"

definition seq_view :: "('p, 'a, 'c, 'o) Backend \<Rightarrow> ('p, 'c) SequenceCrdt \<Rightarrow> 'p SeqView" where
  "seq_view B s =
     \<lparr>vw_address = sq_address s, vw_entries = ls_iter (be_entries B) (sq_data s),
      vw_perms = ls_iter (be_perms B) (sq_permissions s), vw_owners = ls_iter (be_owners B) (sq_owners s)\<rparr>"

text \<open>The element an index names, by position from the start or from the end.\<close>

fun nth_index :: "'x list \<Rightarrow> Index \<Rightarrow> 'x option" where
  "nth_index xs (FromStart i) = (if unat i < length xs then Some (xs ! unat i) else None)"
| "nth_index xs (FromEnd i) = (if 0 < unat i \<and> unat i \<le> length xs then Some (xs ! (length xs - unat i)) else None)"

fun position :: "'x list \<Rightarrow> Index \<Rightarrow> nat option" where
  "position xs (FromStart i) = (if unat i \<le> length xs then Some (unat i) else None)"
| "position xs (FromEnd i) = (if unat i \<le> length xs then Some (length xs - unat i) else None)"

definition slice_range :: "'x list \<Rightarrow> Index \<Rightarrow> Index \<Rightarrow> 'x list option" where
  "slice_range xs start fin =
     (case (position xs start, position xs fin) of
        (Some i, Some j) \<Rightarrow> if i < j then Some (take (j - i) (drop i xs)) else None
      | _ \<Rightarrow> None)"

definition backend_laws ::
    "('p, 'a, 'c, 'o) Backend \<Rightarrow> ((Entry, 'o) Op \<Rightarrow> (Entry, 'o) Op \<Rightarrow> bool) \<Rightarrow> (('p, 'o) Op \<Rightarrow> ('p, 'o) Op \<Rightarrow> bool) \<Rightarrow>
     ((Owner, 'o) Op \<Rightarrow> (Owner, 'o) Op \<Rightarrow> bool) \<Rightarrow> bool" where
  "backend_laws B he hp ho \<longleftrightarrow> lseq (be_entries B) he \<and> lseq (be_perms B) hp \<and> lseq (be_owners B) ho"

text \<open>The histories fit the address space: their lengths are \<open>usize\<close> values.\<close>

definition fits :: "'p SeqView \<Rightarrow> bool" where
  "fits v \<longleftrightarrow> length (vw_entries v) < 2 ^ 64 \<and> length (vw_perms v) < 2 ^ 64 \<and> length (vw_owners v) < 2 ^ 64"

section \<open>Reading\<close>

lemma length_usize: "length xs < 2 ^ 64 \<Longrightarrow> unat (word_of_nat (length xs) :: usize) = length xs"
  by (rule unat_word_of_nat) simp

context lseq begin

lemma nth_spec:
  assumes "length (ls_iter L s) < 2 ^ 64"
  shows "Option.bind (to_absolute_index ix (ls_len L s)) (ls_get L s) = nth_index (ls_iter L s) ix"
  using assms
  by (cases ix) (auto simp: get_iter len_iter checked_sub_def word_le_nat_alt length_usize unat_sub)

lemma last_spec: "ls_last L s = nth_index (ls_iter L s) (FromEnd 1)"
  by (auto simp: last_iter last_conv_nth Suc_le_eq)

end

lemma position_abs:
  assumes "length xs < 2 ^ 64"
  shows "map_option unat (to_absolute_index ix (word_of_nat (length xs))) = position xs ix"
  using assms by (cases ix) (auto simp: checked_sub_def word_le_nat_alt length_usize unat_sub)

lemma enumerate_filter:
  fixes a b :: usize
  assumes "n + length xs < 2 ^ 64"
  shows "List.map_filter (\<lambda>(i, x). if a \<le> i \<and> i < b then Some x else None)
           (zip (map word_of_nat [n..<n + length xs]) xs) =
         take (unat b - max (unat a) n) (drop (unat a - n) xs)"
  using assms
proof (induction xs arbitrary: n)
  case (Cons x xs)
  have n: "unat (word_of_nat n :: usize) = n" using Cons.prems by (intro unat_word_of_nat) simp
  have step: "zip (map word_of_nat [n..<n + length (x # xs)]) (x # xs) =
      (word_of_nat n :: usize, x) # zip (map word_of_nat [Suc n..<Suc n + length xs]) xs"
    by (simp add: upt_conv_Cons del: upt_Suc of_nat_Suc)
  note IH = Cons.IH [of "Suc n"]
  show ?case
  proof (cases "unat a \<le> n \<and> n < unat b")
    case True
    then show ?thesis unfolding step using IH Cons.prems
      by (simp add: List.map_filter_simps word_le_nat_alt word_less_nat_alt n max_def take_Cons' del: of_nat_Suc upt_Suc)
  next
    case False
    show ?thesis
    proof (cases "n < unat a")
      case True
      then have "max (unat a) (Suc n) = unat a" "max (unat a) n = unat a" "unat a - n = Suc (unat a - Suc n)"
        by simp_all
      then show ?thesis unfolding step using IH Cons.prems True
        by (simp add: List.map_filter_simps word_le_nat_alt n del: of_nat_Suc upt_Suc)
    next
      case F: False
      then have "\<not> n < unat b" using \<open>\<not> (unat a \<le> n \<and> n < unat b)\<close> by simp
      then show ?thesis unfolding step using IH Cons.prems F
        by (simp add: List.map_filter_simps word_le_nat_alt word_less_nat_alt n del: of_nat_Suc upt_Suc)
    qed
  qed
qed (simp add: List.map_filter_simps)

lemma in_range_filter:
  assumes "length xs < 2 ^ 64"
  shows "List.map_filter (\<lambda>(i, x). if a \<le> i \<and> i < b then Some x else None) (enumerate_usize xs) =
         take (unat b - unat a) (drop (unat a) xs)"
  using enumerate_filter [of 0 xs a b] assms by (simp add: enumerate_usize_def)

lemma position_le: "position xs ix = Some i \<Longrightarrow> i \<le> length xs"
  by (cases ix) (auto split: if_splits)

lemma slice_empty: "i \<le> length xs \<Longrightarrow> j \<le> length xs \<Longrightarrow> take (j - i) (drop i xs) = [] \<longleftrightarrow> \<not> i < j"
  by auto

lemma view_reads:
  assumes "backend_laws B he hp ho" "fits (seq_view B s)"
  shows "SequenceCrdt_get B s ix = nth_index (vw_entries (seq_view B s)) ix"
    and "SequenceCrdt_permissions B s ix = nth_index (vw_perms (seq_view B s)) ix"
    and "SequenceCrdt_owner B s ix = nth_index (vw_owners (seq_view B s)) ix"
    and "SequenceCrdt_last_entry B s = nth_index (vw_entries (seq_view B s)) (FromEnd 1)"
    and "SequenceCrdt_in_range B s start fin = slice_range (vw_entries (seq_view B s)) start fin"
proof -
  have L: "lseq (be_entries B) he" "lseq (be_perms B) hp" "lseq (be_owners B) ho"
    using assms(1) by (simp_all add: backend_laws_def)
  have F: "length (ls_iter (be_entries B) (sq_data s)) < 2 ^ 64" "length (ls_iter (be_perms B) (sq_permissions s)) < 2 ^ 64"
      "length (ls_iter (be_owners B) (sq_owners s)) < 2 ^ 64"
    using assms(2) by (simp_all add: fits_def seq_view_def)
  show "SequenceCrdt_get B s ix = nth_index (vw_entries (seq_view B s)) ix"
    using lseq.nth_spec [OF L(1) F(1), of ix] by (simp add: SequenceCrdt_get_def SequenceCrdt_entries_index_def seq_view_def)
  show "SequenceCrdt_permissions B s ix = nth_index (vw_perms (seq_view B s)) ix"
    using lseq.nth_spec [OF L(2) F(2), of ix] by (simp add: SequenceCrdt_permissions_def seq_view_def)
  show "SequenceCrdt_owner B s ix = nth_index (vw_owners (seq_view B s)) ix"
    using lseq.nth_spec [OF L(3) F(3), of ix] by (simp add: SequenceCrdt_owner_def seq_view_def)
  show "SequenceCrdt_last_entry B s = nth_index (vw_entries (seq_view B s)) (FromEnd 1)"
    by (simp add: SequenceCrdt_last_entry_def lseq.last_spec [OF L(1)] seq_view_def)
  show "SequenceCrdt_in_range B s start fin = slice_range (vw_entries (seq_view B s)) start fin"
  proof -
    let ?xs = "ls_iter (be_entries B) (sq_data s)"
    have p: "position ?xs ix = map_option unat (to_absolute_index ix (word_of_nat (length ?xs)))" for ix
      by (rule position_abs [OF F(1), symmetric])
    have le: "i \<le> length ?xs" if "position ?xs ix = Some i" for ix i
      using that by (rule position_le)
    show ?thesis
      using le [of start] le [of fin]
      by (cases "to_absolute_index start (word_of_nat (length ?xs))";
          cases "to_absolute_index fin (word_of_nat (length ?xs))")
         (auto simp: SequenceCrdt_in_range_def SequenceCrdt_entries_index_def lseq.len_iter [OF L(1)] Let_def
            in_range_filter [OF F(1)] slice_range_def seq_view_def p slice_empty)
  qed
qed

text \<open>Every read is a function of the view, whatever the carrier holds.\<close>

lemma same_view_same_reads:
  assumes "backend_laws B he hp ho" "seq_view B s = seq_view B t"
  shows "SequenceCrdt_get B s ix = SequenceCrdt_get B t ix"
    and "SequenceCrdt_permissions B s ix = SequenceCrdt_permissions B t ix"
    and "SequenceCrdt_owner B s ix = SequenceCrdt_owner B t ix"
    and "SequenceCrdt_in_range B s start fin = SequenceCrdt_in_range B t start fin"
    and "SequenceCrdt_indices B s = SequenceCrdt_indices B t"
    and "SequenceCrdt_last_entry B s = SequenceCrdt_last_entry B t"
    and "SequenceCrdt_check_is_last_owner B s requester = SequenceCrdt_check_is_last_owner B t requester"
    and "sq_address s = sq_address t"
proof -
  have L: "lseq (be_entries B) he" "lseq (be_perms B) hp" "lseq (be_owners B) ho"
    using assms(1) by (simp_all add: backend_laws_def)
  have V: "ls_iter (be_entries B) (sq_data s) = ls_iter (be_entries B) (sq_data t)"
      "ls_iter (be_perms B) (sq_permissions s) = ls_iter (be_perms B) (sq_permissions t)"
      "ls_iter (be_owners B) (sq_owners s) = ls_iter (be_owners B) (sq_owners t)" "sq_address s = sq_address t"
    using assms(2) by (simp_all add: seq_view_def)
  have get: "ls_get (be_entries B) (sq_data s) = ls_get (be_entries B) (sq_data t)"
      "ls_get (be_perms B) (sq_permissions s) = ls_get (be_perms B) (sq_permissions t)"
      "ls_get (be_owners B) (sq_owners s) = ls_get (be_owners B) (sq_owners t)"
    by (intro ext; simp only: lseq.get_iter [OF L(1)] lseq.get_iter [OF L(2)] lseq.get_iter [OF L(3)] V)+
  have lst: "ls_last (be_entries B) (sq_data s) = ls_last (be_entries B) (sq_data t)"
    by (simp only: lseq.last_iter [OF L(1)] V)
  have len: "SequenceCrdt_entries_index B s = SequenceCrdt_entries_index B t"
      "SequenceCrdt_permissions_index B s = SequenceCrdt_permissions_index B t"
      "SequenceCrdt_owners_index B s = SequenceCrdt_owners_index B t"
    by (simp_all add: SequenceCrdt_entries_index_def SequenceCrdt_permissions_index_def SequenceCrdt_owners_index_def
        lseq.len_iter [OF L(1)] lseq.len_iter [OF L(2)] lseq.len_iter [OF L(3)] V)
  show "SequenceCrdt_get B s ix = SequenceCrdt_get B t ix" "SequenceCrdt_indices B s = SequenceCrdt_indices B t"
      "SequenceCrdt_in_range B s start fin = SequenceCrdt_in_range B t start fin"
      "SequenceCrdt_last_entry B s = SequenceCrdt_last_entry B t" "sq_address s = sq_address t"
    by (simp_all add: SequenceCrdt_get_def SequenceCrdt_indices_def SequenceCrdt_in_range_def SequenceCrdt_last_entry_def
        get lst len V)
  show "SequenceCrdt_permissions B s ix = SequenceCrdt_permissions B t ix"
    by (simp add: SequenceCrdt_permissions_def get lseq.len_iter [OF L(2)] V)
  show owner: "SequenceCrdt_owner B s ix = SequenceCrdt_owner B t ix" for ix
    by (simp add: SequenceCrdt_owner_def get lseq.len_iter [OF L(3)] V)
  show "SequenceCrdt_check_is_last_owner B s requester = SequenceCrdt_check_is_last_owner B t requester"
    by (simp add: SequenceCrdt_check_is_last_owner_def owner)
qed

section \<open>Writing\<close>

lemma view_writes:
  assumes "backend_laws B he hp ho"
  shows "seq_view B (fst (SequenceCrdt_append B s e)) = (seq_view B s)\<lparr>vw_entries := vw_entries (seq_view B s) @ [e]\<rparr>"
    and "seq_view B (fst (SequenceCrdt_append_permissions B s p)) = (seq_view B s)\<lparr>vw_perms := vw_perms (seq_view B s) @ [p]\<rparr>"
    and "seq_view B (fst (SequenceCrdt_append_owner B s k)) = (seq_view B s)\<lparr>vw_owners := vw_owners (seq_view B s) @
           [\<lparr>ow_public_key = k, ow_entries_index = SequenceCrdt_entries_index B s,
             ow_permissions_index = SequenceCrdt_permissions_index B s\<rparr>]\<rparr>"
    and "seq_view B (SequenceCrdt_new B actor addr) =
           \<lparr>vw_address = addr, vw_entries = [], vw_perms = [], vw_owners = []\<rparr>"
    and "SequenceCrdt_entries_index B s = word_of_nat (length (vw_entries (seq_view B s)))"
    and "SequenceCrdt_permissions_index B s = word_of_nat (length (vw_perms (seq_view B s)))"
    and "SequenceCrdt_owners_index B s = word_of_nat (length (vw_owners (seq_view B s)))"
proof -
  have L: "lseq (be_entries B) he" "lseq (be_perms B) hp" "lseq (be_owners B) ho"
    using assms(1) by (simp_all add: backend_laws_def)
  show "seq_view B (fst (SequenceCrdt_append B s e)) = (seq_view B s)\<lparr>vw_entries := vw_entries (seq_view B s) @ [e]\<rparr>"
    and "seq_view B (fst (SequenceCrdt_append_permissions B s p)) = (seq_view B s)\<lparr>vw_perms := vw_perms (seq_view B s) @ [p]\<rparr>"
    and "seq_view B (fst (SequenceCrdt_append_owner B s k)) = (seq_view B s)\<lparr>vw_owners := vw_owners (seq_view B s) @
           [\<lparr>ow_public_key = k, ow_entries_index = SequenceCrdt_entries_index B s,
             ow_permissions_index = SequenceCrdt_permissions_index B s\<rparr>]\<rparr>"
    by (simp_all add: seq_view_def SequenceCrdt_append_def SequenceCrdt_append_permissions_def SequenceCrdt_append_owner_def
        lseq.iter_append [OF L(1)] lseq.iter_append [OF L(2)] lseq.iter_append [OF L(3)])
  show "seq_view B (SequenceCrdt_new B actor addr) =
           \<lparr>vw_address = addr, vw_entries = [], vw_perms = [], vw_owners = []\<rparr>"
    by (simp add: seq_view_def SequenceCrdt_new_def lseq.iter_new [OF L(1)] lseq.iter_new [OF L(2)] lseq.iter_new [OF L(3)])
  show "SequenceCrdt_entries_index B s = word_of_nat (length (vw_entries (seq_view B s)))"
      "SequenceCrdt_permissions_index B s = word_of_nat (length (vw_perms (seq_view B s)))"
      "SequenceCrdt_owners_index B s = word_of_nat (length (vw_owners (seq_view B s)))"
    by (simp_all add: seq_view_def SequenceCrdt_entries_index_def SequenceCrdt_permissions_index_def
        SequenceCrdt_owners_index_def lseq.len_iter [OF L(1)] lseq.len_iter [OF L(2)] lseq.len_iter [OF L(3)])
qed

lemma append_applies:
  assumes "backend_laws B he hp ho"
  shows "SequenceCrdt_apply_crdt_op B s (snd (SequenceCrdt_append B s e)) = fst (SequenceCrdt_append B s e)"
    and "SequenceCrdt_apply_crdt_perms_op B s (snd (SequenceCrdt_append_permissions B s p)) =
           fst (SequenceCrdt_append_permissions B s p)"
    and "SequenceCrdt_apply_crdt_owner_op B s (snd (SequenceCrdt_append_owner B s k)) = fst (SequenceCrdt_append_owner B s k)"
proof -
  have L: "lseq (be_entries B) he" "lseq (be_perms B) hp" "lseq (be_owners B) ho"
    using assms(1) by (simp_all add: backend_laws_def)
  show "SequenceCrdt_apply_crdt_op B s (snd (SequenceCrdt_append B s e)) = fst (SequenceCrdt_append B s e)"
    and "SequenceCrdt_apply_crdt_perms_op B s (snd (SequenceCrdt_append_permissions B s p)) =
           fst (SequenceCrdt_append_permissions B s p)"
    and "SequenceCrdt_apply_crdt_owner_op B s (snd (SequenceCrdt_append_owner B s k)) = fst (SequenceCrdt_append_owner B s k)"
    by (simp_all add: SequenceCrdt_apply_crdt_op_def SequenceCrdt_append_def SequenceCrdt_apply_crdt_perms_op_def
        SequenceCrdt_append_permissions_def SequenceCrdt_apply_crdt_owner_op_def SequenceCrdt_append_owner_def
        lseq.apply_append [OF L(1)] lseq.apply_append [OF L(2)] lseq.apply_append [OF L(3)])
qed

section \<open>Replication\<close>

datatype ('p, 'o) SeqOp =
    EntryOp "(Entry, 'o) Op"
  | PermsOp "('p, 'o) Op"
  | OwnerOp "(Owner, 'o) Op"

fun seq_apply :: "('p, 'a, 'c, 'o) Backend \<Rightarrow> ('p, 'o) SeqOp \<Rightarrow> ('p, 'c) SequenceCrdt \<Rightarrow> ('p, 'c) SequenceCrdt" where
  "seq_apply B (EntryOp op) s = SequenceCrdt_apply_crdt_op B s op"
| "seq_apply B (PermsOp op) s = SequenceCrdt_apply_crdt_perms_op B s op"
| "seq_apply B (OwnerOp op) s = SequenceCrdt_apply_crdt_owner_op B s op"

fun seq_hb ::
    "((Entry, 'o) Op \<Rightarrow> (Entry, 'o) Op \<Rightarrow> bool) \<Rightarrow> (('p, 'o) Op \<Rightarrow> ('p, 'o) Op \<Rightarrow> bool) \<Rightarrow>
     ((Owner, 'o) Op \<Rightarrow> (Owner, 'o) Op \<Rightarrow> bool) \<Rightarrow> ('p, 'o) SeqOp \<Rightarrow> ('p, 'o) SeqOp \<Rightarrow> bool" where
  "seq_hb he hp ho (EntryOp x) (EntryOp y) \<longleftrightarrow> he x y"
| "seq_hb he hp ho (PermsOp x) (PermsOp y) \<longleftrightarrow> hp x y"
| "seq_hb he hp ho (OwnerOp x) (OwnerOp y) \<longleftrightarrow> ho x y"
| "seq_hb he hp ho _ _ \<longleftrightarrow> False"

fun entry_ops :: "('p, 'o) SeqOp list \<Rightarrow> (Entry, 'o) Op list" where
  "entry_ops [] = []"
| "entry_ops (EntryOp op # ops) = op # entry_ops ops"
| "entry_ops (_ # ops) = entry_ops ops"

fun perms_ops :: "('p, 'o) SeqOp list \<Rightarrow> ('p, 'o) Op list" where
  "perms_ops [] = []"
| "perms_ops (PermsOp op # ops) = op # perms_ops ops"
| "perms_ops (_ # ops) = perms_ops ops"

fun owner_ops :: "('p, 'o) SeqOp list \<Rightarrow> (Owner, 'o) Op list" where
  "owner_ops [] = []"
| "owner_ops (OwnerOp op # ops) = op # owner_ops ops"
| "owner_ops (_ # ops) = owner_ops ops"

lemma seq_apply_parts:
  "sq_address (fold (seq_apply B) ops s) = sq_address s"
  "sq_data (fold (seq_apply B) ops s) = fold (ls_apply (be_entries B)) (entry_ops ops) (sq_data s)"
  "sq_permissions (fold (seq_apply B) ops s) = fold (ls_apply (be_perms B)) (perms_ops ops) (sq_permissions s)"
  "sq_owners (fold (seq_apply B) ops s) = fold (ls_apply (be_owners B)) (owner_ops ops) (sq_owners s)"
proof (induction ops arbitrary: s)
  case (Cons op ops)
  case 1 show ?case using Cons by (cases op) (simp_all add: SequenceCrdt_apply_crdt_op_def
      SequenceCrdt_apply_crdt_perms_op_def SequenceCrdt_apply_crdt_owner_op_def)
  case 2 show ?case using Cons by (cases op) (simp_all add: SequenceCrdt_apply_crdt_op_def
      SequenceCrdt_apply_crdt_perms_op_def SequenceCrdt_apply_crdt_owner_op_def)
  case 3 show ?case using Cons by (cases op) (simp_all add: SequenceCrdt_apply_crdt_op_def
      SequenceCrdt_apply_crdt_perms_op_def SequenceCrdt_apply_crdt_owner_op_def)
  case 4 show ?case using Cons by (cases op) (simp_all add: SequenceCrdt_apply_crdt_op_def
      SequenceCrdt_apply_crdt_perms_op_def SequenceCrdt_apply_crdt_owner_op_def)
qed simp_all

locale seq_replica =
  fixes B :: "('p, 'a, 'c, 'o) Backend" and he hp ho
  assumes laws: "backend_laws B he hp ho"

sublocale seq_replica \<subseteq> replica: causal_replica "seq_apply B" "seq_hb he hp ho"
proof
  fix a b s
  assume "a \<noteq> b" "\<not> seq_hb he hp ho a b" "\<not> seq_hb he hp ho b a"
  moreover have L: "lseq (be_entries B) he" "lseq (be_perms B) hp" "lseq (be_owners B) ho"
    using laws by (simp_all add: backend_laws_def)
  ultimately show "seq_apply B a (seq_apply B b s) = seq_apply B b (seq_apply B a s)"
    by (cases a; cases b)
       (simp_all add: SequenceCrdt_apply_crdt_op_def SequenceCrdt_apply_crdt_perms_op_def SequenceCrdt_apply_crdt_owner_op_def
         lseq.commute [OF L(1)] lseq.commute [OF L(2)] lseq.commute [OF L(3)])
qed

context seq_replica begin

lemma actor_free_view:
  "seq_view B (fold (seq_apply B) ops (SequenceCrdt_new B a addr)) =
   seq_view B (fold (seq_apply B) ops (SequenceCrdt_new B a' addr))"
proof -
  have L: "lseq (be_entries B) he" "lseq (be_perms B) hp" "lseq (be_owners B) ho"
    using laws by (simp_all add: backend_laws_def)
  show ?thesis
    using lseq.actor_free [OF L(1)] lseq.actor_free [OF L(2)] lseq.actor_free [OF L(3)]
    by (simp add: seq_view_def seq_apply_parts SequenceCrdt_new_def)
qed

lemma views_converge:
  assumes "mset xs = mset ys" "causal_order (seq_hb he hp ho) xs" "causal_order (seq_hb he hp ho) ys"
  shows "seq_view B (fold (seq_apply B) xs (SequenceCrdt_new B a addr)) =
         seq_view B (fold (seq_apply B) ys (SequenceCrdt_new B a' addr))"
  unfolding replica.converge [OF assms] by (rule actor_free_view)

end

end
