(* ===== verification/SeqRef.thy ===== *)
theory SeqRef
  imports SeqCrdt "HOL-Library.Finite_Map"
begin

text \<open>
  A reference implementation of the contract \<open>lseq\<close>: a finite map from position identifiers to
  elements, read in identifier order; an append takes an identifier above all those in use. It shows
  that the contract can be met, and the concrete instances of the sequence properties run on it.
\<close>

datatype Elem =
    Elem_Entry Entry
  | Elem_Public PublicPermissions
  | Elem_Private PrivatePermissions
  | Elem_Owner Owner

datatype RefOp = Ref_Insert "nat list" Elem | Ref_Delete "nat list"

type_synonym RefSeq = "nat list \<times> (nat list, Elem) fmap"

fun actor_code :: "PublicKey \<Rightarrow> nat list" where
  "actor_code (PublicKey_Ed25519 k) = [0, unat k]"
| "actor_code (PublicKey_Bls k) = [1, unat k]"
| "actor_code (PublicKey_BlsShare k) = [2, unat k]"

fun counter :: "nat list \<Rightarrow> nat" where
  "counter [] = 0"
| "counter (x # _) = x"

definition next_counter :: "(nat list, Elem) fmap \<Rightarrow> nat" where
  "next_counter m = Suc (Max (insert 0 (counter ` fset (fmdom m))))"

definition ref_keys :: "(nat list, Elem) fmap \<Rightarrow> nat list list" where
  "ref_keys m = sorted_list_of_set (fset (fmdom m))"

fun ref_op_key :: "RefOp \<Rightarrow> nat list" where
  "ref_op_key (Ref_Insert k _) = k"
| "ref_op_key (Ref_Delete k) = k"

fun ref_apply :: "RefOp \<Rightarrow> RefSeq \<Rightarrow> RefSeq" where
  "ref_apply (Ref_Insert k v) (actor, m) = (actor, fmupd k v m)"
| "ref_apply (Ref_Delete k) (actor, m) = (actor, fmdrop k m)"

definition ref_iter :: "(Elem \<Rightarrow> 't) \<Rightarrow> RefSeq \<Rightarrow> 't list" where
  "ref_iter proj s = map (\<lambda>k. proj (the (fmlookup (snd s) k))) (ref_keys (snd s))"

definition ref_append_op :: "('t \<Rightarrow> Elem) \<Rightarrow> RefSeq \<Rightarrow> 't \<Rightarrow> RefOp" where
  "ref_append_op emb s v = Ref_Insert (next_counter (snd s) # fst s) (emb v)"

fun the_seq :: "('t, 'c) LSeq \<Rightarrow> 'c" where
  "the_seq (LSeq c) = c"

fun the_op :: "('t, 'o) Op \<Rightarrow> 'o" where
  "the_op (Op x) = x"

definition ref_lseq :: "('t \<Rightarrow> Elem) \<Rightarrow> (Elem \<Rightarrow> 't) \<Rightarrow> ('t, PublicKey, RefSeq, RefOp) LSeqOps" where
  "ref_lseq emb proj =
     \<lparr>ls_new = \<lambda>actor _ _. LSeq (actor_code actor, fmempty),
      ls_append = \<lambda>s v. (LSeq (ref_apply (ref_append_op emb (the_seq s) v) (the_seq s)), Op (ref_append_op emb (the_seq s) v)),
      ls_apply = \<lambda>x s. LSeq (ref_apply (the_op x) (the_seq s)),
      ls_get = \<lambda>s i. if unat i < length (ref_iter proj (the_seq s)) then Some (ref_iter proj (the_seq s) ! unat i) else None,
      ls_last = \<lambda>s. if ref_iter proj (the_seq s) = [] then None else Some (last (ref_iter proj (the_seq s))),
      ls_len = \<lambda>s. word_of_nat (length (ref_iter proj (the_seq s))),
      ls_iter = \<lambda>s. ref_iter proj (the_seq s),
      ls_is_insert = \<lambda>x. (case the_op x of Ref_Insert _ _ \<Rightarrow> True | Ref_Delete _ \<Rightarrow> False)\<rparr>"

text \<open>Two operations on the same identifier are causally related; on different ones they commute.\<close>

definition ref_hb :: "('t, RefOp) Op \<Rightarrow> ('t, RefOp) Op \<Rightarrow> bool" where
  "ref_hb x y \<longleftrightarrow> x \<noteq> y \<and> ref_op_key (the_op x) = ref_op_key (the_op y)"

section \<open>The contract holds\<close>

lemma counter_less: "counter k < n \<Longrightarrow> k < n # xs"
  by (cases k) auto

lemma next_counter_above: "k \<in> fset (fmdom m) \<Longrightarrow> k < next_counter m # xs"
proof (rule counter_less)
  assume "k \<in> fset (fmdom m)"
  then have "counter k \<le> Max (insert 0 (counter ` fset (fmdom m)))" by (intro Max_ge) auto
  then show "counter k < next_counter m" by (simp add: next_counter_def)
qed

lemma ref_keys_append:
  "ref_keys (fmupd (next_counter m # xs) v m) = ref_keys m @ [next_counter m # xs]"
  unfolding ref_keys_def
proof (rule strict_sorted_equal)
  show "sorted_wrt (<) (sorted_list_of_set (fset (fmdom (fmupd (next_counter m # xs) v m))))"
    by (rule strict_sorted_list_of_set)
  show "sorted_wrt (<) (sorted_list_of_set (fset (fmdom m)) @ [next_counter m # xs])"
    by (auto simp: sorted_wrt_append next_counter_above)
qed (auto simp: set_insort_key)

lemma ref_iter_append:
  assumes "\<And>v. proj (emb v) = v"
  shows "ref_iter proj (ref_apply (ref_append_op emb s v) s) = ref_iter proj s @ [v]"
proof -
  obtain a m where s: "s = (a, m)" by (cases s)
  have "next_counter m # a \<notin> fset (fmdom m)" using next_counter_above [of "next_counter m # a" m a] by auto
  then have "k \<in> set (ref_keys m) \<Longrightarrow> k \<noteq> next_counter m # a" for k by (auto simp: ref_keys_def)
  then show ?thesis by (auto simp: s ref_iter_def ref_append_op_def ref_keys_append assms)
qed

lemma ref_commute:
  assumes "ref_op_key x \<noteq> ref_op_key y"
  shows "ref_apply x (ref_apply y s) = ref_apply y (ref_apply x s)"
  using assms by (cases x; cases y; cases s) (auto intro!: fmap_ext)

lemma ref_actor_free:
  "snd (fold ref_apply ops (a, m)) = snd (fold ref_apply ops (a', m))"
proof (induction ops arbitrary: m)
  case (Cons x ops)
  then show ?case by (cases x) simp_all
qed simp

lemma fold_LSeq:
  "fold (\<lambda>x s. LSeq (ref_apply (the_op x) (the_seq s))) ops (LSeq c) = LSeq (fold ref_apply (map the_op ops) c)"
  by (induction ops arbitrary: c) simp_all

lemma ref_lseq_ok:
  assumes "\<And>v. proj (emb v) = v"
  shows "lseq (ref_lseq emb proj) ref_hb"
proof
  fix x y :: "('a, RefOp) Op" and s
  assume "x \<noteq> y" "\<not> ref_hb x y" "\<not> ref_hb y x"
  then show "ls_apply (ref_lseq emb proj) x (ls_apply (ref_lseq emb proj) y s) =
      ls_apply (ref_lseq emb proj) y (ls_apply (ref_lseq emb proj) x s)"
    using ref_commute [of "the_op x" "the_op y" "the_seq s"] by (simp add: ref_lseq_def ref_hb_def)
next
  fix a a' b c and ops :: "('a, RefOp) Op list"
  show "ls_iter (ref_lseq emb proj) (fold (ls_apply (ref_lseq emb proj)) ops (ls_new (ref_lseq emb proj) a b c)) =
      ls_iter (ref_lseq emb proj) (fold (ls_apply (ref_lseq emb proj)) ops (ls_new (ref_lseq emb proj) a' b c))"
    using ref_actor_free [of "map the_op ops" "actor_code a" fmempty "actor_code a'"]
    by (simp add: ref_lseq_def fold_LSeq ref_iter_def)
qed (simp_all add: ref_lseq_def ref_iter_append assms, simp_all add: ref_iter_def ref_keys_def ref_append_op_def)

section \<open>The reference backends\<close>

fun the_entry :: "Elem \<Rightarrow> Entry" where
  "the_entry (Elem_Entry e) = e"
| "the_entry _ = []"

fun the_owner :: "Elem \<Rightarrow> Owner" where
  "the_owner (Elem_Owner e) = e"
| "the_owner _ = \<lparr>ow_public_key = PublicKey_Ed25519 0, ow_entries_index = 0, ow_permissions_index = 0\<rparr>"

fun the_public :: "Elem \<Rightarrow> PublicPermissions" where
  "the_public (Elem_Public e) = e"
| "the_public _ = \<lparr>pup_permissions = Map.empty, pup_entries_index = 0, pup_owners_index = 0\<rparr>"

fun the_private :: "Elem \<Rightarrow> PrivatePermissions" where
  "the_private (Elem_Private e) = e"
| "the_private _ = \<lparr>prp_permissions = Map.empty, prp_entries_index = 0, prp_owners_index = 0\<rparr>"

definition ref_entries :: "(Entry, PublicKey, RefSeq, RefOp) LSeqOps" where
  "ref_entries = ref_lseq Elem_Entry the_entry"

definition ref_owners :: "(Owner, PublicKey, RefSeq, RefOp) LSeqOps" where
  "ref_owners = ref_lseq Elem_Owner the_owner"

definition ref_public :: "(PublicPermissions, PublicKey, RefSeq, RefOp) Backend" where
  "ref_public = \<lparr>be_entries = ref_entries, be_perms = ref_lseq Elem_Public the_public, be_owners = ref_owners\<rparr>"

definition ref_private :: "(PrivatePermissions, PublicKey, RefSeq, RefOp) Backend" where
  "ref_private = \<lparr>be_entries = ref_entries, be_perms = ref_lseq Elem_Private the_private, be_owners = ref_owners\<rparr>"

lemma ref_laws:
  "backend_laws ref_public ref_hb ref_hb ref_hb" "backend_laws ref_private ref_hb ref_hb ref_hb"
  by (simp_all add: backend_laws_def ref_public_def ref_private_def ref_entries_def ref_owners_def ref_lseq_ok)

interpretation ref_elems: lseq "ref_lseq Elem_Entry the_entry" ref_hb
  by (rule ref_lseq_ok) simp

interpretation ref_pub: seq_replica ref_public ref_hb ref_hb ref_hb
  by unfold_locales (rule ref_laws)

interpretation ref_priv: seq_replica ref_private ref_hb ref_hb ref_hb
  by unfold_locales (rule ref_laws)

end
