(* ===== verification/Sequence.thy ===== *)
theory Sequence
  imports SeqRef
begin

text \<open>
  The enum \<open>Data\<close> of src/src/sequence/mod.rs (the crate's \<open>Sequence\<close>): public and private sequences
  behind one interface, the permission check, and the write operations that are broadcast to other
  replicas. The actor type is \<open>PublicKey\<close>.
\<close>

record ('t, 'o) WriteOp =
  wo_address :: SequenceAddress
  wo_crdt_op :: "('t, 'o) Op"

datatype 'c Sequence =
    Sequence_Public "(PublicPermissions, 'c) SequenceCrdt"
  | Sequence_Private "(PrivatePermissions, 'c) SequenceCrdt"

record ('c, 'o) SeqBackends =
  sb_pub :: "(PublicPermissions, PublicKey, 'c, 'o) Backend"
  sb_priv :: "(PrivatePermissions, PublicKey, 'c, 'o) Backend"

section \<open>Construction and accessors\<close>

definition Sequence_new_pub :: "('c, 'o) SeqBackends \<Rightarrow> PublicKey \<Rightarrow> XorName \<Rightarrow> u64 \<Rightarrow> 'c Sequence" where
  "Sequence_new_pub SB actor name tag =
     Sequence_Public (SequenceCrdt_new (sb_pub SB) actor (SequenceAddress_Public name tag))"

definition Sequence_new_private :: "('c, 'o) SeqBackends \<Rightarrow> PublicKey \<Rightarrow> XorName \<Rightarrow> u64 \<Rightarrow> 'c Sequence" where
  "Sequence_new_private SB actor name tag =
     Sequence_Private (SequenceCrdt_new (sb_priv SB) actor (SequenceAddress_Private name tag))"

fun Sequence_address :: "'c Sequence \<Rightarrow> SequenceAddress" where
  "Sequence_address (Sequence_Public data) = sq_address data"
| "Sequence_address (Sequence_Private data) = sq_address data"

definition Sequence_kind :: "'c Sequence \<Rightarrow> SequenceKind" where
  "Sequence_kind self = SequenceAddress_kind (Sequence_address self)"

definition Sequence_name :: "'c Sequence \<Rightarrow> XorName" where
  "Sequence_name self = SequenceAddress_name (Sequence_address self)"

definition Sequence_tag :: "'c Sequence \<Rightarrow> u64" where
  "Sequence_tag self = SequenceAddress_tag (Sequence_address self)"

definition Sequence_is_pub :: "'c Sequence \<Rightarrow> bool" where
  "Sequence_is_pub self = SequenceKind_is_pub (Sequence_kind self)"

definition Sequence_is_private :: "'c Sequence \<Rightarrow> bool" where
  "Sequence_is_private self = SequenceKind_is_private (Sequence_kind self)"

section \<open>Reading\<close>

text \<open>The macro \<open>check\_perm!\<close>, over either flavour.\<close>

definition check_perm ::
    "('p, 'a, 'c, 'o) Backend \<Rightarrow> ('p \<Rightarrow> PublicKey \<Rightarrow> SequenceAction \<Rightarrow> unit Result) \<Rightarrow> ('p, 'c) SequenceCrdt \<Rightarrow>
     PublicKey \<Rightarrow> SequenceAction \<Rightarrow> unit Result" where
  "check_perm B is_action_allowed data requester action =
     or_else (SequenceCrdt_check_is_last_owner B data requester) (\<lambda>_.
       and_then (ok_or AccessDenied (SequenceCrdt_permissions B data (FromEnd 1))) (\<lambda>perms.
         is_action_allowed perms requester action))"

fun Sequence_check_permission :: "('c, 'o) SeqBackends \<Rightarrow> 'c Sequence \<Rightarrow> SequenceAction \<Rightarrow> PublicKey \<Rightarrow> unit Result" where
  "Sequence_check_permission SB (Sequence_Public data) action requester =
     (if action = SequenceAction_Read then Ok ()
      else check_perm (sb_pub SB) PublicPermissions_is_action_allowed data requester action)"
| "Sequence_check_permission SB (Sequence_Private data) action requester =
     check_perm (sb_priv SB) PrivatePermissions_is_action_allowed data requester action"

fun Sequence_entries_index :: "('c, 'o) SeqBackends \<Rightarrow> 'c Sequence \<Rightarrow> u64" where
  "Sequence_entries_index SB (Sequence_Public data) = SequenceCrdt_entries_index (sb_pub SB) data"
| "Sequence_entries_index SB (Sequence_Private data) = SequenceCrdt_entries_index (sb_priv SB) data"

fun Sequence_permissions_index :: "('c, 'o) SeqBackends \<Rightarrow> 'c Sequence \<Rightarrow> u64" where
  "Sequence_permissions_index SB (Sequence_Public data) = SequenceCrdt_permissions_index (sb_pub SB) data"
| "Sequence_permissions_index SB (Sequence_Private data) = SequenceCrdt_permissions_index (sb_priv SB) data"

fun Sequence_owners_index :: "('c, 'o) SeqBackends \<Rightarrow> 'c Sequence \<Rightarrow> u64" where
  "Sequence_owners_index SB (Sequence_Public data) = SequenceCrdt_owners_index (sb_pub SB) data"
| "Sequence_owners_index SB (Sequence_Private data) = SequenceCrdt_owners_index (sb_priv SB) data"

fun Sequence_in_range :: "('c, 'o) SeqBackends \<Rightarrow> 'c Sequence \<Rightarrow> Index \<Rightarrow> Index \<Rightarrow> Entries option" where
  "Sequence_in_range SB (Sequence_Public data) start fin = SequenceCrdt_in_range (sb_pub SB) data start fin"
| "Sequence_in_range SB (Sequence_Private data) start fin = SequenceCrdt_in_range (sb_priv SB) data start fin"

fun Sequence_get :: "('c, 'o) SeqBackends \<Rightarrow> 'c Sequence \<Rightarrow> Index \<Rightarrow> Entry option" where
  "Sequence_get SB (Sequence_Public data) index = SequenceCrdt_get (sb_pub SB) data index"
| "Sequence_get SB (Sequence_Private data) index = SequenceCrdt_get (sb_priv SB) data index"

fun Sequence_last_entry :: "('c, 'o) SeqBackends \<Rightarrow> 'c Sequence \<Rightarrow> Entry option" where
  "Sequence_last_entry SB (Sequence_Public data) = SequenceCrdt_last_entry (sb_pub SB) data"
| "Sequence_last_entry SB (Sequence_Private data) = SequenceCrdt_last_entry (sb_priv SB) data"

fun Sequence_owner :: "('c, 'o) SeqBackends \<Rightarrow> 'c Sequence \<Rightarrow> Index \<Rightarrow> Owner option" where
  "Sequence_owner SB (Sequence_Public data) owners_index = SequenceCrdt_owner (sb_pub SB) data owners_index"
| "Sequence_owner SB (Sequence_Private data) owners_index = SequenceCrdt_owner (sb_priv SB) data owners_index"

fun Sequence_check_is_last_owner :: "('c, 'o) SeqBackends \<Rightarrow> 'c Sequence \<Rightarrow> PublicKey \<Rightarrow> unit Result" where
  "Sequence_check_is_last_owner SB (Sequence_Public data) requester = SequenceCrdt_check_is_last_owner (sb_pub SB) data requester"
| "Sequence_check_is_last_owner SB (Sequence_Private data) requester = SequenceCrdt_check_is_last_owner (sb_priv SB) data requester"

fun Sequence_user_permissions :: "('c, 'o) SeqBackends \<Rightarrow> 'c Sequence \<Rightarrow> User \<Rightarrow> Index \<Rightarrow> UserPermissions Result" where
  "Sequence_user_permissions SB (Sequence_Public data) user index =
     and_then (ok_or NoSuchEntry (SequenceCrdt_permissions (sb_pub SB) data index)) (\<lambda>perms.
       ok_or NoSuchEntry (PublicPermissions_user_permissions perms user))"
| "Sequence_user_permissions SB (Sequence_Private data) user index =
     and_then (ok_or NoSuchEntry (SequenceCrdt_permissions (sb_priv SB) data index)) (\<lambda>perms.
       ok_or NoSuchEntry (PrivatePermissions_user_permissions perms user))"

fun Sequence_pub_permissions :: "('c, 'o) SeqBackends \<Rightarrow> 'c Sequence \<Rightarrow> Index \<Rightarrow> PublicPermissions Result" where
  "Sequence_pub_permissions SB (Sequence_Public data) index =
     ok_or NoSuchEntry (SequenceCrdt_permissions (sb_pub SB) data index)"
| "Sequence_pub_permissions SB (Sequence_Private _) index = Err InvalidOperation"

fun Sequence_private_permissions :: "('c, 'o) SeqBackends \<Rightarrow> 'c Sequence \<Rightarrow> Index \<Rightarrow> PrivatePermissions Result" where
  "Sequence_private_permissions SB (Sequence_Private data) index =
     ok_or NoSuchEntry (SequenceCrdt_permissions (sb_priv SB) data index)"
| "Sequence_private_permissions SB (Sequence_Public _) index = Err InvalidOperation"

section \<open>Writing\<close>

text \<open>The address in a returned write operation is read after the mutation, which never changes it.\<close>

fun Sequence_append :: "('c, 'o) SeqBackends \<Rightarrow> 'c Sequence \<Rightarrow> Entry \<Rightarrow> 'c Sequence \<times> (Entry, 'o) WriteOp" where
  "Sequence_append SB (Sequence_Public data) entry =
     (let (data', crdt_op) = SequenceCrdt_append (sb_pub SB) data entry in
      (Sequence_Public data', \<lparr>wo_address = sq_address data', wo_crdt_op = crdt_op\<rparr>))"
| "Sequence_append SB (Sequence_Private data) entry =
     (let (data', crdt_op) = SequenceCrdt_append (sb_priv SB) data entry in
      (Sequence_Private data', \<lparr>wo_address = sq_address data', wo_crdt_op = crdt_op\<rparr>))"

fun Sequence_apply_crdt_op :: "('c, 'o) SeqBackends \<Rightarrow> 'c Sequence \<Rightarrow> (Entry, 'o) Op \<Rightarrow> 'c Sequence" where
  "Sequence_apply_crdt_op SB (Sequence_Public data) op = Sequence_Public (SequenceCrdt_apply_crdt_op (sb_pub SB) data op)"
| "Sequence_apply_crdt_op SB (Sequence_Private data) op = Sequence_Private (SequenceCrdt_apply_crdt_op (sb_priv SB) data op)"

fun Sequence_set_pub_permissions ::
    "('c, 'o) SeqBackends \<Rightarrow> 'c Sequence \<Rightarrow> (User \<rightharpoonup> PubUserPermissions) \<Rightarrow> 'c Sequence \<times> (PublicPermissions, 'o) WriteOp Result" where
  "Sequence_set_pub_permissions SB (Sequence_Public data) permissions =
     (let (data', crdt_op) = SequenceCrdt_append_permissions (sb_pub SB) data
            \<lparr>pup_permissions = permissions, pup_entries_index = SequenceCrdt_entries_index (sb_pub SB) data,
             pup_owners_index = SequenceCrdt_owners_index (sb_pub SB) data\<rparr>
      in (Sequence_Public data', Ok \<lparr>wo_address = sq_address data, wo_crdt_op = crdt_op\<rparr>))"
| "Sequence_set_pub_permissions SB (Sequence_Private data) permissions = (Sequence_Private data, Err InvalidOperation)"

fun Sequence_set_private_permissions ::
    "('c, 'o) SeqBackends \<Rightarrow> 'c Sequence \<Rightarrow> (PublicKey \<rightharpoonup> PrivUserPermissions) \<Rightarrow> 'c Sequence \<times> (PrivatePermissions, 'o) WriteOp Result" where
  "Sequence_set_private_permissions SB (Sequence_Private data) permissions =
     (let (data', crdt_op) = SequenceCrdt_append_permissions (sb_priv SB) data
            \<lparr>prp_permissions = permissions, prp_entries_index = SequenceCrdt_entries_index (sb_priv SB) data,
             prp_owners_index = SequenceCrdt_owners_index (sb_priv SB) data\<rparr>
      in (Sequence_Private data', Ok \<lparr>wo_address = sq_address data, wo_crdt_op = crdt_op\<rparr>))"
| "Sequence_set_private_permissions SB (Sequence_Public data) permissions = (Sequence_Public data, Err InvalidOperation)"

fun Sequence_apply_crdt_pub_perms_op ::
    "('c, 'o) SeqBackends \<Rightarrow> 'c Sequence \<Rightarrow> (PublicPermissions, 'o) Op \<Rightarrow> 'c Sequence \<times> unit Result" where
  "Sequence_apply_crdt_pub_perms_op SB (Sequence_Public data) op =
     (if ls_is_insert (be_perms (sb_pub SB)) op
      then (Sequence_Public (SequenceCrdt_apply_crdt_perms_op (sb_pub SB) data op), Ok ())
      else (Sequence_Public data, Err InvalidOperation))"
| "Sequence_apply_crdt_pub_perms_op SB (Sequence_Private data) op = (Sequence_Private data, Err InvalidOperation)"

fun Sequence_apply_crdt_private_perms_op ::
    "('c, 'o) SeqBackends \<Rightarrow> 'c Sequence \<Rightarrow> (PrivatePermissions, 'o) Op \<Rightarrow> 'c Sequence \<times> unit Result" where
  "Sequence_apply_crdt_private_perms_op SB (Sequence_Private data) op =
     (Sequence_Private (SequenceCrdt_apply_crdt_perms_op (sb_priv SB) data op), Ok ())"
| "Sequence_apply_crdt_private_perms_op SB (Sequence_Public data) op = (Sequence_Public data, Err InvalidOperation)"

fun Sequence_set_owner :: "('c, 'o) SeqBackends \<Rightarrow> 'c Sequence \<Rightarrow> PublicKey \<Rightarrow> 'c Sequence \<times> (Owner, 'o) WriteOp" where
  "Sequence_set_owner SB (Sequence_Public data) owner =
     (let (data', crdt_op) = SequenceCrdt_append_owner (sb_pub SB) data owner in
      (Sequence_Public data', \<lparr>wo_address = sq_address data, wo_crdt_op = crdt_op\<rparr>))"
| "Sequence_set_owner SB (Sequence_Private data) owner =
     (let (data', crdt_op) = SequenceCrdt_append_owner (sb_priv SB) data owner in
      (Sequence_Private data', \<lparr>wo_address = sq_address data, wo_crdt_op = crdt_op\<rparr>))"

fun Sequence_apply_crdt_owner_op :: "('c, 'o) SeqBackends \<Rightarrow> 'c Sequence \<Rightarrow> (Owner, 'o) Op \<Rightarrow> 'c Sequence" where
  "Sequence_apply_crdt_owner_op SB (Sequence_Public data) op =
     Sequence_Public (SequenceCrdt_apply_crdt_owner_op (sb_pub SB) data op)"
| "Sequence_apply_crdt_owner_op SB (Sequence_Private data) op =
     Sequence_Private (SequenceCrdt_apply_crdt_owner_op (sb_priv SB) data op)"

end
