(* ===== verification/SequenceSpec.thy ===== *)
theory SequenceSpec
  imports Sequence
begin

text \<open>
  What the Sequence component promises, over any backend that meets the contract \<open>lseq\<close>: reads are
  reads of lists, the permission check looks only at the last owner and the last permissions,
  recorded indices follow the histories, returned operations replay the mutation, and replicas that
  receive the same operations in causal order agree.
\<close>

definition sb_laws ::
    "('c, 'o) SeqBackends \<Rightarrow> ((Entry, 'o) Op \<Rightarrow> (Entry, 'o) Op \<Rightarrow> bool) \<Rightarrow>
     ((PublicPermissions, 'o) Op \<Rightarrow> (PublicPermissions, 'o) Op \<Rightarrow> bool) \<Rightarrow>
     ((PrivatePermissions, 'o) Op \<Rightarrow> (PrivatePermissions, 'o) Op \<Rightarrow> bool) \<Rightarrow>
     ((Owner, 'o) Op \<Rightarrow> (Owner, 'o) Op \<Rightarrow> bool) \<Rightarrow> bool" where
  "sb_laws SB he hu hv ho \<longleftrightarrow> backend_laws (sb_pub SB) he hu ho \<and> backend_laws (sb_priv SB) he hv ho"

definition ref_sb :: "(RefSeq, RefOp) SeqBackends" where
  "ref_sb = \<lparr>sb_pub = ref_public, sb_priv = ref_private\<rparr>"

lemma ref_sb_laws: "sb_laws ref_sb ref_hb ref_hb ref_hb ref_hb"
  by (simp add: sb_laws_def ref_sb_def ref_laws)

lemma ref_sb_simps [simp]: "sb_pub ref_sb = ref_public" "sb_priv ref_sb = ref_private"
  by (simp_all add: ref_sb_def)

lemma sb_lawsD:
  "sb_laws SB he hu hv ho \<Longrightarrow> backend_laws (sb_pub SB) he hu ho"
  "sb_laws SB he hu hv ho \<Longrightarrow> backend_laws (sb_priv SB) he hv ho"
  by (simp_all add: sb_laws_def)

section \<open>The permission check\<close>

lemma nth_index_last: "nth_index xs (FromEnd 1) = (if xs = [] then None else Some (last xs))"
  by (auto simp: last_conv_nth Suc_le_eq)

definition is_last_owner :: "PublicKey \<Rightarrow> Owner list \<Rightarrow> bool" where
  "is_last_owner k owners \<longleftrightarrow> owners \<noteq> [] \<and> ow_public_key (last owners) = k"

lemma check_is_last_owner_spec:
  assumes "backend_laws B he hp ho" "fits (seq_view B s)"
  shows "SequenceCrdt_check_is_last_owner B s requester =
    (if vw_owners (seq_view B s) = [] then Err InvalidOwners
     else if is_last_owner requester (vw_owners (seq_view B s)) then Ok () else Err AccessDenied)"
  unfolding SequenceCrdt_check_is_last_owner_def view_reads(3) [OF assms] nth_index_last
  by (simp add: is_last_owner_def)

context perm begin

lemma check_perm_spec:
  assumes "backend_laws B he hp ho" "fits (seq_view B s)"
  shows "check_perm B is_action_allowed s requester action =
    (if is_last_owner requester (vw_owners (seq_view B s)) then Ok ()
     else if vw_perms (seq_view B s) = [] then Err AccessDenied
     else is_action_allowed (last (vw_perms (seq_view B s))) requester action)"
  unfolding check_perm_def view_reads(2) [OF assms] check_is_last_owner_spec [OF assms] nth_index_last
  by (simp add: is_last_owner_def)

lemma check_perm_answers: "check_perm B is_action_allowed s requester action \<in> {Ok (), Err AccessDenied}"
  using answers
  by (cases "SequenceCrdt_check_is_last_owner B s requester"; cases "SequenceCrdt_permissions B s (FromEnd 1)")
     (auto simp: check_perm_def)

end

lemma check_permission_answers: "Sequence_check_permission SB s action requester \<in> {Ok (), Err AccessDenied}"
proof (cases s)
  case (Sequence_Public d)
  then show ?thesis using pub_perm.check_perm_answers [of "sb_pub SB" d requester action] by simp
next
  case (Sequence_Private d)
  then show ?thesis using priv_perm.check_perm_answers [of "sb_priv SB" d requester action] by simp
qed

text \<open>
  C10: The permission check of a sequence. Reading a public sequence is always allowed; otherwise the
  last owner may do anything, and everyone else is judged by the last permissions alone, with no
  permissions meaning denial. The only error is \<open>AccessDenied\<close>, also when there is no owner at all:
  the \<open>InvalidOwners\<close> of the documentation never comes out of this check.
\<close>

theorem sequence_check_permission_spec:
  assumes "sb_laws SB he hu hv ho" "fits (seq_view (sb_pub SB) d)" "fits (seq_view (sb_priv SB) e)"
  shows "Sequence_check_permission SB (Sequence_Public d) action requester =
      (if action = SequenceAction_Read \<or> is_last_owner requester (vw_owners (seq_view (sb_pub SB) d)) then Ok ()
       else if vw_perms (seq_view (sb_pub SB) d) = [] then Err AccessDenied
       else PublicPermissions_is_action_allowed (last (vw_perms (seq_view (sb_pub SB) d))) requester action) \<and>
    Sequence_check_permission SB (Sequence_Private e) action requester =
      (if is_last_owner requester (vw_owners (seq_view (sb_priv SB) e)) then Ok ()
       else if vw_perms (seq_view (sb_priv SB) e) = [] then Err AccessDenied
       else PrivatePermissions_is_action_allowed (last (vw_perms (seq_view (sb_priv SB) e))) requester action) \<and>
    Sequence_check_permission SB s action requester \<in> {Ok (), Err AccessDenied}"
  using pub_perm.check_perm_spec [OF sb_lawsD(1) [OF assms(1)] assms(2), of requester action]
    priv_perm.check_perm_spec [OF sb_lawsD(2) [OF assms(1)] assms(3), of requester action]
    check_permission_answers [of SB s action requester]
  by simp

text \<open>A public sequence with two entries and an owner, and a private one with none.\<close>

definition demo_pub :: "(PublicPermissions, RefSeq) SequenceCrdt" where
  "demo_pub = fst (SequenceCrdt_append_owner ref_public
     (fst (SequenceCrdt_append ref_public (fst (SequenceCrdt_append ref_public
        (SequenceCrdt_new ref_public (PublicKey_Bls 1) (SequenceAddress_Public 3 4)) [10])) [20])) (PublicKey_Bls 1))"

definition demo_priv :: "(PrivatePermissions, RefSeq) SequenceCrdt" where
  "demo_priv = SequenceCrdt_new ref_private (PublicKey_Bls 1) (SequenceAddress_Private 3 4)"

lemma demo_views:
  "seq_view ref_public demo_pub =
     \<lparr>vw_address = SequenceAddress_Public 3 4, vw_entries = [[10], [20]], vw_perms = [],
      vw_owners = [\<lparr>ow_public_key = PublicKey_Bls 1, ow_entries_index = 2, ow_permissions_index = 0\<rparr>]\<rparr>"
  "seq_view ref_private demo_priv =
     \<lparr>vw_address = SequenceAddress_Private 3 4, vw_entries = [], vw_perms = [], vw_owners = []\<rparr>"
  by (simp_all add: demo_pub_def demo_priv_def view_writes [OF ref_laws(1)] view_writes [OF ref_laws(2)])

lemma demo_fits: "fits (seq_view ref_public demo_pub)" "fits (seq_view ref_private demo_priv)"
  by (simp_all add: demo_views fits_def)

theorem sequence_check_permission_spec_witness:
  "Sequence_check_permission ref_sb (Sequence_Public demo_pub) SequenceAction_Append (PublicKey_Bls 1) = Ok () \<and>
   Sequence_check_permission ref_sb (Sequence_Public demo_pub) SequenceAction_Append (PublicKey_Bls 2) = Err AccessDenied \<and>
   Sequence_check_permission ref_sb (Sequence_Private demo_priv) SequenceAction_Read (PublicKey_Bls 2) = Err AccessDenied"
proof -
  note spec = sequence_check_permission_spec [OF ref_sb_laws, unfolded ref_sb_simps, OF demo_fits]
  show ?thesis
    unfolding spec [THEN conjunct1] spec [THEN conjunct2, THEN conjunct1] demo_views by (simp add: is_last_owner_def)
qed

section \<open>Reads\<close>

text \<open>
  C9: The reads of a sequence are reads of its lists: \<open>get\<close>, \<open>owner\<close> and \<open>permissions\<close> give the element
  at the position counted from the start or from the end (position 1 from the end is the last one,
  and a position outside gives nothing), \<open>last\_entry\<close> is the last entry, and \<open>in\_range\<close> is the half-open
  slice between two positions within the bounds, where an empty slice counts as no result.
\<close>

theorem sequence_reads_spec:
  assumes "backend_laws B he hp ho" "fits (seq_view B s)"
  shows "SequenceCrdt_get B s ix = nth_index (vw_entries (seq_view B s)) ix \<and>
    SequenceCrdt_owner B s ix = nth_index (vw_owners (seq_view B s)) ix \<and>
    SequenceCrdt_permissions B s ix = nth_index (vw_perms (seq_view B s)) ix \<and>
    SequenceCrdt_last_entry B s = nth_index (vw_entries (seq_view B s)) (FromEnd 1) \<and>
    SequenceCrdt_in_range B s start fin = slice_range (vw_entries (seq_view B s)) start fin"
  using view_reads [OF assms] by simp

theorem sequence_reads_spec_witness:
  "SequenceCrdt_get ref_public demo_pub (FromEnd 2) = Some [10] \<and>
   SequenceCrdt_get ref_public demo_pub (FromStart 2) = None \<and>
   SequenceCrdt_in_range ref_public demo_pub (FromStart 1) (FromEnd 0) = Some [[20]] \<and>
   SequenceCrdt_in_range ref_public demo_pub (FromStart 1) (FromStart 3) = None"
  using sequence_reads_spec [OF ref_laws(1) demo_fits(1), of "FromEnd 2" "FromStart 1" "FromEnd 0"]
    sequence_reads_spec [OF ref_laws(1) demo_fits(1), of "FromStart 2" "FromStart 1" "FromStart 3"]
  by (simp add: demo_views slice_range_def)

section \<open>Returned operations\<close>

text \<open>
  C13: Every write returns the operation that does it: the address in it is the sequence's own, and
  applying it to the sequence as it was gives the sequence as it is. A permissions operation of the
  other flavour, and for public permissions any operation that is not an insertion, is refused with
  \<open>InvalidOperation\<close> and changes nothing.
\<close>

theorem sequence_ops_replay:
  assumes "sb_laws SB he hu hv ho"
  shows "wo_address (snd (Sequence_append SB s e)) = Sequence_address s \<and>
    Sequence_apply_crdt_op SB s (wo_crdt_op (snd (Sequence_append SB s e))) = fst (Sequence_append SB s e) \<and>
    wo_address (snd (Sequence_set_owner SB s k)) = Sequence_address s \<and>
    Sequence_apply_crdt_owner_op SB s (wo_crdt_op (snd (Sequence_set_owner SB s k))) = fst (Sequence_set_owner SB s k) \<and>
    (case Sequence_set_pub_permissions SB s pu of
       (s', Inl err) \<Rightarrow> s' = s \<and> err = InvalidOperation \<and> Sequence_apply_crdt_pub_perms_op SB s opu = (s, Err InvalidOperation)
     | (s', Inr w) \<Rightarrow> wo_address w = Sequence_address s \<and> Sequence_apply_crdt_pub_perms_op SB s (wo_crdt_op w) = (s', Ok ()) \<and>
         (ls_is_insert (be_perms (sb_pub SB)) opu \<or> Sequence_apply_crdt_pub_perms_op SB s opu = (s, Err InvalidOperation))) \<and>
    (case Sequence_set_private_permissions SB s pr of
       (s', Inl err) \<Rightarrow> s' = s \<and> err = InvalidOperation \<and> Sequence_apply_crdt_private_perms_op SB s opr = (s, Err InvalidOperation)
     | (s', Inr w) \<Rightarrow> wo_address w = Sequence_address s \<and> Sequence_apply_crdt_private_perms_op SB s (wo_crdt_op w) = (s', Ok ()))"
proof -
  note U = append_applies [OF sb_lawsD(1) [OF assms]] and V = append_applies [OF sb_lawsD(2) [OF assms]]
  have I: "ls_is_insert (be_perms (sb_pub SB)) (snd (SequenceCrdt_append_permissions (sb_pub SB) d p))" for d p
    using sb_lawsD(1) [OF assms] lseq.insert_append [of "be_perms (sb_pub SB)" hu]
    by (simp add: backend_laws_def SequenceCrdt_append_permissions_def)
  have A: "sq_address (fst (SequenceCrdt_append B d e)) = sq_address d"
      "sq_address (fst (SequenceCrdt_append_owner B d k)) = sq_address d" for B d
    by (simp_all add: SequenceCrdt_append_def SequenceCrdt_append_owner_def)
  show ?thesis
    by (cases s) (simp_all add: split_beta U V I A)
qed

theorem sequence_ops_replay_witness:
  "Sequence_apply_crdt_op ref_sb (Sequence_Public demo_pub)
     (wo_crdt_op (snd (Sequence_append ref_sb (Sequence_Public demo_pub) [30]))) =
   fst (Sequence_append ref_sb (Sequence_Public demo_pub) [30])"
  using sequence_ops_replay [OF ref_sb_laws] by blast

section \<open>Convergence\<close>

text \<open>
  C8: Strong convergence. Two replicas of one sequence, created by any two actors, that have received
  the same operations on entries, permissions and owners, each in an order that respects causality,
  answer every read the same way, in whatever order the operations arrived.
\<close>

theorem sequence_replicas_converge:
  assumes "backend_laws B he hp ho"
    and "mset xs = mset ys" "causal_order (seq_hb he hp ho) xs" "causal_order (seq_hb he hp ho) ys"
    and "s = fold (seq_apply B) xs (SequenceCrdt_new B a addr)"
    and "t = fold (seq_apply B) ys (SequenceCrdt_new B a' addr)"
  shows "seq_view B s = seq_view B t \<and>
    SequenceCrdt_get B s ix = SequenceCrdt_get B t ix \<and>
    SequenceCrdt_in_range B s start fin = SequenceCrdt_in_range B t start fin \<and>
    SequenceCrdt_owner B s ix = SequenceCrdt_owner B t ix \<and>
    SequenceCrdt_permissions B s ix = SequenceCrdt_permissions B t ix \<and>
    SequenceCrdt_indices B s = SequenceCrdt_indices B t \<and>
    SequenceCrdt_check_is_last_owner B s requester = SequenceCrdt_check_is_last_owner B t requester"
proof -
  have same: "seq_view B s = seq_view B t"
    unfolding assms(5,6) using seq_replica.views_converge [OF seq_replica.intro [OF assms(1)] assms(2-4)] .
  show ?thesis using same same_view_same_reads [OF assms(1) same] by simp
qed

theorem sequence_replicas_converge_witness:
  "seq_view ref_public (fold (seq_apply ref_public)
      [EntryOp (Op (Ref_Insert [1] (Elem_Entry [10]))), EntryOp (Op (Ref_Insert [2] (Elem_Entry [20]))),
       OwnerOp (Op (Ref_Insert [1] (Elem_Owner \<lparr>ow_public_key = PublicKey_Bls 9, ow_entries_index = 0, ow_permissions_index = 0\<rparr>)))]
      (SequenceCrdt_new ref_public (PublicKey_Bls 1) (SequenceAddress_Public 3 4))) =
   seq_view ref_public (fold (seq_apply ref_public)
      [OwnerOp (Op (Ref_Insert [1] (Elem_Owner \<lparr>ow_public_key = PublicKey_Bls 9, ow_entries_index = 0, ow_permissions_index = 0\<rparr>))),
       EntryOp (Op (Ref_Insert [2] (Elem_Entry [20]))), EntryOp (Op (Ref_Insert [1] (Elem_Entry [10])))]
      (SequenceCrdt_new ref_public (PublicKey_Bls 2) (SequenceAddress_Public 3 4)))"
  by (rule sequence_replicas_converge [OF ref_laws(1) _ _ _ refl refl, THEN conjunct1])
     (simp_all add: ref_hb_def)

section \<open>Histories of one replica\<close>

datatype LocalOp =
    L_append Entry
  | L_set_owner PublicKey
  | L_set_pub_permissions "User \<rightharpoonup> PubUserPermissions"
  | L_set_private_permissions "PublicKey \<rightharpoonup> PrivUserPermissions"

fun local_step :: "('c, 'o) SeqBackends \<Rightarrow> LocalOp \<Rightarrow> 'c Sequence \<Rightarrow> 'c Sequence" where
  "local_step SB (L_append entry) s = fst (Sequence_append SB s entry)"
| "local_step SB (L_set_owner owner) s = fst (Sequence_set_owner SB s owner)"
| "local_step SB (L_set_pub_permissions perms) s = fst (Sequence_set_pub_permissions SB s perms)"
| "local_step SB (L_set_private_permissions perms) s = fst (Sequence_set_private_permissions SB s perms)"

text \<open>Recorded indices grow along a history and never exceed the length of the history they point into.\<close>

definition marks_ok :: "u64 list \<Rightarrow> nat \<Rightarrow> bool" where
  "marks_ok marks n \<longleftrightarrow> sorted (map unat marks) \<and> (\<forall>m \<in> set marks. unat m \<le> n)"

definition history_ok :: "('p \<Rightarrow> u64) \<Rightarrow> ('p \<Rightarrow> u64) \<Rightarrow> nat \<Rightarrow> 'p SeqView \<Rightarrow> bool" where
  "history_ok eix oix n v \<longleftrightarrow>
     length (vw_entries v) \<le> n \<and> length (vw_perms v) \<le> n \<and> length (vw_owners v) \<le> n \<and>
     marks_ok (map ow_entries_index (vw_owners v)) (length (vw_entries v)) \<and>
     marks_ok (map ow_permissions_index (vw_owners v)) (length (vw_perms v)) \<and>
     marks_ok (map eix (vw_perms v)) (length (vw_entries v)) \<and>
     marks_ok (map oix (vw_perms v)) (length (vw_owners v))"

lemma marks_ok_simps:
  "marks_ok [] n"
  "marks_ok marks n \<Longrightarrow> marks_ok marks (Suc n)"
  "marks_ok marks n \<Longrightarrow> n < 2 ^ 64 \<Longrightarrow> marks_ok (marks @ [word_of_nat n]) n"
  by (auto simp: marks_ok_def sorted_append unat_word_of_nat)

lemma history_append:
  assumes "history_ok eix oix n v" "n < 2 ^ 64"
  shows "history_ok eix oix (Suc n) (v\<lparr>vw_entries := vw_entries v @ [e]\<rparr>)"
    and "eix p = word_of_nat (length (vw_entries v)) \<Longrightarrow> oix p = word_of_nat (length (vw_owners v)) \<Longrightarrow>
      history_ok eix oix (Suc n) (v\<lparr>vw_perms := vw_perms v @ [p]\<rparr>)"
    and "history_ok eix oix (Suc n) (v\<lparr>vw_owners := vw_owners v @
      [\<lparr>ow_public_key = k, ow_entries_index = word_of_nat (length (vw_entries v)),
        ow_permissions_index = word_of_nat (length (vw_perms v))\<rparr>]\<rparr>)"
    and "history_ok eix oix (Suc n) v"
  using assms by (auto simp: history_ok_def marks_ok_simps)

fun sequence_history_ok :: "('c, 'o) SeqBackends \<Rightarrow> nat \<Rightarrow> 'c Sequence \<Rightarrow> bool" where
  "sequence_history_ok SB n (Sequence_Public d) \<longleftrightarrow> history_ok pup_entries_index pup_owners_index n (seq_view (sb_pub SB) d)"
| "sequence_history_ok SB n (Sequence_Private d) \<longleftrightarrow> history_ok prp_entries_index prp_owners_index n (seq_view (sb_priv SB) d)"

fun sequence_entries :: "('c, 'o) SeqBackends \<Rightarrow> 'c Sequence \<Rightarrow> Entry list" where
  "sequence_entries SB (Sequence_Public d) = vw_entries (seq_view (sb_pub SB) d)"
| "sequence_entries SB (Sequence_Private d) = vw_entries (seq_view (sb_priv SB) d)"

fun appended :: "LocalOp list \<Rightarrow> Entry list" where
  "appended [] = []"
| "appended (L_append e # ops) = e # appended ops"
| "appended (_ # ops) = appended ops"

lemma local_step_history:
  assumes "sb_laws SB he hu hv ho" "sequence_history_ok SB n s" "n < 2 ^ 64"
  shows "sequence_history_ok SB (Suc n) (local_step SB op s) \<and>
    Sequence_address (local_step SB op s) = Sequence_address s \<and>
    sequence_entries SB (local_step SB op s) = sequence_entries SB s @ appended [op]"
proof -
  note W = view_writes [OF sb_lawsD(1) [OF assms(1)]] view_writes [OF sb_lawsD(2) [OF assms(1)]]
  have A: "sq_address (fst (SequenceCrdt_append B d e)) = sq_address d"
      "sq_address (fst (SequenceCrdt_append_owner B d k)) = sq_address d"
      "sq_address (fst (SequenceCrdt_append_permissions B d p)) = sq_address d" for B d e k p
    by (simp_all add: SequenceCrdt_append_def SequenceCrdt_append_owner_def SequenceCrdt_append_permissions_def)
  show ?thesis
    using assms(2,3) by (cases op; cases s) (simp_all add: split_beta W A history_append del: of_nat_Suc)
qed

lemma local_history:
  assumes "sb_laws SB he hu hv ho" "sequence_history_ok SB n s" "n + length ops \<le> 2 ^ 64"
  shows "sequence_history_ok SB (n + length ops) (fold (local_step SB) ops s) \<and>
    Sequence_address (fold (local_step SB) ops s) = Sequence_address s \<and>
    sequence_entries SB (fold (local_step SB) ops s) = sequence_entries SB s @ appended ops"
  using assms(2,3)
proof (induction ops arbitrary: n s)
  case (Cons op ops)
  have "n < 2 ^ 64" using Cons.prems(2) by simp
  note step = local_step_history [OF assms(1) Cons.prems(1) this, of op]
  have app: "appended (op # ops) = appended [op] @ appended ops" by (cases op) simp_all
  show ?case using Cons.IH [OF step [THEN conjunct1]] Cons.prems(2) step unfolding app by simp
qed simp

text \<open>
  C12: The history of one replica. After any sequence of local writes on a new sequence the entries
  are exactly the appended values in order, the address (and with it the kind) is unchanged, and the
  indices recorded with owners and permissions never decrease and never point beyond the histories
  they refer to. The bound is the range of a 64-bit length.
\<close>

theorem sequence_local_history:
  assumes "sb_laws SB he hu hv ho" "length ops \<le> 2 ^ 64" "s \<in> {Sequence_new_pub SB a name tag, Sequence_new_private SB a name tag}"
  shows "sequence_history_ok SB (length ops) (fold (local_step SB) ops s) \<and>
    Sequence_address (fold (local_step SB) ops s) = Sequence_address s \<and>
    sequence_entries SB (fold (local_step SB) ops s) = appended ops"
proof -
  note W = view_writes [OF sb_lawsD(1) [OF assms(1)]] view_writes [OF sb_lawsD(2) [OF assms(1)]]
  have new: "sequence_history_ok SB 0 s" "sequence_entries SB s = []"
    using assms(3) by (auto simp: Sequence_new_pub_def Sequence_new_private_def W history_ok_def marks_ok_simps)
  show ?thesis using local_history [OF assms(1) new(1), of ops] assms(2) new(2) by simp
qed

theorem sequence_local_history_witness:
  "sequence_entries ref_sb (fold (local_step ref_sb) [L_append [1], L_set_owner (PublicKey_Bls 3), L_append [2]]
     (Sequence_new_pub ref_sb (PublicKey_Bls 1) 5 6)) = [[1], [2]]"
  using sequence_local_history [OF ref_sb_laws, of "[L_append [1], L_set_owner (PublicKey_Bls 3), L_append [2]]"
      "Sequence_new_pub ref_sb (PublicKey_Bls 1) 5 6" "PublicKey_Bls 1" 5 6]
  by simp

section \<open>Writes and the permission check\<close>

text \<open>There is room for one more write in every history.\<close>

fun has_room :: "('c, 'o) SeqBackends \<Rightarrow> 'c Sequence \<Rightarrow> bool" where
  "has_room SB (Sequence_Public d) \<longleftrightarrow>
     (let v = seq_view (sb_pub SB) d in
      length (vw_entries v) + 1 < 2 ^ 64 \<and> length (vw_perms v) + 1 < 2 ^ 64 \<and> length (vw_owners v) + 1 < 2 ^ 64)"
| "has_room SB (Sequence_Private d) \<longleftrightarrow>
     (let v = seq_view (sb_priv SB) d in
      length (vw_entries v) + 1 < 2 ^ 64 \<and> length (vw_perms v) + 1 < 2 ^ 64 \<and> length (vw_owners v) + 1 < 2 ^ 64)"

text \<open>What the current permissions say of a requester who is not the owner.\<close>

fun others_verdict :: "('c, 'o) SeqBackends \<Rightarrow> 'c Sequence \<Rightarrow> SequenceAction \<Rightarrow> PublicKey \<Rightarrow> unit Result" where
  "others_verdict SB (Sequence_Public d) action requester =
     (if action = SequenceAction_Read then Ok ()
      else case Sequence_pub_permissions SB (Sequence_Public d) (FromEnd 1) of
             Inl _ \<Rightarrow> Err AccessDenied
           | Inr p \<Rightarrow> PublicPermissions_is_action_allowed p requester action)"
| "others_verdict SB (Sequence_Private d) action requester =
     (case Sequence_private_permissions SB (Sequence_Private d) (FromEnd 1) of
        Inl _ \<Rightarrow> Err AccessDenied
      | Inr p \<Rightarrow> PrivatePermissions_is_action_allowed p requester action)"

text \<open>An opinion of the requester's own set decides, else that of the set for anyone.\<close>

definition pub_allows :: "(User \<rightharpoonup> PubUserPermissions) \<Rightarrow> SequenceAction \<Rightarrow> PublicKey \<Rightarrow> bool" where
  "pub_allows p action requester \<longleftrightarrow>
     (case Option.bind (p (User_Key requester)) (\<lambda>q. PubUserPermissions_is_allowed q action) of
        Some b \<Rightarrow> b
      | None \<Rightarrow> Option.bind (p User_Anyone) (\<lambda>q. PubUserPermissions_is_allowed q action) = Some True)"

definition priv_allows :: "(PublicKey \<rightharpoonup> PrivUserPermissions) \<Rightarrow> SequenceAction \<Rightarrow> PublicKey \<Rightarrow> bool" where
  "priv_allows p action requester \<longleftrightarrow> (\<exists>q. p requester = Some q \<and> PrivUserPermissions_is_allowed q action)"

lemma pub_allows_iff:
  "PublicPermissions_is_action_allowed p requester action =
     (if pub_allows (pup_permissions p) action requester then Ok () else Err AccessDenied)"
  by (cases "pup_permissions p (User_Key requester)"; cases "pup_permissions p User_Anyone")
     (simp_all add: PublicPermissions_is_action_allowed_def PublicPermissions_is_action_allowed_by_user_def pub_allows_def
        split: option.split bool.split)

lemma priv_allows_iff:
  "PrivatePermissions_is_action_allowed p requester action =
     (if priv_allows (prp_permissions p) action requester then Ok () else Err AccessDenied)"
  by (simp add: PrivatePermissions_is_action_allowed_def priv_allows_def split: option.split)

lemma fits_updates:
  assumes "length (vw_entries v) + 1 < 2 ^ 64 \<and> length (vw_perms v) + 1 < 2 ^ 64 \<and> length (vw_owners v) + 1 < 2 ^ 64"
  shows "fits v" "fits (v\<lparr>vw_entries := vw_entries v @ [e]\<rparr>)" "fits (v\<lparr>vw_perms := vw_perms v @ [p]\<rparr>)"
    "fits (v\<lparr>vw_owners := vw_owners v @ [w]\<rparr>)"
  using assms by (simp_all add: fits_def)

context perm begin

text \<open>The check after each kind of write, for one flavour.\<close>

lemma check_after_write:
  assumes "backend_laws B he hp ho"
    and "length (vw_entries (seq_view B d)) + 1 < 2 ^ 64 \<and> length (vw_perms (seq_view B d)) + 1 < 2 ^ 64 \<and>
      length (vw_owners (seq_view B d)) + 1 < 2 ^ 64"
  shows "check_perm B is_action_allowed (fst (SequenceCrdt_append_owner B d k)) r action =
      (if r = k then Ok ()
       else case SequenceCrdt_permissions B d (FromEnd 1) of None \<Rightarrow> Err AccessDenied | Some p \<Rightarrow> is_action_allowed p r action)"
    and "check_perm B is_action_allowed (fst (SequenceCrdt_append B d e)) r action = check_perm B is_action_allowed d r action"
    and "check_perm B is_action_allowed (fst (SequenceCrdt_append_permissions B d p)) r action =
      (if SequenceCrdt_check_is_last_owner B d r = Ok () then Ok () else is_action_allowed p r action)"
  using check_perm_spec [OF assms(1), of "fst (SequenceCrdt_append_owner B d k)"]
    check_perm_spec [OF assms(1), of "fst (SequenceCrdt_append B d e)"] check_perm_spec [OF assms(1), of d]
    check_perm_spec [OF assms(1), of "fst (SequenceCrdt_append_permissions B d p)"]
    check_is_last_owner_spec [OF assms(1), of d r]
  unfolding view_writes [OF assms(1)] view_reads(2) [OF assms(1) fits_updates(1) [OF assms(2)]] nth_index_last
  by (simp_all add: fits_updates [OF assms(2)] is_last_owner_def)

end

text \<open>
  C11: Writes and the permission check together. Right after an owner change the new owner may do
  everything and everyone else, the former owner included, is judged by the permissions alone; an append
  changes nobody's rights; and right after new permissions the check is decided by the owner and these
  permissions only: for a public sequence by the requester's own set where it has an opinion, a denial
  included, and else by the set for anyone; for a private one by the requester's own set.
\<close>

theorem sequence_write_then_check:
  assumes "sb_laws SB he hu hv ho" "has_room SB s"
  shows "Sequence_check_permission SB (fst (Sequence_set_owner SB s k)) action r =
      (if r = k then Ok () else others_verdict SB s action r) \<and>
    Sequence_check_permission SB (fst (Sequence_append SB s e)) action r = Sequence_check_permission SB s action r \<and>
    (is_ok (snd (Sequence_set_pub_permissions SB s pu)) \<longrightarrow>
      Sequence_check_permission SB (fst (Sequence_set_pub_permissions SB s pu)) action r =
        (if action = SequenceAction_Read \<or> Sequence_check_is_last_owner SB s r = Ok () \<or> pub_allows pu action r
         then Ok () else Err AccessDenied)) \<and>
    (is_ok (snd (Sequence_set_private_permissions SB s pr)) \<longrightarrow>
      Sequence_check_permission SB (fst (Sequence_set_private_permissions SB s pr)) action r =
        (if Sequence_check_is_last_owner SB s r = Ok () \<or> priv_allows pr action r then Ok () else Err AccessDenied))"
proof (cases s)
  case (Sequence_Public d)
  note check = pub_perm.check_after_write [OF sb_lawsD(1) [OF assms(1)], of d]
  show ?thesis
    using assms(2) by (simp add: Sequence_Public split_beta Let_def check pub_allows_iff split: option.split)
next
  case (Sequence_Private d)
  note check = priv_perm.check_after_write [OF sb_lawsD(2) [OF assms(1)], of d]
  show ?thesis
    using assms(2) by (simp add: Sequence_Private split_beta Let_def check priv_allows_iff split: option.split)
qed

theorem sequence_write_then_check_witness:
  "Sequence_check_permission ref_sb (fst (Sequence_set_owner ref_sb (Sequence_Public demo_pub) (PublicKey_Bls 7)))
     SequenceAction_Append (PublicKey_Bls 7) = Ok () \<and>
   Sequence_check_permission ref_sb (fst (Sequence_set_pub_permissions ref_sb (Sequence_Public demo_pub)
     [User_Anyone \<mapsto> PubUserPermissions_new (Some True) None, User_Key (PublicKey_Bls 8) \<mapsto> PubUserPermissions_new (Some False) None]))
     SequenceAction_Append (PublicKey_Bls 8) = Err AccessDenied"
proof -
  have room: "has_room ref_sb (Sequence_Public demo_pub)" by (simp add: demo_views)
  have "Sequence_check_is_last_owner ref_sb (Sequence_Public demo_pub) (PublicKey_Bls 8) = Err AccessDenied"
    using check_is_last_owner_spec [OF ref_laws(1) demo_fits(1), of "PublicKey_Bls 8"] by (simp add: demo_views is_last_owner_def)
  then show ?thesis
    using sequence_write_then_check [OF ref_sb_laws room, of "PublicKey_Bls 7" SequenceAction_Append "PublicKey_Bls 7"]
      sequence_write_then_check [OF ref_sb_laws room, of "PublicKey_Bls 7" SequenceAction_Append "PublicKey_Bls 8" "[]"
        "[User_Anyone \<mapsto> PubUserPermissions_new (Some True) None, User_Key (PublicKey_Bls 8) \<mapsto> PubUserPermissions_new (Some False) None]"]
    by (simp add: pub_allows_def PubUserPermissions_new_def split_beta)
qed

end
