(* ===== verification/SeqNetwork.thy ===== *)
theory SeqNetwork
  imports SequenceSpec
begin

text \<open>
  A sequence as the network holds it: one replica per actor, each writing through the operations of
  src/src/sequence/seq\_crdt.rs and receiving the operations the others broadcast, in any order and
  with any delay. The reachable networks are an inductive predicate. Its invariant, proved from the
  contract of the external sequence type, gives eventual consistency without any assumption on the
  order of delivery, and that no write is lost or invented.
\<close>

section \<open>Unique identifiers\<close>

text \<open>
  The contract of an append-only external sequence, beyond \<open>lseq\<close>: an append makes an operation
  different from and not ordered with those that the replica has seen and those of other actors, and
  a replica that receives it gains exactly the appended value.
\<close>

definition unrelated :: "('x \<Rightarrow> 'x \<Rightarrow> bool) \<Rightarrow> 'x \<Rightarrow> 'x \<Rightarrow> bool" where
  "unrelated hb x y \<longleftrightarrow> x \<noteq> y \<and> \<not> hb x y \<and> \<not> hb y x"

lemma unrelated_sym: "unrelated hb x y \<longleftrightarrow> unrelated hb y x"
  by (auto simp: unrelated_def)

definition ls_built :: "('t, 'a, 'c, 'o) LSeqOps \<Rightarrow> 'a \<Rightarrow> ('t, 'o) Op list \<Rightarrow> ('t, 'c) LSeq" where
  "ls_built L a ops = fold (ls_apply L) ops (ls_new L a LSEQ_TREE_BASE LSEQ_BOUNDARY)"

lemma ls_built_simps [simp]:
  "ls_built L a [] = ls_new L a LSEQ_TREE_BASE LSEQ_BOUNDARY"
  "ls_built L a (ops @ [x]) = ls_apply L x (ls_built L a ops)"
  by (simp_all add: ls_built_def)

locale unique_lseq = lseq L hb for L :: "('t, 'a, 'c, 'o) LSeqOps" and hb +
  assumes unique:
    "list_all (ls_is_insert L) ops \<Longrightarrow> list_all (ls_is_insert L) ops' \<Longrightarrow>
     a \<noteq> a' \<or> snd (ls_append L (ls_built L a' ops') w) \<in> set ops \<Longrightarrow>
     unrelated hb (snd (ls_append L (ls_built L a ops) v)) (snd (ls_append L (ls_built L a' ops') w))"
    and adds:
    "list_all (ls_is_insert L) ops \<Longrightarrow> x = snd (ls_append L t v) \<Longrightarrow> \<forall>y \<in> set ops. unrelated hb x y \<Longrightarrow>
     mset (ls_iter L (ls_apply L x (ls_built L a ops))) = add_mset v (mset (ls_iter L (ls_built L a ops)))"
begin

text \<open>Whatever the order in which they arrived, a replica holds exactly the appended values.\<close>

lemma contents:
  assumes "\<forall>x \<in> set ops. \<exists>t v. x = snd (ls_append L t v) \<and> f v = k x" "distinct ops"
    and "\<forall>x \<in> set ops. \<forall>y \<in> set ops. x \<noteq> y \<longrightarrow> unrelated hb x y"
  shows "image_mset f (mset (ls_iter L (ls_built L a ops))) = mset (map k ops)"
  using assms
proof (induction ops rule: rev_induct)
  case (snoc x ops)
  obtain t v where t: "x = snd (ls_append L t v)" "f v = k x" using snoc.prems(1) by auto
  have ins: "list_all (ls_is_insert L) ops"
    unfolding list_all_iff
  proof
    fix y assume "y \<in> set ops"
    then obtain u v where "y = snd (ls_append L u v)" using snoc.prems(1) by auto
    then show "ls_is_insert L y" using insert_append [of u v] by simp
  qed
  have "\<forall>y \<in> set ops. unrelated hb x y" using snoc.prems(2,3) by auto
  with snoc t(2) show ?case using adds [OF ins t(1)] by simp
qed (simp add: iter_new)

end

section \<open>The network\<close>

datatype 'p SeqWrite =
    W_Entry Entry
  | W_Perms 'p
  | W_Owner PublicKey

text \<open>A local write, with the operation to broadcast.\<close>

fun seq_write ::
    "('p, 'a, 'c, 'o) Backend \<Rightarrow> 'p SeqWrite \<Rightarrow> ('p, 'c) SequenceCrdt \<Rightarrow> ('p, 'c) SequenceCrdt \<times> ('p, 'o) SeqOp" where
  "seq_write B (W_Entry e) s = apsnd EntryOp (SequenceCrdt_append B s e)"
| "seq_write B (W_Perms p) s = apsnd PermsOp (SequenceCrdt_append_permissions B s p)"
| "seq_write B (W_Owner k) s = apsnd OwnerOp (SequenceCrdt_append_owner B s k)"

record ('p, 'a, 'c, 'o) SeqNet =
  nt_state :: "'a \<Rightarrow> ('p, 'c) SequenceCrdt"
  nt_log :: "'a \<Rightarrow> ('p, 'o) SeqOp list"
  nt_written :: "(('p, 'o) SeqOp \<times> 'p SeqWrite) list"

definition net_new :: "('p, 'a, 'c, 'o) Backend \<Rightarrow> SequenceAddress \<Rightarrow> ('p, 'a, 'c, 'o) SeqNet" where
  "net_new B addr = \<lparr>nt_state = \<lambda>a. SequenceCrdt_new B a addr, nt_log = \<lambda>_. [], nt_written = []\<rparr>"

definition net_write :: "('p, 'a, 'c, 'o) Backend \<Rightarrow> 'a \<Rightarrow> 'p SeqWrite \<Rightarrow> ('p, 'a, 'c, 'o) SeqNet \<Rightarrow> ('p, 'a, 'c, 'o) SeqNet" where
  "net_write B a w n =
     (let (s, op) = seq_write B w (nt_state n a) in
      \<lparr>nt_state = (nt_state n)(a := s), nt_log = (nt_log n)(a := nt_log n a @ [op]), nt_written = (op, w) # nt_written n\<rparr>)"

definition net_deliver :: "('p, 'a, 'c, 'o) Backend \<Rightarrow> 'a \<Rightarrow> ('p, 'o) SeqOp \<Rightarrow> ('p, 'a, 'c, 'o) SeqNet \<Rightarrow> ('p, 'a, 'c, 'o) SeqNet" where
  "net_deliver B a op n =
     n\<lparr>nt_state := (nt_state n)(a := seq_apply B op (nt_state n a)), nt_log := (nt_log n)(a := nt_log n a @ [op])\<rparr>"

text \<open>
  Any replica may write at any time, and any operation ever written may be delivered at any time to
  any replica that has not received it yet.
\<close>

inductive seq_net :: "('p, 'a, 'c, 'o) Backend \<Rightarrow> SequenceAddress \<Rightarrow> ('p, 'a, 'c, 'o) SeqNet \<Rightarrow> bool" for B addr where
  net_start: "seq_net B addr (net_new B addr)"
| net_local: "seq_net B addr n \<Longrightarrow> seq_net B addr (net_write B a w n)"
| net_remote: "seq_net B addr n \<Longrightarrow> (op, w) \<in> set (nt_written n) \<Longrightarrow> op \<notin> set (nt_log n a) \<Longrightarrow>
    seq_net B addr (net_deliver B a op n)"

section \<open>The invariant of reachable networks\<close>

text \<open>The three external sequences of a backend all have unique identifiers.\<close>

definition backend_unique ::
    "('p, 'a, 'c, 'o) Backend \<Rightarrow> ((Entry, 'o) Op \<Rightarrow> (Entry, 'o) Op \<Rightarrow> bool) \<Rightarrow> (('p, 'o) Op \<Rightarrow> ('p, 'o) Op \<Rightarrow> bool) \<Rightarrow>
     ((Owner, 'o) Op \<Rightarrow> (Owner, 'o) Op \<Rightarrow> bool) \<Rightarrow> bool" where
  "backend_unique B he hp ho \<longleftrightarrow>
     unique_lseq (be_entries B) he \<and> unique_lseq (be_perms B) hp \<and> unique_lseq (be_owners B) ho"

lemma backend_uniqueD:
  assumes "backend_unique B he hp ho"
  shows "unique_lseq (be_entries B) he" "unique_lseq (be_perms B) hp" "unique_lseq (be_owners B) ho" "backend_laws B he hp ho"
  using assms by (auto simp: backend_unique_def backend_laws_def unique_lseq_def)

definition replica :: "('p, 'a, 'c, 'o) Backend \<Rightarrow> SequenceAddress \<Rightarrow> 'a \<Rightarrow> ('p, 'o) SeqOp list \<Rightarrow> ('p, 'c) SequenceCrdt" where
  "replica B addr a ops = fold (seq_apply B) ops (SequenceCrdt_new B a addr)"

lemma replica_parts:
  "sq_data (replica B addr a ops) = ls_built (be_entries B) a (entry_ops ops)"
  "sq_permissions (replica B addr a ops) = ls_built (be_perms B) a (perms_ops ops)"
  "sq_owners (replica B addr a ops) = ls_built (be_owners B) a (owner_ops ops)"
  "replica B addr a [] = SequenceCrdt_new B a addr"
  "replica B addr a (ops @ [op]) = seq_apply B op (replica B addr a ops)"
  by (simp_all add: replica_def seq_apply_parts SequenceCrdt_new_def ls_built_def)

lemma set_ops [simp]:
  "x \<in> set (entry_ops ops) \<longleftrightarrow> EntryOp x \<in> set ops"
  "y \<in> set (perms_ops ops) \<longleftrightarrow> PermsOp y \<in> set ops"
  "z \<in> set (owner_ops ops) \<longleftrightarrow> OwnerOp z \<in> set ops"
proof (induction ops)
  case (Cons op ops)
  case 1 show ?case using Cons by (cases op) auto
  case 2 show ?case using Cons by (cases op) auto
  case 3 show ?case using Cons by (cases op) auto
qed simp_all

fun is_insert_op :: "('p, 'a, 'c, 'o) Backend \<Rightarrow> ('p, 'o) SeqOp \<Rightarrow> bool" where
  "is_insert_op B (EntryOp x) = ls_is_insert (be_entries B) x"
| "is_insert_op B (PermsOp x) = ls_is_insert (be_perms B) x"
| "is_insert_op B (OwnerOp x) = ls_is_insert (be_owners B) x"

lemma inserts_parts:
  assumes "\<forall>op \<in> set ops. is_insert_op B op"
  shows "list_all (ls_is_insert (be_entries B)) (entry_ops ops)"
    "list_all (ls_is_insert (be_perms B)) (perms_ops ops)"
    "list_all (ls_is_insert (be_owners B)) (owner_ops ops)"
  using assms by (force simp: list_all_iff)+

text \<open>The operation of a write is an insertion, and doing the write is applying it.\<close>

lemma write_applies:
  assumes "backend_laws B he hp ho"
  shows "fst (seq_write B w s) = seq_apply B (snd (seq_write B w s)) s"
  using append_applies [OF assms] by (cases w) simp_all

lemma write_inserts:
  assumes "backend_laws B he hp ho"
  shows "is_insert_op B (snd (seq_write B w s))"
proof -
  have L: "lseq (be_entries B) he" "lseq (be_perms B) hp" "lseq (be_owners B) ho"
    using assms by (simp_all add: backend_laws_def)
  show ?thesis
    by (cases w)
       (simp_all add: SequenceCrdt_append_def SequenceCrdt_append_permissions_def SequenceCrdt_append_owner_def
          lseq.insert_append [OF L(1)] lseq.insert_append [OF L(2)] lseq.insert_append [OF L(3)])
qed

lemma write_unrelated:
  assumes "backend_unique B he hp ho"
    and "\<forall>op \<in> set ops. is_insert_op B op" "\<forall>op \<in> set ops'. is_insert_op B op"
    and "x = snd (seq_write B w (replica B addr a ops))" "y = snd (seq_write B w' (replica B addr a' ops'))"
    and "a \<noteq> a' \<or> y \<in> set ops"
  shows "unrelated (seq_hb he hp ho) x y"
proof -
  note U = backend_uniqueD(1-3) [OF assms(1)] and I = inserts_parts [OF assms(2)] and J = inserts_parts [OF assms(3)]
  show ?thesis
    using assms(6) unique_lseq.unique [OF U(1) I(1) J(1), of a a'] unique_lseq.unique [OF U(2) I(2) J(2), of a a']
      unique_lseq.unique [OF U(3) I(3) J(3), of a a']
    unfolding assms(4,5)
    by (cases w; cases w')
       (auto simp: SequenceCrdt_append_def SequenceCrdt_append_permissions_def SequenceCrdt_append_owner_def replica_parts
          unrelated_def)
qed

text \<open>
  Every replica is what the operations in its log make of a new sequence; every operation was made by
  a write of a replica whose log has it; and operations are pairwise unrelated.
\<close>

definition made_by ::
    "('p, 'a, 'c, 'o) Backend \<Rightarrow> SequenceAddress \<Rightarrow> ('p, 'a, 'c, 'o) SeqNet \<Rightarrow> ('p, 'o) SeqOp \<Rightarrow> 'p SeqWrite \<Rightarrow> bool" where
  "made_by B addr n op w \<longleftrightarrow>
     (\<exists>a ops. op \<in> set (nt_log n a) \<and> (\<forall>x \<in> set ops. is_insert_op B x) \<and> op = snd (seq_write B w (replica B addr a ops)))"

definition net_inv ::
    "('p, 'a, 'c, 'o) Backend \<Rightarrow> (('p, 'o) SeqOp \<Rightarrow> ('p, 'o) SeqOp \<Rightarrow> bool) \<Rightarrow> SequenceAddress \<Rightarrow> ('p, 'a, 'c, 'o) SeqNet \<Rightarrow> bool" where
  "net_inv B hb addr n \<longleftrightarrow>
     (\<forall>a. nt_state n a = replica B addr a (nt_log n a) \<and> distinct (nt_log n a) \<and> set (nt_log n a) \<subseteq> fst ` set (nt_written n)) \<and>
     distinct (map fst (nt_written n)) \<and>
     (\<forall>(op, w) \<in> set (nt_written n). made_by B addr n op w) \<and>
     (\<forall>x \<in> fst ` set (nt_written n). \<forall>y \<in> fst ` set (nt_written n). x \<noteq> y \<longrightarrow> unrelated hb x y)"

lemma net_invD:
  assumes "net_inv B hb addr n"
  shows "nt_state n a = replica B addr a (nt_log n a)" "distinct (nt_log n a)" "set (nt_log n a) \<subseteq> fst ` set (nt_written n)"
    "distinct (map fst (nt_written n))" "(op, w) \<in> set (nt_written n) \<Longrightarrow> made_by B addr n op w"
    "x \<in> fst ` set (nt_written n) \<Longrightarrow> y \<in> fst ` set (nt_written n) \<Longrightarrow> x \<noteq> y \<Longrightarrow> unrelated hb x y"
  using assms by (auto simp: net_inv_def split_beta)

lemma made_by_mono:
  assumes "made_by B addr n op w" "\<And>a. set (nt_log n a) \<subseteq> set (nt_log n' a)"
  shows "made_by B addr n' op w"
  using assms unfolding made_by_def by blast

lemma made_by_insert:
  assumes "backend_laws B he hp ho" "made_by B addr n op w"
  shows "is_insert_op B op"
  using assms(2) write_inserts [OF assms(1)] unfolding made_by_def by metis

lemma log_inserts:
  assumes "backend_laws B he hp ho" "net_inv B hb addr n"
  shows "\<forall>x \<in> set (nt_log n a). is_insert_op B x"
  using net_invD(3,5) [OF assms(2)] made_by_insert [OF assms(1)] by fastforce

lemma inv_new: "net_inv B hb addr (net_new B addr)"
  by (simp add: net_inv_def net_new_def replica_def)

lemma inv_deliver:
  assumes "net_inv B hb addr n" "(op, w) \<in> set (nt_written n)" "op \<notin> set (nt_log n a)"
  shows "net_inv B hb addr (net_deliver B a op n)"
proof -
  have "made_by B addr n x v \<Longrightarrow> made_by B addr (net_deliver B a op n) x v" for x v
    by (rule made_by_mono) (auto simp: net_deliver_def)
  moreover have "op \<in> fst ` set (nt_written n)" using assms(2) by force
  ultimately show ?thesis
    using assms by (auto simp: net_inv_def net_deliver_def replica_parts)
qed

lemma net_write_eq:
  assumes "backend_unique B he hp ho" "op = snd (seq_write B w (nt_state n a))"
  shows "net_write B a w n = \<lparr>nt_state = (nt_state n)(a := seq_apply B op (nt_state n a)),
    nt_log = (nt_log n)(a := nt_log n a @ [op]), nt_written = (op, w) # nt_written n\<rparr>"
  by (simp add: net_write_def assms(2) split_beta write_applies [OF backend_uniqueD(4) [OF assms(1)]])

text \<open>A new operation is causally apart from all that were written, and so differs from them.\<close>

lemma write_apart:
  assumes "backend_unique B he hp ho" "net_inv B (seq_hb he hp ho) addr n"
    and "op = snd (seq_write B w (nt_state n a))" "y \<in> fst ` set (nt_written n)"
  shows "unrelated (seq_hb he hp ho) op y"
proof -
  note laws = backend_uniqueD(4) [OF assms(1)] and inv = net_invD [OF assms(2)]
  from assms(4) obtain v where "(y, v) \<in> set (nt_written n)" by auto
  then obtain a' ops where y: "y \<in> set (nt_log n a')" "\<forall>x \<in> set ops. is_insert_op B x"
      "y = snd (seq_write B v (replica B addr a' ops))"
    using inv(5) unfolding made_by_def by blast
  have "op = snd (seq_write B w (replica B addr a (nt_log n a)))" by (simp add: assms(3) flip: inv(1))
  then show ?thesis
    by (rule write_unrelated [OF assms(1) log_inserts [OF laws assms(2)] y(2) _ y(3)]) (use y(1) in auto)
qed

lemma write_made_by:
  assumes "backend_unique B he hp ho" "net_inv B (seq_hb he hp ho) addr n"
    and "op = snd (seq_write B w (nt_state n a))"
  shows "made_by B addr n x v \<Longrightarrow> made_by B addr (net_write B a w n) x v"
    and "made_by B addr (net_write B a w n) op w"
proof -
  note n' = net_write_eq [OF assms(1,3)]
  show "made_by B addr n x v \<Longrightarrow> made_by B addr (net_write B a w n) x v"
    by (rule made_by_mono) (auto simp: n')
  show "made_by B addr (net_write B a w n) op w"
    unfolding made_by_def n' using log_inserts [OF backend_uniqueD(4) [OF assms(1)] assms(2), of a]
    by (intro exI [of _ a] exI [of _ "nt_log n a"]) (simp add: assms(3) flip: net_invD(1) [OF assms(2)])
qed

lemma inv_write:
  assumes "backend_unique B he hp ho" "net_inv B (seq_hb he hp ho) addr n"
  shows "net_inv B (seq_hb he hp ho) addr (net_write B a w n)"
proof -
  note inv = net_invD [OF assms(2)]
  define op where "op = snd (seq_write B w (nt_state n a))"
  note n' = net_write_eq [OF assms(1) op_def] and apart = write_apart [OF assms op_def]
    and made = write_made_by [OF assms op_def]
  have apart': "unrelated (seq_hb he hp ho) y op" if "y \<in> fst ` set (nt_written n)" for y
    using apart [OF that] by (simp only: unrelated_sym [of _ y])
  have new: "op \<notin> fst ` set (nt_written n)" using apart by (auto simp: unrelated_def)
  then have "op \<notin> set (nt_log n a)" using inv(3) by blast
  show ?thesis
    unfolding net_inv_def
  proof (intro conjI)
    show "\<forall>b. nt_state (net_write B a w n) b = replica B addr b (nt_log (net_write B a w n) b) \<and>
        distinct (nt_log (net_write B a w n) b) \<and>
        set (nt_log (net_write B a w n) b) \<subseteq> fst ` set (nt_written (net_write B a w n))"
      using inv(1-3) \<open>op \<notin> set (nt_log n a)\<close> by (auto simp: n' replica_parts)
    show "distinct (map fst (nt_written (net_write B a w n)))"
      using inv(4) new by (simp add: n')
    show "\<forall>(x, v) \<in> set (nt_written (net_write B a w n)). made_by B addr (net_write B a w n) x v"
      using inv(5) made by (auto simp: n')
    show "\<forall>x \<in> fst ` set (nt_written (net_write B a w n)). \<forall>y \<in> fst ` set (nt_written (net_write B a w n)).
        x \<noteq> y \<longrightarrow> unrelated (seq_hb he hp ho) x y"
      using apart apart' inv(6) by (auto simp: n')
  qed
qed

lemma reachable_inv:
  assumes "backend_unique B he hp ho" "seq_net B addr n"
  shows "net_inv B (seq_hb he hp ho) addr n"
  using assms(2)
proof (induction rule: seq_net.induct)
  case net_start
  show ?case by (rule inv_new)
next
  case (net_local n a w)
  then show ?case by (intro inv_write [OF assms(1)])
next
  case (net_remote n op w a)
  then show ?case by (intro inv_deliver)
qed

section \<open>What the replicas hold\<close>

text \<open>The values of one kind that a replica has seen, in the order of arrival.\<close>

fun entry_of :: "'p SeqWrite \<Rightarrow> Entry list" where
  "entry_of (W_Entry e) = [e]"
| "entry_of _ = []"

fun perms_of :: "'p SeqWrite \<Rightarrow> 'p list" where
  "perms_of (W_Perms p) = [p]"
| "perms_of _ = []"

fun owner_of :: "'p SeqWrite \<Rightarrow> PublicKey list" where
  "owner_of (W_Owner k) = [k]"
| "owner_of _ = []"

definition payloads :: "('p SeqWrite \<Rightarrow> 'x list) \<Rightarrow> ('p, 'a, 'c, 'o) SeqNet \<Rightarrow> ('p, 'o) SeqOp list \<Rightarrow> 'x list" where
  "payloads sel n ops = concat (map (\<lambda>op. case map_of (nt_written n) op of None \<Rightarrow> [] | Some w \<Rightarrow> sel w) ops)"

lemma payloads_parts:
  assumes "\<forall>op \<in> set ops. \<exists>w. map_of (nt_written n) op = Some w \<and> made_by B addr n op w"
  shows "payloads entry_of n ops = map (\<lambda>x. hd (entry_of (the (map_of (nt_written n) (EntryOp x))))) (entry_ops ops) \<and>
    payloads perms_of n ops = map (\<lambda>x. hd (perms_of (the (map_of (nt_written n) (PermsOp x))))) (perms_ops ops) \<and>
    payloads owner_of n ops = map (\<lambda>x. hd (owner_of (the (map_of (nt_written n) (OwnerOp x))))) (owner_ops ops)"
  using assms
proof (induction ops)
  case (Cons op ops)
  then obtain w where "map_of (nt_written n) op = Some w" "made_by B addr n op w" by auto
  then obtain s where w: "map_of (nt_written n) op = Some w" "op = snd (seq_write B w s)"
    unfolding made_by_def by blast
  then show ?case using Cons by (cases w) (simp_all add: payloads_def)
qed (simp add: payloads_def)

text \<open>A replica that has received everything has seen everything.\<close>

lemma payloads_all:
  assumes "distinct ops" "set ops = fst ` set (nt_written n)" "distinct (map fst (nt_written n))"
  shows "mset (payloads sel n ops) = mset (concat (map (\<lambda>p. sel (snd p)) (nt_written n)))"
proof -
  let ?g = "\<lambda>op. mset (case map_of (nt_written n) op of None \<Rightarrow> [] | Some w \<Rightarrow> sel w)"
  have "mset ops = mset (map fst (nt_written n))"
    using assms by (intro set_eq_iff_mset_eq_distinct [THEN iffD1]) simp_all
  then have "sum_mset (image_mset ?g (mset ops)) = sum_mset (image_mset ?g (mset (map fst (nt_written n))))"
    by (rule arg_cong)
  moreover have "map ?g (map fst (nt_written n)) = map (\<lambda>p. mset (sel (snd p))) (nt_written n)"
    using assms(3) map_of_is_SomeI by (auto intro!: map_cong)
  then have "sum_list (map ?g (map fst (nt_written n))) = sum_list (map (\<lambda>p. mset (sel (snd p))) (nt_written n))"
    by (rule arg_cong)
  ultimately have "sum_list (map ?g ops) = sum_list (map (\<lambda>p. mset (sel (snd p))) (nt_written n))"
    unfolding mset_map [symmetric] sum_mset_sum_list by (rule trans)
  then show ?thesis by (simp add: payloads_def mset_concat comp_def)
qed

text \<open>Deliveries can always catch up.\<close>

interpretation seq_delivery: delivery "seq_net B addr" nt_written "\<lambda>ws. fst ` set ws" "\<lambda>n a. set (nt_log n a)" "net_deliver B"
proof
  show "seq_net B addr n \<Longrightarrow> op \<in> fst ` set (nt_written n) \<Longrightarrow> op \<notin> set (nt_log n a) \<Longrightarrow>
      seq_net B addr (net_deliver B a op n)" for n op a
    by (auto intro: seq_net.net_remote)
qed (auto simp: net_deliver_def)

text \<open>The entries, permissions and owners of a replica are the payloads of its log.\<close>

lemma made_by_append:
  assumes "made_by B addr n op w"
  shows "op = EntryOp x \<Longrightarrow> \<exists>t. x = snd (ls_append (be_entries B) t (hd (entry_of w)))"
    "op = PermsOp y \<Longrightarrow> \<exists>t. y = snd (ls_append (be_perms B) t (hd (perms_of w)))"
    "op = OwnerOp z \<Longrightarrow> \<exists>t v. z = snd (ls_append (be_owners B) t v) \<and> ow_public_key v = hd (owner_of w)"
  using assms unfolding made_by_def
  by (cases w; auto simp: SequenceCrdt_append_def SequenceCrdt_append_permissions_def SequenceCrdt_append_owner_def; fastforce)+

lemma distinct_parts:
  assumes "distinct ops"
  shows "distinct (entry_ops ops) \<and> distinct (perms_ops ops) \<and> distinct (owner_ops ops)"
  using assms
proof (induction ops)
  case (Cons op ops)
  then show ?case by (cases op) simp_all
qed simp

lemma unrelated_parts [simp]:
  "unrelated (seq_hb he hp ho) (EntryOp a) (EntryOp b) \<longleftrightarrow> unrelated he a b"
  "unrelated (seq_hb he hp ho) (PermsOp c) (PermsOp d) \<longleftrightarrow> unrelated hp c d"
  "unrelated (seq_hb he hp ho) (OwnerOp e) (OwnerOp f) \<longleftrightarrow> unrelated ho e f"
  by (simp_all add: unrelated_def)

lemma inv_contents:
  assumes "backend_unique B he hp ho" "net_inv B (seq_hb he hp ho) addr n"
  shows "mset (vw_entries (seq_view B (nt_state n a))) = mset (payloads entry_of n (nt_log n a)) \<and>
    mset (vw_perms (seq_view B (nt_state n a))) = mset (payloads perms_of n (nt_log n a)) \<and>
    image_mset ow_public_key (mset (vw_owners (seq_view B (nt_state n a)))) = mset (payloads owner_of n (nt_log n a))"
proof -
  note U = backend_uniqueD(1-3) [OF assms(1)] and inv = net_invD [OF assms(2)]
  have known: "\<exists>w. map_of (nt_written n) op = Some w \<and> made_by B addr n op w" if "op \<in> set (nt_log n a)" for op
  proof -
    from that inv(3) obtain w where "(op, w) \<in> set (nt_written n)" by fastforce
    then show ?thesis using inv(4,5) by (metis map_of_is_SomeI)
  qed
  have made: "made_by B addr n op (the (map_of (nt_written n) op))" if "op \<in> set (nt_log n a)" for op
    using known [OF that] by auto
  have apart: "unrelated (seq_hb he hp ho) x y" if "x \<in> set (nt_log n a)" "y \<in> set (nt_log n a)" "x \<noteq> y" for x y
    using inv(3,6) that by blast
  note D = distinct_parts [OF inv(2), of a] and P = payloads_parts [of "nt_log n a" n B addr]
  have "image_mset (\<lambda>x. x) (mset (ls_iter (be_entries B) (ls_built (be_entries B) a (entry_ops (nt_log n a))))) =
      mset (map (\<lambda>x. hd (entry_of (the (map_of (nt_written n) (EntryOp x))))) (entry_ops (nt_log n a)))"
    using D made_by_append(1) [OF made _] apart [of "EntryOp _" "EntryOp _"]
    by (intro unique_lseq.contents [OF U(1)]) auto
  moreover have "image_mset (\<lambda>x. x) (mset (ls_iter (be_perms B) (ls_built (be_perms B) a (perms_ops (nt_log n a))))) =
      mset (map (\<lambda>x. hd (perms_of (the (map_of (nt_written n) (PermsOp x))))) (perms_ops (nt_log n a)))"
    using D made_by_append(2) [OF made _] apart [of "PermsOp _" "PermsOp _"]
    by (intro unique_lseq.contents [OF U(2)]) auto
  moreover have "image_mset ow_public_key (mset (ls_iter (be_owners B) (ls_built (be_owners B) a (owner_ops (nt_log n a))))) =
      mset (map (\<lambda>x. hd (owner_of (the (map_of (nt_written n) (OwnerOp x))))) (owner_ops (nt_log n a)))"
    using D made_by_append(3) [OF made _] apart [of "OwnerOp _" "OwnerOp _"]
    by (intro unique_lseq.contents [OF U(3)]) auto
  ultimately show ?thesis
    using P known by (simp add: seq_view_def inv(1) replica_parts)
qed

lemma inv_converges:
  assumes "backend_unique B he hp ho" "net_inv B (seq_hb he hp ho) addr n" "set (nt_log n a) = set (nt_log n b)"
  shows "seq_view B (nt_state n a) = seq_view B (nt_state n b)"
proof -
  note inv = net_invD [OF assms(2)]
  have order: "causal_order (seq_hb he hp ho) ops" if "set ops \<subseteq> fst ` set (nt_written n)" for ops
    using that
  proof (induction ops)
    case (Cons x ops)
    then have "\<forall>y \<in> set ops. y \<noteq> x \<longrightarrow> unrelated (seq_hb he hp ho) x y"
      using inv(6) [of x] by (auto simp del: set_map)  (metis list.set_intros(1) subsetD)
    with Cons show ?case by (simp add: unrelated_def)
  qed simp
  have "mset (nt_log n a) = mset (nt_log n b)"
    using assms(3) inv(2) set_eq_iff_mset_eq_distinct by blast
  then show ?thesis
    unfolding inv(1) replica_def
    by (intro seq_replica.views_converge [OF seq_replica.intro [OF backend_uniqueD(4) [OF assms(1)]]] order inv(3))
qed

section \<open>The reference backends have unique identifiers\<close>

lemma actor_code_inj: "actor_code a = actor_code b \<Longrightarrow> a = b"
  by (cases a; cases b) (simp_all add: word_unat_eq_iff)

lemma ref_fold_actor: "fst (fold ref_apply ops s) = fst s"
proof (induction ops arbitrary: s)
  case (Cons x ops)
  then show ?case by (cases x; cases s) simp_all
qed simp

lemma ref_fold_dom:
  "fset (fmdom (snd (fold ref_apply ops s))) \<subseteq> fset (fmdom (snd s)) \<union> ref_op_key ` set ops"
proof (induction ops arbitrary: s)
  case (Cons x ops)
  then show ?case using Cons.IH [of "ref_apply x s"] by (cases x; cases s) auto
qed simp

lemma ref_fold_keeps:
  assumes "list_all (\<lambda>x. case x of Ref_Insert _ _ \<Rightarrow> True | Ref_Delete _ \<Rightarrow> False) ops"
  shows "fset (fmdom (snd s)) \<union> ref_op_key ` set ops \<subseteq> fset (fmdom (snd (fold ref_apply ops s)))"
  using assms
proof (induction ops arbitrary: s)
  case (Cons x ops)
  then show ?case using Cons.IH [of "ref_apply x s"] by (cases x; cases s) auto
qed simp

lemma ref_built:
  "ls_built (ref_lseq emb proj) a ops = LSeq (fold ref_apply (map the_op ops) (actor_code a, fmempty))"
  by (simp add: ls_built_def ref_lseq_def fold_LSeq)

lemma ref_ops:
  "snd (ls_append (ref_lseq emb proj) s v) = Op (ref_append_op emb (the_seq s) v)"
  "ls_apply (ref_lseq emb proj) x s = LSeq (ref_apply (the_op x) (the_seq s))"
  "ls_iter (ref_lseq emb proj) s = ref_iter proj (the_seq s)"
  "ls_is_insert (ref_lseq emb proj) x = (case the_op x of Ref_Insert _ _ \<Rightarrow> True | Ref_Delete _ \<Rightarrow> False)"
  by (simp_all add: ref_lseq_def)

text \<open>Two replicas never pick the same key, and one replica never picks a key twice.\<close>

lemma ref_keys_differ:
  fixes ops ops' :: "('a, RefOp) Op list" and a a' :: PublicKey
  defines "s \<equiv> fold ref_apply (map the_op ops) (actor_code a, fmempty)"
    and "t \<equiv> fold ref_apply (map the_op ops') (actor_code a', fmempty)"
  assumes "list_all (\<lambda>x. case x of Ref_Insert _ _ \<Rightarrow> True | Ref_Delete _ \<Rightarrow> False) (map the_op ops)"
    and "a \<noteq> a' \<or> Op (ref_append_op emb t w) \<in> set ops"
  shows "ref_op_key (ref_append_op emb s v) \<noteq> ref_op_key (ref_append_op emb t w)"
proof (cases "a = a'")
  case True
  then have "ref_op_key (ref_append_op emb t w) \<in> ref_op_key ` set (map the_op ops)"
    using assms(4) by force
  then have "ref_op_key (ref_append_op emb t w) \<in> fset (fmdom (snd s))"
    using assms(3) ref_fold_keeps [of "map the_op ops" "(actor_code a, fmempty)"] by (simp add: s_def) blast
  then show ?thesis using next_counter_above [of _ "snd s" "fst s"] by (force simp: ref_append_op_def)
next
  case False
  then show ?thesis using actor_code_inj [of a a'] by (auto simp: ref_append_op_def ref_fold_actor s_def t_def)
qed

text \<open>Applying an insertion of a fresh key adds its value to the contents.\<close>

lemma ref_iter_mset:
  "mset (ref_iter proj s) = image_mset (\<lambda>k. proj (the (fmlookup (snd s) k))) (mset_set (fset (fmdom (snd s))))"
  using mset_set_set [of "sorted_list_of_set (fset (fmdom (snd s)))"] by (simp add: ref_iter_def ref_keys_def)

lemma ref_insert_adds:
  assumes "k \<notin> fset (fmdom (snd s))" "proj (emb v) = v"
  shows "mset (ref_iter proj (ref_apply (Ref_Insert k (emb v)) s)) = add_mset v (mset (ref_iter proj s))"
proof -
  obtain c m where s: "s = (c, m)" by (cases s)
  have same: "image_mset (\<lambda>j. proj (the (fmlookup (fmupd k (emb v) m) j))) (mset_set (fset (fmdom m))) =
      image_mset (\<lambda>j. proj (the (fmlookup m j))) (mset_set (fset (fmdom m)))"
    using assms(1) by (intro image_mset_cong) (auto simp: s)
  have top: "proj (the (fmlookup (fmupd k (emb v) m) k)) = v" by (simp add: assms(2))
  show ?thesis using assms(1) same top unfolding ref_iter_mset s by (simp del: fmupd_lookup)
qed

lemma ref_unique:
  assumes "\<And>v. proj (emb v) = v"
  shows "unique_lseq (ref_lseq emb proj) ref_hb"
proof (rule unique_lseq.intro [OF ref_lseq_ok [OF assms]], unfold_locales)
  fix ops ops' :: "('a, RefOp) Op list" and a a' v w
  assume "list_all (ls_is_insert (ref_lseq emb proj)) ops" "list_all (ls_is_insert (ref_lseq emb proj)) ops'"
    and "a \<noteq> a' \<or> snd (ls_append (ref_lseq emb proj) (ls_built (ref_lseq emb proj) a' ops') w) \<in> set ops"
  then have "ref_op_key (ref_append_op emb (fold ref_apply (map the_op ops) (actor_code a, fmempty)) v) \<noteq>
      ref_op_key (ref_append_op emb (fold ref_apply (map the_op ops') (actor_code a', fmempty)) w)"
    by (intro ref_keys_differ) (simp_all add: ref_built ref_ops list_all_iff)
  then show "unrelated ref_hb (snd (ls_append (ref_lseq emb proj) (ls_built (ref_lseq emb proj) a ops) v))
      (snd (ls_append (ref_lseq emb proj) (ls_built (ref_lseq emb proj) a' ops') w))"
    by (auto simp: unrelated_def ref_hb_def ref_built ref_ops)
next
  fix ops :: "('a, RefOp) Op list" and x t v a
  assume x: "x = snd (ls_append (ref_lseq emb proj) t v)" and new: "\<forall>y \<in> set ops. unrelated ref_hb x y"
  obtain k where k: "the_op x = Ref_Insert k (emb v)" by (simp add: x ref_ops ref_append_op_def)
  have "\<forall>y \<in> set ops. ref_op_key (the_op y) \<noteq> k" using new k by (auto simp: unrelated_def ref_hb_def)
  then have "k \<notin> fset (fmdom (snd (fold ref_apply (map the_op ops) (actor_code a, fmempty))))"
    using ref_fold_dom [of "map the_op ops" "(actor_code a, fmempty)"] by auto
  from ref_insert_adds [where proj = proj and emb = emb, OF this assms]
  show "mset (ls_iter (ref_lseq emb proj) (ls_apply (ref_lseq emb proj) x (ls_built (ref_lseq emb proj) a ops))) =
      add_mset v (mset (ls_iter (ref_lseq emb proj) (ls_built (ref_lseq emb proj) a ops)))"
    by (simp add: ref_built ref_ops k)
qed

lemma ref_backends_unique:
  "backend_unique ref_public ref_hb ref_hb ref_hb" "backend_unique ref_private ref_hb ref_hb ref_hb"
  by (simp_all add: backend_unique_def ref_public_def ref_private_def ref_entries_def ref_owners_def ref_unique)

interpretation ref_entry_ids: unique_lseq "ref_lseq Elem_Entry the_entry" ref_hb
  by (rule ref_unique) simp

section \<open>Eventual consistency\<close>

text \<open>
  C6: Eventual consistency of a sequence, whatever the order and delay of deliveries. In every
  reachable network two replicas that have received the same operations answer alike; a replica holds
  exactly the entries, permissions and owners of the writes it has received, no write lost, doubled or
  invented; a replica that has received everything holds everything written; and every set of
  replicas can be brought to that state from the present one by deliveries of operations written so far.
\<close>

theorem sequence_network_consistent:
  assumes "backend_unique B he hp ho" "seq_net B addr n"
  shows "(set (nt_log n a) = set (nt_log n b) \<longrightarrow> seq_view B (nt_state n a) = seq_view B (nt_state n b)) \<and>
    mset (vw_entries (seq_view B (nt_state n a))) = mset (payloads entry_of n (nt_log n a)) \<and>
    mset (vw_perms (seq_view B (nt_state n a))) = mset (payloads perms_of n (nt_log n a)) \<and>
    image_mset ow_public_key (mset (vw_owners (seq_view B (nt_state n a)))) = mset (payloads owner_of n (nt_log n a)) \<and>
    (fst ` set (nt_written n) \<subseteq> set (nt_log n a) \<longrightarrow>
       mset (vw_entries (seq_view B (nt_state n a))) = mset (concat (map (\<lambda>p. entry_of (snd p)) (nt_written n)))) \<and>
    (\<exists>ds n'. n' = fold (\<lambda>(c, op). net_deliver B c op) ds n \<and> set ds \<subseteq> set actors \<times> fst ` set (nt_written n) \<and>
       seq_net B addr n' \<and> nt_written n' = nt_written n \<and>
       (\<forall>c \<in> set actors. fst ` set (nt_written n) \<subseteq> set (nt_log n' c)))"
proof -
  note inv = reachable_inv [OF assms] and D = net_invD [OF reachable_inv [OF assms]]
  have "fst ` set (nt_written n) \<subseteq> set (nt_log n a) \<Longrightarrow>
      mset (payloads entry_of n (nt_log n a)) = mset (concat (map (\<lambda>p. entry_of (snd p)) (nt_written n)))"
    using D(3) [of a] by (intro payloads_all D(2,4)) blast
  then show ?thesis
    using inv_contents [OF assms(1) inv, of a] inv_converges [OF assms(1) inv, of a b] seq_delivery.all_catch_up [OF assms(2), of actors]
    by simp
qed

text \<open>Two actors write concurrently and receive each other's entry in opposite orders.\<close>

definition demo_written :: "(PublicPermissions, PublicKey, RefSeq, RefOp) SeqNet" where
  "demo_written = net_write ref_public (PublicKey_Bls 2) (W_Entry [20])
     (net_write ref_public (PublicKey_Bls 1) (W_Entry [10]) (net_new ref_public (SequenceAddress_Public 3 4)))"

definition demo_net :: "(PublicPermissions, PublicKey, RefSeq, RefOp) SeqNet" where
  "demo_net = net_deliver ref_public (PublicKey_Bls 1) (EntryOp (Op (Ref_Insert [1, 1, 2] (Elem_Entry [20]))))
     (net_deliver ref_public (PublicKey_Bls 2) (EntryOp (Op (Ref_Insert [1, 1, 1] (Elem_Entry [10])))) demo_written)"

lemma demo_written:
  "nt_written demo_written =
     [(EntryOp (Op (Ref_Insert [1, 1, 2] (Elem_Entry [20]))), W_Entry [20]),
      (EntryOp (Op (Ref_Insert [1, 1, 1] (Elem_Entry [10]))), W_Entry [10])]"
  "nt_log demo_written (PublicKey_Bls 1) = [EntryOp (Op (Ref_Insert [1, 1, 1] (Elem_Entry [10])))]"
  "nt_log demo_written (PublicKey_Bls 2) = [EntryOp (Op (Ref_Insert [1, 1, 2] (Elem_Entry [20])))]"
  by (simp_all add: demo_written_def net_write_def net_new_def SequenceCrdt_new_def SequenceCrdt_append_def ref_public_def
      ref_entries_def ref_lseq_def ref_append_op_def next_counter_def split_beta)

theorem sequence_network_consistent_witness:
  "seq_view ref_public (nt_state demo_net (PublicKey_Bls 1)) = seq_view ref_public (nt_state demo_net (PublicKey_Bls 2)) \<and>
   mset (vw_entries (seq_view ref_public (nt_state demo_net (PublicKey_Bls 1)))) = {#[10], [20]#}"
proof -
  have "seq_net ref_public (SequenceAddress_Public 3 4) demo_written"
    unfolding demo_written_def by (intro seq_net.intros)
  then have net: "seq_net ref_public (SequenceAddress_Public 3 4) demo_net"
    unfolding demo_net_def
    by (intro seq_net.net_remote [where w = "W_Entry [20]"] seq_net.net_remote [where w = "W_Entry [10]"])
       (simp_all add: demo_written net_deliver_def)
  note spec = sequence_network_consistent [OF ref_backends_unique(1) net, of "PublicKey_Bls 1" "PublicKey_Bls 2"]
  have logs: "nt_log demo_net (PublicKey_Bls 1) =
      [EntryOp (Op (Ref_Insert [1, 1, 1] (Elem_Entry [10]))), EntryOp (Op (Ref_Insert [1, 1, 2] (Elem_Entry [20])))]"
      "nt_log demo_net (PublicKey_Bls 2) =
      [EntryOp (Op (Ref_Insert [1, 1, 2] (Elem_Entry [20]))), EntryOp (Op (Ref_Insert [1, 1, 1] (Elem_Entry [10])))]"
      "nt_written demo_net = nt_written demo_written"
    by (simp_all add: demo_net_def net_deliver_def demo_written)
  have "set (nt_log demo_net (PublicKey_Bls 1)) = set (nt_log demo_net (PublicKey_Bls 2))"
    unfolding logs by auto
  moreover have "mset (payloads entry_of demo_net (nt_log demo_net (PublicKey_Bls 1))) = {#[10], [20]#}"
    by (simp add: payloads_def logs demo_written)
  ultimately show ?thesis using spec by metis
qed

end
