(* ===== verification/Blob.thy ===== *)
theory Blob
  imports Keys
begin

text \<open>
  Blobs (src/src/blob.rs): immutable chunks named after their contents. The hash of the crate
  tiny-keccak and the serialisation of the crate bincode are the parameter record \<open>BlobEnv\<close>. A blob
  is serialised without its address, which is computed again when it is read back.
\<close>

record BlobEnv =
  sha3_256 :: "bytes \<Rightarrow> XorName"
  ser_contents :: "XorName \<times> PublicKey \<Rightarrow> bytes"
  ser_private :: "bytes \<times> PublicKey \<Rightarrow> bytes"
  de_private :: "bytes \<Rightarrow> string + bytes \<times> PublicKey"
  size_private :: "bytes \<times> PublicKey \<Rightarrow> string + u64"
  ser_public :: "bytes \<Rightarrow> bytes"
  de_public :: "bytes \<Rightarrow> string + bytes"
  size_public :: "bytes \<Rightarrow> string + u64"

definition MAX_BLOB_SIZE_IN_BYTES :: u64 where
  "MAX_BLOB_SIZE_IN_BYTES = 1024 * 1024 + 10 * 1024"

section \<open>Kinds and addresses\<close>

datatype BlobKind = BlobKind_Private | BlobKind_Pub

definition BlobKind_from_flag :: "bool \<Rightarrow> BlobKind" where
  "BlobKind_from_flag published = (if published then BlobKind_Pub else BlobKind_Private)"

definition BlobKind_is_pub :: "BlobKind \<Rightarrow> bool" where
  "BlobKind_is_pub self \<longleftrightarrow> self = BlobKind_Pub"

definition BlobKind_is_unpub :: "BlobKind \<Rightarrow> bool" where
  "BlobKind_is_unpub self \<longleftrightarrow> \<not> BlobKind_is_pub self"

datatype BlobAddress = BlobAddress_Private XorName | BlobAddress_Public XorName

fun BlobAddress_from_kind :: "BlobKind \<Rightarrow> XorName \<Rightarrow> BlobAddress" where
  "BlobAddress_from_kind BlobKind_Pub name = BlobAddress_Public name"
| "BlobAddress_from_kind BlobKind_Private name = BlobAddress_Private name"

fun BlobAddress_kind :: "BlobAddress \<Rightarrow> BlobKind" where
  "BlobAddress_kind (BlobAddress_Private _) = BlobKind_Private"
| "BlobAddress_kind (BlobAddress_Public _) = BlobKind_Pub"

fun BlobAddress_name :: "BlobAddress \<Rightarrow> XorName" where
  "BlobAddress_name (BlobAddress_Private name) = name"
| "BlobAddress_name (BlobAddress_Public name) = name"

definition BlobAddress_is_pub :: "BlobAddress \<Rightarrow> bool" where
  "BlobAddress_is_pub self = BlobKind_is_pub (BlobAddress_kind self)"

definition BlobAddress_is_unpub :: "BlobAddress \<Rightarrow> bool" where
  "BlobAddress_is_unpub self = BlobKind_is_unpub (BlobAddress_kind self)"

definition BlobAddress_encode_to_zbase32 :: "'b Multibase \<Rightarrow> (BlobAddress \<Rightarrow> bytes) \<Rightarrow> BlobAddress \<Rightarrow> string" where
  "BlobAddress_encode_to_zbase32 mb ser self = encode mb ser self"

definition BlobAddress_decode_from_zbase32 ::
    "'b Multibase \<Rightarrow> (bytes \<Rightarrow> string + BlobAddress) \<Rightarrow> string \<Rightarrow> BlobAddress Result" where
  "BlobAddress_decode_from_zbase32 mb de encoded = decode mb de encoded"

text \<open>The derived \<open>Ord\<close>: by variant in the order of declaration, then by name.\<close>

instantiation BlobAddress :: linorder
begin

definition less_eq_BlobAddress :: "BlobAddress \<Rightarrow> BlobAddress \<Rightarrow> bool" where
  "less_eq_BlobAddress a b =
     (case (a, b) of
        (BlobAddress_Private x, BlobAddress_Private y) \<Rightarrow> x \<le> y
      | (BlobAddress_Private _, BlobAddress_Public _) \<Rightarrow> True
      | (BlobAddress_Public _, BlobAddress_Private _) \<Rightarrow> False
      | (BlobAddress_Public x, BlobAddress_Public y) \<Rightarrow> x \<le> y)"

definition less_BlobAddress :: "BlobAddress \<Rightarrow> BlobAddress \<Rightarrow> bool" where
  "less_BlobAddress a b \<longleftrightarrow> a \<le> b \<and> \<not> b \<le> a"

instance
  by standard (auto simp: less_eq_BlobAddress_def less_BlobAddress_def split: BlobAddress.splits)

end

section \<open>Private blobs\<close>

record PrivateData =
  pd_address :: BlobAddress
  pd_value :: bytes
  pd_owner :: PublicKey

definition PrivateData_value :: "PrivateData \<Rightarrow> bytes" where
  "PrivateData_value self = pd_value self"

definition PrivateData_owner :: "PrivateData \<Rightarrow> PublicKey" where
  "PrivateData_owner self = pd_owner self"

definition PrivateData_address :: "PrivateData \<Rightarrow> BlobAddress" where
  "PrivateData_address self = pd_address self"

definition PrivateData_new :: "BlobEnv \<Rightarrow> bytes \<Rightarrow> PublicKey \<Rightarrow> PrivateData" where
  "PrivateData_new E value owner =
     (let hash_of_value = sha3_256 E value;
          serialised_contents = serialise (ser_contents E) (hash_of_value, owner);
          address = BlobAddress_Private (sha3_256 E serialised_contents)
      in \<lparr>pd_address = address, pd_value = value, pd_owner = owner\<rparr>)"

definition PrivateData_name :: "PrivateData \<Rightarrow> XorName" where
  "PrivateData_name self = BlobAddress_name (pd_address self)"

definition PrivateData_payload_size :: "PrivateData \<Rightarrow> usize" where
  "PrivateData_payload_size self = word_of_nat (length (pd_value self))"

text \<open>The implementations of \<open>Serialize\<close> and \<open>Deserialize\<close>: value and owner only.\<close>

definition PrivateData_serialize :: "BlobEnv \<Rightarrow> PrivateData \<Rightarrow> bytes" where
  "PrivateData_serialize E self = ser_private E (pd_value self, pd_owner self)"

definition PrivateData_deserialize :: "BlobEnv \<Rightarrow> bytes \<Rightarrow> string + PrivateData" where
  "PrivateData_deserialize E bs =
     and_then (de_private E bs) (\<lambda>(value, owner). Ok (PrivateData_new E value owner))"

text \<open>\<open>unwrap\_or(u64::MAX)\<close>.\<close>

definition size_or_max :: "string + u64 \<Rightarrow> u64" where
  "size_or_max r = (case r of Inl _ \<Rightarrow> - 1 | Inr n \<Rightarrow> n)"

definition PrivateData_serialised_size :: "BlobEnv \<Rightarrow> PrivateData \<Rightarrow> u64" where
  "PrivateData_serialised_size E self = size_or_max (size_private E (pd_value self, pd_owner self))"

definition PrivateData_validate_size :: "BlobEnv \<Rightarrow> PrivateData \<Rightarrow> bool" where
  "PrivateData_validate_size E self \<longleftrightarrow> PrivateData_serialised_size E self \<le> MAX_BLOB_SIZE_IN_BYTES"

section \<open>Public blobs\<close>

record PublicData =
  pb_address :: BlobAddress
  pb_value :: bytes

definition PublicData_value :: "PublicData \<Rightarrow> bytes" where
  "PublicData_value self = pb_value self"

definition PublicData_address :: "PublicData \<Rightarrow> BlobAddress" where
  "PublicData_address self = pb_address self"

definition PublicData_new :: "BlobEnv \<Rightarrow> bytes \<Rightarrow> PublicData" where
  "PublicData_new E value = \<lparr>pb_address = BlobAddress_Public (sha3_256 E value), pb_value = value\<rparr>"

definition PublicData_name :: "PublicData \<Rightarrow> XorName" where
  "PublicData_name self = BlobAddress_name (pb_address self)"

definition PublicData_payload_size :: "PublicData \<Rightarrow> usize" where
  "PublicData_payload_size self = word_of_nat (length (pb_value self))"

definition PublicData_serialize :: "BlobEnv \<Rightarrow> PublicData \<Rightarrow> bytes" where
  "PublicData_serialize E self = ser_public E (pb_value self)"

definition PublicData_deserialize :: "BlobEnv \<Rightarrow> bytes \<Rightarrow> string + PublicData" where
  "PublicData_deserialize E bs = and_then (de_public E bs) (\<lambda>value. Ok (PublicData_new E value))"

definition PublicData_serialised_size :: "BlobEnv \<Rightarrow> PublicData \<Rightarrow> u64" where
  "PublicData_serialised_size E self = size_or_max (size_public E (pb_value self))"

definition PublicData_validate_size :: "BlobEnv \<Rightarrow> PublicData \<Rightarrow> bool" where
  "PublicData_validate_size E self \<longleftrightarrow> PublicData_serialised_size E self \<le> MAX_BLOB_SIZE_IN_BYTES"

section \<open>Either kind\<close>

datatype Blob = Blob_Private PrivateData | Blob_Public PublicData

fun Blob_address :: "Blob \<Rightarrow> BlobAddress" where
  "Blob_address (Blob_Private data) = pd_address data"
| "Blob_address (Blob_Public data) = pb_address data"

definition Blob_name :: "Blob \<Rightarrow> XorName" where
  "Blob_name self = BlobAddress_name (Blob_address self)"

definition Blob_kind :: "Blob \<Rightarrow> BlobKind" where
  "Blob_kind self = BlobAddress_kind (Blob_address self)"

definition Blob_is_pub :: "Blob \<Rightarrow> bool" where
  "Blob_is_pub self = BlobKind_is_pub (Blob_kind self)"

definition Blob_is_unpub :: "Blob \<Rightarrow> bool" where
  "Blob_is_unpub self = BlobKind_is_unpub (Blob_kind self)"

fun Blob_value :: "Blob \<Rightarrow> bytes" where
  "Blob_value (Blob_Private data) = pd_value data"
| "Blob_value (Blob_Public data) = pb_value data"

fun Blob_validate_size :: "BlobEnv \<Rightarrow> Blob \<Rightarrow> bool" where
  "Blob_validate_size E (Blob_Private data) = PrivateData_validate_size E data"
| "Blob_validate_size E (Blob_Public data) = PublicData_validate_size E data"

fun Blob_serialised_size :: "BlobEnv \<Rightarrow> Blob \<Rightarrow> u64" where
  "Blob_serialised_size E (Blob_Private data) = PrivateData_serialised_size E data"
| "Blob_serialised_size E (Blob_Public data) = PublicData_serialised_size E data"

section \<open>Blobs are content addressed\<close>

definition blob_env_ok :: "BlobEnv \<Rightarrow> bool" where
  "blob_env_ok E \<longleftrightarrow>
     bincode_ok (ser_private E) (de_private E) \<and> bincode_ok (ser_public E) (de_public E) \<and> inj (ser_contents E)"

lemma private_content_addressed:
  assumes "blob_env_ok E"
  shows "content_addressed (\<lambda>(v, k). PrivateData_new E v k) (\<lambda>b. (pd_value b, pd_owner b))
    (PrivateData_serialize E) (PrivateData_deserialize E) (ser_private E) (de_private E)"
  using assms
  by unfold_locales
     (auto simp: blob_env_ok_def PrivateData_new_def Let_def PrivateData_serialize_def PrivateData_deserialize_def
        and_then_def split: sum.splits)

lemma public_content_addressed:
  assumes "blob_env_ok E"
  shows "content_addressed (PublicData_new E) pb_value (PublicData_serialize E) (PublicData_deserialize E)
    (ser_public E) (de_public E)"
  using assms
  by unfold_locales
     (auto simp: blob_env_ok_def PublicData_new_def PublicData_serialize_def PublicData_deserialize_def
        and_then_def split: sum.splits)

section \<open>A concrete environment\<close>

text \<open>
  An environment that meets the contract: keys and names in unary, lengths as hashes. It decides
  nothing about the real one; it shows that the hypotheses can hold together.
\<close>

fun key_tag :: "PublicKey \<Rightarrow> u8" where
  "key_tag (PublicKey_Ed25519 _) = 0"
| "key_tag (PublicKey_Bls _) = 1"
| "key_tag (PublicKey_BlsShare _) = 2"

fun key_num :: "PublicKey \<Rightarrow> nat" where
  "key_num (PublicKey_Ed25519 k) = unat k"
| "key_num (PublicKey_Bls k) = unat k"
| "key_num (PublicKey_BlsShare k) = unat k"

definition make_key :: "u8 \<Rightarrow> nat \<Rightarrow> PublicKey" where
  "make_key tag n =
     (if tag = 0 then PublicKey_Ed25519 (word_of_nat n)
      else if tag = 1 then PublicKey_Bls (word_of_nat n) else PublicKey_BlsShare (word_of_nat n))"

definition demo_ser :: "bytes \<times> PublicKey \<Rightarrow> bytes" where
  "demo_ser = (\<lambda>(value, k). key_tag k # replicate (key_num k) 1 @ 0 # value)"

definition demo_de :: "bytes \<Rightarrow> string + bytes \<times> PublicKey" where
  "demo_de bs =
     (case bs of
        [] \<Rightarrow> Err ''empty''
      | tag # rest \<Rightarrow>
          Ok (tl (dropWhile (\<lambda>b. b = 1) rest), make_key tag (length (takeWhile (\<lambda>b. b = 1) rest))))"

definition demo_env :: BlobEnv where
  "demo_env =
     \<lparr>sha3_256 = \<lambda>bs. word_of_nat (length bs),
      ser_contents = \<lambda>(name, k). demo_ser (replicate (unat name) 1, k),
      ser_private = demo_ser, de_private = demo_de, size_private = \<lambda>x. Ok (word_of_nat (length (demo_ser x))),
      ser_public = \<lambda>v. v, de_public = Ok, size_public = \<lambda>v. Ok (word_of_nat (length v))\<rparr>"

lemma make_key_of: "make_key (key_tag k) (key_num k) = k"
  by (cases k) (simp_all add: make_key_def)

lemma unary_split:
  "takeWhile (\<lambda>b. b = 1) (replicate n 1 @ 0 # v) = replicate n (1 :: u8)"
  "dropWhile (\<lambda>b. b = 1) (replicate n 1 @ 0 # v) = (0 :: u8) # v"
  by (induction n) simp_all

lemma demo_codec: "bincode_ok demo_ser demo_de"
  by (auto simp: bincode_ok_def demo_ser_def demo_de_def unary_split make_key_of)

lemma demo_contents_inj: "inj (\<lambda>(name :: XorName, k). demo_ser (replicate (unat name) 1, k))"
proof (rule injI)
  fix x y :: "XorName \<times> PublicKey"
  assume "(case x of (name, k) \<Rightarrow> demo_ser (replicate (unat name) 1, k)) =
          (case y of (name, k) \<Rightarrow> demo_ser (replicate (unat name) 1, k))"
  then have "(replicate (unat (fst x)) (1 :: u8), snd x) = (replicate (unat (fst y)) 1, snd y)"
    using bincode_ok_inj [OF demo_codec] by (auto simp: split_beta dest: injD)
  then show "x = y"
    by (metis length_replicate prod.inject prod_eqI word_unat_eq_iff)
qed

lemma demo_env_ok: "blob_env_ok demo_env"
  unfolding blob_env_ok_def using demo_codec demo_contents_inj by (simp add: demo_env_def bincode_ok_def)

interpretation demo_private: content_addressed "\<lambda>(v, k). PrivateData_new demo_env v k" "\<lambda>b. (pd_value b, pd_owner b)"
  "PrivateData_serialize demo_env" "PrivateData_deserialize demo_env" "ser_private demo_env" "de_private demo_env"
  by (rule private_content_addressed [OF demo_env_ok])

interpretation demo_public: content_addressed "PublicData_new demo_env" pb_value
  "PublicData_serialize demo_env" "PublicData_deserialize demo_env" "ser_public demo_env" "de_public demo_env"
  by (rule public_content_addressed [OF demo_env_ok])

section \<open>Properties\<close>

text \<open>
  C30: A blob read from the wire is self-validating: whatever the bytes, a private or public blob that
  deserialises carries the address computed from its own value (and owner); a blob built by \<open>new\<close>
  survives serialisation unchanged, although its address is never written; and one whose address was
  not the computed one would come back as a different blob.
\<close>

theorem blob_serde_roundtrip:
  assumes "blob_env_ok E"
  shows "PrivateData_deserialize E (PrivateData_serialize E (PrivateData_new E v k)) = Ok (PrivateData_new E v k) \<and>
    PublicData_deserialize E (PublicData_serialize E (PublicData_new E v)) = Ok (PublicData_new E v) \<and>
    (PrivateData_deserialize E (PrivateData_serialize E b) = Ok b) = (b = PrivateData_new E (pd_value b) (pd_owner b)) \<and>
    (\<forall>bs c. PrivateData_deserialize E bs = Ok c \<longrightarrow> c = PrivateData_new E (pd_value c) (pd_owner c)) \<and>
    (\<forall>bs d. PublicData_deserialize E bs = Ok d \<longrightarrow> d = PublicData_new E (pb_value d))"
proof -
  note A = private_content_addressed [OF assms] and B = public_content_addressed [OF assms]
  have new: "pd_value (PrivateData_new E v k) = v" "pd_owner (PrivateData_new E v k) = k" "pb_value (PublicData_new E v) = v"
    by (simp_all add: PrivateData_new_def PublicData_new_def Let_def)
  show ?thesis
    using content_addressed.reread [OF A, of "PrivateData_new E v k"] content_addressed.reread [OF A, of b]
      content_addressed.reread [OF B, of "PublicData_new E v"]
      content_addressed.read_is_built [OF A] content_addressed.read_is_built [OF B]
      content_addressed.built_def [OF A] content_addressed.built_def [OF B]
    by (auto simp: new)
qed

theorem blob_serde_roundtrip_witness:
  "PrivateData_deserialize demo_env (PrivateData_serialize demo_env (PrivateData_new demo_env [1, 2] (PublicKey_Bls 3))) =
     Ok (PrivateData_new demo_env [1, 2] (PublicKey_Bls 3))"
  using blob_serde_roundtrip [OF demo_env_ok] by blast

text \<open>
  C31: Names bind contents. Private blobs with the same address have the same value and owner, unless
  two different inputs that the constructor hashed have the same hash; likewise for public blobs. A
  private and a public blob never share an address, not even with the same name.
\<close>

theorem blob_address_binds:
  assumes "blob_env_ok E"
  shows "(pd_address (PrivateData_new E v k) = pd_address (PrivateData_new E v' k')) =
      (sha3_256 E (ser_contents E (sha3_256 E v, k)) = sha3_256 E (ser_contents E (sha3_256 E v', k'))) \<and>
    (pd_address (PrivateData_new E v k) = pd_address (PrivateData_new E v' k') \<longrightarrow>
       (v = v' \<and> k = k') \<or>
       (v \<noteq> v' \<and> sha3_256 E v = sha3_256 E v') \<or>
       (ser_contents E (sha3_256 E v, k) \<noteq> ser_contents E (sha3_256 E v', k') \<and>
        sha3_256 E (ser_contents E (sha3_256 E v, k)) = sha3_256 E (ser_contents E (sha3_256 E v', k')))) \<and>
    (pb_address (PublicData_new E v) = pb_address (PublicData_new E v')) = (sha3_256 E v = sha3_256 E v') \<and>
    Blob_address (Blob_Private (PrivateData_new E v k)) \<noteq> Blob_address (Blob_Public (PublicData_new E v'))"
  using assms by (auto simp: PrivateData_new_def PublicData_new_def Let_def serialise_def blob_env_ok_def dest: injD)

theorem blob_address_binds_witness:
  "pd_address (PrivateData_new demo_env [1] (PublicKey_Bls 0)) \<noteq> pd_address (PrivateData_new demo_env [1, 2] (PublicKey_Bls 0))"
  using blob_address_binds [OF demo_env_ok, of "[1]" "PublicKey_Bls 0" "[1, 2]" "PublicKey_Bls 0"]
  by (simp add: demo_env_def demo_ser_def)

lemma unat_max64: "unat (- 1 :: u64) = 18446744073709551615"
  by (simp add: unsigned_minus_1_eq_mask mask_eq_exp_minus_1)

text \<open>
  A blob passes the size check exactly when its serialised form has a size and that size is at
  most 1058816 bytes (one mebibyte and ten kibibytes); a blob that cannot be sized is rejected.
\<close>

theorem blob_validate_size_spec:
  "Blob_validate_size E b =
     (case (case b of Blob_Private d \<Rightarrow> size_private E (pd_value d, pd_owner d)
                    | Blob_Public d \<Rightarrow> size_public E (pb_value d)) of
        Inl _ \<Rightarrow> False
      | Inr n \<Rightarrow> unat n \<le> 1058816)"
  by (cases b) (auto simp: PrivateData_validate_size_def PublicData_validate_size_def PrivateData_serialised_size_def
      PublicData_serialised_size_def unat_max64 size_or_max_def MAX_BLOB_SIZE_IN_BYTES_def word_le_nat_alt split: sum.splits)

end
