(* ===== verification/Transfers.thy ===== *)
theory Transfers
  imports Keys Amounts
begin

text \<open>
  Transfers of money and the evidence that accumulates around them (src/src/transfer.rs). A \<open>Dot\<close> of
  the crate crdts is the pair of an actor and its counter. Every wrapper exposes the id, amount,
  sender and recipient of the transfer inside it.
\<close>

type_synonym AccountId = PublicKey

record TransferId =
  dot_actor :: AccountId
  dot_counter :: u64

record Transfer =
  tr_id :: TransferId
  tr_to :: AccountId
  tr_amount :: Money

definition Transfer_id :: "Transfer \<Rightarrow> TransferId" where
  "Transfer_id self = tr_id self"

definition Transfer_amount :: "Transfer \<Rightarrow> Money" where
  "Transfer_amount self = tr_amount self"

definition Transfer_to :: "Transfer \<Rightarrow> AccountId" where
  "Transfer_to self = tr_to self"

definition Transfer_from :: "Transfer \<Rightarrow> AccountId" where
  "Transfer_from self = dot_actor (tr_id self)"

record SignedTransfer =
  st_transfer :: Transfer
  st_actor_signature :: Signature

definition SignedTransfer_id :: "SignedTransfer \<Rightarrow> TransferId" where
  "SignedTransfer_id self = tr_id (st_transfer self)"

definition SignedTransfer_amount :: "SignedTransfer \<Rightarrow> Money" where
  "SignedTransfer_amount self = tr_amount (st_transfer self)"

definition SignedTransfer_from :: "SignedTransfer \<Rightarrow> PublicKey" where
  "SignedTransfer_from self = dot_actor (tr_id (st_transfer self))"

definition SignedTransfer_to :: "SignedTransfer \<Rightarrow> PublicKey" where
  "SignedTransfer_to self = tr_to (st_transfer self)"

type_synonym ReplicaPublicKeySet = PublicKeySet

record DebitAgreementProof =
  da_signed_transfer :: SignedTransfer
  da_debiting_replicas_sig :: Signature
  da_replica_key :: ReplicaPublicKeySet

definition DebitAgreementProof_id :: "DebitAgreementProof \<Rightarrow> TransferId" where
  "DebitAgreementProof_id self = SignedTransfer_id (da_signed_transfer self)"

definition DebitAgreementProof_amount :: "DebitAgreementProof \<Rightarrow> Money" where
  "DebitAgreementProof_amount self = SignedTransfer_amount (da_signed_transfer self)"

definition DebitAgreementProof_from :: "DebitAgreementProof \<Rightarrow> PublicKey" where
  "DebitAgreementProof_from self = SignedTransfer_from (da_signed_transfer self)"

definition DebitAgreementProof_to :: "DebitAgreementProof \<Rightarrow> PublicKey" where
  "DebitAgreementProof_to self = SignedTransfer_to (da_signed_transfer self)"

definition DebitAgreementProof_replica_keys :: "DebitAgreementProof \<Rightarrow> ReplicaPublicKeySet" where
  "DebitAgreementProof_replica_keys self = da_replica_key self"

section \<open>Events of the replicas\<close>

record TransferValidated =
  tv_signed_transfer :: SignedTransfer
  tv_replica_signature :: SignatureShare
  tv_replicas :: PublicKeySet

definition TransferValidated_id :: "TransferValidated \<Rightarrow> TransferId" where
  "TransferValidated_id self = SignedTransfer_id (tv_signed_transfer self)"

definition TransferValidated_amount :: "TransferValidated \<Rightarrow> Money" where
  "TransferValidated_amount self = SignedTransfer_amount (tv_signed_transfer self)"

definition TransferValidated_from :: "TransferValidated \<Rightarrow> PublicKey" where
  "TransferValidated_from self = SignedTransfer_from (tv_signed_transfer self)"

definition TransferValidated_to :: "TransferValidated \<Rightarrow> PublicKey" where
  "TransferValidated_to self = SignedTransfer_to (tv_signed_transfer self)"

record TransferRegistered =
  tg_debit_proof :: DebitAgreementProof

definition TransferRegistered_id :: "TransferRegistered \<Rightarrow> TransferId" where
  "TransferRegistered_id self = DebitAgreementProof_id (tg_debit_proof self)"

definition TransferRegistered_amount :: "TransferRegistered \<Rightarrow> Money" where
  "TransferRegistered_amount self = DebitAgreementProof_amount (tg_debit_proof self)"

definition TransferRegistered_from :: "TransferRegistered \<Rightarrow> PublicKey" where
  "TransferRegistered_from self = DebitAgreementProof_from (tg_debit_proof self)"

definition TransferRegistered_to :: "TransferRegistered \<Rightarrow> PublicKey" where
  "TransferRegistered_to self = DebitAgreementProof_to (tg_debit_proof self)"

record TransferPropagated =
  tp_debit_proof :: DebitAgreementProof
  tp_debiting_replicas :: PublicKey
  tp_crediting_replica_sig :: SignatureShare

definition TransferPropagated_id :: "TransferPropagated \<Rightarrow> TransferId" where
  "TransferPropagated_id self = DebitAgreementProof_id (tp_debit_proof self)"

definition TransferPropagated_amount :: "TransferPropagated \<Rightarrow> Money" where
  "TransferPropagated_amount self = DebitAgreementProof_amount (tp_debit_proof self)"

definition TransferPropagated_from :: "TransferPropagated \<Rightarrow> PublicKey" where
  "TransferPropagated_from self = DebitAgreementProof_from (tp_debit_proof self)"

definition TransferPropagated_to :: "TransferPropagated \<Rightarrow> PublicKey" where
  "TransferPropagated_to self = DebitAgreementProof_to (tp_debit_proof self)"

record KnownGroupAdded =
  kg_group :: PublicKeySet

datatype ReplicaEvent =
    ReplicaEvent_TransferValidated TransferValidated
  | ReplicaEvent_TransferRegistered TransferRegistered
  | ReplicaEvent_TransferPropagated TransferPropagated
  | ReplicaEvent_KnownGroupAdded KnownGroupAdded

datatype TransferNotification = TransferNotification DebitAgreementProof

section \<open>The interface of transfer evidence\<close>

text \<open>
  Evidence about a transfer: it wraps one, and shows that one's id, amount and parties. All five
  wrappers are instances, each through the one it contains.
\<close>

locale transfer_evidence =
  fixes transfer_of :: "'e \<Rightarrow> Transfer"
    and id_of :: "'e \<Rightarrow> TransferId" and amount_of :: "'e \<Rightarrow> Money"
    and from_of :: "'e \<Rightarrow> PublicKey" and to_of :: "'e \<Rightarrow> PublicKey"
  assumes shows_transfer:
    "id_of e = tr_id (transfer_of e)" "amount_of e = tr_amount (transfer_of e)"
    "from_of e = Transfer_from (transfer_of e)" "to_of e = tr_to (transfer_of e)"
begin

lemma sender_in_id: "from_of e = dot_actor (id_of e)"
  by (simp add: shows_transfer Transfer_from_def)

lemma determines: "id_of e = id_of e' \<Longrightarrow> amount_of e = amount_of e' \<Longrightarrow> to_of e = to_of e' \<Longrightarrow> transfer_of e = transfer_of e'"
  by (simp add: shows_transfer)

text \<open>A wrapper of evidence that forwards the accessors is evidence.\<close>

lemma wrapped:
  "transfer_evidence (\<lambda>w. transfer_of (f w)) (\<lambda>w. id_of (f w)) (\<lambda>w. amount_of (f w)) (\<lambda>w. from_of (f w)) (\<lambda>w. to_of (f w))"
  by unfold_locales (simp_all add: shows_transfer)

end

interpretation signed: transfer_evidence st_transfer SignedTransfer_id SignedTransfer_amount SignedTransfer_from SignedTransfer_to
  by unfold_locales
     (simp_all add: SignedTransfer_id_def SignedTransfer_amount_def SignedTransfer_from_def SignedTransfer_to_def Transfer_from_def)

interpretation debit: transfer_evidence "\<lambda>e. st_transfer (da_signed_transfer e)"
    DebitAgreementProof_id DebitAgreementProof_amount DebitAgreementProof_from DebitAgreementProof_to
  unfolding DebitAgreementProof_id_def [abs_def] DebitAgreementProof_amount_def [abs_def]
    DebitAgreementProof_from_def [abs_def] DebitAgreementProof_to_def [abs_def]
  by (rule signed.wrapped)

interpretation validated: transfer_evidence "\<lambda>e. st_transfer (tv_signed_transfer e)"
    TransferValidated_id TransferValidated_amount TransferValidated_from TransferValidated_to
  unfolding TransferValidated_id_def [abs_def] TransferValidated_amount_def [abs_def]
    TransferValidated_from_def [abs_def] TransferValidated_to_def [abs_def]
  by (rule signed.wrapped)

interpretation registered: transfer_evidence "\<lambda>e. st_transfer (da_signed_transfer (tg_debit_proof e))"
    TransferRegistered_id TransferRegistered_amount TransferRegistered_from TransferRegistered_to
  unfolding TransferRegistered_id_def [abs_def] TransferRegistered_amount_def [abs_def]
    TransferRegistered_from_def [abs_def] TransferRegistered_to_def [abs_def]
  by (rule debit.wrapped)

interpretation propagated: transfer_evidence "\<lambda>e. st_transfer (da_signed_transfer (tp_debit_proof e))"
    TransferPropagated_id TransferPropagated_amount TransferPropagated_from TransferPropagated_to
  unfolding TransferPropagated_id_def [abs_def] TransferPropagated_amount_def [abs_def]
    TransferPropagated_from_def [abs_def] TransferPropagated_to_def [abs_def]
  by (rule debit.wrapped)

text \<open>A concrete transfer.\<close>

definition demo_signed_transfer :: SignedTransfer where
  "demo_signed_transfer =
     \<lparr>st_transfer = \<lparr>tr_id = \<lparr>dot_actor = PublicKey_Bls 1, dot_counter = 0\<rparr>, tr_to = PublicKey_Bls 2, tr_amount = Money 5\<rparr>,
      st_actor_signature = Signature_Bls 3\<rparr>"

end
