(* ===== verification/Responses.thy ===== *)
theory Responses
  imports MapData Sequence Blob Transfers
begin

text \<open>
  What comes back from the network (src/src/messaging/mod.rs): command errors, query responses, the
  kinds of authorisation, and the conversions the macro \<open>try\_from!\<close> generates from a response to the
  type of its payload. The macro is one polymorphic function over the variants it is given.
\<close>

record AppPermissions =
  app_data_mutations :: bool
  app_transfer_money :: bool
  app_read_balance :: bool
  app_read_transfer_history :: bool

datatype DataAuthKind = DataAuthKind_PublicRead | DataAuthKind_PrivateRead | DataAuthKind_Write

datatype MoneyAuthKind = MoneyAuthKind_ReadBalance | MoneyAuthKind_ReadHistory | MoneyAuthKind_Transfer

datatype MiscAuthKind = MiscAuthKind_ManageAppKeys | MiscAuthKind_WriteAndTransfer

datatype AuthorisationKind =
    AuthorisationKind_Data DataAuthKind
  | AuthorisationKind_Money MoneyAuthKind
  | AuthorisationKind_Misc MiscAuthKind
  | AuthorisationKind_None

datatype TransferError =
    TransferError_TransferValidation Error
  | TransferError_TransferRegistration Error

datatype CmdError =
    CmdError_Auth Error
  | CmdError_Data Error
  | CmdError_Transfer TransferError

datatype Event =
    Event_TransferValidated XorName TransferValidated
  | Event_TransferDebitAgreementReached XorName DebitAgreementProof

fun Event_dst_address :: "Event \<Rightarrow> XorName" where
  "Event_dst_address (Event_TransferValidated client _) = client"
| "Event_dst_address (Event_TransferDebitAgreementReached client _) = client"

datatype 'c QueryResponse =
    QueryResponse_GetBlob "Blob Result"
  | QueryResponse_GetMap "Map Result"
  | QueryResponse_GetMapShell "Map Result"
  | QueryResponse_GetMapVersion "u64 Result"
  | QueryResponse_ListMapEntries "MapEntries Result"
  | QueryResponse_ListMapKeys "bytes BTreeSet Result"
  | QueryResponse_ListMapValues "MapValues Result"
  | QueryResponse_ListMapUserPermissions "PermissionSet Result"
  | QueryResponse_ListMapPermissions "(PublicKey \<rightharpoonup> PermissionSet) Result"
  | QueryResponse_GetMapValue "MapValue Result"
  | QueryResponse_GetSequence "'c Sequence Result"
  | QueryResponse_GetSequenceOwner "Owner Result"
  | QueryResponse_GetSequenceRange "Entries Result"
  | QueryResponse_GetSequenceLastEntry "(u64 \<times> Entry) Result"
  | QueryResponse_GetSequencePermissions "Permissions Result"
  | QueryResponse_GetSequenceUserPermissions "UserPermissions Result"
  | QueryResponse_GetReplicaKeys "ReplicaPublicKeySet Result"
  | QueryResponse_GetBalance "Money Result"
  | QueryResponse_GetHistory "ReplicaEvent list Result"
  | QueryResponse_GetAccount "(bytes \<times> Signature) Result"
  | QueryResponse_ListAuthKeysAndVersion "((PublicKey \<rightharpoonup> AppPermissions) \<times> u64) Result"

section \<open>Conversions\<close>

datatype TryFromError = TryFromError_WrongType | TryFromError_Response Error

text \<open>The macro: \<open>payload\<close> selects the variants listed for the type.\<close>

definition try_from :: "('c QueryResponse \<Rightarrow> 'a Result option) \<Rightarrow> 'c QueryResponse \<Rightarrow> TryFromError + 'a" where
  "try_from payload response =
     (case payload response of
        Some (Inr data) \<Rightarrow> Ok data
      | Some (Inl error) \<Rightarrow> Err (TryFromError_Response error)
      | None \<Rightarrow> Err TryFromError_WrongType)"

fun payload_Blob :: "'c QueryResponse \<Rightarrow> Blob Result option" where
  "payload_Blob (QueryResponse_GetBlob r) = Some r"
| "payload_Blob _ = None"

definition Blob_try_from :: "'c QueryResponse \<Rightarrow> TryFromError + Blob" where
  "Blob_try_from = try_from payload_Blob"

fun payload_Map :: "'c QueryResponse \<Rightarrow> Map Result option" where
  "payload_Map (QueryResponse_GetMap r) = Some r"
| "payload_Map (QueryResponse_GetMapShell r) = Some r"
| "payload_Map _ = None"

definition Map_try_from :: "'c QueryResponse \<Rightarrow> TryFromError + Map" where
  "Map_try_from = try_from payload_Map"

fun payload_u64 :: "'c QueryResponse \<Rightarrow> u64 Result option" where
  "payload_u64 (QueryResponse_GetMapVersion r) = Some r"
| "payload_u64 _ = None"

definition u64_try_from :: "'c QueryResponse \<Rightarrow> TryFromError + u64" where
  "u64_try_from = try_from payload_u64"

fun payload_MapEntries :: "'c QueryResponse \<Rightarrow> MapEntries Result option" where
  "payload_MapEntries (QueryResponse_ListMapEntries r) = Some r"
| "payload_MapEntries _ = None"

definition MapEntries_try_from :: "'c QueryResponse \<Rightarrow> TryFromError + MapEntries" where
  "MapEntries_try_from = try_from payload_MapEntries"

fun payload_MapKeys :: "'c QueryResponse \<Rightarrow> bytes BTreeSet Result option" where
  "payload_MapKeys (QueryResponse_ListMapKeys r) = Some r"
| "payload_MapKeys _ = None"

definition MapKeys_try_from :: "'c QueryResponse \<Rightarrow> TryFromError + bytes BTreeSet" where
  "MapKeys_try_from = try_from payload_MapKeys"

fun payload_MapValues :: "'c QueryResponse \<Rightarrow> MapValues Result option" where
  "payload_MapValues (QueryResponse_ListMapValues r) = Some r"
| "payload_MapValues _ = None"

definition MapValues_try_from :: "'c QueryResponse \<Rightarrow> TryFromError + MapValues" where
  "MapValues_try_from = try_from payload_MapValues"

fun payload_MapPermissionSet :: "'c QueryResponse \<Rightarrow> PermissionSet Result option" where
  "payload_MapPermissionSet (QueryResponse_ListMapUserPermissions r) = Some r"
| "payload_MapPermissionSet _ = None"

definition MapPermissionSet_try_from :: "'c QueryResponse \<Rightarrow> TryFromError + PermissionSet" where
  "MapPermissionSet_try_from = try_from payload_MapPermissionSet"

fun payload_MapPermissions :: "'c QueryResponse \<Rightarrow> (PublicKey \<rightharpoonup> PermissionSet) Result option" where
  "payload_MapPermissions (QueryResponse_ListMapPermissions r) = Some r"
| "payload_MapPermissions _ = None"

definition MapPermissions_try_from :: "'c QueryResponse \<Rightarrow> TryFromError + (PublicKey \<rightharpoonup> PermissionSet)" where
  "MapPermissions_try_from = try_from payload_MapPermissions"

fun payload_MapValue :: "'c QueryResponse \<Rightarrow> MapValue Result option" where
  "payload_MapValue (QueryResponse_GetMapValue r) = Some r"
| "payload_MapValue _ = None"

definition MapValue_try_from :: "'c QueryResponse \<Rightarrow> TryFromError + MapValue" where
  "MapValue_try_from = try_from payload_MapValue"

fun payload_Sequence :: "'c QueryResponse \<Rightarrow> 'c Sequence Result option" where
  "payload_Sequence (QueryResponse_GetSequence r) = Some r"
| "payload_Sequence _ = None"

definition Sequence_try_from :: "'c QueryResponse \<Rightarrow> TryFromError + 'c Sequence" where
  "Sequence_try_from = try_from payload_Sequence"

fun payload_SequenceOwner :: "'c QueryResponse \<Rightarrow> Owner Result option" where
  "payload_SequenceOwner (QueryResponse_GetSequenceOwner r) = Some r"
| "payload_SequenceOwner _ = None"

definition SequenceOwner_try_from :: "'c QueryResponse \<Rightarrow> TryFromError + Owner" where
  "SequenceOwner_try_from = try_from payload_SequenceOwner"

fun payload_SequenceEntries :: "'c QueryResponse \<Rightarrow> Entries Result option" where
  "payload_SequenceEntries (QueryResponse_GetSequenceRange r) = Some r"
| "payload_SequenceEntries _ = None"

definition SequenceEntries_try_from :: "'c QueryResponse \<Rightarrow> TryFromError + Entries" where
  "SequenceEntries_try_from = try_from payload_SequenceEntries"

fun payload_SequenceLastEntry :: "'c QueryResponse \<Rightarrow> (u64 \<times> Entry) Result option" where
  "payload_SequenceLastEntry (QueryResponse_GetSequenceLastEntry r) = Some r"
| "payload_SequenceLastEntry _ = None"

definition SequenceLastEntry_try_from :: "'c QueryResponse \<Rightarrow> TryFromError + (u64 \<times> Entry)" where
  "SequenceLastEntry_try_from = try_from payload_SequenceLastEntry"

fun payload_SequencePermissions :: "'c QueryResponse \<Rightarrow> Permissions Result option" where
  "payload_SequencePermissions (QueryResponse_GetSequencePermissions r) = Some r"
| "payload_SequencePermissions _ = None"

definition SequencePermissions_try_from :: "'c QueryResponse \<Rightarrow> TryFromError + Permissions" where
  "SequencePermissions_try_from = try_from payload_SequencePermissions"

fun payload_SequenceUserPermissions :: "'c QueryResponse \<Rightarrow> UserPermissions Result option" where
  "payload_SequenceUserPermissions (QueryResponse_GetSequenceUserPermissions r) = Some r"
| "payload_SequenceUserPermissions _ = None"

definition SequenceUserPermissions_try_from :: "'c QueryResponse \<Rightarrow> TryFromError + UserPermissions" where
  "SequenceUserPermissions_try_from = try_from payload_SequenceUserPermissions"

fun payload_Money :: "'c QueryResponse \<Rightarrow> Money Result option" where
  "payload_Money (QueryResponse_GetBalance r) = Some r"
| "payload_Money _ = None"

definition Money_try_from :: "'c QueryResponse \<Rightarrow> TryFromError + Money" where
  "Money_try_from = try_from payload_Money"

fun payload_ReplicaPublicKeySet :: "'c QueryResponse \<Rightarrow> ReplicaPublicKeySet Result option" where
  "payload_ReplicaPublicKeySet (QueryResponse_GetReplicaKeys r) = Some r"
| "payload_ReplicaPublicKeySet _ = None"

definition ReplicaPublicKeySet_try_from :: "'c QueryResponse \<Rightarrow> TryFromError + ReplicaPublicKeySet" where
  "ReplicaPublicKeySet_try_from = try_from payload_ReplicaPublicKeySet"

fun payload_History :: "'c QueryResponse \<Rightarrow> ReplicaEvent list Result option" where
  "payload_History (QueryResponse_GetHistory r) = Some r"
| "payload_History _ = None"

definition History_try_from :: "'c QueryResponse \<Rightarrow> TryFromError + ReplicaEvent list" where
  "History_try_from = try_from payload_History"

fun payload_AuthKeys :: "'c QueryResponse \<Rightarrow> ((PublicKey \<rightharpoonup> AppPermissions) \<times> u64) Result option" where
  "payload_AuthKeys (QueryResponse_ListAuthKeysAndVersion r) = Some r"
| "payload_AuthKeys _ = None"

definition AuthKeys_try_from :: "'c QueryResponse \<Rightarrow> TryFromError + ((PublicKey \<rightharpoonup> AppPermissions) \<times> u64)" where
  "AuthKeys_try_from = try_from payload_AuthKeys"

fun payload_Account :: "'c QueryResponse \<Rightarrow> (bytes \<times> Signature) Result option" where
  "payload_Account (QueryResponse_GetAccount r) = Some r"
| "payload_Account _ = None"

definition Account_try_from :: "'c QueryResponse \<Rightarrow> TryFromError + (bytes \<times> Signature)" where
  "Account_try_from = try_from payload_Account"

section \<open>Debug rendering\<close>

text \<open>A response renders as its variant and its error, never its payload; \<open>dbg\<close> renders an error.\<close>

fun QueryResponse_fmt :: "(Error \<Rightarrow> string) \<Rightarrow> 'c QueryResponse \<Rightarrow> string" where
  "QueryResponse_fmt dbg (QueryResponse_GetBlob res) = ''QueryResponse::GetBlob('' @ ErrorDebug_fmt dbg res @ '')''"
| "QueryResponse_fmt dbg (QueryResponse_GetMap res) = ''QueryResponse::GetMap('' @ ErrorDebug_fmt dbg res @ '')''"
| "QueryResponse_fmt dbg (QueryResponse_GetMapShell res) = ''QueryResponse::GetMapShell('' @ ErrorDebug_fmt dbg res @ '')''"
| "QueryResponse_fmt dbg (QueryResponse_GetMapVersion res) = ''QueryResponse::GetMapVersion('' @ ErrorDebug_fmt dbg res @ '')''"
| "QueryResponse_fmt dbg (QueryResponse_ListMapEntries res) = ''QueryResponse::ListMapEntries('' @ ErrorDebug_fmt dbg res @ '')''"
| "QueryResponse_fmt dbg (QueryResponse_ListMapKeys res) = ''QueryResponse::ListMapKeys('' @ ErrorDebug_fmt dbg res @ '')''"
| "QueryResponse_fmt dbg (QueryResponse_ListMapValues res) = ''QueryResponse::ListMapValues('' @ ErrorDebug_fmt dbg res @ '')''"
| "QueryResponse_fmt dbg (QueryResponse_ListMapPermissions res) = ''QueryResponse::ListMapPermissions('' @ ErrorDebug_fmt dbg res @ '')''"
| "QueryResponse_fmt dbg (QueryResponse_ListMapUserPermissions res) = ''QueryResponse::ListMapUserPermissions('' @ ErrorDebug_fmt dbg res @ '')''"
| "QueryResponse_fmt dbg (QueryResponse_GetMapValue res) = ''QueryResponse::GetMapValue('' @ ErrorDebug_fmt dbg res @ '')''"
| "QueryResponse_fmt dbg (QueryResponse_GetSequence res) = ''QueryResponse::GetSequence('' @ ErrorDebug_fmt dbg res @ '')''"
| "QueryResponse_fmt dbg (QueryResponse_GetSequenceRange res) = ''QueryResponse::GetSequenceRange('' @ ErrorDebug_fmt dbg res @ '')''"
| "QueryResponse_fmt dbg (QueryResponse_GetSequenceLastEntry res) = ''QueryResponse::GetSequenceLastEntry('' @ ErrorDebug_fmt dbg res @ '')''"
| "QueryResponse_fmt dbg (QueryResponse_GetSequencePermissions res) = ''QueryResponse::GetSequencePermissions('' @ ErrorDebug_fmt dbg res @ '')''"
| "QueryResponse_fmt dbg (QueryResponse_GetSequenceUserPermissions res) = ''QueryResponse::GetSequenceUserPermissions('' @ ErrorDebug_fmt dbg res @ '')''"
| "QueryResponse_fmt dbg (QueryResponse_GetSequenceOwner res) = ''QueryResponse::GetSequenceOwner('' @ ErrorDebug_fmt dbg res @ '')''"
| "QueryResponse_fmt dbg (QueryResponse_GetReplicaKeys res) = ''QueryResponse::GetReplicaKeys('' @ ErrorDebug_fmt dbg res @ '')''"
| "QueryResponse_fmt dbg (QueryResponse_GetBalance res) = ''QueryResponse::GetBalance('' @ ErrorDebug_fmt dbg res @ '')''"
| "QueryResponse_fmt dbg (QueryResponse_GetHistory res) = ''QueryResponse::GetHistory('' @ ErrorDebug_fmt dbg res @ '')''"
| "QueryResponse_fmt dbg (QueryResponse_GetAccount res) = ''QueryResponse::GetAccount('' @ ErrorDebug_fmt dbg res @ '')''"
| "QueryResponse_fmt dbg (QueryResponse_ListAuthKeysAndVersion res) = ''QueryResponse::ListAuthKeysAndVersion('' @ ErrorDebug_fmt dbg res @ '')''"

end
