(* ===== verification/Requests.thy ===== *)
theory Requests
  imports Responses
begin

text \<open>
  The requests of the network (src/src/messaging: auth.rs, account.rs, blob.rs, map.rs, sequence.rs,
  transfer.rs, data.rs, cmd.rs, query.rs). Each request type has the same three operations: the error
  response that corresponds to it, the kind of authorisation it needs, and the name of the section it
  is sent to. The composite types forward to their parts.
\<close>

section \<open>Authorised keys\<close>

datatype AuthCmd =
    AuthCmd_InsAuthKey PublicKey PublicKey u64 AppPermissions
  | AuthCmd_DelAuthKey PublicKey PublicKey u64

datatype AuthQuery = AuthQuery_ListAuthKeysAndVersion PublicKey

definition AuthCmd_error :: "AuthCmd \<Rightarrow> Error \<Rightarrow> CmdError" where
  "AuthCmd_error self error = CmdError_Auth error"

definition AuthCmd_authorisation_kind :: "AuthCmd \<Rightarrow> AuthorisationKind" where
  "AuthCmd_authorisation_kind self = AuthorisationKind_Misc MiscAuthKind_ManageAppKeys"

fun AuthCmd_dst_address :: "AuthCmd \<Rightarrow> XorName" where
  "AuthCmd_dst_address (AuthCmd_InsAuthKey client _ _ _) = PublicKey_to_xorname client"
| "AuthCmd_dst_address (AuthCmd_DelAuthKey client _ _) = PublicKey_to_xorname client"

fun AuthCmd_fmt :: "AuthCmd \<Rightarrow> string" where
  "AuthCmd_fmt (AuthCmd_InsAuthKey _ _ _ _) = ''AuthCmd::InsAuthKey''"
| "AuthCmd_fmt (AuthCmd_DelAuthKey _ _ _) = ''AuthCmd::DelAuthKey''"

fun AuthQuery_error :: "AuthQuery \<Rightarrow> Error \<Rightarrow> 'c QueryResponse" where
  "AuthQuery_error (AuthQuery_ListAuthKeysAndVersion _) error = QueryResponse_ListAuthKeysAndVersion (Err error)"

definition AuthQuery_authorisation_kind :: "AuthQuery \<Rightarrow> AuthorisationKind" where
  "AuthQuery_authorisation_kind self = AuthorisationKind_Misc MiscAuthKind_ManageAppKeys"

fun AuthQuery_dst_address :: "AuthQuery \<Rightarrow> XorName" where
  "AuthQuery_dst_address (AuthQuery_ListAuthKeysAndVersion client) = PublicKey_to_xorname client"

fun AuthQuery_fmt :: "AuthQuery \<Rightarrow> string" where
  "AuthQuery_fmt (AuthQuery_ListAuthKeysAndVersion _) = ''AuthQuery::ListAuthKeysAndVersion''"

section \<open>Accounts\<close>

definition MAX_LOGIN_PACKET_BYTES :: usize where
  "MAX_LOGIN_PACKET_BYTES = 1024 * 1024"

record Account =
  ac_address :: XorName
  ac_owner :: PublicKey
  ac_data :: bytes
  ac_signature :: Signature

definition Account_address :: "Account \<Rightarrow> XorName" where
  "Account_address self = ac_address self"

definition Account_owner :: "Account \<Rightarrow> PublicKey" where
  "Account_owner self = ac_owner self"

definition Account_data :: "Account \<Rightarrow> bytes" where
  "Account_data self = ac_data self"

definition Account_signature :: "Account \<Rightarrow> Signature" where
  "Account_signature self = ac_signature self"

text \<open>A length is a \<open>usize\<close>; that of a vector in memory fits.\<close>

definition Account_size_is_valid :: "Account \<Rightarrow> bool" where
  "Account_size_is_valid self \<longleftrightarrow> length (ac_data self) \<le> unat MAX_LOGIN_PACKET_BYTES"

definition Account_new :: "XorName \<Rightarrow> PublicKey \<Rightarrow> bytes \<Rightarrow> Signature \<Rightarrow> Account Result" where
  "Account_new address owner data signature =
     (let account = \<lparr>ac_address = address, ac_owner = owner, ac_data = data, ac_signature = signature\<rparr>
      in if Account_size_is_valid account then Ok account else Err ExceededSize)"

definition Account_into_data_and_signature :: "Account \<Rightarrow> bytes \<times> Signature" where
  "Account_into_data_and_signature self = (ac_data self, ac_signature self)"

datatype AccountWrite = AccountWrite_New Account | AccountWrite_Update Account

datatype AccountRead = AccountRead_Get XorName

fun AccountWrite_error :: "AccountWrite \<Rightarrow> Error \<Rightarrow> CmdError" where
  "AccountWrite_error (AccountWrite_New _) error = CmdError_Data error"
| "AccountWrite_error (AccountWrite_Update _) error = CmdError_Data error"

fun AccountWrite_authorisation_kind :: "AccountWrite \<Rightarrow> AuthorisationKind" where
  "AccountWrite_authorisation_kind (AccountWrite_New _) = AuthorisationKind_Data DataAuthKind_Write"
| "AccountWrite_authorisation_kind (AccountWrite_Update _) = AuthorisationKind_Data DataAuthKind_Write"

fun AccountWrite_dst_address :: "AccountWrite \<Rightarrow> XorName" where
  "AccountWrite_dst_address (AccountWrite_New account) = ac_address account"
| "AccountWrite_dst_address (AccountWrite_Update account) = ac_address account"

fun AccountWrite_fmt :: "AccountWrite \<Rightarrow> string" where
  "AccountWrite_fmt (AccountWrite_New _) = ''Request::NewAccount''"
| "AccountWrite_fmt (AccountWrite_Update _) = ''Request::UpdateAccount''"

definition AccountRead_error :: "AccountRead \<Rightarrow> Error \<Rightarrow> 'c QueryResponse" where
  "AccountRead_error self error = QueryResponse_GetAccount (Err error)"

definition AccountRead_authorisation_kind :: "AccountRead \<Rightarrow> AuthorisationKind" where
  "AccountRead_authorisation_kind self = AuthorisationKind_Data DataAuthKind_PrivateRead"

fun AccountRead_dst_address :: "AccountRead \<Rightarrow> XorName" where
  "AccountRead_dst_address (AccountRead_Get name) = name"

definition AccountRead_fmt :: "AccountRead \<Rightarrow> string" where
  "AccountRead_fmt self = ''Request::GetAccount''"

section \<open>Blobs\<close>

datatype BlobRead = BlobRead_Get BlobAddress

datatype BlobWrite = BlobWrite_New Blob | BlobWrite_DeletePrivate BlobAddress

definition BlobRead_error :: "BlobRead \<Rightarrow> Error \<Rightarrow> 'c QueryResponse" where
  "BlobRead_error self error = QueryResponse_GetBlob (Err error)"

fun BlobRead_authorisation_kind :: "BlobRead \<Rightarrow> AuthorisationKind" where
  "BlobRead_authorisation_kind (BlobRead_Get (BlobAddress_Public _)) = AuthorisationKind_Data DataAuthKind_PublicRead"
| "BlobRead_authorisation_kind (BlobRead_Get (BlobAddress_Private _)) = AuthorisationKind_Data DataAuthKind_PrivateRead"

fun BlobRead_dst_address :: "BlobRead \<Rightarrow> XorName" where
  "BlobRead_dst_address (BlobRead_Get address) = BlobAddress_name address"

definition BlobWrite_error :: "BlobWrite \<Rightarrow> Error \<Rightarrow> CmdError" where
  "BlobWrite_error self error = CmdError_Data error"

definition BlobWrite_authorisation_kind :: "BlobWrite \<Rightarrow> AuthorisationKind" where
  "BlobWrite_authorisation_kind self = AuthorisationKind_Data DataAuthKind_Write"

fun BlobWrite_dst_address :: "BlobWrite \<Rightarrow> XorName" where
  "BlobWrite_dst_address (BlobWrite_New data) = Blob_name data"
| "BlobWrite_dst_address (BlobWrite_DeletePrivate address) = BlobAddress_name address"

section \<open>Maps\<close>

datatype MapRead =
    MapRead_Get MapAddress
  | MapRead_GetValue MapAddress bytes
  | MapRead_GetShell MapAddress
  | MapRead_GetVersion MapAddress
  | MapRead_ListEntries MapAddress
  | MapRead_ListKeys MapAddress
  | MapRead_ListValues MapAddress
  | MapRead_ListPermissions MapAddress
  | MapRead_ListUserPermissions MapAddress PublicKey

datatype MapWrite =
    MapWrite_New Map
  | MapWrite_Delete MapAddress
  | MapWrite_Edit MapAddress EntryActions
  | MapWrite_DelUserPermissions MapAddress PublicKey u64
  | MapWrite_SetUserPermissions MapAddress PublicKey PermissionSet u64

fun MapRead_error :: "MapRead \<Rightarrow> Error \<Rightarrow> 'c QueryResponse" where
  "MapRead_error (MapRead_Get _) error = QueryResponse_GetMap (Err error)"
| "MapRead_error (MapRead_GetValue _ _) error = QueryResponse_GetMapValue (Err error)"
| "MapRead_error (MapRead_GetShell _) error = QueryResponse_GetMapShell (Err error)"
| "MapRead_error (MapRead_GetVersion _) error = QueryResponse_GetMapVersion (Err error)"
| "MapRead_error (MapRead_ListEntries _) error = QueryResponse_ListMapEntries (Err error)"
| "MapRead_error (MapRead_ListKeys _) error = QueryResponse_ListMapKeys (Err error)"
| "MapRead_error (MapRead_ListValues _) error = QueryResponse_ListMapValues (Err error)"
| "MapRead_error (MapRead_ListPermissions _) error = QueryResponse_ListMapPermissions (Err error)"
| "MapRead_error (MapRead_ListUserPermissions _ _) error = QueryResponse_ListMapUserPermissions (Err error)"

fun MapRead_authorisation_kind :: "MapRead \<Rightarrow> AuthorisationKind" where
  "MapRead_authorisation_kind (MapRead_Get _) = AuthorisationKind_Data DataAuthKind_PrivateRead"
| "MapRead_authorisation_kind (MapRead_GetValue _ _) = AuthorisationKind_Data DataAuthKind_PrivateRead"
| "MapRead_authorisation_kind (MapRead_GetShell _) = AuthorisationKind_Data DataAuthKind_PrivateRead"
| "MapRead_authorisation_kind (MapRead_GetVersion _) = AuthorisationKind_Data DataAuthKind_PrivateRead"
| "MapRead_authorisation_kind (MapRead_ListEntries _) = AuthorisationKind_Data DataAuthKind_PrivateRead"
| "MapRead_authorisation_kind (MapRead_ListKeys _) = AuthorisationKind_Data DataAuthKind_PrivateRead"
| "MapRead_authorisation_kind (MapRead_ListValues _) = AuthorisationKind_Data DataAuthKind_PrivateRead"
| "MapRead_authorisation_kind (MapRead_ListPermissions _) = AuthorisationKind_Data DataAuthKind_PrivateRead"
| "MapRead_authorisation_kind (MapRead_ListUserPermissions _ _) = AuthorisationKind_Data DataAuthKind_PrivateRead"

fun MapRead_dst_address :: "MapRead \<Rightarrow> XorName" where
  "MapRead_dst_address (MapRead_Get address) = MapAddress_name address"
| "MapRead_dst_address (MapRead_GetValue address _) = MapAddress_name address"
| "MapRead_dst_address (MapRead_GetShell address) = MapAddress_name address"
| "MapRead_dst_address (MapRead_GetVersion address) = MapAddress_name address"
| "MapRead_dst_address (MapRead_ListEntries address) = MapAddress_name address"
| "MapRead_dst_address (MapRead_ListKeys address) = MapAddress_name address"
| "MapRead_dst_address (MapRead_ListValues address) = MapAddress_name address"
| "MapRead_dst_address (MapRead_ListPermissions address) = MapAddress_name address"
| "MapRead_dst_address (MapRead_ListUserPermissions address _) = MapAddress_name address"

fun MapRead_fmt :: "MapRead \<Rightarrow> string" where
  "MapRead_fmt (MapRead_Get _) = ''Request::GetMap''"
| "MapRead_fmt (MapRead_GetValue _ _) = ''Request::GetMapValue''"
| "MapRead_fmt (MapRead_GetShell _) = ''Request::GetMapShell''"
| "MapRead_fmt (MapRead_GetVersion _) = ''Request::GetMapVersion''"
| "MapRead_fmt (MapRead_ListEntries _) = ''Request::ListMapEntries''"
| "MapRead_fmt (MapRead_ListKeys _) = ''Request::ListMapKeys''"
| "MapRead_fmt (MapRead_ListValues _) = ''Request::ListMapValues''"
| "MapRead_fmt (MapRead_ListPermissions _) = ''Request::ListMapPermissions''"
| "MapRead_fmt (MapRead_ListUserPermissions _ _) = ''Request::ListMapUserPermissions''"

definition MapWrite_error :: "MapWrite \<Rightarrow> Error \<Rightarrow> CmdError" where
  "MapWrite_error self error = CmdError_Data error"

definition MapWrite_authorisation_kind :: "MapWrite \<Rightarrow> AuthorisationKind" where
  "MapWrite_authorisation_kind self = AuthorisationKind_Data DataAuthKind_Write"

fun MapWrite_dst_address :: "MapWrite \<Rightarrow> XorName" where
  "MapWrite_dst_address (MapWrite_New data) = Map_name data"
| "MapWrite_dst_address (MapWrite_Delete address) = MapAddress_name address"
| "MapWrite_dst_address (MapWrite_SetUserPermissions address _ _ _) = MapAddress_name address"
| "MapWrite_dst_address (MapWrite_DelUserPermissions address _ _) = MapAddress_name address"
| "MapWrite_dst_address (MapWrite_Edit address _) = MapAddress_name address"

fun MapWrite_fmt :: "MapWrite \<Rightarrow> string" where
  "MapWrite_fmt (MapWrite_New _) = ''Request::NewMap''"
| "MapWrite_fmt (MapWrite_Delete _) = ''Request::DeleteMap''"
| "MapWrite_fmt (MapWrite_SetUserPermissions _ _ _ _) = ''Request::SetMapUserPermissions''"
| "MapWrite_fmt (MapWrite_DelUserPermissions _ _ _) = ''Request::DelMapUserPermissions''"
| "MapWrite_fmt (MapWrite_Edit _ _) = ''Request::EditMap''"

section \<open>Sequences\<close>

datatype SequenceRead =
    SequenceRead_Get SequenceAddress
  | SequenceRead_GetRange SequenceAddress "Index \<times> Index"
  | SequenceRead_GetLastEntry SequenceAddress
  | SequenceRead_GetPermissions SequenceAddress
  | SequenceRead_GetUserPermissions SequenceAddress User
  | SequenceRead_GetOwner SequenceAddress

datatype ('c, 'o) SequenceWrite =
    SequenceWrite_New "'c Sequence"
  | SequenceWrite_Edit "(Entry, 'o) WriteOp"
  | SequenceWrite_Delete SequenceAddress
  | SequenceWrite_SetOwner "(Owner, 'o) WriteOp"
  | SequenceWrite_SetPublicPermissions "(PublicPermissions, 'o) WriteOp"
  | SequenceWrite_SetPrivatePermissions "(PrivatePermissions, 'o) WriteOp"

fun SequenceRead_error :: "SequenceRead \<Rightarrow> Error \<Rightarrow> 'c QueryResponse" where
  "SequenceRead_error (SequenceRead_Get _) error = QueryResponse_GetSequence (Err error)"
| "SequenceRead_error (SequenceRead_GetRange _ _) error = QueryResponse_GetSequenceRange (Err error)"
| "SequenceRead_error (SequenceRead_GetLastEntry _) error = QueryResponse_GetSequenceLastEntry (Err error)"
| "SequenceRead_error (SequenceRead_GetPermissions _) error = QueryResponse_GetSequencePermissions (Err error)"
| "SequenceRead_error (SequenceRead_GetUserPermissions _ _) error = QueryResponse_GetSequenceUserPermissions (Err error)"
| "SequenceRead_error (SequenceRead_GetOwner _) error = QueryResponse_GetSequenceOwner (Err error)"

fun SequenceRead_address :: "SequenceRead \<Rightarrow> SequenceAddress" where
  "SequenceRead_address (SequenceRead_Get address) = address"
| "SequenceRead_address (SequenceRead_GetRange address _) = address"
| "SequenceRead_address (SequenceRead_GetLastEntry address) = address"
| "SequenceRead_address (SequenceRead_GetPermissions address) = address"
| "SequenceRead_address (SequenceRead_GetUserPermissions address _) = address"
| "SequenceRead_address (SequenceRead_GetOwner address) = address"

definition SequenceRead_authorisation_kind :: "SequenceRead \<Rightarrow> AuthorisationKind" where
  "SequenceRead_authorisation_kind self =
     (if SequenceAddress_is_pub (SequenceRead_address self) then AuthorisationKind_Data DataAuthKind_PublicRead
      else AuthorisationKind_Data DataAuthKind_PrivateRead)"

definition SequenceRead_dst_address :: "SequenceRead \<Rightarrow> XorName" where
  "SequenceRead_dst_address self = SequenceAddress_name (SequenceRead_address self)"

fun SequenceRead_fmt :: "SequenceRead \<Rightarrow> string" where
  "SequenceRead_fmt (SequenceRead_Get _) = ''Request::GetSequence''"
| "SequenceRead_fmt (SequenceRead_GetRange _ _) = ''Request::GetSequenceRange''"
| "SequenceRead_fmt (SequenceRead_GetLastEntry _) = ''Request::GetSequenceLastEntry''"
| "SequenceRead_fmt (SequenceRead_GetPermissions _) = ''Request::GetSequencePermissions''"
| "SequenceRead_fmt (SequenceRead_GetUserPermissions _ _) = ''Request::GetUserPermissions''"
| "SequenceRead_fmt (SequenceRead_GetOwner _) = ''Request::GetOwner''"

definition SequenceWrite_error :: "('c, 'o) SequenceWrite \<Rightarrow> Error \<Rightarrow> CmdError" where
  "SequenceWrite_error self error = CmdError_Data error"

definition SequenceWrite_authorisation_kind :: "('c, 'o) SequenceWrite \<Rightarrow> AuthorisationKind" where
  "SequenceWrite_authorisation_kind self = AuthorisationKind_Data DataAuthKind_Write"

fun SequenceWrite_dst_address :: "('c, 'o) SequenceWrite \<Rightarrow> XorName" where
  "SequenceWrite_dst_address (SequenceWrite_New data) = Sequence_name data"
| "SequenceWrite_dst_address (SequenceWrite_Delete address) = SequenceAddress_name address"
| "SequenceWrite_dst_address (SequenceWrite_SetPublicPermissions op) = SequenceAddress_name (wo_address op)"
| "SequenceWrite_dst_address (SequenceWrite_SetPrivatePermissions op) = SequenceAddress_name (wo_address op)"
| "SequenceWrite_dst_address (SequenceWrite_SetOwner op) = SequenceAddress_name (wo_address op)"
| "SequenceWrite_dst_address (SequenceWrite_Edit op) = SequenceAddress_name (wo_address op)"

fun SequenceWrite_fmt :: "('c, 'o) SequenceWrite \<Rightarrow> string" where
  "SequenceWrite_fmt (SequenceWrite_New _) = ''Request::NewSequence''"
| "SequenceWrite_fmt (SequenceWrite_Delete _) = ''Request::DeleteSequence''"
| "SequenceWrite_fmt (SequenceWrite_SetPublicPermissions _) = ''Request::SetPublicPermissions''"
| "SequenceWrite_fmt (SequenceWrite_SetPrivatePermissions _) = ''Request::SetPrivatePermissions''"
| "SequenceWrite_fmt (SequenceWrite_SetOwner _) = ''Request::SetOwner''"
| "SequenceWrite_fmt (SequenceWrite_Edit _) = ''Request::EditSequence''"

section \<open>Transfers\<close>

text \<open>\<open>SimulatePayout\<close> exists with the feature simulated-payouts only.\<close>

datatype TransferCmd =
    TransferCmd_SimulatePayout Transfer
  | TransferCmd_ValidateTransfer SignedTransfer
  | TransferCmd_RegisterTransfer DebitAgreementProof

datatype TransferQuery =
    TransferQuery_GetReplicaKeys PublicKey
  | TransferQuery_GetBalance PublicKey
  | TransferQuery_GetHistory PublicKey usize

fun TransferCmd_error :: "TransferCmd \<Rightarrow> Error \<Rightarrow> CmdError" where
  "TransferCmd_error (TransferCmd_ValidateTransfer _) error = CmdError_Transfer (TransferError_TransferValidation error)"
| "TransferCmd_error (TransferCmd_RegisterTransfer _) error = CmdError_Transfer (TransferError_TransferRegistration error)"
| "TransferCmd_error (TransferCmd_SimulatePayout _) error = CmdError_Transfer (TransferError_TransferRegistration error)"

fun TransferCmd_authorisation_kind :: "TransferCmd \<Rightarrow> AuthorisationKind" where
  "TransferCmd_authorisation_kind (TransferCmd_RegisterTransfer _) = AuthorisationKind_None"
| "TransferCmd_authorisation_kind (TransferCmd_ValidateTransfer _) = AuthorisationKind_Misc MiscAuthKind_WriteAndTransfer"
| "TransferCmd_authorisation_kind (TransferCmd_SimulatePayout _) = AuthorisationKind_None"

fun TransferCmd_dst_address :: "TransferCmd \<Rightarrow> XorName" where
  "TransferCmd_dst_address (TransferCmd_RegisterTransfer proof) = PublicKey_to_xorname (DebitAgreementProof_from proof)"
| "TransferCmd_dst_address (TransferCmd_ValidateTransfer signed_transfer) = PublicKey_to_xorname (SignedTransfer_from signed_transfer)"
| "TransferCmd_dst_address (TransferCmd_SimulatePayout transfer) = PublicKey_to_xorname (Transfer_from transfer)"

fun TransferCmd_fmt :: "TransferCmd \<Rightarrow> string" where
  "TransferCmd_fmt (TransferCmd_RegisterTransfer _) = ''TransferCmd::RegisterTransfer''"
| "TransferCmd_fmt (TransferCmd_ValidateTransfer _) = ''TransferCmd::ValidateTransfer''"
| "TransferCmd_fmt (TransferCmd_SimulatePayout _) = ''TransferCmd::SimulatePayout''"

fun TransferQuery_error :: "TransferQuery \<Rightarrow> Error \<Rightarrow> 'c QueryResponse" where
  "TransferQuery_error (TransferQuery_GetReplicaKeys _) error = QueryResponse_GetReplicaKeys (Err error)"
| "TransferQuery_error (TransferQuery_GetBalance _) error = QueryResponse_GetBalance (Err error)"
| "TransferQuery_error (TransferQuery_GetHistory _ _) error = QueryResponse_GetHistory (Err error)"

fun TransferQuery_authorisation_kind :: "TransferQuery \<Rightarrow> AuthorisationKind" where
  "TransferQuery_authorisation_kind (TransferQuery_GetBalance _) = AuthorisationKind_Money MoneyAuthKind_ReadBalance"
| "TransferQuery_authorisation_kind (TransferQuery_GetReplicaKeys _) = AuthorisationKind_None"
| "TransferQuery_authorisation_kind (TransferQuery_GetHistory _ _) = AuthorisationKind_Money MoneyAuthKind_ReadHistory"

fun TransferQuery_dst_address :: "TransferQuery \<Rightarrow> XorName" where
  "TransferQuery_dst_address (TransferQuery_GetBalance at) = PublicKey_to_xorname at"
| "TransferQuery_dst_address (TransferQuery_GetReplicaKeys at) = PublicKey_to_xorname at"
| "TransferQuery_dst_address (TransferQuery_GetHistory at _) = PublicKey_to_xorname at"

fun TransferQuery_fmt :: "TransferQuery \<Rightarrow> string" where
  "TransferQuery_fmt (TransferQuery_GetBalance _) = ''TransferQuery::GetBalance''"
| "TransferQuery_fmt (TransferQuery_GetReplicaKeys _) = ''TransferQuery::GetReplicaKeys''"
| "TransferQuery_fmt (TransferQuery_GetHistory _ _) = ''TransferQuery::GetHistory''"

section \<open>Composite requests\<close>

datatype ('c, 'o) DataCmd =
    DataCmd_Blob BlobWrite
  | DataCmd_Map MapWrite
  | DataCmd_Sequence "('c, 'o) SequenceWrite"
  | DataCmd_Account AccountWrite

datatype DataQuery =
    DataQuery_Blob BlobRead
  | DataQuery_Map MapRead
  | DataQuery_Sequence SequenceRead
  | DataQuery_Account AccountRead

datatype ('c, 'o) Cmd =
    Cmd_Auth AuthCmd
  | Cmd_Data "('c, 'o) DataCmd" DebitAgreementProof
  | Cmd_Transfer TransferCmd

datatype Query =
    Query_Auth AuthQuery
  | Query_Data DataQuery
  | Query_Transfer TransferQuery

fun DataCmd_error :: "('c, 'o) DataCmd \<Rightarrow> Error \<Rightarrow> CmdError" where
  "DataCmd_error (DataCmd_Blob c) error = BlobWrite_error c error"
| "DataCmd_error (DataCmd_Map c) error = MapWrite_error c error"
| "DataCmd_error (DataCmd_Sequence c) error = SequenceWrite_error c error"
| "DataCmd_error (DataCmd_Account c) error = AccountWrite_error c error"

fun DataCmd_authorisation_kind :: "('c, 'o) DataCmd \<Rightarrow> AuthorisationKind" where
  "DataCmd_authorisation_kind (DataCmd_Blob c) = BlobWrite_authorisation_kind c"
| "DataCmd_authorisation_kind (DataCmd_Map c) = MapWrite_authorisation_kind c"
| "DataCmd_authorisation_kind (DataCmd_Sequence c) = SequenceWrite_authorisation_kind c"
| "DataCmd_authorisation_kind (DataCmd_Account c) = AccountWrite_authorisation_kind c"

fun DataCmd_dst_address :: "('c, 'o) DataCmd \<Rightarrow> XorName" where
  "DataCmd_dst_address (DataCmd_Blob c) = BlobWrite_dst_address c"
| "DataCmd_dst_address (DataCmd_Map c) = MapWrite_dst_address c"
| "DataCmd_dst_address (DataCmd_Sequence c) = SequenceWrite_dst_address c"
| "DataCmd_dst_address (DataCmd_Account c) = AccountWrite_dst_address c"

fun DataQuery_error :: "DataQuery \<Rightarrow> Error \<Rightarrow> 'c QueryResponse" where
  "DataQuery_error (DataQuery_Blob q) error = BlobRead_error q error"
| "DataQuery_error (DataQuery_Map q) error = MapRead_error q error"
| "DataQuery_error (DataQuery_Sequence q) error = SequenceRead_error q error"
| "DataQuery_error (DataQuery_Account q) error = AccountRead_error q error"

fun DataQuery_authorisation_kind :: "DataQuery \<Rightarrow> AuthorisationKind" where
  "DataQuery_authorisation_kind (DataQuery_Blob q) = BlobRead_authorisation_kind q"
| "DataQuery_authorisation_kind (DataQuery_Map q) = MapRead_authorisation_kind q"
| "DataQuery_authorisation_kind (DataQuery_Sequence q) = SequenceRead_authorisation_kind q"
| "DataQuery_authorisation_kind (DataQuery_Account q) = AccountRead_authorisation_kind q"

fun DataQuery_dst_address :: "DataQuery \<Rightarrow> XorName" where
  "DataQuery_dst_address (DataQuery_Blob q) = BlobRead_dst_address q"
| "DataQuery_dst_address (DataQuery_Map q) = MapRead_dst_address q"
| "DataQuery_dst_address (DataQuery_Sequence q) = SequenceRead_dst_address q"
| "DataQuery_dst_address (DataQuery_Account q) = AccountRead_dst_address q"

fun Cmd_authorisation_kind :: "('c, 'o) Cmd \<Rightarrow> AuthorisationKind" where
  "Cmd_authorisation_kind (Cmd_Auth c) = AuthCmd_authorisation_kind c"
| "Cmd_authorisation_kind (Cmd_Data cmd _) = DataCmd_authorisation_kind cmd"
| "Cmd_authorisation_kind (Cmd_Transfer c) = TransferCmd_authorisation_kind c"

fun Cmd_dst_address :: "('c, 'o) Cmd \<Rightarrow> XorName" where
  "Cmd_dst_address (Cmd_Auth c) = AuthCmd_dst_address c"
| "Cmd_dst_address (Cmd_Data cmd _) = DataCmd_dst_address cmd"
| "Cmd_dst_address (Cmd_Transfer c) = TransferCmd_dst_address c"

fun Query_authorisation_kind :: "Query \<Rightarrow> AuthorisationKind" where
  "Query_authorisation_kind (Query_Auth q) = AuthQuery_authorisation_kind q"
| "Query_authorisation_kind (Query_Data q) = DataQuery_authorisation_kind q"
| "Query_authorisation_kind (Query_Transfer q) = TransferQuery_authorisation_kind q"

fun Query_error :: "Query \<Rightarrow> Error \<Rightarrow> 'c QueryResponse" where
  "Query_error (Query_Auth q) error = AuthQuery_error q error"
| "Query_error (Query_Data q) error = DataQuery_error q error"
| "Query_error (Query_Transfer q) error = TransferQuery_error q error"

fun Query_dst_address :: "Query \<Rightarrow> XorName" where
  "Query_dst_address (Query_Auth q) = AuthQuery_dst_address q"
| "Query_dst_address (Query_Data q) = DataQuery_dst_address q"
| "Query_dst_address (Query_Transfer q) = TransferQuery_dst_address q"

section \<open>Any data object\<close>

text \<open>The enum \<open>Data\<close> of src/src/lib.rs.\<close>

datatype 'c Data =
    Data_Immutable Blob
  | Data_Mutable Map
  | Data_Sequence "'c Sequence"

fun Data_is_pub :: "'c Data \<Rightarrow> bool" where
  "Data_is_pub (Data_Immutable idata) = Blob_is_pub idata"
| "Data_is_pub (Data_Mutable _) = False"
| "Data_is_pub (Data_Sequence sequence) = Sequence_is_pub sequence"

definition Data_is_unpub :: "'c Data \<Rightarrow> bool" where
  "Data_is_unpub self \<longleftrightarrow> \<not> Data_is_pub self"

section \<open>Handshakes\<close>

text \<open>
  The messages that open a connection (src/src/lib.rs). Nothing in the crate builds or reads them;
  \<open>'addr\<close> stands for a socket address.
\<close>

datatype HandshakeRequest =
    HandshakeRequest_Bootstrap PublicKey
  | HandshakeRequest_Join PublicKey
  | HandshakeRequest_ChallengeResult Signature

datatype 'addr HandshakeResponse =
    HandshakeResponse_Rebootstrap "(XorName \<times> 'addr) list"
  | HandshakeResponse_Join "(XorName \<times> 'addr) list"
  | HandshakeResponse_Challenge PublicKey bytes
  | HandshakeResponse_InvalidSection

end
