(* ===== verification/SeqApi.thy ===== *)
theory SeqApi
  imports SeqNetwork Requests
begin

text \<open>
  The network of sequence replicas at the level of the crate's interface: clients write through the
  operations of \<open>Sequence\<close> (src/src/sequence/mod.rs), each returned write operation travels as a command
  \<open>SequenceWrite\<close> (src/src/messaging/sequence.rs), and a replica applies the operation of a command it
  receives. Each flavour of these networks refines the networks of theory SeqNetwork.
\<close>

section \<open>Writes and deliveries\<close>

fun client_write ::
    "('c, 'o) SeqBackends \<Rightarrow> LocalOp \<Rightarrow> 'c Sequence \<Rightarrow> 'c Sequence \<times> ('c, 'o) SequenceWrite Result" where
  "client_write SB (L_append entry) s = apsnd (\<lambda>w. Ok (SequenceWrite_Edit w)) (Sequence_append SB s entry)"
| "client_write SB (L_set_owner owner) s = apsnd (\<lambda>w. Ok (SequenceWrite_SetOwner w)) (Sequence_set_owner SB s owner)"
| "client_write SB (L_set_pub_permissions perms) s =
     apsnd (map_sum id SequenceWrite_SetPublicPermissions) (Sequence_set_pub_permissions SB s perms)"
| "client_write SB (L_set_private_permissions perms) s =
     apsnd (map_sum id SequenceWrite_SetPrivatePermissions) (Sequence_set_private_permissions SB s perms)"

text \<open>Commands that create or delete a whole sequence are none of a replica's, and no write returns one.\<close>

fun deliver :: "('c, 'o) SeqBackends \<Rightarrow> ('c, 'o) SequenceWrite \<Rightarrow> 'c Sequence \<Rightarrow> 'c Sequence \<times> unit Result" where
  "deliver SB (SequenceWrite_Edit w) s = (Sequence_apply_crdt_op SB s (wo_crdt_op w), Ok ())"
| "deliver SB (SequenceWrite_SetOwner w) s = (Sequence_apply_crdt_owner_op SB s (wo_crdt_op w), Ok ())"
| "deliver SB (SequenceWrite_SetPublicPermissions w) s = Sequence_apply_crdt_pub_perms_op SB s (wo_crdt_op w)"
| "deliver SB (SequenceWrite_SetPrivatePermissions w) s = Sequence_apply_crdt_private_perms_op SB s (wo_crdt_op w)"
| "deliver SB (SequenceWrite_New _) s = (s, Err InvalidOperation)"
| "deliver SB (SequenceWrite_Delete _) s = (s, Err InvalidOperation)"

record ('c, 'o) ApiNet =
  an_state :: "PublicKey \<Rightarrow> 'c Sequence"
  an_log :: "PublicKey \<Rightarrow> ('c, 'o) SequenceWrite list"
  an_written :: "(('c, 'o) SequenceWrite \<times> LocalOp) list"

definition api_new :: "(PublicKey \<Rightarrow> 'c Sequence) \<Rightarrow> ('c, 'o) ApiNet" where
  "api_new start = \<lparr>an_state = start, an_log = \<lambda>_. [], an_written = []\<rparr>"

text \<open>A write that is refused sends nothing.\<close>

definition api_write :: "('c, 'o) SeqBackends \<Rightarrow> PublicKey \<Rightarrow> LocalOp \<Rightarrow> ('c, 'o) ApiNet \<Rightarrow> ('c, 'o) ApiNet" where
  "api_write SB a l m =
     (case client_write SB l (an_state m a) of
        (s, Inr c) \<Rightarrow>
          \<lparr>an_state = (an_state m)(a := s), an_log = (an_log m)(a := an_log m a @ [c]), an_written = (c, l) # an_written m\<rparr>
      | (s, Inl _) \<Rightarrow> m\<lparr>an_state := (an_state m)(a := s)\<rparr>)"

definition api_deliver :: "('c, 'o) SeqBackends \<Rightarrow> PublicKey \<Rightarrow> ('c, 'o) SequenceWrite \<Rightarrow> ('c, 'o) ApiNet \<Rightarrow> ('c, 'o) ApiNet" where
  "api_deliver SB a c m =
     m\<lparr>an_state := (an_state m)(a := fst (deliver SB c (an_state m a))), an_log := (an_log m)(a := an_log m a @ [c])\<rparr>"

inductive api_net :: "('c, 'o) SeqBackends \<Rightarrow> (PublicKey \<Rightarrow> 'c Sequence) \<Rightarrow> ('c, 'o) ApiNet \<Rightarrow> bool" for SB start where
  api_start: "api_net SB start (api_new start)"
| api_local: "api_net SB start m \<Longrightarrow> api_net SB start (api_write SB a l m)"
| api_remote: "api_net SB start m \<Longrightarrow> (c, l) \<in> set (an_written m) \<Longrightarrow> c \<notin> set (an_log m a) \<Longrightarrow>
    api_net SB start (api_deliver SB a c m)"

text \<open>The commands sent can be delivered to every replica that lacks them (locale \<open>delivery\<close>).\<close>

interpretation api_delivery: delivery "api_net SB start" an_written "\<lambda>ws. fst ` set ws" "\<lambda>m a. set (an_log m a)" "api_deliver SB"
proof
  show "api_net SB start m \<Longrightarrow> c \<in> fst ` set (an_written m) \<Longrightarrow> c \<notin> set (an_log m a) \<Longrightarrow>
      api_net SB start (api_deliver SB a c m)" for m c a
    by (auto intro: api_net.api_remote)
qed (auto simp: api_deliver_def)

section \<open>The reads of a sequence are functions of its view\<close>

datatype SequenceView = V_Public "PublicPermissions SeqView" | V_Private "PrivatePermissions SeqView"

fun sequence_view :: "('c, 'o) SeqBackends \<Rightarrow> 'c Sequence \<Rightarrow> SequenceView" where
  "sequence_view SB (Sequence_Public d) = V_Public (seq_view (sb_pub SB) d)"
| "sequence_view SB (Sequence_Private d) = V_Private (seq_view (sb_priv SB) d)"

lemma check_perm_view:
  assumes "backend_laws B he hp ho" "seq_view B s = seq_view B t"
  shows "check_perm B allowed s requester action = check_perm B allowed t requester action"
  using same_view_same_reads [OF assms] by (simp add: check_perm_def)

lemma same_view_same_lengths:
  assumes "backend_laws B he hp ho" "seq_view B s = seq_view B t"
  shows "SequenceCrdt_entries_index B s = SequenceCrdt_entries_index B t"
    "SequenceCrdt_permissions_index B s = SequenceCrdt_permissions_index B t"
    "SequenceCrdt_owners_index B s = SequenceCrdt_owners_index B t"
  by (simp_all add: view_writes(5-7) [OF assms(1)] assms(2))

lemma sequence_view_reads:
  assumes "sb_laws SB he hu hv ho" "sequence_view SB s = sequence_view SB t"
  shows "Sequence_get SB s ix = Sequence_get SB t ix" "Sequence_in_range SB s ix jx = Sequence_in_range SB t ix jx"
    "Sequence_last_entry SB s = Sequence_last_entry SB t" "Sequence_owner SB s ix = Sequence_owner SB t ix"
    "Sequence_check_permission SB s action requester = Sequence_check_permission SB t action requester"
    "Sequence_user_permissions SB s user ix = Sequence_user_permissions SB t user ix"
    "Sequence_pub_permissions SB s ix = Sequence_pub_permissions SB t ix"
    "Sequence_private_permissions SB s ix = Sequence_private_permissions SB t ix"
    "Sequence_entries_index SB s = Sequence_entries_index SB t"
    "Sequence_owners_index SB s = Sequence_owners_index SB t"
    "Sequence_permissions_index SB s = Sequence_permissions_index SB t"
    "Sequence_check_is_last_owner SB s requester = Sequence_check_is_last_owner SB t requester"
proof -
  consider (pub) d e where "s = Sequence_Public d" "t = Sequence_Public e" "seq_view (sb_pub SB) d = seq_view (sb_pub SB) e"
    | (priv) d e where "s = Sequence_Private d" "t = Sequence_Private e" "seq_view (sb_priv SB) d = seq_view (sb_priv SB) e"
    using assms(2) by (cases s; cases t) simp_all
  then have "Sequence_get SB s ix = Sequence_get SB t ix \<and> Sequence_in_range SB s ix jx = Sequence_in_range SB t ix jx \<and>
    Sequence_last_entry SB s = Sequence_last_entry SB t \<and> Sequence_owner SB s ix = Sequence_owner SB t ix \<and>
    Sequence_check_permission SB s action requester = Sequence_check_permission SB t action requester \<and>
    Sequence_user_permissions SB s user ix = Sequence_user_permissions SB t user ix \<and>
    Sequence_pub_permissions SB s ix = Sequence_pub_permissions SB t ix \<and>
    Sequence_private_permissions SB s ix = Sequence_private_permissions SB t ix \<and>
    Sequence_entries_index SB s = Sequence_entries_index SB t \<and>
    Sequence_owners_index SB s = Sequence_owners_index SB t \<and>
    Sequence_permissions_index SB s = Sequence_permissions_index SB t \<and>
    Sequence_check_is_last_owner SB s requester = Sequence_check_is_last_owner SB t requester"
  proof cases
    case pub
    note L = sb_lawsD(1) [OF assms(1)]
    show ?thesis
      by (simp add: pub(1,2) same_view_same_reads [OF L pub(3)] check_perm_view [OF L pub(3)] same_view_same_lengths [OF L pub(3)])
  next
    case priv
    note L = sb_lawsD(2) [OF assms(1)]
    show ?thesis
      by (simp add: priv(1,2) same_view_same_reads [OF L priv(3)] check_perm_view [OF L priv(3)] same_view_same_lengths [OF L priv(3)])
  qed
  then show "Sequence_get SB s ix = Sequence_get SB t ix" "Sequence_in_range SB s ix jx = Sequence_in_range SB t ix jx"
    "Sequence_last_entry SB s = Sequence_last_entry SB t" "Sequence_owner SB s ix = Sequence_owner SB t ix"
    "Sequence_check_permission SB s action requester = Sequence_check_permission SB t action requester"
    "Sequence_user_permissions SB s user ix = Sequence_user_permissions SB t user ix"
    "Sequence_pub_permissions SB s ix = Sequence_pub_permissions SB t ix"
    "Sequence_private_permissions SB s ix = Sequence_private_permissions SB t ix"
    "Sequence_entries_index SB s = Sequence_entries_index SB t"
    "Sequence_owners_index SB s = Sequence_owners_index SB t"
    "Sequence_permissions_index SB s = Sequence_permissions_index SB t"
    "Sequence_check_is_last_owner SB s requester = Sequence_check_is_last_owner SB t requester"
    by blast+
qed

section \<open>One flavour of the interface\<close>

text \<open>
  What makes the interface of one flavour a network of replicas: its writes are the writes of the core,
  sent with the address of the sequence, or refused; and a received insertion is applied to the core.
\<close>

locale api_flavour =
  fixes SB :: "('c, 'o) SeqBackends"
    and B :: "('p, PublicKey, 'c, 'o) Backend"
    and con :: "('p, 'c) SequenceCrdt \<Rightarrow> 'c Sequence"
    and cmd :: "SequenceAddress \<Rightarrow> ('p, 'o) SeqOp \<Rightarrow> ('c, 'o) SequenceWrite"
    and req :: "'p SeqWrite \<Rightarrow> LocalOp"
  assumes con_address: "Sequence_address (con s) = sq_address s"
    and cmd_inj: "cmd addr x = cmd addr y \<longleftrightarrow> x = y"
    and delivered: "is_insert_op B x \<Longrightarrow> deliver SB (cmd addr x) (con s) = (con (seq_apply B x s), Ok ())"
    and written: "(\<exists>w. req w = l \<and>
        client_write SB l (con s) = (con (fst (seq_write B w s)), Ok (cmd (sq_address s) (snd (seq_write B w s))))) \<or>
      client_write SB l (con s) = (con s, Err InvalidOperation)"
    and req_entries: "appended (req w # ls) = entry_of w @ appended ls"
    and cmd_dst: "SequenceWrite_dst_address (cmd addr x) = SequenceAddress_name addr"
    and con_entries: "sequence_entries SB (con s) = vw_entries (seq_view B s)"
    and con_view: "seq_view B s = seq_view B t \<Longrightarrow> sequence_view SB (con s) = sequence_view SB (con t)"
begin

definition sim :: "SequenceAddress \<Rightarrow> ('p, PublicKey, 'c, 'o) SeqNet \<Rightarrow> ('c, 'o) ApiNet" where
  "sim addr n = \<lparr>an_state = con \<circ> nt_state n, an_log = \<lambda>a. map (cmd addr) (nt_log n a),
     an_written = map (map_prod (cmd addr) req) (nt_written n)\<rparr>"

lemma sim_write:
  assumes "seq_net B addr n" "\<And>a. sq_address (nt_state n a) = addr"
  shows "\<exists>n'. seq_net B addr n' \<and> api_write SB a l (sim addr n) = sim addr n'"
  using written [of l "nt_state n a"]
proof
  assume "\<exists>w. req w = l \<and> client_write SB l (con (nt_state n a)) =
    (con (fst (seq_write B w (nt_state n a))), Ok (cmd (sq_address (nt_state n a)) (snd (seq_write B w (nt_state n a)))))"
  then obtain w where w: "req w = l" "client_write SB l (con (nt_state n a)) =
    (con (fst (seq_write B w (nt_state n a))), Ok (cmd addr (snd (seq_write B w (nt_state n a)))))"
    using assms(2) by auto
  have "api_write SB a l (sim addr n) = sim addr (net_write B a w n)"
    by (auto simp: api_write_def sim_def w net_write_def split_beta)
  then show ?thesis using seq_net.net_local [OF assms(1)] by blast
next
  assume "client_write SB l (con (nt_state n a)) = (con (nt_state n a), Err InvalidOperation)"
  then have "api_write SB a l (sim addr n) = sim addr n" by (auto simp: api_write_def sim_def)
  then show ?thesis using assms(1) by metis
qed

lemma sim_deliver:
  assumes "seq_net B addr n" "(c, l) \<in> set (an_written (sim addr n))" "c \<notin> set (an_log (sim addr n) a)"
    and "\<And>op w. (op, w) \<in> set (nt_written n) \<Longrightarrow> is_insert_op B op"
  shows "\<exists>n'. seq_net B addr n' \<and> api_deliver SB a c (sim addr n) = sim addr n'"
proof -
  obtain op w where op: "(op, w) \<in> set (nt_written n)" "c = cmd addr op" using assms(2) by (auto simp: sim_def)
  have "op \<notin> set (nt_log n a)" using assms(3) by (auto simp: sim_def op(2))
  then have "seq_net B addr (net_deliver B a op n)" by (rule seq_net.net_remote [OF assms(1) op(1)])
  moreover have "api_deliver SB a c (sim addr n) = sim addr (net_deliver B a op n)"
    using delivered [OF assms(4) [OF op(1)], of addr] by (auto simp: api_deliver_def sim_def net_deliver_def op(2))
  ultimately show ?thesis by blast
qed

lemma net_facts:
  assumes "backend_unique B he hp ho" "seq_net B addr n"
  shows "sq_address (nt_state n a) = addr" "(op, w) \<in> set (nt_written n) \<Longrightarrow> is_insert_op B op"
proof -
  note inv = reachable_inv [OF assms]
  show "sq_address (nt_state n a) = addr"
    unfolding net_invD(1) [OF inv] by (simp add: replica_def seq_apply_parts SequenceCrdt_new_def)
  show "is_insert_op B op" if "(op, w) \<in> set (nt_written n)"
    using made_by_insert [OF backend_uniqueD(4) [OF assms(1)] net_invD(5) [OF inv that]] .
qed

lemma simulated:
  assumes "backend_unique B he hp ho" "api_net SB (\<lambda>a. con (SequenceCrdt_new B a addr)) m"
  shows "\<exists>n. seq_net B addr n \<and> m = sim addr n"
  using assms(2)
proof (induction rule: api_net.induct)
  case api_start
  have "api_new (\<lambda>a. con (SequenceCrdt_new B a addr)) = sim addr (net_new B addr)"
    by (simp add: api_new_def sim_def net_new_def comp_def)
  then show ?case using seq_net.net_start by metis
next
  case (api_local m a l)
  then show ?case using sim_write net_facts(1) [OF assms(1)] by metis
next
  case (api_remote m c l a)
  then show ?case using sim_deliver net_facts(2) [OF assms(1)] by metis
qed

lemma map_of_sim: "map_of (an_written (sim addr n)) (cmd addr op) = map_option req (map_of (nt_written n) op)"
proof -
  have "map_of (map (map_prod (cmd addr) req) xs) (cmd addr op) = map_option req (map_of xs op)" for xs
    by (induction xs) (auto simp: cmd_inj)
  then show ?thesis by (simp add: sim_def)
qed

lemma appended_sim:
  assumes "set ops \<subseteq> fst ` set (nt_written n)"
  shows "appended (map (\<lambda>c. the (map_of (an_written (sim addr n)) c)) (map (cmd addr) ops)) = payloads entry_of n ops"
  using assms
proof (induction ops)
  case (Cons op ops)
  then obtain w where "map_of (nt_written n) op = Some w"
    using map_of_eq_None_iff [of "nt_written n" op] by auto
  with Cons show ?case by (simp add: map_of_sim req_entries payloads_def del: appended.simps)
qed (simp add: payloads_def)

lemma appended_written: "appended (map (req \<circ> snd) xs) = concat (map (\<lambda>p. entry_of (snd p)) xs)"
  by (induction xs) (simp_all add: req_entries del: appended.simps(2-))

lemma inj_cmd: "inj (cmd addr)"
  by (simp add: inj_def cmd_inj)

text \<open>What holds of every reachable network of this flavour.\<close>

lemma network:
  assumes "backend_unique B he hp ho" "api_net SB (\<lambda>a. con (SequenceCrdt_new B a addr)) m"
  shows "Sequence_address (an_state m a) = addr"
    "(c, l) \<in> set (an_written m) \<Longrightarrow>
      SequenceWrite_dst_address c = SequenceAddress_name addr \<and> snd (deliver SB c (an_state m a)) = Ok ()"
    "set (an_log m a) = set (an_log m b) \<Longrightarrow> sequence_view SB (an_state m a) = sequence_view SB (an_state m b)"
    "mset (sequence_entries SB (an_state m a)) = mset (appended (map (\<lambda>c. the (map_of (an_written m) c)) (an_log m a)))"
    "fst ` set (an_written m) \<subseteq> set (an_log m a) \<Longrightarrow>
      mset (sequence_entries SB (an_state m a)) = mset (appended (map snd (an_written m)))"
    "set (an_log m a) \<subseteq> fst ` set (an_written m)"
proof -
  obtain n where n: "seq_net B addr n" "m = sim addr n" using simulated [OF assms] by blast
  note inv = reachable_inv [OF assms(1) n(1)] and facts = net_facts [OF assms(1) n(1)]
  note D = net_invD [OF inv]
  have log: "set (nt_log n a) = set (nt_log n b)" if "set (an_log m a) = set (an_log m b)" for a b
    using that inj_image_eq_iff [OF inj_cmd [of addr]] by (simp add: n(2) sim_def)
  have all: "set (nt_log n a) = fst ` set (nt_written n)" if "fst ` set (an_written m) \<subseteq> set (an_log m a)" for a
  proof
    have "cmd addr ` fst ` set (nt_written n) \<subseteq> cmd addr ` set (nt_log n a)"
      using that by (simp add: n(2) sim_def image_image)
    then show "fst ` set (nt_written n) \<subseteq> set (nt_log n a)"
      unfolding inj_image_subset_iff [OF inj_cmd] .
  qed (rule D(3))
  have app: "appended (map (\<lambda>c. the (map_of (an_written m) c)) (an_log m a)) = payloads entry_of n (nt_log n a)" for a
    using appended_sim [OF D(3)] by (simp add: n(2)) (simp add: sim_def)
  have state: "an_state m a = con (nt_state n a)" by (simp add: n(2) sim_def)
  show "Sequence_address (an_state m a) = addr" by (simp add: state con_address facts(1))
  show "SequenceWrite_dst_address c = SequenceAddress_name addr \<and> snd (deliver SB c (an_state m a)) = Ok ()"
    if "(c, l) \<in> set (an_written m)"
  proof -
    from that obtain op w where "(op, w) \<in> set (nt_written n)" "c = cmd addr op" by (auto simp: n(2) sim_def)
    then show ?thesis using delivered [OF facts(2), of op w addr] by (simp add: state cmd_dst)
  qed
  show "sequence_view SB (an_state m a) = sequence_view SB (an_state m b)" if "set (an_log m a) = set (an_log m b)"
    using con_view [OF inv_converges [OF assms(1) inv log [OF that]]] by (simp add: n(2) sim_def)
  show contents: "mset (sequence_entries SB (an_state m a)) =
      mset (appended (map (\<lambda>c. the (map_of (an_written m) c)) (an_log m a)))"
    using inv_contents [OF assms(1) inv, of a] by (simp add: app state con_entries)
  show "mset (sequence_entries SB (an_state m a)) = mset (appended (map snd (an_written m)))"
    if "fst ` set (an_written m) \<subseteq> set (an_log m a)"
    using payloads_all [OF D(2) all [OF that] D(4), of entry_of] contents
    by (simp add: app) (simp add: n(2) sim_def appended_written)
  show "set (an_log m a) \<subseteq> fst ` set (an_written m)"
    using image_mono [OF D(3), of "cmd addr" a] by (simp add: n(2) sim_def image_image)
qed

text \<open>Deliveries can always bring any number of replicas up to date, and these then agree.\<close>

lemma network_live:
  assumes "backend_unique B he hp ho" "api_net SB (\<lambda>a. con (SequenceCrdt_new B a addr)) m"
  shows "\<exists>ds m'. m' = fold (\<lambda>(r, c). api_deliver SB r c) ds m \<and> set ds \<subseteq> set actors \<times> fst ` set (an_written m) \<and>
    api_net SB (\<lambda>a. con (SequenceCrdt_new B a addr)) m' \<and> an_written m' = an_written m \<and>
    (\<forall>r \<in> set actors. mset (sequence_entries SB (an_state m' r)) = mset (appended (map snd (an_written m))) \<and>
      (\<forall>q \<in> set actors. sequence_view SB (an_state m' r) = sequence_view SB (an_state m' q)))"
proof -
  obtain ds m' where ds: "m' = fold (\<lambda>(r, c). api_deliver SB r c) ds m" "set ds \<subseteq> set actors \<times> fst ` set (an_written m)"
    and m': "api_net SB (\<lambda>a. con (SequenceCrdt_new B a addr)) m'" "an_written m' = an_written m"
      "\<forall>r \<in> set actors. fst ` set (an_written m) \<subseteq> set (an_log m' r)"
    using api_delivery.all_catch_up [OF assms(2), of actors] by blast
  note net = network [OF assms(1) m'(1)]
  have log: "set (an_log m' r) = fst ` set (an_written m)" if "r \<in> set actors" for r
    using m'(3) that net(6) [of r] unfolding m'(2) by blast
  have "sequence_view SB (an_state m' r) = sequence_view SB (an_state m' q)" if "r \<in> set actors" "q \<in> set actors" for r q
    using log that by (intro net(3)) simp
  moreover have "mset (sequence_entries SB (an_state m' r)) = mset (appended (map snd (an_written m)))" if "r \<in> set actors" for r
    using net(5) [of r] log [OF that] by (simp add: m'(2))
  ultimately show ?thesis using ds m'(1,2) by blast
qed

end

fun pub_cmd :: "SequenceAddress \<Rightarrow> (PublicPermissions, 'o) SeqOp \<Rightarrow> ('c, 'o) SequenceWrite" where
  "pub_cmd addr (EntryOp x) = SequenceWrite_Edit \<lparr>wo_address = addr, wo_crdt_op = x\<rparr>"
| "pub_cmd addr (PermsOp x) = SequenceWrite_SetPublicPermissions \<lparr>wo_address = addr, wo_crdt_op = x\<rparr>"
| "pub_cmd addr (OwnerOp x) = SequenceWrite_SetOwner \<lparr>wo_address = addr, wo_crdt_op = x\<rparr>"

fun priv_cmd :: "SequenceAddress \<Rightarrow> (PrivatePermissions, 'o) SeqOp \<Rightarrow> ('c, 'o) SequenceWrite" where
  "priv_cmd addr (EntryOp x) = SequenceWrite_Edit \<lparr>wo_address = addr, wo_crdt_op = x\<rparr>"
| "priv_cmd addr (PermsOp x) = SequenceWrite_SetPrivatePermissions \<lparr>wo_address = addr, wo_crdt_op = x\<rparr>"
| "priv_cmd addr (OwnerOp x) = SequenceWrite_SetOwner \<lparr>wo_address = addr, wo_crdt_op = x\<rparr>"

fun pub_req :: "PublicPermissions SeqWrite \<Rightarrow> LocalOp" where
  "pub_req (W_Entry e) = L_append e"
| "pub_req (W_Perms p) = L_set_pub_permissions (pup_permissions p)"
| "pub_req (W_Owner k) = L_set_owner k"

fun priv_req :: "PrivatePermissions SeqWrite \<Rightarrow> LocalOp" where
  "priv_req (W_Entry e) = L_append e"
| "priv_req (W_Perms p) = L_set_private_permissions (prp_permissions p)"
| "priv_req (W_Owner k) = L_set_owner k"

lemma core_address:
  "sq_address (fst (SequenceCrdt_append B d e)) = sq_address d"
  "sq_address (fst (SequenceCrdt_append_owner B d k)) = sq_address d"
  "sq_address (fst (SequenceCrdt_append_permissions B d p)) = sq_address d"
  by (simp_all add: SequenceCrdt_append_def SequenceCrdt_append_owner_def SequenceCrdt_append_permissions_def)

lemma pub_flavour: "api_flavour SB (sb_pub SB) Sequence_Public pub_cmd pub_req"
proof
  show "Sequence_address (Sequence_Public s) = sq_address s" for s :: "(PublicPermissions, 'c) SequenceCrdt" by simp
  show "(pub_cmd addr x :: ('c, 'o) SequenceWrite) = pub_cmd addr y \<longleftrightarrow> x = y" for addr and x y :: "(PublicPermissions, 'o) SeqOp"
    by (cases x; cases y) simp_all
  show "is_insert_op (sb_pub SB) x \<Longrightarrow>
      deliver SB (pub_cmd addr x) (Sequence_Public s) = (Sequence_Public (seq_apply (sb_pub SB) x s), Ok ())" for x addr s
    by (cases x) simp_all
  show "(\<exists>w. pub_req w = l \<and> client_write SB l (Sequence_Public s) =
        (Sequence_Public (fst (seq_write (sb_pub SB) w s)), Ok (pub_cmd (sq_address s) (snd (seq_write (sb_pub SB) w s))))) \<or>
      client_write SB l (Sequence_Public s) = (Sequence_Public s, Err InvalidOperation)" for l s
  proof (cases l)
    case (L_append e)
    then show ?thesis by (intro disjI1 exI [of _ "W_Entry e"]) (simp add: split_beta core_address)
  next
    case (L_set_owner k)
    then show ?thesis by (intro disjI1 exI [of _ "W_Owner k"]) (simp add: split_beta)
  next
    case (L_set_pub_permissions p)
    then show ?thesis
      by (intro disjI1 exI [of _ "W_Perms \<lparr>pup_permissions = p, pup_entries_index = SequenceCrdt_entries_index (sb_pub SB) s,
            pup_owners_index = SequenceCrdt_owners_index (sb_pub SB) s\<rparr>"]) (simp add: split_beta)
  qed simp
  show "appended (pub_req w # ls) = entry_of w @ appended ls" for w ls by (cases w) simp_all
  show "SequenceWrite_dst_address (pub_cmd addr x :: ('c, 'o) SequenceWrite) = SequenceAddress_name addr"
    for addr and x :: "(PublicPermissions, 'o) SeqOp" by (cases x) simp_all
  show "sequence_entries SB (Sequence_Public s) = vw_entries (seq_view (sb_pub SB) s)" for s by simp
  show "seq_view (sb_pub SB) s = seq_view (sb_pub SB) t \<Longrightarrow>
      sequence_view SB (Sequence_Public s) = sequence_view SB (Sequence_Public t)" for s t by simp
qed

lemma priv_flavour: "api_flavour SB (sb_priv SB) Sequence_Private priv_cmd priv_req"
proof
  show "Sequence_address (Sequence_Private s) = sq_address s" for s :: "(PrivatePermissions, 'c) SequenceCrdt" by simp
  show "(priv_cmd addr x :: ('c, 'o) SequenceWrite) = priv_cmd addr y \<longleftrightarrow> x = y" for addr and x y :: "(PrivatePermissions, 'o) SeqOp"
    by (cases x; cases y) simp_all
  show "is_insert_op (sb_priv SB) x \<Longrightarrow>
      deliver SB (priv_cmd addr x) (Sequence_Private s) = (Sequence_Private (seq_apply (sb_priv SB) x s), Ok ())" for x addr s
    by (cases x) simp_all
  show "(\<exists>w. priv_req w = l \<and> client_write SB l (Sequence_Private s) =
        (Sequence_Private (fst (seq_write (sb_priv SB) w s)), Ok (priv_cmd (sq_address s) (snd (seq_write (sb_priv SB) w s))))) \<or>
      client_write SB l (Sequence_Private s) = (Sequence_Private s, Err InvalidOperation)" for l s
  proof (cases l)
    case (L_append e)
    then show ?thesis by (intro disjI1 exI [of _ "W_Entry e"]) (simp add: split_beta core_address)
  next
    case (L_set_owner k)
    then show ?thesis by (intro disjI1 exI [of _ "W_Owner k"]) (simp add: split_beta)
  next
    case (L_set_private_permissions p)
    then show ?thesis
      by (intro disjI1 exI [of _ "W_Perms \<lparr>prp_permissions = p, prp_entries_index = SequenceCrdt_entries_index (sb_priv SB) s,
            prp_owners_index = SequenceCrdt_owners_index (sb_priv SB) s\<rparr>"]) (simp add: split_beta)
  qed simp
  show "appended (priv_req w # ls) = entry_of w @ appended ls" for w ls by (cases w) simp_all
  show "SequenceWrite_dst_address (priv_cmd addr x :: ('c, 'o) SequenceWrite) = SequenceAddress_name addr"
    for addr and x :: "(PrivatePermissions, 'o) SeqOp" by (cases x) simp_all
  show "sequence_entries SB (Sequence_Private s) = vw_entries (seq_view (sb_priv SB) s)" for s by simp
  show "seq_view (sb_priv SB) s = seq_view (sb_priv SB) t \<Longrightarrow>
      sequence_view SB (Sequence_Private s) = sequence_view SB (Sequence_Private t)" for s t by simp
qed

interpretation pub_api: api_flavour SB "sb_pub SB" Sequence_Public pub_cmd pub_req by (rule pub_flavour)
interpretation priv_api: api_flavour SB "sb_priv SB" Sequence_Private priv_cmd priv_req by (rule priv_flavour)

section \<open>Properties\<close>

text \<open>
  C7: Replicas of one sequence written through the public interface. In any network of replicas that
  write by the operations of \<open>Sequence\<close>, allowed or refused, and apply the commands they receive in any
  order, every replica keeps the address of the sequence; every command sent goes to the section of
  that address and is accepted by every replica, so no permission change is ever lost to a wrong kind;
  replicas that have received the same commands answer every read alike (entries, ranges, last entry,
  owners, permissions of a user and permission sets, the three indices) and decide every permission and
  ownership check alike; and a replica holds exactly the entries of the appends it has received. From
  the present state, deliveries alone, of commands sent so far, bring any number of replicas to a state
  in which they hold every entry appended so far and show the same sequence.
\<close>

theorem sequence_api_network:
  assumes "backend_unique (sb_pub SB) he hu ho" "backend_unique (sb_priv SB) he hv ho"
    and "start = (\<lambda>a. Sequence_new_pub SB a name tag) \<or> start = (\<lambda>a. Sequence_new_private SB a name tag)"
    and "api_net SB start m"
  shows "Sequence_address (an_state m a) = Sequence_address (start a) \<and>
    ((c, l) \<in> set (an_written m) \<longrightarrow>
       SequenceWrite_dst_address c = name \<and> snd (deliver SB c (an_state m a)) = Ok ()) \<and>
    (set (an_log m a) = set (an_log m b) \<longrightarrow>
       Sequence_get SB (an_state m a) ix = Sequence_get SB (an_state m b) ix \<and>
       Sequence_in_range SB (an_state m a) ix jx = Sequence_in_range SB (an_state m b) ix jx \<and>
       Sequence_last_entry SB (an_state m a) = Sequence_last_entry SB (an_state m b) \<and>
       Sequence_owner SB (an_state m a) ix = Sequence_owner SB (an_state m b) ix \<and>
       Sequence_user_permissions SB (an_state m a) user ix = Sequence_user_permissions SB (an_state m b) user ix \<and>
       Sequence_pub_permissions SB (an_state m a) ix = Sequence_pub_permissions SB (an_state m b) ix \<and>
       Sequence_private_permissions SB (an_state m a) ix = Sequence_private_permissions SB (an_state m b) ix \<and>
       Sequence_entries_index SB (an_state m a) = Sequence_entries_index SB (an_state m b) \<and>
       Sequence_owners_index SB (an_state m a) = Sequence_owners_index SB (an_state m b) \<and>
       Sequence_permissions_index SB (an_state m a) = Sequence_permissions_index SB (an_state m b) \<and>
       Sequence_check_permission SB (an_state m a) action requester = Sequence_check_permission SB (an_state m b) action requester \<and>
       Sequence_check_is_last_owner SB (an_state m a) requester = Sequence_check_is_last_owner SB (an_state m b) requester) \<and>
    mset (sequence_entries SB (an_state m a)) = mset (appended (map (\<lambda>c. the (map_of (an_written m) c)) (an_log m a))) \<and>
    (fst ` set (an_written m) \<subseteq> set (an_log m a) \<longrightarrow>
       mset (sequence_entries SB (an_state m a)) = mset (appended (map snd (an_written m)))) \<and>
    (\<exists>ds m'. m' = fold (\<lambda>(r, c). api_deliver SB r c) ds m \<and> set ds \<subseteq> set actors \<times> fst ` set (an_written m) \<and>
       api_net SB start m' \<and> an_written m' = an_written m \<and>
       (\<forall>r \<in> set actors. mset (sequence_entries SB (an_state m' r)) = mset (appended (map snd (an_written m))) \<and>
          (\<forall>q \<in> set actors. sequence_view SB (an_state m' r) = sequence_view SB (an_state m' q))))"
proof -
  have laws: "sb_laws SB he hu hv ho"
    using backend_uniqueD(4) [OF assms(1)] backend_uniqueD(4) [OF assms(2)] by (simp add: sb_laws_def)
  note reads = sequence_view_reads [OF laws, of "an_state m a" "an_state m b"]
  from assms(3) show ?thesis
  proof
    assume start: "start = (\<lambda>a. Sequence_new_pub SB a name tag)"
    note net = pub_api.network [OF assms(1) assms(4) [unfolded start Sequence_new_pub_def]]
      and live = pub_api.network_live [OF assms(1) assms(4) [unfolded start Sequence_new_pub_def], of actors]
    show ?thesis
      using net(1,4,5) [of a] net(2) [of c l a] reads [OF net(3) [of a b]] live
      by (simp add: start Sequence_new_pub_def SequenceCrdt_new_def)
  next
    assume start: "start = (\<lambda>a. Sequence_new_private SB a name tag)"
    note net = priv_api.network [OF assms(2) assms(4) [unfolded start Sequence_new_private_def]]
      and live = priv_api.network_live [OF assms(2) assms(4) [unfolded start Sequence_new_private_def], of actors]
    show ?thesis
      using net(1,4,5) [of a] net(2) [of c l a] reads [OF net(3) [of a b]] live
      by (simp add: start Sequence_new_private_def SequenceCrdt_new_def)
  qed
qed

text \<open>Two actors append concurrently, one of them tries private permissions, and the entries cross.\<close>

definition demo_edit :: "nat list \<Rightarrow> Entry \<Rightarrow> (RefSeq, RefOp) SequenceWrite" where
  "demo_edit key e = SequenceWrite_Edit \<lparr>wo_address = SequenceAddress_Public 3 4, wo_crdt_op = Op (Ref_Insert key (Elem_Entry e))\<rparr>"

definition demo_api_written :: "(RefSeq, RefOp) ApiNet" where
  "demo_api_written = api_write ref_sb (PublicKey_Bls 2) (L_append [20])
     (api_write ref_sb (PublicKey_Bls 1) (L_set_private_permissions Map.empty)
       (api_write ref_sb (PublicKey_Bls 1) (L_append [10]) (api_new (\<lambda>a. Sequence_new_pub ref_sb a 3 4))))"

definition demo_api :: "(RefSeq, RefOp) ApiNet" where
  "demo_api = api_deliver ref_sb (PublicKey_Bls 1) (demo_edit [1, 1, 2] [20])
     (api_deliver ref_sb (PublicKey_Bls 2) (demo_edit [1, 1, 1] [10]) demo_api_written)"

lemma demo_api_written:
  "an_written demo_api_written = [(demo_edit [1, 1, 2] [20], L_append [20]), (demo_edit [1, 1, 1] [10], L_append [10])]"
  "an_log demo_api_written (PublicKey_Bls 1) = [demo_edit [1, 1, 1] [10]]"
  "an_log demo_api_written (PublicKey_Bls 2) = [demo_edit [1, 1, 2] [20]]"
  by (simp_all add: demo_api_written_def demo_edit_def api_write_def api_new_def Sequence_new_pub_def SequenceCrdt_new_def
      SequenceCrdt_append_def ref_public_def ref_entries_def ref_lseq_def ref_append_op_def next_counter_def split_beta)

theorem sequence_api_network_witness:
  "Sequence_in_range ref_sb (an_state demo_api (PublicKey_Bls 1)) (FromStart 0) (FromEnd 0) =
     Sequence_in_range ref_sb (an_state demo_api (PublicKey_Bls 2)) (FromStart 0) (FromEnd 0) \<and>
   mset (sequence_entries ref_sb (an_state demo_api (PublicKey_Bls 1))) = {#[10], [20]#}"
proof -
  have "api_net ref_sb (\<lambda>a. Sequence_new_pub ref_sb a 3 4) demo_api_written"
    unfolding demo_api_written_def by (intro api_net.intros)
  then have net: "api_net ref_sb (\<lambda>a. Sequence_new_pub ref_sb a 3 4) demo_api"
    unfolding demo_api_def
    by (intro api_net.api_remote [where l = "L_append [20]"] api_net.api_remote [where l = "L_append [10]"])
       (simp_all add: demo_api_written api_deliver_def, simp_all add: demo_edit_def)
  have logs: "an_log demo_api (PublicKey_Bls 1) = [demo_edit [1, 1, 1] [10], demo_edit [1, 1, 2] [20]]"
      "an_log demo_api (PublicKey_Bls 2) = [demo_edit [1, 1, 2] [20], demo_edit [1, 1, 1] [10]]"
      "an_written demo_api = an_written demo_api_written"
    by (simp_all add: demo_api_def api_deliver_def demo_api_written)
  have "set (an_log demo_api (PublicKey_Bls 1)) = set (an_log demo_api (PublicKey_Bls 2))"
    unfolding logs by auto
  moreover have "mset (appended (map (\<lambda>c. the (map_of (an_written demo_api) c)) (an_log demo_api (PublicKey_Bls 1)))) = {#[10], [20]#}"
    by (simp add: logs demo_api_written demo_edit_def)
  ultimately show ?thesis
    using sequence_api_network [OF _ _ disjI1 [OF refl] net, of ref_hb ref_hb ref_hb ref_hb "PublicKey_Bls 1" _ _ "PublicKey_Bls 2" "FromStart 0" "FromEnd 0"]
      ref_backends_unique by simp
qed

end
