(* ===== verification/Utf8.thy ===== *)
theory Utf8
  imports SeqCrdt
begin

text \<open>
  The \<open>Display\<close> of the sequence core (src/src/sequence/seq\_crdt.rs) writes every entry through the
  standard library's \<open>String::from\_utf8\_lossy\<close>: a byte string is read as UTF-8, and every maximal
  ill-formed piece is replaced by the character U+FFFD. A Rust string is the bytes of its UTF-8 form.
\<close>

section \<open>Lossy decoding\<close>

definition is_cont :: "u8 \<Rightarrow> bool" where
  "is_cont b \<longleftrightarrow> 0x80 \<le> b \<and> b \<le> 0xBF"

definition in_bytes :: "u8 \<Rightarrow> u8 \<Rightarrow> u8 \<Rightarrow> bool" where
  "in_bytes lo hi b \<longleftrightarrow> lo \<le> b \<and> b \<le> hi"

text \<open>The bytes that may follow the first byte of a sequence of three and of four.\<close>

definition second_of_three :: "u8 \<Rightarrow> u8 \<Rightarrow> bool" where
  "second_of_three b c \<longleftrightarrow>
     b = 0xE0 \<and> in_bytes 0xA0 0xBF c \<or> in_bytes 0xE1 0xEC b \<and> is_cont c \<or>
     b = 0xED \<and> in_bytes 0x80 0x9F c \<or> in_bytes 0xEE 0xEF b \<and> is_cont c"

definition second_of_four :: "u8 \<Rightarrow> u8 \<Rightarrow> bool" where
  "second_of_four b c \<longleftrightarrow>
     b = 0xF0 \<and> in_bytes 0x90 0xBF c \<or> in_bytes 0xF1 0xF3 b \<and> is_cont c \<or> b = 0xF4 \<and> in_bytes 0x80 0x8F c"

text \<open>
  How many of the bytes after the first one belong to the piece that starts there, and whether the
  piece is well formed. Bytes beyond the end of the input fail every test.
\<close>

fun utf8_piece :: "u8 \<Rightarrow> bytes \<Rightarrow> nat \<times> bool" where
  "utf8_piece b rest =
     (if b < 0x80 then (0, True)
      else if in_bytes 0xC2 0xDF b then
        (case rest of c # _ \<Rightarrow> if is_cont c then (1, True) else (0, False) | [] \<Rightarrow> (0, False))
      else if in_bytes 0xE0 0xEF b then
        (case rest of
           c # rest2 \<Rightarrow>
             if second_of_three b c
             then (case rest2 of d # _ \<Rightarrow> if is_cont d then (2, True) else (1, False) | [] \<Rightarrow> (1, False))
             else (0, False)
         | [] \<Rightarrow> (0, False))
      else if in_bytes 0xF0 0xF4 b then
        (case rest of
           c # rest2 \<Rightarrow>
             if second_of_four b c
             then (case rest2 of
                     d # rest3 \<Rightarrow>
                       if is_cont d
                       then (case rest3 of e # _ \<Rightarrow> if is_cont e then (3, True) else (2, False) | [] \<Rightarrow> (2, False))
                       else (1, False)
                   | [] \<Rightarrow> (1, False))
             else (0, False)
         | [] \<Rightarrow> (0, False))
      else (0, False))"

definition replacement :: bytes where
  "replacement = [0xEF, 0xBF, 0xBD]"

function from_utf8_lossy :: "bytes \<Rightarrow> bytes" where
  "from_utf8_lossy [] = []"
| "from_utf8_lossy (b # rest) =
     (case utf8_piece b rest of (n, ok) \<Rightarrow>
        (if ok then b # take n rest else replacement) @ from_utf8_lossy (drop n rest))"
  by pat_completeness auto
termination by (relation "measure length") auto

text \<open>Well-formed UTF-8: a sequence of well-formed pieces.\<close>

function utf8_ok :: "bytes \<Rightarrow> bool" where
  "utf8_ok [] \<longleftrightarrow> True"
| "utf8_ok (b # rest) \<longleftrightarrow> (case utf8_piece b rest of (n, ok) \<Rightarrow> ok \<and> utf8_ok (drop n rest))"
  by pat_completeness auto
termination by (relation "measure length") auto

lemma utf8_piece_take:
  assumes "utf8_piece b rest = (n, True)"
  shows "utf8_piece b (take n rest @ ys) = (n, True)" "n \<le> length rest"
  using assms by (auto split: if_splits list.splits)

lemma utf8_ok_append: "utf8_ok (p @ q) \<longleftrightarrow> utf8_ok q" if "p = b # take n rest" "utf8_piece b rest = (n, True)" for p
proof -
  note piece = utf8_piece_take [OF that(2)]
  have "drop n (take n rest @ q) = q" using piece(2) by simp
  then show ?thesis using piece(1) [of q] by (simp add: that(1) del: utf8_piece.simps)
qed

lemma utf8_replacement: "utf8_ok (replacement @ q) \<longleftrightarrow> utf8_ok q"
  by (simp add: replacement_def in_bytes_def is_cont_def second_of_three_def)

text \<open>The result is always well-formed, and well-formed text is unchanged.\<close>

lemma lossy_ok: "utf8_ok (from_utf8_lossy bs)"
proof (induction bs rule: from_utf8_lossy.induct)
  case (2 b rest)
  obtain n ok where piece: "utf8_piece b rest = (n, ok)" by (cases "utf8_piece b rest")
  have IH: "utf8_ok (from_utf8_lossy (drop n rest))" by (rule 2 [OF piece [symmetric]])
  show ?case
  proof (cases ok)
    case True
    then show ?thesis using piece IH utf8_ok_append [OF refl, of b rest n] by (simp del: utf8_piece.simps utf8_ok.simps(2))
  next
    case False
    then show ?thesis using piece IH utf8_replacement by (simp del: utf8_piece.simps)
  qed
qed simp

lemma lossy_id: "utf8_ok bs \<Longrightarrow> from_utf8_lossy bs = bs"
proof (induction bs rule: from_utf8_lossy.induct)
  case (2 b rest)
  obtain n ok where piece: "utf8_piece b rest = (n, ok)" by (cases "utf8_piece b rest")
  then have ok: "ok" "utf8_ok (drop n rest)" using 2(2) by (simp_all del: utf8_piece.simps)
  have "from_utf8_lossy (drop n rest) = drop n rest" using 2(1) [OF piece [symmetric]] ok(2) by blast
  then show ?case using piece ok(1) by (simp del: utf8_piece.simps)
qed simp

section \<open>The text of a sequence\<close>

definition byte_text :: "bytes \<Rightarrow> string" where
  "byte_text bs = map (\<lambda>b. char_of (unat b)) bs"

definition SequenceCrdt_display :: "('p, 'a, 'c, 'o) Backend \<Rightarrow> ('p, 'c) SequenceCrdt \<Rightarrow> string" where
  "SequenceCrdt_display B self =
     ''['' @
     concat (map (\<lambda>(i, entry). (if i > 0 then '', '' else []) @ ''<'' @ byte_text (from_utf8_lossy entry) @ ''>'')
       (enumerate_usize (ls_iter (be_entries B) (sq_data self)))) @
     '']''"

end
