(* ===== verification/Identity.thy ===== *)
theory Identity
  imports Keys
begin

text \<open>
  The identities of clients, apps and nodes (src/src/identity): key material together with a public
  identity whose name is computed from the key. Generating functions of the key crates are
  parameters over a generator state \<open>'r\<close>, as in the keys component. Every holder of keys is an
  instance of \<open>signer\<close>, every public identity with a computed name one of \<open>content_addressed\<close>.
\<close>

section \<open>Clients\<close>

record ClientPublicId =
  cp_name :: XorName
  cp_public_key :: PublicKey

record ClientFullId =
  cf_keypair :: Keypair
  cf_public_id :: ClientPublicId

definition ClientFullId_public_id :: "ClientFullId \<Rightarrow> ClientPublicId" where
  "ClientFullId_public_id self = cf_public_id self"

definition ClientPublicId_name :: "ClientPublicId \<Rightarrow> XorName" where
  "ClientPublicId_name self = cp_name self"

definition ClientPublicId_public_key :: "ClientPublicId \<Rightarrow> PublicKey" where
  "ClientPublicId_public_key self = cp_public_key self"

definition client_id :: "PublicKey \<Rightarrow> ClientPublicId" where
  "client_id public_key = \<lparr>cp_name = PublicKey_to_xorname public_key, cp_public_key = public_key\<rparr>"

definition ClientFullId_new_ed25519 :: "('r \<Rightarrow> Ed25519Keypair \<times> 'r) \<Rightarrow> 'r \<Rightarrow> ClientFullId \<times> 'r" where
  "ClientFullId_new_ed25519 generate rng =
     (let (keypair, rng') = Keypair_new_ed25519 generate rng;
          public_key = Keypair_public_key keypair;
          public_id = \<lparr>cp_name = PublicKey_to_xorname public_key, cp_public_key = public_key\<rparr>
      in (\<lparr>cf_keypair = keypair, cf_public_id = public_id\<rparr>, rng'))"

definition ClientFullId_new_bls :: "Crypto \<Rightarrow> ('r \<Rightarrow> BlsSecretKey \<times> 'r) \<Rightarrow> 'r \<Rightarrow> ClientFullId \<times> 'r" where
  "ClientFullId_new_bls C gen rng =
     (let (keypair, rng') = Keypair_new_bls C gen rng;
          public_key = Keypair_public_key keypair;
          public_id = \<lparr>cp_name = PublicKey_to_xorname public_key, cp_public_key = public_key\<rparr>
      in (\<lparr>cf_keypair = keypair, cf_public_id = public_id\<rparr>, rng'))"

fun ClientFullId_sign :: "Crypto \<Rightarrow> ClientFullId \<Rightarrow> bytes \<Rightarrow> Signature" where
  "ClientFullId_sign C self data =
     (case cf_keypair self of
        Keypair_Ed25519 keys \<Rightarrow> Signature_Ed25519 (ed25519_sign C keys data)
      | Keypair_Bls keys \<Rightarrow> Signature_Bls (bls_sign C (bk_secret keys) data)
      | Keypair_BlsShare keys \<Rightarrow>
          Signature_BlsShare \<lparr>ss_index = bks_index keys, ss_share = share_sign C (bks_secret keys) data\<rparr>)"

definition ClientFullId_from_bls :: "Crypto \<Rightarrow> BlsSecretKey \<Rightarrow> ClientFullId" where
  "ClientFullId_from_bls C bls_sk =
     (let public = bls_public_key C bls_sk;
          keypair = Keypair_Bls \<lparr>bk_secret = bls_sk, bk_public = public\<rparr>;
          public_key = Keypair_public_key keypair;
          public_id = \<lparr>cp_name = PublicKey_to_xorname public_key, cp_public_key = public_key\<rparr>
      in \<lparr>cf_keypair = keypair, cf_public_id = public_id\<rparr>)"

definition ClientFullId_from_ed25519 :: "Ed25519Keypair \<Rightarrow> ClientFullId" where
  "ClientFullId_from_ed25519 ed25519_keypair =
     (let keypair = Keypair_Ed25519 ed25519_keypair;
          public_key = Keypair_public_key keypair;
          public_id = \<lparr>cp_name = PublicKey_to_xorname public_key, cp_public_key = public_key\<rparr>
      in \<lparr>cf_keypair = keypair, cf_public_id = public_id\<rparr>)"

definition ClientPublicId_serialize :: "(PublicKey \<Rightarrow> bytes) \<Rightarrow> ClientPublicId \<Rightarrow> bytes" where
  "ClientPublicId_serialize ser self = ser (cp_public_key self)"

definition ClientPublicId_deserialize :: "(bytes \<Rightarrow> string + PublicKey) \<Rightarrow> bytes \<Rightarrow> string + ClientPublicId" where
  "ClientPublicId_deserialize de bs =
     and_then (de bs) (\<lambda>public_key.
       let name = PublicKey_to_xorname public_key in Ok \<lparr>cp_name = name, cp_public_key = public_key\<rparr>)"

definition ClientPublicId_encode_to_zbase32 :: "'b Multibase \<Rightarrow> (PublicKey \<Rightarrow> bytes) \<Rightarrow> ClientPublicId \<Rightarrow> string" where
  "ClientPublicId_encode_to_zbase32 mb ser self = encode mb (ClientPublicId_serialize ser) self"

definition ClientPublicId_decode_from_zbase32 ::
    "'b Multibase \<Rightarrow> (bytes \<Rightarrow> string + PublicKey) \<Rightarrow> string \<Rightarrow> ClientPublicId Result" where
  "ClientPublicId_decode_from_zbase32 mb de encoded = decode mb (ClientPublicId_deserialize de) encoded"

section \<open>Apps\<close>

record AppPublicId =
  ap_public_key :: PublicKey
  ap_owner :: ClientPublicId

record AppFullId =
  af_keypair :: Keypair
  af_public_id :: AppPublicId

definition AppFullId_public_id :: "AppFullId \<Rightarrow> AppPublicId" where
  "AppFullId_public_id self = af_public_id self"

definition AppPublicId_public_key :: "AppPublicId \<Rightarrow> PublicKey" where
  "AppPublicId_public_key self = ap_public_key self"

definition AppPublicId_owner :: "AppPublicId \<Rightarrow> ClientPublicId" where
  "AppPublicId_owner self = ap_owner self"

definition AppFullId_new :: "ClientFullId \<Rightarrow> ClientPublicId \<Rightarrow> AppFullId" where
  "AppFullId_new new_id owner =
     (let public_id = \<lparr>ap_public_key = cp_public_key (cf_public_id new_id), ap_owner = owner\<rparr>
      in \<lparr>af_keypair = cf_keypair new_id, af_public_id = public_id\<rparr>)"

definition AppFullId_new_ed25519 :: "('r \<Rightarrow> Ed25519Keypair \<times> 'r) \<Rightarrow> 'r \<Rightarrow> ClientPublicId \<Rightarrow> AppFullId \<times> 'r" where
  "AppFullId_new_ed25519 generate rng owner =
     (let (new_id, rng') = ClientFullId_new_ed25519 generate rng in (AppFullId_new new_id owner, rng'))"

definition AppFullId_new_bls :: "Crypto \<Rightarrow> ('r \<Rightarrow> BlsSecretKey \<times> 'r) \<Rightarrow> 'r \<Rightarrow> ClientPublicId \<Rightarrow> AppFullId \<times> 'r" where
  "AppFullId_new_bls C gen rng owner =
     (let (new_id, rng') = ClientFullId_new_bls C gen rng in (AppFullId_new new_id owner, rng'))"

fun AppFullId_sign :: "Crypto \<Rightarrow> AppFullId \<Rightarrow> bytes \<Rightarrow> Signature" where
  "AppFullId_sign C self data =
     (case af_keypair self of
        Keypair_Ed25519 keys \<Rightarrow> Signature_Ed25519 (ed25519_sign C keys data)
      | Keypair_Bls keys \<Rightarrow> Signature_Bls (bls_sign C (bk_secret keys) data)
      | Keypair_BlsShare keys \<Rightarrow>
          Signature_BlsShare \<lparr>ss_index = bks_index keys, ss_share = share_sign C (bks_secret keys) data\<rparr>)"

definition AppPublicId_owner_name :: "AppPublicId \<Rightarrow> XorName" where
  "AppPublicId_owner_name self = cp_name (ap_owner self)"

definition AppPublicId_encode_to_zbase32 :: "'b Multibase \<Rightarrow> (AppPublicId \<Rightarrow> bytes) \<Rightarrow> AppPublicId \<Rightarrow> string" where
  "AppPublicId_encode_to_zbase32 mb ser self = encode mb ser self"

definition AppPublicId_decode_from_zbase32 :: "'b Multibase \<Rightarrow> (bytes \<Rightarrow> string + AppPublicId) \<Rightarrow> string \<Rightarrow> AppPublicId Result" where
  "AppPublicId_decode_from_zbase32 mb de encoded = decode mb de encoded"

section \<open>Nodes\<close>

record NodePublicId =
  np_name :: XorName
  np_ed25519 :: Ed25519PublicKey
  np_bls :: "BlsPublicKeyShare option"

definition NodePublicId_name :: "NodePublicId \<Rightarrow> XorName" where
  "NodePublicId_name self = np_name self"

definition NodePublicId_ed25519_public_key :: "NodePublicId \<Rightarrow> Ed25519PublicKey" where
  "NodePublicId_ed25519_public_key self = np_ed25519 self"

definition NodePublicId_bls_public_key :: "NodePublicId \<Rightarrow> BlsPublicKeyShare option" where
  "NodePublicId_bls_public_key self = np_bls self"

definition NodePublicId_serialize ::
    "(Ed25519PublicKey \<times> BlsPublicKeyShare option \<Rightarrow> bytes) \<Rightarrow> NodePublicId \<Rightarrow> bytes" where
  "NodePublicId_serialize ser self = ser (np_ed25519 self, np_bls self)"

definition NodePublicId_deserialize ::
    "(bytes \<Rightarrow> string + Ed25519PublicKey \<times> BlsPublicKeyShare option) \<Rightarrow> bytes \<Rightarrow> string + NodePublicId" where
  "NodePublicId_deserialize de bs =
     and_then (de bs) (\<lambda>(ed25519, bls).
       let name = PublicKey_to_xorname (PublicKey_Ed25519 ed25519)
       in Ok \<lparr>np_name = name, np_ed25519 = ed25519, np_bls = bls\<rparr>)"

definition NodePublicId_cmp ::
    "(Ed25519PublicKey \<times> BlsPublicKeyShare option \<Rightarrow> bytes) \<Rightarrow> NodePublicId \<Rightarrow> NodePublicId \<Rightarrow> Ordering" where
  "NodePublicId_cmp ser self other =
     cmp_bytes (serialise (NodePublicId_serialize ser) self) (serialise (NodePublicId_serialize ser) other)"

definition NodePublicId_partial_cmp ::
    "(Ed25519PublicKey \<times> BlsPublicKeyShare option \<Rightarrow> bytes) \<Rightarrow> NodePublicId \<Rightarrow> NodePublicId \<Rightarrow> Ordering option" where
  "NodePublicId_partial_cmp ser self other = Some (NodePublicId_cmp ser self other)"

definition NodePublicId_hash ::
    "(Ed25519PublicKey \<times> BlsPublicKeyShare option \<Rightarrow> bytes) \<Rightarrow> (bytes \<Rightarrow> 'h \<Rightarrow> 'h) \<Rightarrow> NodePublicId \<Rightarrow> 'h \<Rightarrow> 'h" where
  "NodePublicId_hash ser feed self state = feed (serialise (NodePublicId_serialize ser) self) state"

definition NodePublicId_encode_to_zbase32 ::
    "'b Multibase \<Rightarrow> (Ed25519PublicKey \<times> BlsPublicKeyShare option \<Rightarrow> bytes) \<Rightarrow> NodePublicId \<Rightarrow> string" where
  "NodePublicId_encode_to_zbase32 mb ser self = encode mb (NodePublicId_serialize ser) self"

definition NodePublicId_decode_from_zbase32 ::
    "'b Multibase \<Rightarrow> (bytes \<Rightarrow> string + Ed25519PublicKey \<times> BlsPublicKeyShare option) \<Rightarrow> string \<Rightarrow> NodePublicId Result" where
  "NodePublicId_decode_from_zbase32 mb de encoded = decode mb (NodePublicId_deserialize de) encoded"

text \<open>The two structs of node.rs with the same fields: \<open>FullId\<close> and \<open>NodeKeypairs\<close>.\<close>

record NodeFullId =
  nf_ed25519 :: Ed25519Keypair
  nf_bls :: "BlsKeypairShare option"
  nf_public_id :: NodePublicId

definition NodeFullId_public_id :: "NodeFullId \<Rightarrow> NodePublicId" where
  "NodeFullId_public_id self = nf_public_id self"

definition NodeFullId_new :: "('r \<Rightarrow> Ed25519Keypair \<times> 'r) \<Rightarrow> 'r \<Rightarrow> NodeFullId \<times> 'r" where
  "NodeFullId_new generate rng =
     (let (ed25519, rng') = generate rng;
          name = PublicKey_to_xorname (PublicKey_Ed25519 (ed_public ed25519));
          public_id = \<lparr>np_name = name, np_ed25519 = ed_public ed25519, np_bls = None\<rparr>
      in (\<lparr>nf_ed25519 = ed25519, nf_bls = None, nf_public_id = public_id\<rparr>, rng'))"

partial_function (option) NodeFullId_range_loop ::
    "('r \<Rightarrow> Ed25519Keypair \<times> 'r) \<Rightarrow> XorName \<Rightarrow> XorName \<Rightarrow> Ed25519Keypair \<Rightarrow> 'r \<Rightarrow> (NodeFullId \<times> 'r) option" where
  "NodeFullId_range_loop generate start fin ed25519 rng =
     (let name = PublicKey_to_xorname (PublicKey_Ed25519 (ed_public ed25519)) in
      if start \<le> name \<and> name \<le> fin
      then Some (\<lparr>nf_ed25519 = ed25519, nf_bls = None,
                  nf_public_id = \<lparr>np_name = name, np_ed25519 = ed_public ed25519, np_bls = None\<rparr>\<rparr>, rng)
      else NodeFullId_range_loop generate start fin (fst (generate rng)) (snd (generate rng)))"

definition NodeFullId_within_range ::
    "('r \<Rightarrow> Ed25519Keypair \<times> 'r) \<Rightarrow> XorName \<Rightarrow> XorName \<Rightarrow> 'r \<Rightarrow> (NodeFullId \<times> 'r) option" where
  "NodeFullId_within_range generate start fin rng =
     NodeFullId_range_loop generate start fin (fst (generate rng)) (snd (generate rng))"

definition NodeFullId_sign_using_ed25519 :: "Crypto \<Rightarrow> NodeFullId \<Rightarrow> bytes \<Rightarrow> Signature" where
  "NodeFullId_sign_using_ed25519 C self data = Signature_Ed25519 (ed25519_sign C (nf_ed25519 self) data)"

definition NodeFullId_sign_using_bls :: "Crypto \<Rightarrow> NodeFullId \<Rightarrow> bytes \<Rightarrow> Signature option" where
  "NodeFullId_sign_using_bls C self data =
     map_option (\<lambda>keys. Signature_BlsShare \<lparr>ss_index = bks_index keys, ss_share = share_sign C (bks_secret keys) data\<rparr>)
       (nf_bls self)"

definition NodeFullId_set_bls_keys :: "Crypto \<Rightarrow> NodeFullId \<Rightarrow> BlsSecretKeyShare \<Rightarrow> PublicKeySet \<Rightarrow> NodeFullId" where
  "NodeFullId_set_bls_keys C self secret_share public_set =
     (let public = share_public_key C secret_share in
      self\<lparr>nf_public_id := (nf_public_id self)\<lparr>np_bls := Some public\<rparr>,
           nf_bls := Some \<lparr>bks_index = 0, bks_secret = secret_share, bks_public = public,
                           bks_public_key_set = public_set\<rparr>\<rparr>)"

definition NodeFullId_clear_bls_keys :: "NodeFullId \<Rightarrow> NodeFullId" where
  "NodeFullId_clear_bls_keys self =
     self\<lparr>nf_public_id := (nf_public_id self)\<lparr>np_bls := None\<rparr>, nf_bls := None\<rparr>"

record NodeKeypairs =
  nk_ed25519 :: Ed25519Keypair
  nk_bls :: "BlsKeypairShare option"
  nk_public_id :: NodePublicId

definition NodeKeypairs_public_id :: "NodeKeypairs \<Rightarrow> NodePublicId" where
  "NodeKeypairs_public_id self = nk_public_id self"

definition NodeKeypairs_new :: "('r \<Rightarrow> Ed25519Keypair \<times> 'r) \<Rightarrow> 'r \<Rightarrow> NodeKeypairs \<times> 'r" where
  "NodeKeypairs_new generate rng =
     (let (ed25519, rng') = generate rng;
          name = PublicKey_to_xorname (PublicKey_Ed25519 (ed_public ed25519));
          public_id = \<lparr>np_name = name, np_ed25519 = ed_public ed25519, np_bls = None\<rparr>
      in (\<lparr>nk_ed25519 = ed25519, nk_bls = None, nk_public_id = public_id\<rparr>, rng'))"

partial_function (option) NodeKeypairs_range_loop ::
    "('r \<Rightarrow> Ed25519Keypair \<times> 'r) \<Rightarrow> XorName \<Rightarrow> XorName \<Rightarrow> Ed25519Keypair \<Rightarrow> 'r \<Rightarrow> (NodeKeypairs \<times> 'r) option" where
  "NodeKeypairs_range_loop generate start fin ed25519 rng =
     (let name = PublicKey_to_xorname (PublicKey_Ed25519 (ed_public ed25519)) in
      if start \<le> name \<and> name \<le> fin
      then Some (\<lparr>nk_ed25519 = ed25519, nk_bls = None,
                  nk_public_id = \<lparr>np_name = name, np_ed25519 = ed_public ed25519, np_bls = None\<rparr>\<rparr>, rng)
      else NodeKeypairs_range_loop generate start fin (fst (generate rng)) (snd (generate rng)))"

definition NodeKeypairs_within_range ::
    "('r \<Rightarrow> Ed25519Keypair \<times> 'r) \<Rightarrow> XorName \<Rightarrow> XorName \<Rightarrow> 'r \<Rightarrow> (NodeKeypairs \<times> 'r) option" where
  "NodeKeypairs_within_range generate start fin rng =
     NodeKeypairs_range_loop generate start fin (fst (generate rng)) (snd (generate rng))"

definition NodeKeypairs_public_key :: "NodeKeypairs \<Rightarrow> PublicKey" where
  "NodeKeypairs_public_key self =
     (case np_bls (nk_public_id self) of
        Some key \<Rightarrow> PublicKey_BlsShare key
      | None \<Rightarrow> PublicKey_Ed25519 (np_ed25519 (nk_public_id self)))"

definition NodeKeypairs_public_key_set :: "NodeKeypairs \<Rightarrow> PublicKeySet option" where
  "NodeKeypairs_public_key_set self = map_option bks_public_key_set (nk_bls self)"

definition NodeKeypairs_sign_using_ed25519 :: "Crypto \<Rightarrow> NodeKeypairs \<Rightarrow> bytes \<Rightarrow> Signature" where
  "NodeKeypairs_sign_using_ed25519 C self data = Signature_Ed25519 (ed25519_sign C (nk_ed25519 self) data)"

definition NodeKeypairs_sign_using_bls :: "Crypto \<Rightarrow> NodeKeypairs \<Rightarrow> bytes \<Rightarrow> Signature option" where
  "NodeKeypairs_sign_using_bls C self data =
     map_option (\<lambda>keys. Signature_BlsShare \<lparr>ss_index = bks_index keys, ss_share = share_sign C (bks_secret keys) data\<rparr>)
       (nk_bls self)"

definition NodeKeypairs_sign :: "Crypto \<Rightarrow> NodeKeypairs \<Rightarrow> bytes \<Rightarrow> Signature" where
  "NodeKeypairs_sign C self data =
     (case NodeKeypairs_sign_using_bls C self data of
        Some sig \<Rightarrow> sig
      | None \<Rightarrow> NodeKeypairs_sign_using_ed25519 C self data)"

definition NodeKeypairs_set_bls_keys ::
    "Crypto \<Rightarrow> NodeKeypairs \<Rightarrow> usize \<Rightarrow> BlsSecretKeyShare \<Rightarrow> PublicKeySet \<Rightarrow> NodeKeypairs" where
  "NodeKeypairs_set_bls_keys C self index secret_share public_set =
     (let public = share_public_key C secret_share in
      self\<lparr>nk_public_id := (nk_public_id self)\<lparr>np_bls := Some public\<rparr>,
           nk_bls := Some \<lparr>bks_index = index, bks_secret = secret_share, bks_public = public,
                           bks_public_key_set = public_set\<rparr>\<rparr>)"

definition NodeKeypairs_clear_bls_keys :: "NodeKeypairs \<Rightarrow> NodeKeypairs" where
  "NodeKeypairs_clear_bls_keys self =
     self\<lparr>nk_public_id := (nk_public_id self)\<lparr>np_bls := None\<rparr>, nk_bls := None\<rparr>"

section \<open>Any identity\<close>

datatype PublicId =
    PublicId_Node NodePublicId
  | PublicId_Client ClientPublicId
  | PublicId_App AppPublicId

fun PublicId_name :: "PublicId \<Rightarrow> XorName" where
  "PublicId_name (PublicId_Node pub_id) = np_name pub_id"
| "PublicId_name (PublicId_Client pub_id) = cp_name pub_id"
| "PublicId_name (PublicId_App pub_id) = AppPublicId_owner_name pub_id"

fun PublicId_node_public_id :: "PublicId \<Rightarrow> NodePublicId option" where
  "PublicId_node_public_id (PublicId_Node pub_id) = Some pub_id"
| "PublicId_node_public_id _ = None"

fun PublicId_client_public_id :: "PublicId \<Rightarrow> ClientPublicId option" where
  "PublicId_client_public_id (PublicId_Client pub_id) = Some pub_id"
| "PublicId_client_public_id _ = None"

fun PublicId_app_public_id :: "PublicId \<Rightarrow> AppPublicId option" where
  "PublicId_app_public_id (PublicId_App pub_id) = Some pub_id"
| "PublicId_app_public_id _ = None"

fun PublicId_public_key :: "PublicId \<Rightarrow> PublicKey" where
  "PublicId_public_key (PublicId_Node pub_id) = PublicKey_Ed25519 (np_ed25519 pub_id)"
| "PublicId_public_key (PublicId_Client pub_id) = cp_public_key pub_id"
| "PublicId_public_key (PublicId_App pub_id) = ap_public_key pub_id"

definition PublicId_encode_to_zbase32 :: "'b Multibase \<Rightarrow> (PublicId \<Rightarrow> bytes) \<Rightarrow> PublicId \<Rightarrow> string" where
  "PublicId_encode_to_zbase32 mb ser self = encode mb ser self"

definition PublicId_decode_from_zbase32 :: "'b Multibase \<Rightarrow> (bytes \<Rightarrow> string + PublicId) \<Rightarrow> string \<Rightarrow> PublicId Result" where
  "PublicId_decode_from_zbase32 mb de encoded = decode mb de encoded"

datatype SafeKey = SafeKey_App AppFullId | SafeKey_Client ClientFullId

definition SafeKey_client :: "ClientFullId \<Rightarrow> SafeKey" where
  "SafeKey_client full_id = SafeKey_Client full_id"

definition SafeKey_app :: "AppFullId \<Rightarrow> SafeKey" where
  "SafeKey_app full_id = SafeKey_App full_id"

fun SafeKey_keypair :: "(Ed25519Keypair \<Rightarrow> bytes) \<Rightarrow> (bytes \<Rightarrow> Ed25519Keypair option) \<Rightarrow> SafeKey \<Rightarrow> Keypair option" where
  "SafeKey_keypair to_bytes from_bytes (SafeKey_App app_full_id) = Keypair_clone to_bytes from_bytes (af_keypair app_full_id)"
| "SafeKey_keypair to_bytes from_bytes (SafeKey_Client client_full_id) =
     Keypair_clone to_bytes from_bytes (cf_keypair client_full_id)"

fun SafeKey_sign :: "Crypto \<Rightarrow> SafeKey \<Rightarrow> bytes \<Rightarrow> Signature" where
  "SafeKey_sign C (SafeKey_App app_full_id) msg = AppFullId_sign C app_full_id msg"
| "SafeKey_sign C (SafeKey_Client client_full_id) msg = ClientFullId_sign C client_full_id msg"

fun SafeKey_public_id :: "SafeKey \<Rightarrow> PublicId" where
  "SafeKey_public_id (SafeKey_App app_full_id) = PublicId_App (af_public_id app_full_id)"
| "SafeKey_public_id (SafeKey_Client client_full_id) = PublicId_Client (cf_public_id client_full_id)"

fun SafeKey_public_key :: "SafeKey \<Rightarrow> PublicKey" where
  "SafeKey_public_key (SafeKey_App app_full_id) = ap_public_key (af_public_id app_full_id)"
| "SafeKey_public_key (SafeKey_Client client_full_id) = cp_public_key (cf_public_id client_full_id)"

end
