(* ===== verification/IdentitySpec.thy ===== *)
theory IdentitySpec
  imports Identity Blob
begin

text \<open>
  What identities promise: every holder of keys signs so that its public identity verifies, names
  are always those computed from the key, node key material stays consistent under promotion and
  demotion, and the search for a name in a range returns exactly the first generated key in it.
\<close>

section \<open>Well-formed identities\<close>

definition client_wf :: "Crypto \<Rightarrow> ClientFullId \<Rightarrow> bool" where
  "client_wf C i \<longleftrightarrow> Keypair_wf C (cf_keypair i) \<and> cf_public_id i = client_id (Keypair_public_key (cf_keypair i))"

definition app_wf :: "Crypto \<Rightarrow> AppFullId \<Rightarrow> bool" where
  "app_wf C i \<longleftrightarrow> Keypair_wf C (af_keypair i) \<and> ap_public_key (af_public_id i) = Keypair_public_key (af_keypair i)"

fun safe_key_wf :: "Crypto \<Rightarrow> SafeKey \<Rightarrow> bool" where
  "safe_key_wf C (SafeKey_App i) \<longleftrightarrow> app_wf C i"
| "safe_key_wf C (SafeKey_Client i) \<longleftrightarrow> client_wf C i"

definition node_id_wf :: "NodePublicId \<Rightarrow> bool" where
  "node_id_wf i \<longleftrightarrow> np_name i = np_ed25519 i"

text \<open>Secrets, public keys and the public identity of a node agree.\<close>

definition node_wf :: "Crypto \<Rightarrow> NodeKeypairs \<Rightarrow> bool" where
  "node_wf C n \<longleftrightarrow>
     ed_public (nk_ed25519 n) = ed25519_public C (ed_secret (nk_ed25519 n)) \<and>
     node_id_wf (nk_public_id n) \<and>
     np_ed25519 (nk_public_id n) = ed_public (nk_ed25519 n) \<and>
     np_bls (nk_public_id n) = map_option bks_public (nk_bls n) \<and>
     (\<forall>k. nk_bls n = Some k \<longrightarrow> bks_public k = share_public_key C (bks_secret k))"

lemma client_sign_keypair: "ClientFullId_sign C i d = Keypair_sign C (cf_keypair i) d"
  by (cases "cf_keypair i") (simp_all add: Let_def)

lemma app_sign_keypair: "AppFullId_sign C i d = Keypair_sign C (af_keypair i) d"
  by (cases "af_keypair i") (simp_all add: Let_def)

section \<open>Holders of keys are signers\<close>

context crypto_laws begin

lemma client_signs:
  "client_wf C i \<Longrightarrow> PublicKey_verify C (cp_public_key (cf_public_id i)) (ClientFullId_sign C i d) d = Ok ()"
  unfolding client_sign_keypair by (simp add: client_wf_def client_id_def keypair_signs)

lemma app_signs:
  "app_wf C i \<Longrightarrow> PublicKey_verify C (ap_public_key (af_public_id i)) (AppFullId_sign C i d) d = Ok ()"
  unfolding app_sign_keypair by (simp add: app_wf_def keypair_signs)

lemma safe_key_signs:
  "safe_key_wf C k \<Longrightarrow> PublicKey_verify C (SafeKey_public_key k) (SafeKey_sign C k d) d = Ok ()"
  by (cases k) (simp_all add: client_signs app_signs del: ClientFullId_sign.simps AppFullId_sign.simps)

lemma node_signs_ed25519:
  "node_wf C n \<Longrightarrow> PublicKey_verify C (PublicId_public_key (PublicId_Node (nk_public_id n)))
     (NodeKeypairs_sign_using_ed25519 C n d) d = Ok ()"
  using ed25519_verifies [of "nk_ed25519 n" d]
  by (simp add: node_wf_def NodeKeypairs_sign_using_ed25519_def PublicKey_verify_def)

lemma node_signs:
  assumes "node_wf C n"
  shows "PublicKey_verify C (NodeKeypairs_public_key n) (NodeKeypairs_sign C n d) d = Ok ()"
proof (cases "nk_bls n")
  case None
  then show ?thesis
    using assms ed25519_verifies [of "nk_ed25519 n" d]
    by (simp add: node_wf_def NodeKeypairs_public_key_def NodeKeypairs_sign_def NodeKeypairs_sign_using_bls_def
        NodeKeypairs_sign_using_ed25519_def PublicKey_verify_def)
next
  case (Some k)
  then show ?thesis
    using assms share_verifies [of "bks_secret k" d]
    by (simp add: node_wf_def NodeKeypairs_public_key_def NodeKeypairs_sign_def NodeKeypairs_sign_using_bls_def
        PublicKey_verify_def)
qed

end

interpretation demo_client: signer "ClientFullId_sign demo_crypto" "\<lambda>i. cp_public_key (cf_public_id i)"
    "PublicKey_verify demo_crypto" "client_wf demo_crypto"
  by unfold_locales (rule demo.client_signs)

interpretation demo_app: signer "AppFullId_sign demo_crypto" "\<lambda>i. ap_public_key (af_public_id i)"
    "PublicKey_verify demo_crypto" "app_wf demo_crypto"
  by unfold_locales (rule demo.app_signs)

interpretation demo_safe_key: signer "SafeKey_sign demo_crypto" SafeKey_public_key
    "PublicKey_verify demo_crypto" "safe_key_wf demo_crypto"
  by unfold_locales (rule demo.safe_key_signs)

interpretation demo_node: signer "NodeKeypairs_sign demo_crypto" NodeKeypairs_public_key
    "PublicKey_verify demo_crypto" "node_wf demo_crypto"
  by unfold_locales (rule demo.node_signs)

lemma client_new_wf:
  "ed_public (fst (gen rng)) = ed25519_public C (ed_secret (fst (gen rng))) \<Longrightarrow>
     client_wf C (fst (ClientFullId_new_ed25519 gen rng))"
  "client_wf C (fst (ClientFullId_new_bls C gen' rng'))"
  "client_wf C (ClientFullId_from_bls C sk)"
  "ed_public kp = ed25519_public C (ed_secret kp) \<Longrightarrow> client_wf C (ClientFullId_from_ed25519 kp)"
  by (simp_all add: client_wf_def client_id_def ClientFullId_new_ed25519_def ClientFullId_new_bls_def Keypair_wf_def
      ClientFullId_from_bls_def ClientFullId_from_ed25519_def Keypair_new_ed25519_def Keypair_new_bls_def split_beta Let_def)

lemma app_new_wf: "client_wf C i \<Longrightarrow> app_wf C (AppFullId_new i owner)"
  by (simp add: app_wf_def client_wf_def client_id_def AppFullId_new_def Let_def)

text \<open>
  C33: Client and app identities made by the constructors sign so that the key in their public
  identity verifies, whichever kind of key they hold, also behind a \<open>SafeKey\<close>, provided an Ed25519 pair
  that is generated or given matches; the name of a client is computed from its key, and the name of an
  app is the name of its owner, not of its own key.
\<close>

theorem identities_sign_verify:
  assumes "crypto_ok C" "ed_public kp = ed25519_public C (ed_secret kp)"
    and "ed_public (fst (gen rng)) = ed25519_public C (ed_secret (fst (gen rng)))"
    and "i \<in> {fst (ClientFullId_new_ed25519 gen rng), fst (ClientFullId_new_bls C gen' rng'),
        ClientFullId_from_ed25519 kp, ClientFullId_from_bls C sk}"
    and "a \<in> {fst (AppFullId_new_ed25519 gen rng owner), fst (AppFullId_new_bls C gen' rng' owner), AppFullId_new i owner}"
  shows "PublicKey_verify C (SafeKey_public_key (SafeKey_client i)) (SafeKey_sign C (SafeKey_client i) d) d = Ok () \<and>
    PublicKey_verify C (SafeKey_public_key (SafeKey_app a)) (SafeKey_sign C (SafeKey_app a) d) d = Ok () \<and>
    PublicId_name (SafeKey_public_id (SafeKey_client i)) = PublicKey_to_xorname (SafeKey_public_key (SafeKey_client i)) \<and>
    PublicId_name (SafeKey_public_id (SafeKey_app a)) = cp_name owner"
proof -
  have wf: "client_wf C (fst (ClientFullId_new_ed25519 gen rng))" "client_wf C i"
    using assms(2-4) by (auto simp: client_new_wf)
  then have app: "app_wf C a" using assms(5)
    by (auto simp: AppFullId_new_ed25519_def AppFullId_new_bls_def split_beta intro: app_new_wf client_new_wf(2))
  have "PublicId_name (PublicId_Client (cf_public_id i)) = PublicKey_to_xorname (cp_public_key (cf_public_id i))"
    using wf(2) by (simp add: client_wf_def client_id_def)
  moreover have "ap_owner (af_public_id a) = owner" using assms(5)
    by (auto simp: AppFullId_new_ed25519_def AppFullId_new_bls_def AppFullId_new_def split_beta Let_def)
  ultimately show ?thesis
    using crypto_laws.safe_key_signs [OF crypto_laws.intro [OF assms(1)], of "SafeKey_Client i" d]
      crypto_laws.safe_key_signs [OF crypto_laws.intro [OF assms(1)], of "SafeKey_App a" d] wf(2) app
    by (simp add: SafeKey_client_def SafeKey_app_def AppPublicId_owner_name_def)
qed

theorem identities_sign_verify_witness:
  "PublicKey_verify demo_crypto (SafeKey_public_key (SafeKey_client (ClientFullId_from_bls demo_crypto 7)))
     (SafeKey_sign demo_crypto (SafeKey_client (ClientFullId_from_bls demo_crypto 7)) [1]) [1] = Ok () \<and>
   PublicId_name (SafeKey_public_id (SafeKey_app (fst (AppFullId_new_ed25519 demo_gen 4 (client_id (PublicKey_Ed25519 1)))))) = 1"
proof -
  have keys: "ed_public \<lparr>ed_secret = 1, ed_public = 2\<rparr> = ed25519_public demo_crypto (ed_secret \<lparr>ed_secret = 1, ed_public = 2\<rparr>)"
      "ed_public (fst (demo_gen 4)) = ed25519_public demo_crypto (ed_secret (fst (demo_gen 4)))"
    by (simp_all add: demo_gen_def demo_crypto_def)
  show ?thesis
    using identities_sign_verify [of demo_crypto "\<lparr>ed_secret = 1, ed_public = 2\<rparr>" demo_gen 4 "ClientFullId_from_bls demo_crypto 7"
        "\<lambda>r. (r, r + 1)" 5 7 "fst (AppFullId_new_ed25519 demo_gen 4 (client_id (PublicKey_Ed25519 1)))"
        "client_id (PublicKey_Ed25519 1)" "[1]", OF demo_crypto_ok keys]
    by (simp add: client_id_def del: SafeKey_sign.simps)
qed

section \<open>Public identities on the wire\<close>

lemma client_content_addressed:
  assumes "bincode_ok ser de"
  shows "content_addressed client_id cp_public_key (ClientPublicId_serialize ser) (ClientPublicId_deserialize de) ser de"
  using assms
  by unfold_locales
     (auto simp: client_id_def ClientPublicId_serialize_def ClientPublicId_deserialize_def Let_def split: sum.splits)

definition node_id :: "Ed25519PublicKey \<times> BlsPublicKeyShare option \<Rightarrow> NodePublicId" where
  "node_id = (\<lambda>(ed25519, bls). \<lparr>np_name = ed25519, np_ed25519 = ed25519, np_bls = bls\<rparr>)"

lemma node_content_addressed:
  assumes "bincode_ok ser de"
  shows "content_addressed node_id (\<lambda>i. (np_ed25519 i, np_bls i)) (NodePublicId_serialize ser) (NodePublicId_deserialize de) ser de"
  using assms
  by unfold_locales
     (auto simp: node_id_def NodePublicId_serialize_def NodePublicId_deserialize_def Let_def split: sum.splits)

text \<open>Keys in unary after a tag, for the concrete instances.\<close>

definition key_ser :: "PublicKey \<Rightarrow> bytes" where
  "key_ser k = demo_ser ([], k)"

definition key_de :: "bytes \<Rightarrow> string + PublicKey" where
  "key_de bs = and_then (demo_de bs) (\<lambda>(_, k). Ok k)"

definition pair_ser :: "Ed25519PublicKey \<times> BlsPublicKeyShare option \<Rightarrow> bytes" where
  "pair_ser = (\<lambda>(e, b). demo_ser (case b of None \<Rightarrow> [] | Some s \<Rightarrow> key_ser (PublicKey_BlsShare s), PublicKey_Ed25519 e))"

definition pair_de :: "bytes \<Rightarrow> string + Ed25519PublicKey \<times> BlsPublicKeyShare option" where
  "pair_de bs =
     and_then (demo_de bs) (\<lambda>(v, k). case k of
        PublicKey_Ed25519 e \<Rightarrow>
          (if v = [] then Ok (e, None)
           else and_then (key_de v) (\<lambda>b. case b of PublicKey_BlsShare s \<Rightarrow> Ok (e, Some s) | _ \<Rightarrow> Err ''share''))
      | _ \<Rightarrow> Err ''key'')"

lemma key_codec: "bincode_ok key_ser key_de"
  using demo_codec by (simp add: bincode_ok_def key_ser_def key_de_def)

lemma pair_codec: "bincode_ok pair_ser pair_de"
  using demo_codec key_codec
  by (auto simp: bincode_ok_def pair_ser_def pair_de_def split: option.splits)
     (simp add: key_ser_def demo_ser_def)

text \<open>A text encoding with one character per byte.\<close>

definition demo_multibase :: "unit Multibase" where
  "demo_multibase = \<lparr>mb_Base32z = (), mb_encode = (\<lambda>_ x. map (\<lambda>b. char_of (unat b)) x),
     mb_decode = (\<lambda>s. Ok ((), map (\<lambda>c. word_of_nat (of_char c)) s)), mb_debug = (\<lambda>_. [])\<rparr>"

lemma byte_mod: "word_of_nat (unat b mod 256) = (b :: u8)"
proof -
  have "unat b < 256" using unsigned_less [of b, where 'a = nat] by simp
  then show ?thesis by simp
qed

lemma demo_multibase_ok: "multibase_ok demo_multibase"
  by (simp add: multibase_ok_def demo_multibase_def comp_def byte_mod)

interpretation demo_client_id: content_addressed client_id cp_public_key
    "ClientPublicId_serialize key_ser" "ClientPublicId_deserialize key_de" key_ser key_de
  by (rule client_content_addressed [OF key_codec])

interpretation demo_node_id: content_addressed node_id "\<lambda>i. (np_ed25519 i, np_bls i)"
    "NodePublicId_serialize pair_ser" "NodePublicId_deserialize pair_de" pair_ser pair_de
  by (rule node_content_addressed [OF pair_codec])

lemma node_id_built: "node_id_wf i \<longleftrightarrow> i = node_id (np_ed25519 i, np_bls i)"
  by (cases i) (simp add: node_id_wf_def node_id_def)

text \<open>
  C32: Names cannot be forged on the wire: whatever the bytes, a client or node identity that
  deserialises carries the name computed from its key, because the name is not transmitted; an
  identity with the computed name survives the round trip, in binary and in z-base-32, and one with
  any other name does not.
\<close>

theorem public_id_serde:
  assumes "bincode_ok ser de" "bincode_ok ser' de'" "multibase_ok mb"
  shows "(ClientPublicId_deserialize de bs = Ok c \<longrightarrow> cp_name c = PublicKey_to_xorname (cp_public_key c)) \<and>
    (NodePublicId_deserialize de' bs = Ok n \<longrightarrow> np_name n = PublicKey_to_xorname (PublicKey_Ed25519 (np_ed25519 n))) \<and>
    (ClientPublicId_deserialize de (ClientPublicId_serialize ser c') = Ok c') = (cp_name c' = PublicKey_to_xorname (cp_public_key c')) \<and>
    (NodePublicId_deserialize de' (NodePublicId_serialize ser' n') = Ok n') = (np_name n' = np_ed25519 n') \<and>
    ClientPublicId_decode_from_zbase32 mb de (ClientPublicId_encode_to_zbase32 mb ser (client_id k)) = Ok (client_id k)"
proof -
  note A = client_content_addressed [OF assms(1)] and B = node_content_addressed [OF assms(2)]
  have c: "cp_name c' = PublicKey_to_xorname (cp_public_key c') \<longleftrightarrow> c' = client_id (cp_public_key c')" for c'
    by (cases c') (simp add: client_id_def)
  have "ClientPublicId_decode_from_zbase32 mb de (ClientPublicId_encode_to_zbase32 mb ser (client_id k)) = Ok (client_id k)"
    using assms(3) content_addressed.reread [OF A, of "client_id k"]
    by (simp add: ClientPublicId_decode_from_zbase32_def ClientPublicId_encode_to_zbase32_def encode_def decode_def
        multibase_ok_def serialise_def client_id_def)
  then show ?thesis
    using content_addressed.read_is_built [OF A, of bs c] content_addressed.built_iff_reread [OF A, of c']
      content_addressed.read_is_built [OF B, of bs n] content_addressed.built_iff_reread [OF B, of n']
      content_addressed.built_def [OF A] content_addressed.built_def [OF B] node_id_built
    by (simp add: c node_id_wf_def)
qed

theorem public_id_serde_witness:
  "ClientPublicId_deserialize key_de (ClientPublicId_serialize key_ser \<lparr>cp_name = 1, cp_public_key = PublicKey_Ed25519 2\<rparr>) \<noteq>
     Ok \<lparr>cp_name = 1, cp_public_key = PublicKey_Ed25519 2\<rparr>"
  using public_id_serde [OF key_codec pair_codec demo_multibase_ok, of "[]" "client_id (PublicKey_Bls 1)"
      "node_id (0, None)" "\<lparr>cp_name = 1, cp_public_key = PublicKey_Ed25519 2\<rparr>" "node_id (0, None)"]
  by simp

section \<open>Promotion and demotion of a node\<close>

datatype NodeChange = Promote usize BlsSecretKeyShare PublicKeySet | Demote

fun node_step :: "Crypto \<Rightarrow> NodeChange \<Rightarrow> NodeKeypairs \<Rightarrow> NodeKeypairs" where
  "node_step C (Promote index share pks) n = NodeKeypairs_set_bls_keys C n index share pks"
| "node_step C Demote n = NodeKeypairs_clear_bls_keys n"

lemma node_step_wf: "node_wf C n \<Longrightarrow> node_wf C (node_step C e n)"
  by (cases e) (auto simp: node_wf_def node_id_wf_def NodeKeypairs_set_bls_keys_def NodeKeypairs_clear_bls_keys_def Let_def)

lemma node_step_keeps:
  "nk_ed25519 (node_step C e n) = nk_ed25519 n" "np_name (nk_public_id (node_step C e n)) = np_name (nk_public_id n)"
  by (cases e; simp add: NodeKeypairs_set_bls_keys_def NodeKeypairs_clear_bls_keys_def Let_def)+

lemma node_steps:
  "node_wf C n \<Longrightarrow>
     node_wf C (fold (node_step C) es n) \<and> nk_ed25519 (fold (node_step C) es n) = nk_ed25519 n \<and>
     np_name (nk_public_id (fold (node_step C) es n)) = np_name (nk_public_id n)"
  by (induction es arbitrary: n) (simp_all add: node_step_wf node_step_keeps)

lemma node_new_wf:
  "ed_public (fst (gen rng)) = ed25519_public C (ed_secret (fst (gen rng))) \<Longrightarrow> node_wf C (fst (NodeKeypairs_new gen rng))"
  by (simp add: node_wf_def node_id_wf_def NodeKeypairs_new_def split_beta Let_def)

text \<open>
  C23: A node through any sequence of promotions and demotions: its name and Ed25519 key never change,
  what it signs always verifies under the key it shows at the time (the share key exactly while
  promoted), and its Ed25519 signatures verify under its public identity all along. A promotion
  shows the public key of the share given, and a demotion restores the Ed25519 key.
\<close>

theorem node_lifecycle:
  assumes "crypto_ok C" "ed_public (fst (gen rng)) = ed25519_public C (ed_secret (fst (gen rng)))"
    and "n0 = fst (NodeKeypairs_new gen rng)" "n = fold (node_step C) es n0"
  shows "np_name (nk_public_id n) = PublicKey_to_xorname (PublicKey_Ed25519 (ed_public (nk_ed25519 n0))) \<and>
    PublicKey_verify C (NodeKeypairs_public_key n) (NodeKeypairs_sign C n d) d = Ok () \<and>
    PublicKey_verify C (PublicId_public_key (PublicId_Node (nk_public_id n))) (NodeKeypairs_sign_using_ed25519 C n d) d = Ok () \<and>
    (NodeKeypairs_public_key n = PublicKey_Ed25519 (ed_public (nk_ed25519 n0))) = (nk_bls n = None) \<and>
    NodeKeypairs_public_key (NodeKeypairs_set_bls_keys C n i sk pks) = PublicKey_BlsShare (share_public_key C sk) \<and>
    NodeKeypairs_public_key (NodeKeypairs_clear_bls_keys n) = PublicKey_Ed25519 (ed_public (nk_ed25519 n0))"
proof -
  have n0: "node_wf C n0" using assms(2,3) by (simp add: node_new_wf)
  have n: "node_wf C n" "nk_ed25519 n = nk_ed25519 n0" "np_name (nk_public_id n) = np_name (nk_public_id n0)"
    using node_steps [OF n0, of es] by (simp_all add: assms(4))
  have name: "np_name (nk_public_id n) = PublicKey_to_xorname (PublicKey_Ed25519 (ed_public (nk_ed25519 n0)))"
    using n0 by (simp add: n(3) node_wf_def node_id_wf_def)
  have key: "(NodeKeypairs_public_key n = PublicKey_Ed25519 (ed_public (nk_ed25519 n0))) = (nk_bls n = None)"
    using n(1) by (auto simp: n(2) node_wf_def NodeKeypairs_public_key_def split: option.split)
  have "NodeKeypairs_public_key (NodeKeypairs_clear_bls_keys n) = PublicKey_Ed25519 (ed_public (nk_ed25519 n0))"
    using n(1,2) by (simp add: node_wf_def NodeKeypairs_public_key_def NodeKeypairs_clear_bls_keys_def)
  then show ?thesis
    using name key crypto_laws.node_signs [OF crypto_laws.intro [OF assms(1)] n(1), of d]
      crypto_laws.node_signs_ed25519 [OF crypto_laws.intro [OF assms(1)] n(1), of d]
    by (simp add: NodeKeypairs_public_key_def NodeKeypairs_set_bls_keys_def Let_def)
qed

theorem node_lifecycle_witness:
  "PublicKey_verify demo_crypto
     (NodeKeypairs_public_key (fold (node_step demo_crypto) [Promote 2 5 [], Demote, Promote 3 6 []]
        (fst (NodeKeypairs_new (\<lambda>r. (\<lparr>ed_secret = 1, ed_public = 2\<rparr>, r)) ()))))
     (NodeKeypairs_sign demo_crypto (fold (node_step demo_crypto) [Promote 2 5 [], Demote, Promote 3 6 []]
        (fst (NodeKeypairs_new (\<lambda>r. (\<lparr>ed_secret = 1, ed_public = 2\<rparr>, r)) ()))) [1]) [1] = Ok ()"
  by (rule node_lifecycle [where C = demo_crypto and gen = "\<lambda>r. (\<lparr>ed_secret = 1, ed_public = 2\<rparr>, r)" and rng = "()",
        OF demo_crypto_ok _ refl refl, THEN conjunct2, THEN conjunct1])
     (simp add: demo_crypto_def)

text \<open>
  C39: Setting the BLS keys of a \<open>FullId\<close> always stores index 0 with the share, whatever the position of
  the share in the key set, so every BLS signature of a \<open>FullId\<close> carries index 0 and says nothing of
  which member signed; \<open>NodeKeypairs\<close> stores the index it is given. Clearing undoes the setting.
\<close>

theorem full_id_share_index:
  "NodeFullId_sign_using_bls C (NodeFullId_set_bls_keys C n sk pks) d =
     Some (Signature_BlsShare \<lparr>ss_index = 0, ss_share = share_sign C sk d\<rparr>) \<and>
   NodeKeypairs_sign_using_bls C (NodeKeypairs_set_bls_keys C k index sk pks) d =
     Some (Signature_BlsShare \<lparr>ss_index = index, ss_share = share_sign C sk d\<rparr>) \<and>
   NodeKeypairs_public_key_set (NodeKeypairs_set_bls_keys C k index sk pks) = Some pks \<and>
   NodeFullId_clear_bls_keys (NodeFullId_set_bls_keys C n sk pks) = NodeFullId_clear_bls_keys n \<and>
   NodeFullId_sign_using_bls C (NodeFullId_clear_bls_keys n) d = None"
  by (simp add: NodeFullId_sign_using_bls_def NodeFullId_set_bls_keys_def NodeKeypairs_sign_using_bls_def
      NodeKeypairs_set_bls_keys_def NodeFullId_clear_bls_keys_def NodeKeypairs_public_key_set_def Let_def)

section \<open>Searching a name in a range\<close>

text \<open>The keys a generator produces one after the other, and the generator after them.\<close>

fun gen_after :: "('r \<Rightarrow> 'k \<times> 'r) \<Rightarrow> nat \<Rightarrow> 'r \<Rightarrow> 'r" where
  "gen_after gen 0 rng = rng"
| "gen_after gen (Suc n) rng = gen_after gen n (snd (gen rng))"

definition gen_nth :: "('r \<Rightarrow> 'k \<times> 'r) \<Rightarrow> nat \<Rightarrow> 'r \<Rightarrow> 'k" where
  "gen_nth gen n rng = fst (gen (gen_after gen n rng))"

definition in_name_range :: "XorName \<Rightarrow> XorName \<Rightarrow> Ed25519Keypair \<Rightarrow> bool" where
  "in_name_range start fin kp \<longleftrightarrow> start \<le> ed_public kp \<and> ed_public kp \<le> fin"

text \<open>The shape of both loops: retry until the key at hand is in the range.\<close>

locale range_search =
  fixes loop :: "XorName \<Rightarrow> XorName \<Rightarrow> Ed25519Keypair \<Rightarrow> 'r \<Rightarrow> ('n \<times> 'r) option"
    and make :: "Ed25519Keypair \<Rightarrow> 'n"
    and gen :: "'r \<Rightarrow> Ed25519Keypair \<times> 'r"
  assumes unfold: "loop start fin kp rng =
      (if in_name_range start fin kp then Some (make kp, rng) else loop start fin (fst (gen rng)) (snd (gen rng)))"
    and only: "loop start fin kp rng = Some y \<Longrightarrow>
      in_name_range start fin kp \<or> (\<exists>i. in_name_range start fin (gen_nth gen i rng))"
begin

lemma finds:
  assumes "in_name_range start fin (gen_nth gen i rng)" "\<And>j. j < i \<Longrightarrow> \<not> in_name_range start fin (gen_nth gen j rng)"
  shows "loop start fin (fst (gen rng)) (snd (gen rng)) = Some (make (gen_nth gen i rng), gen_after gen (Suc i) rng)"
  using assms
proof (induction i arbitrary: rng)
  case 0
  then show ?case by (simp add: unfold [of start fin "fst (gen rng)"] gen_nth_def)
next
  case (Suc i)
  have "\<not> in_name_range start fin (fst (gen rng))" using Suc.prems(2) [of 0] by (simp add: gen_nth_def)
  moreover have "\<not> in_name_range start fin (gen_nth gen j (snd (gen rng)))" if "j < i" for j
    using Suc.prems(2) [of "Suc j"] that by (simp add: gen_nth_def)
  moreover have "in_name_range start fin (gen_nth gen i (snd (gen rng)))" using Suc.prems(1) by (simp add: gen_nth_def)
  ultimately show ?case
    using Suc.IH [of "snd (gen rng)"] by (simp add: unfold [of start fin "fst (gen rng)"] gen_nth_def)
qed

lemma search_spec:
  "loop start fin (fst (gen rng)) (snd (gen rng)) =
     (if \<exists>i. in_name_range start fin (gen_nth gen i rng)
      then (let i = LEAST i. in_name_range start fin (gen_nth gen i rng)
            in Some (make (gen_nth gen i rng), gen_after gen (Suc i) rng))
      else None)"
proof (cases "\<exists>i. in_name_range start fin (gen_nth gen i rng)")
  case True
  then have "in_name_range start fin (gen_nth gen (LEAST i. in_name_range start fin (gen_nth gen i rng)) rng)"
    by (rule LeastI_ex)
  moreover have "\<And>j. j < (LEAST i. in_name_range start fin (gen_nth gen i rng)) \<Longrightarrow>
      \<not> in_name_range start fin (gen_nth gen j rng)"
    by (rule not_less_Least)
  ultimately have "loop start fin (fst (gen rng)) (snd (gen rng)) =
      Some (make (gen_nth gen (LEAST i. in_name_range start fin (gen_nth gen i rng)) rng),
        gen_after gen (Suc (LEAST i. in_name_range start fin (gen_nth gen i rng))) rng)"
    by (rule finds)
  with True show ?thesis by (simp add: Let_def)
next
  case False
  then have "\<not> in_name_range start fin (fst (gen rng))" "\<not> (\<exists>i. in_name_range start fin (gen_nth gen i (snd (gen rng))))"
    by (auto simp: gen_nth_def dest: spec [of _ "0 :: nat"] spec [of _ "Suc _"])
  with False show ?thesis
    using only [of start fin "fst (gen rng)" "snd (gen rng)"]
    by (cases "loop start fin (fst (gen rng)) (snd (gen rng))") auto
qed

end

definition node_full_id :: "Ed25519Keypair \<Rightarrow> NodeFullId" where
  "node_full_id kp = \<lparr>nf_ed25519 = kp, nf_bls = None, nf_public_id = node_id (ed_public kp, None)\<rparr>"

definition node_keypairs :: "Ed25519Keypair \<Rightarrow> NodeKeypairs" where
  "node_keypairs kp = \<lparr>nk_ed25519 = kp, nk_bls = None, nk_public_id = node_id (ed_public kp, None)\<rparr>"

lemma later: "in_name_range start fin (fst (gen rng)) \<or> (\<exists>i. in_name_range start fin (gen_nth gen i (snd (gen rng)))) \<Longrightarrow>
    \<exists>i. in_name_range start fin (gen_nth gen i rng)"
  unfolding gen_nth_def by (metis gen_after.simps)

lemma full_id_only:
  assumes "NodeFullId_range_loop gen start fin kp rng = Some y"
  shows "in_name_range start fin kp \<or> (\<exists>i. in_name_range start fin (gen_nth gen i rng))"
proof (rule NodeFullId_range_loop.raw_induct [OF _ assms, where P =
      "\<lambda>gen start fin kp rng _. in_name_range start fin kp \<or> (\<exists>i. in_name_range start fin (gen_nth gen i rng))"])
  fix loop gen start fin kp rng y
  assume IH: "\<And>gen start fin kp rng y. loop gen start fin kp rng = Some y \<Longrightarrow>
      in_name_range start fin kp \<or> (\<exists>i. in_name_range start fin (gen_nth gen i rng))"
    and body: "(let name = PublicKey_to_xorname (PublicKey_Ed25519 (ed_public kp)) in
       if start \<le> name \<and> name \<le> fin then Some (\<lparr>nf_ed25519 = kp, nf_bls = None,
             nf_public_id = \<lparr>np_name = name, np_ed25519 = ed_public kp, np_bls = None\<rparr>\<rparr>, rng)
       else loop gen start fin (fst (gen rng)) (snd (gen rng))) = Some y"
  show "in_name_range start fin kp \<or> (\<exists>i. in_name_range start fin (gen_nth gen i rng))"
  proof (cases "in_name_range start fin kp")
    case False
    then have "loop gen start fin (fst (gen rng)) (snd (gen rng)) = Some y"
      using body by (simp add: in_name_range_def Let_def split: if_splits)
    then show ?thesis using later [OF IH] by blast
  qed simp
qed

lemma keypairs_only:
  assumes "NodeKeypairs_range_loop gen start fin kp rng = Some y"
  shows "in_name_range start fin kp \<or> (\<exists>i. in_name_range start fin (gen_nth gen i rng))"
proof (rule NodeKeypairs_range_loop.raw_induct [OF _ assms, where P =
      "\<lambda>gen start fin kp rng _. in_name_range start fin kp \<or> (\<exists>i. in_name_range start fin (gen_nth gen i rng))"])
  fix loop gen start fin kp rng y
  assume IH: "\<And>gen start fin kp rng y. loop gen start fin kp rng = Some y \<Longrightarrow>
      in_name_range start fin kp \<or> (\<exists>i. in_name_range start fin (gen_nth gen i rng))"
    and body: "(let name = PublicKey_to_xorname (PublicKey_Ed25519 (ed_public kp)) in
       if start \<le> name \<and> name \<le> fin then Some (\<lparr>nk_ed25519 = kp, nk_bls = None,
             nk_public_id = \<lparr>np_name = name, np_ed25519 = ed_public kp, np_bls = None\<rparr>\<rparr>, rng)
       else loop gen start fin (fst (gen rng)) (snd (gen rng))) = Some y"
  show "in_name_range start fin kp \<or> (\<exists>i. in_name_range start fin (gen_nth gen i rng))"
  proof (cases "in_name_range start fin kp")
    case False
    then have "loop gen start fin (fst (gen rng)) (snd (gen rng)) = Some y"
      using body by (simp add: in_name_range_def Let_def split: if_splits)
    then show ?thesis using later [OF IH] by blast
  qed simp
qed

interpretation full_id_search: range_search "NodeFullId_range_loop gen" node_full_id gen for gen
proof
  show "NodeFullId_range_loop gen start fin kp rng =
      (if in_name_range start fin kp then Some (node_full_id kp, rng)
       else NodeFullId_range_loop gen start fin (fst (gen rng)) (snd (gen rng)))" for start fin kp rng
    by (subst NodeFullId_range_loop.simps) (simp add: in_name_range_def node_full_id_def node_id_def Let_def)
qed (rule full_id_only)

interpretation keypairs_search: range_search "NodeKeypairs_range_loop gen" node_keypairs gen for gen
proof
  show "NodeKeypairs_range_loop gen start fin kp rng =
      (if in_name_range start fin kp then Some (node_keypairs kp, rng)
       else NodeKeypairs_range_loop gen start fin (fst (gen rng)) (snd (gen rng)))" for start fin kp rng
    by (subst NodeKeypairs_range_loop.simps) (simp add: in_name_range_def node_keypairs_def node_id_def Let_def)
qed (rule keypairs_only)

text \<open>
  C24: The search for a name in a range, of both structs: it returns exactly when the generator ever
  produces a key whose name is in the closed interval, and then it returns the first such key, with
  the matching name and without BLS keys, and leaves the generator right after it. With an empty
  interval it never returns.
\<close>

theorem within_range_spec:
  "NodeFullId_within_range gen start fin rng =
     (if \<exists>i. in_name_range start fin (gen_nth gen i rng)
      then (let i = LEAST i. in_name_range start fin (gen_nth gen i rng)
            in Some (node_full_id (gen_nth gen i rng), gen_after gen (Suc i) rng))
      else None) \<and>
   NodeKeypairs_within_range gen start fin rng =
     (if \<exists>i. in_name_range start fin (gen_nth gen i rng)
      then (let i = LEAST i. in_name_range start fin (gen_nth gen i rng)
            in Some (node_keypairs (gen_nth gen i rng), gen_after gen (Suc i) rng))
      else None) \<and>
   (start \<le> fin \<or> NodeFullId_within_range gen start fin rng = None)"
proof -
  have "start \<le> fin \<or> NodeFullId_within_range gen start fin rng = None"
  proof (cases "start \<le> fin")
    case False
    then have "\<not> (\<exists>i. in_name_range start fin (gen_nth gen i rng))" by (auto simp: in_name_range_def)
    then show ?thesis by (simp add: NodeFullId_within_range_def full_id_search.search_spec)
  qed simp
  then show ?thesis
    unfolding NodeKeypairs_within_range_def keypairs_search.search_spec
    by (intro conjI refl) (simp only: NodeFullId_within_range_def full_id_search.search_spec)
qed

end
