(* ===== verification/Envelope.thy ===== *)
theory Envelope
  imports Requests
begin

text \<open>
  Messages and their envelopes (src/src/messaging: mod.rs, network.rs, duty.rs, and
  \<open>verify\_signature\<close> of src/src/utils.rs): a message travels with the proof of its sender and of the
  proxies it passed, each of which signed the envelope it received; the envelope computes where it is
  to go next. \<open>ser\_msg\<close> and \<open>ser\_env\<close> are the serialisations of the crate bincode.
\<close>

section \<open>Duties and addresses\<close>

datatype NodeDuties = NodeDuties_NodeConfig

datatype AdultDuties = AdultDuties_ChunkStorage

datatype ElderDuties =
    ElderDuties_Gateway
  | ElderDuties_Metadata
  | ElderDuties_Payment
  | ElderDuties_Transfer
  | ElderDuties_Rewards

datatype Duty = Duty_Adult AdultDuties | Duty_Elder ElderDuties | Duty_Node NodeDuties

datatype Address = Address_Client XorName | Address_Node XorName | Address_Section XorName

fun Address_xorname :: "Address \<Rightarrow> XorName" where
  "Address_xorname (Address_Client xorname) = xorname"
| "Address_xorname (Address_Node xorname) = xorname"
| "Address_xorname (Address_Section xorname) = xorname"

section \<open>Messages between nodes\<close>

datatype NodeSystemCmd = NodeSystemCmd_RegisterWallet PublicKey XorName

datatype NodeTransferCmd =
    NodeTransferCmd_PropagateTransfer DebitAgreementProof
  | NodeTransferCmd_ValidateSectionPayout SignedTransfer
  | NodeTransferCmd_RegisterSectionPayout DebitAgreementProof

datatype NodeDataCmd = NodeDataCmd_DuplicateChunk XorName BlobAddress "XorName BTreeSet"

datatype NodeCmd =
    NodeCmd_System NodeSystemCmd
  | NodeCmd_Data NodeDataCmd
  | NodeCmd_Transfers NodeTransferCmd

datatype NodeEvent =
    NodeEvent_DuplicationComplete BlobAddress Signature
  | NodeEvent_SectionPayoutValidated TransferValidated

datatype NodeRewardQuery = NodeRewardQuery_GetAccountId XorName XorName

datatype NodeTransferQuery = NodeTransferQuery_GetReplicaEvents PublicKey

datatype NodeDataQuery =
    NodeDataQuery_GetChunk XorName BlobAddress
  | NodeDataQuery_GetChunks XorName "BlobAddress BTreeSet"

datatype NodeQuery =
    NodeQuery_Data NodeDataQuery
  | NodeQuery_Rewards NodeRewardQuery
  | NodeQuery_Transfers NodeTransferQuery

datatype NodeRewardQueryResponse = NodeRewardQueryResponse_GetAccountId "(PublicKey \<times> XorName) Result"

datatype NodeTransferQueryResponse = NodeTransferQueryResponse_GetReplicaEvents "ReplicaEvent list Result"

datatype NodeDataQueryResponse =
    NodeDataQueryResponse_GetChunk "Blob Result"
  | NodeDataQueryResponse_GetChunks "Blob list Result"

datatype NodeQueryResponse =
    NodeQueryResponse_Data NodeDataQueryResponse
  | NodeQueryResponse_Rewards NodeRewardQueryResponse
  | NodeQueryResponse_Transfers NodeTransferQueryResponse

datatype NodeDataError = NodeDataError_ChunkDuplication BlobAddress Error

datatype NodeTransferError = NodeTransferError_TransferPropagation Error

datatype NodeRewardError =
    NodeRewardError_RewardClaiming AccountId Error
  | NodeRewardError_RewardPayoutInitiation TransferId AccountId Error
  | NodeRewardError_RewardPayoutFinalisation TransferId AccountId Error

datatype NodeCmdError =
    NodeCmdError_Data NodeDataError
  | NodeCmdError_Rewards NodeRewardError
  | NodeCmdError_Transfers NodeTransferError

fun NodeCmd_dst_address :: "NodeCmd \<Rightarrow> Address" where
  "NodeCmd_dst_address (NodeCmd_System (NodeSystemCmd_RegisterWallet _ section)) = Address_Section section"
| "NodeCmd_dst_address (NodeCmd_Data (NodeDataCmd_DuplicateChunk new_holder _ _)) = Address_Node new_holder"
| "NodeCmd_dst_address (NodeCmd_Transfers (NodeTransferCmd_ValidateSectionPayout signed_transfer)) =
     Address_Section (PublicKey_to_xorname (SignedTransfer_from signed_transfer))"
| "NodeCmd_dst_address (NodeCmd_Transfers (NodeTransferCmd_RegisterSectionPayout debit_agreement)) =
     Address_Section (PublicKey_to_xorname (DebitAgreementProof_from debit_agreement))"
| "NodeCmd_dst_address (NodeCmd_Transfers (NodeTransferCmd_PropagateTransfer debit_agreement)) =
     Address_Section (PublicKey_to_xorname (DebitAgreementProof_to debit_agreement))"

fun NodeEvent_dst_address :: "NodeEvent \<Rightarrow> Address" where
  "NodeEvent_dst_address (NodeEvent_DuplicationComplete chunk _) = Address_Section (BlobAddress_name chunk)"
| "NodeEvent_dst_address (NodeEvent_SectionPayoutValidated event) =
     Address_Section (PublicKey_to_xorname (TransferValidated_from event))"

fun NodeQuery_dst_address :: "NodeQuery \<Rightarrow> Address" where
  "NodeQuery_dst_address (NodeQuery_Data (NodeDataQuery_GetChunk holder _)) = Address_Node holder"
| "NodeQuery_dst_address (NodeQuery_Data (NodeDataQuery_GetChunks holder _)) = Address_Node holder"
| "NodeQuery_dst_address (NodeQuery_Transfers (NodeTransferQuery_GetReplicaEvents section_key)) =
     Address_Section (PublicKey_to_xorname section_key)"
| "NodeQuery_dst_address (NodeQuery_Rewards (NodeRewardQuery_GetAccountId old_node_id _)) = Address_Section old_node_id"

section \<open>Messages\<close>

datatype MessageId = MessageId XorName

definition MessageId_new :: "('r \<Rightarrow> XorName \<times> 'r) \<Rightarrow> 'r \<Rightarrow> MessageId \<times> 'r" where
  "MessageId_new random rng = apfst MessageId (random rng)"

definition MessageId_default :: "('r \<Rightarrow> XorName \<times> 'r) \<Rightarrow> 'r \<Rightarrow> MessageId \<times> 'r" where
  "MessageId_default random rng = MessageId_new random rng"

datatype ('c, 'o) Message =
    Message_Cmd "('c, 'o) Cmd" MessageId
  | Message_Query Query MessageId
  | Message_Event Event MessageId MessageId
  | Message_QueryResponse "'c QueryResponse" MessageId MessageId Address
  | Message_CmdError CmdError MessageId MessageId Address
  | Message_NodeCmd NodeCmd MessageId
  | Message_NodeCmdError NodeCmdError MessageId MessageId Address
  | Message_NodeEvent NodeEvent MessageId MessageId
  | Message_NodeQuery NodeQuery MessageId
  | Message_NodeQueryResponse NodeQueryResponse MessageId MessageId Address

fun Message_id :: "('c, 'o) Message \<Rightarrow> MessageId" where
  "Message_id (Message_Cmd _ msg_id) = msg_id"
| "Message_id (Message_Query _ msg_id) = msg_id"
| "Message_id (Message_Event _ msg_id _) = msg_id"
| "Message_id (Message_QueryResponse _ msg_id _ _) = msg_id"
| "Message_id (Message_CmdError _ msg_id _ _) = msg_id"
| "Message_id (Message_NodeCmd _ msg_id) = msg_id"
| "Message_id (Message_NodeEvent _ msg_id _) = msg_id"
| "Message_id (Message_NodeQuery _ msg_id) = msg_id"
| "Message_id (Message_NodeCmdError _ msg_id _ _) = msg_id"
| "Message_id (Message_NodeQueryResponse _ msg_id _ _) = msg_id"

definition verify_signature ::
    "Crypto \<Rightarrow> (('c, 'o) Message \<times> MessageId \<Rightarrow> bytes) \<Rightarrow> Signature \<Rightarrow> PublicKey \<Rightarrow> ('c, 'o) Message \<Rightarrow> MessageId \<Rightarrow> unit Result" where
  "verify_signature C ser signature public_key request message_id =
     (let message = serialise ser (request, message_id) in PublicKey_verify C public_key signature message)"

section \<open>Senders and envelopes\<close>

datatype MsgSender =
    MsgSender_Client Proof
  | MsgSender_Node Duty Proof
  | MsgSender_Section Duty BlsProof

fun MsgSender_id :: "Crypto \<Rightarrow> MsgSender \<Rightarrow> PublicKey" where
  "MsgSender_id C (MsgSender_Client proof) = Proof_id C proof"
| "MsgSender_id C (MsgSender_Node _ proof) = Proof_id C proof"
| "MsgSender_id C (MsgSender_Section _ proof) = BlsProof_id proof"

fun MsgSender_address :: "Crypto \<Rightarrow> MsgSender \<Rightarrow> Address" where
  "MsgSender_address C (MsgSender_Client proof) = Address_Client (PublicKey_to_xorname (MsgSender_id C (MsgSender_Client proof)))"
| "MsgSender_address C (MsgSender_Node duty proof) = Address_Node (PublicKey_to_xorname (MsgSender_id C (MsgSender_Node duty proof)))"
| "MsgSender_address C (MsgSender_Section duty proof) =
     Address_Section (PublicKey_to_xorname (MsgSender_id C (MsgSender_Section duty proof)))"

fun MsgSender_signature :: "MsgSender \<Rightarrow> Signature" where
  "MsgSender_signature (MsgSender_Client proof) = Proof_signature proof"
| "MsgSender_signature (MsgSender_Node _ proof) = Proof_signature proof"
| "MsgSender_signature (MsgSender_Section _ proof) = BlsProof_signature proof"

record ('c, 'o) MsgEnvelope =
  me_message :: "('c, 'o) Message"
  me_origin :: MsgSender
  me_proxies :: "MsgSender list"

definition MsgEnvelope_id :: "('c, 'o) MsgEnvelope \<Rightarrow> MessageId" where
  "MsgEnvelope_id self = Message_id (me_message self)"

definition MsgEnvelope_most_recent_sender :: "('c, 'o) MsgEnvelope \<Rightarrow> MsgSender" where
  "MsgEnvelope_most_recent_sender self =
     (if me_proxies self = [] then me_origin self else last (me_proxies self))"

text \<open>\<open>pop\<close> on a vector drops its last element.\<close>

definition MsgEnvelope_verify ::
    "Crypto \<Rightarrow> (('c, 'o) Message \<Rightarrow> bytes) \<Rightarrow> (('c, 'o) MsgEnvelope \<Rightarrow> bytes) \<Rightarrow> ('c, 'o) MsgEnvelope \<Rightarrow> bool" where
  "MsgEnvelope_verify C ser_msg ser_env self =
     (let data = (if me_proxies self = [] then serialise ser_msg (me_message self)
                  else (let msg = self\<lparr>me_proxies := butlast (me_proxies self)\<rparr> in serialise ser_env msg));
          signer = MsgEnvelope_most_recent_sender self
      in is_ok (PublicKey_verify C (MsgSender_id C signer) (MsgSender_signature signer) data))"

definition MsgEnvelope_with_proxy :: "('c, 'o) MsgEnvelope \<Rightarrow> MsgSender \<Rightarrow> ('c, 'o) MsgEnvelope" where
  "MsgEnvelope_with_proxy self proxy = self\<lparr>me_proxies := me_proxies self @ [proxy]\<rparr>"

definition MsgEnvelope_cmd_dst :: "Crypto \<Rightarrow> ('c, 'o) MsgEnvelope \<Rightarrow> ('c, 'o) Cmd \<Rightarrow> Address" where
  "MsgEnvelope_cmd_dst C self cmd =
     (case cmd of
        Cmd_Auth _ \<Rightarrow> Address_Section (PublicKey_to_xorname (MsgSender_id C (me_origin self)))
      | Cmd_Transfer c \<Rightarrow> Address_Section (TransferCmd_dst_address c)
      | Cmd_Data cmd payment \<Rightarrow>
          (case MsgEnvelope_most_recent_sender self of
             MsgSender_Client _ \<Rightarrow> Address_Section (PublicKey_to_xorname (MsgSender_id C (me_origin self)))
           | MsgSender_Node (Duty_Elder ElderDuties_Gateway) _ \<Rightarrow>
               Address_Section (PublicKey_to_xorname (DebitAgreementProof_from payment))
           | MsgSender_Node (Duty_Elder ElderDuties_Payment) _ \<Rightarrow> Address_Section (DataCmd_dst_address cmd)
           | MsgSender_Section (Duty_Elder ElderDuties_Payment) _ \<Rightarrow> Address_Section (DataCmd_dst_address cmd)
           | _ \<Rightarrow> Address_Section (PublicKey_to_xorname (MsgSender_id C (me_origin self)))))"

definition MsgEnvelope_destination :: "Crypto \<Rightarrow> ('c, 'o) MsgEnvelope \<Rightarrow> Address" where
  "MsgEnvelope_destination C self =
     (case me_message self of
        Message_Cmd cmd _ \<Rightarrow> MsgEnvelope_cmd_dst C self cmd
      | Message_Query query _ \<Rightarrow> Address_Section (Query_dst_address query)
      | Message_Event event _ _ \<Rightarrow> Address_Client (Event_dst_address event)
      | Message_QueryResponse _ _ _ query_origin \<Rightarrow> query_origin
      | Message_CmdError _ _ _ cmd_origin \<Rightarrow> cmd_origin
      | Message_NodeCmd cmd _ \<Rightarrow> NodeCmd_dst_address cmd
      | Message_NodeEvent event _ _ \<Rightarrow> NodeEvent_dst_address event
      | Message_NodeQuery query _ \<Rightarrow> NodeQuery_dst_address query
      | Message_NodeCmdError _ _ _ cmd_origin \<Rightarrow> cmd_origin
      | Message_NodeQueryResponse _ _ _ query_origin \<Rightarrow> query_origin)"

end
