(* ===== verification/MessagingSpec.thy ===== *)
theory MessagingSpec
  imports Envelope SequenceSpec
begin

text \<open>
  What the messaging layer promises: the error response of a request is the one its issuer can
  convert, authorisation follows the visibility of the data, a request for an object goes to the
  section the object was written to, an envelope verifies exactly when the last hop signed what it
  received, and data commands take the route gateway, payment, metadata.
\<close>

section \<open>Responses and their payload types\<close>

datatype Payload =
    P_Blob
  | P_Map
  | P_u64
  | P_MapEntries
  | P_MapKeys
  | P_MapValues
  | P_MapPermissionSet
  | P_MapPermissions
  | P_MapValue
  | P_Sequence
  | P_SequenceOwner
  | P_SequenceEntries
  | P_SequenceLastEntry
  | P_SequencePermissions
  | P_SequenceUserPermissions
  | P_ReplicaPublicKeySet
  | P_Money
  | P_History
  | P_Account
  | P_AuthKeys

fun response_type :: "'c QueryResponse \<Rightarrow> Payload" where
  "response_type (QueryResponse_GetBlob _) = P_Blob"
| "response_type (QueryResponse_GetMap _) = P_Map"
| "response_type (QueryResponse_GetMapShell _) = P_Map"
| "response_type (QueryResponse_GetMapVersion _) = P_u64"
| "response_type (QueryResponse_ListMapEntries _) = P_MapEntries"
| "response_type (QueryResponse_ListMapKeys _) = P_MapKeys"
| "response_type (QueryResponse_ListMapValues _) = P_MapValues"
| "response_type (QueryResponse_ListMapUserPermissions _) = P_MapPermissionSet"
| "response_type (QueryResponse_ListMapPermissions _) = P_MapPermissions"
| "response_type (QueryResponse_GetMapValue _) = P_MapValue"
| "response_type (QueryResponse_GetSequence _) = P_Sequence"
| "response_type (QueryResponse_GetSequenceOwner _) = P_SequenceOwner"
| "response_type (QueryResponse_GetSequenceRange _) = P_SequenceEntries"
| "response_type (QueryResponse_GetSequenceLastEntry _) = P_SequenceLastEntry"
| "response_type (QueryResponse_GetSequencePermissions _) = P_SequencePermissions"
| "response_type (QueryResponse_GetSequenceUserPermissions _) = P_SequenceUserPermissions"
| "response_type (QueryResponse_GetReplicaKeys _) = P_ReplicaPublicKeySet"
| "response_type (QueryResponse_GetBalance _) = P_Money"
| "response_type (QueryResponse_GetHistory _) = P_History"
| "response_type (QueryResponse_GetAccount _) = P_Account"
| "response_type (QueryResponse_ListAuthKeysAndVersion _) = P_AuthKeys"

text \<open>The error a response carries, if it carries one.\<close>

definition err_of :: "'a Result \<Rightarrow> Error option" where
  "err_of r = (case r of Inl e \<Rightarrow> Some e | Inr _ \<Rightarrow> None)"

fun response_error :: "'c QueryResponse \<Rightarrow> Error option" where
  "response_error (QueryResponse_GetBlob r) = err_of r"
| "response_error (QueryResponse_GetMap r) = err_of r"
| "response_error (QueryResponse_GetMapShell r) = err_of r"
| "response_error (QueryResponse_GetMapVersion r) = err_of r"
| "response_error (QueryResponse_ListMapEntries r) = err_of r"
| "response_error (QueryResponse_ListMapKeys r) = err_of r"
| "response_error (QueryResponse_ListMapValues r) = err_of r"
| "response_error (QueryResponse_ListMapUserPermissions r) = err_of r"
| "response_error (QueryResponse_ListMapPermissions r) = err_of r"
| "response_error (QueryResponse_GetMapValue r) = err_of r"
| "response_error (QueryResponse_GetSequence r) = err_of r"
| "response_error (QueryResponse_GetSequenceOwner r) = err_of r"
| "response_error (QueryResponse_GetSequenceRange r) = err_of r"
| "response_error (QueryResponse_GetSequenceLastEntry r) = err_of r"
| "response_error (QueryResponse_GetSequencePermissions r) = err_of r"
| "response_error (QueryResponse_GetSequenceUserPermissions r) = err_of r"
| "response_error (QueryResponse_GetReplicaKeys r) = err_of r"
| "response_error (QueryResponse_GetBalance r) = err_of r"
| "response_error (QueryResponse_GetHistory r) = err_of r"
| "response_error (QueryResponse_GetAccount r) = err_of r"
| "response_error (QueryResponse_ListAuthKeysAndVersion r) = err_of r"

text \<open>
  The variants of a response by themselves, each with what it carries, and the variant that answers each
  query: it is finer than the type, as a map and its shell are both answered with a \<open>Map\<close>.
\<close>

datatype Variant =
    V_GetBlob
  | V_GetMap
  | V_GetMapShell
  | V_GetMapVersion
  | V_ListMapEntries
  | V_ListMapKeys
  | V_ListMapValues
  | V_ListMapUserPermissions
  | V_ListMapPermissions
  | V_GetMapValue
  | V_GetSequence
  | V_GetSequenceOwner
  | V_GetSequenceRange
  | V_GetSequenceLastEntry
  | V_GetSequencePermissions
  | V_GetSequenceUserPermissions
  | V_GetReplicaKeys
  | V_GetBalance
  | V_GetHistory
  | V_GetAccount
  | V_ListAuthKeysAndVersion

fun response_variant :: "'c QueryResponse \<Rightarrow> Variant" where
  "response_variant (QueryResponse_GetBlob _) = V_GetBlob"
| "response_variant (QueryResponse_GetMap _) = V_GetMap"
| "response_variant (QueryResponse_GetMapShell _) = V_GetMapShell"
| "response_variant (QueryResponse_GetMapVersion _) = V_GetMapVersion"
| "response_variant (QueryResponse_ListMapEntries _) = V_ListMapEntries"
| "response_variant (QueryResponse_ListMapKeys _) = V_ListMapKeys"
| "response_variant (QueryResponse_ListMapValues _) = V_ListMapValues"
| "response_variant (QueryResponse_ListMapUserPermissions _) = V_ListMapUserPermissions"
| "response_variant (QueryResponse_ListMapPermissions _) = V_ListMapPermissions"
| "response_variant (QueryResponse_GetMapValue _) = V_GetMapValue"
| "response_variant (QueryResponse_GetSequence _) = V_GetSequence"
| "response_variant (QueryResponse_GetSequenceOwner _) = V_GetSequenceOwner"
| "response_variant (QueryResponse_GetSequenceRange _) = V_GetSequenceRange"
| "response_variant (QueryResponse_GetSequenceLastEntry _) = V_GetSequenceLastEntry"
| "response_variant (QueryResponse_GetSequencePermissions _) = V_GetSequencePermissions"
| "response_variant (QueryResponse_GetSequenceUserPermissions _) = V_GetSequenceUserPermissions"
| "response_variant (QueryResponse_GetReplicaKeys _) = V_GetReplicaKeys"
| "response_variant (QueryResponse_GetBalance _) = V_GetBalance"
| "response_variant (QueryResponse_GetHistory _) = V_GetHistory"
| "response_variant (QueryResponse_GetAccount _) = V_GetAccount"
| "response_variant (QueryResponse_ListAuthKeysAndVersion _) = V_ListAuthKeysAndVersion"

text \<open>What each query asks for.\<close>

fun query_type :: "Query \<Rightarrow> Payload" where
  "query_type (Query_Auth _) = P_AuthKeys"
| "query_type (Query_Data (DataQuery_Blob _)) = P_Blob"
| "query_type (Query_Data (DataQuery_Account _)) = P_Account"
| "query_type (Query_Data (DataQuery_Map (MapRead_Get _))) = P_Map"
| "query_type (Query_Data (DataQuery_Map (MapRead_GetValue _ _))) = P_MapValue"
| "query_type (Query_Data (DataQuery_Map (MapRead_GetShell _))) = P_Map"
| "query_type (Query_Data (DataQuery_Map (MapRead_GetVersion _))) = P_u64"
| "query_type (Query_Data (DataQuery_Map (MapRead_ListEntries _))) = P_MapEntries"
| "query_type (Query_Data (DataQuery_Map (MapRead_ListKeys _))) = P_MapKeys"
| "query_type (Query_Data (DataQuery_Map (MapRead_ListValues _))) = P_MapValues"
| "query_type (Query_Data (DataQuery_Map (MapRead_ListPermissions _))) = P_MapPermissions"
| "query_type (Query_Data (DataQuery_Map (MapRead_ListUserPermissions _ _))) = P_MapPermissionSet"
| "query_type (Query_Data (DataQuery_Sequence (SequenceRead_Get _))) = P_Sequence"
| "query_type (Query_Data (DataQuery_Sequence (SequenceRead_GetRange _ _))) = P_SequenceEntries"
| "query_type (Query_Data (DataQuery_Sequence (SequenceRead_GetLastEntry _))) = P_SequenceLastEntry"
| "query_type (Query_Data (DataQuery_Sequence (SequenceRead_GetPermissions _))) = P_SequencePermissions"
| "query_type (Query_Data (DataQuery_Sequence (SequenceRead_GetUserPermissions _ _))) = P_SequenceUserPermissions"
| "query_type (Query_Data (DataQuery_Sequence (SequenceRead_GetOwner _))) = P_SequenceOwner"
| "query_type (Query_Transfer (TransferQuery_GetReplicaKeys _)) = P_ReplicaPublicKeySet"
| "query_type (Query_Transfer (TransferQuery_GetBalance _)) = P_Money"
| "query_type (Query_Transfer (TransferQuery_GetHistory _ _)) = P_History"

fun query_variant :: "Query \<Rightarrow> Variant" where
  "query_variant (Query_Auth _) = V_ListAuthKeysAndVersion"
| "query_variant (Query_Data (DataQuery_Blob _)) = V_GetBlob"
| "query_variant (Query_Data (DataQuery_Account _)) = V_GetAccount"
| "query_variant (Query_Data (DataQuery_Map (MapRead_Get _))) = V_GetMap"
| "query_variant (Query_Data (DataQuery_Map (MapRead_GetValue _ _))) = V_GetMapValue"
| "query_variant (Query_Data (DataQuery_Map (MapRead_GetShell _))) = V_GetMapShell"
| "query_variant (Query_Data (DataQuery_Map (MapRead_GetVersion _))) = V_GetMapVersion"
| "query_variant (Query_Data (DataQuery_Map (MapRead_ListEntries _))) = V_ListMapEntries"
| "query_variant (Query_Data (DataQuery_Map (MapRead_ListKeys _))) = V_ListMapKeys"
| "query_variant (Query_Data (DataQuery_Map (MapRead_ListValues _))) = V_ListMapValues"
| "query_variant (Query_Data (DataQuery_Map (MapRead_ListPermissions _))) = V_ListMapPermissions"
| "query_variant (Query_Data (DataQuery_Map (MapRead_ListUserPermissions _ _))) = V_ListMapUserPermissions"
| "query_variant (Query_Data (DataQuery_Sequence (SequenceRead_Get _))) = V_GetSequence"
| "query_variant (Query_Data (DataQuery_Sequence (SequenceRead_GetRange _ _))) = V_GetSequenceRange"
| "query_variant (Query_Data (DataQuery_Sequence (SequenceRead_GetLastEntry _))) = V_GetSequenceLastEntry"
| "query_variant (Query_Data (DataQuery_Sequence (SequenceRead_GetPermissions _))) = V_GetSequencePermissions"
| "query_variant (Query_Data (DataQuery_Sequence (SequenceRead_GetUserPermissions _ _))) = V_GetSequenceUserPermissions"
| "query_variant (Query_Data (DataQuery_Sequence (SequenceRead_GetOwner _))) = V_GetSequenceOwner"
| "query_variant (Query_Transfer (TransferQuery_GetReplicaKeys _)) = V_GetReplicaKeys"
| "query_variant (Query_Transfer (TransferQuery_GetBalance _)) = V_GetBalance"
| "query_variant (Query_Transfer (TransferQuery_GetHistory _ _)) = V_GetHistory"

text \<open>
  A conversion: it accepts the variants of one payload type. Every instance of the macro is one, and
  what callers need of it is proved once.
\<close>

locale conversion =
  fixes payload :: "'c QueryResponse \<Rightarrow> 'a Result option" and ty :: Payload
  assumes selects: "(payload r = None) = (response_type r \<noteq> ty)"
    and carries: "payload r = Some x \<Longrightarrow> response_error r = err_of x"
begin

lemma wrong_type: "(try_from payload r = Err TryFromError_WrongType) = (response_type r \<noteq> ty)"
  using selects [of r] by (auto simp: try_from_def split: option.splits sum.splits)

lemma response_err:
  "(try_from payload r = Err (TryFromError_Response e)) = (response_type r = ty \<and> response_error r = Some e)"
  using selects [of r] carries [of r] by (auto simp: try_from_def err_of_def split: option.splits sum.splits)

lemma failed:
  "response_error r = Some e \<Longrightarrow>
     try_from payload r = (if response_type r = ty then Err (TryFromError_Response e) else Err TryFromError_WrongType)"
  by (simp add: response_err wrong_type)

lemma succeeds: "is_ok (try_from payload r) = (response_type r = ty \<and> response_error r = None)"
  using selects [of r] carries [of r] by (auto simp: try_from_def err_of_def split: option.splits sum.splits)

end

interpretation conv_Blob: conversion payload_Blob P_Blob
proof
  show "(payload_Blob r = None) = (response_type r \<noteq> P_Blob)" for r :: "'c QueryResponse"
    by (cases r) simp_all
  show "payload_Blob r = Some x \<Longrightarrow> response_error r = err_of x" for r :: "'c QueryResponse" and x
    by (cases r) simp_all
qed

interpretation conv_Map: conversion payload_Map P_Map
proof
  show "(payload_Map r = None) = (response_type r \<noteq> P_Map)" for r :: "'c QueryResponse"
    by (cases r) simp_all
  show "payload_Map r = Some x \<Longrightarrow> response_error r = err_of x" for r :: "'c QueryResponse" and x
    by (cases r) simp_all
qed

interpretation conv_u64: conversion payload_u64 P_u64
proof
  show "(payload_u64 r = None) = (response_type r \<noteq> P_u64)" for r :: "'c QueryResponse"
    by (cases r) simp_all
  show "payload_u64 r = Some x \<Longrightarrow> response_error r = err_of x" for r :: "'c QueryResponse" and x
    by (cases r) simp_all
qed

interpretation conv_MapEntries: conversion payload_MapEntries P_MapEntries
proof
  show "(payload_MapEntries r = None) = (response_type r \<noteq> P_MapEntries)" for r :: "'c QueryResponse"
    by (cases r) simp_all
  show "payload_MapEntries r = Some x \<Longrightarrow> response_error r = err_of x" for r :: "'c QueryResponse" and x
    by (cases r) simp_all
qed

interpretation conv_MapKeys: conversion payload_MapKeys P_MapKeys
proof
  show "(payload_MapKeys r = None) = (response_type r \<noteq> P_MapKeys)" for r :: "'c QueryResponse"
    by (cases r) simp_all
  show "payload_MapKeys r = Some x \<Longrightarrow> response_error r = err_of x" for r :: "'c QueryResponse" and x
    by (cases r) simp_all
qed

interpretation conv_MapValues: conversion payload_MapValues P_MapValues
proof
  show "(payload_MapValues r = None) = (response_type r \<noteq> P_MapValues)" for r :: "'c QueryResponse"
    by (cases r) simp_all
  show "payload_MapValues r = Some x \<Longrightarrow> response_error r = err_of x" for r :: "'c QueryResponse" and x
    by (cases r) simp_all
qed

interpretation conv_MapPermissionSet: conversion payload_MapPermissionSet P_MapPermissionSet
proof
  show "(payload_MapPermissionSet r = None) = (response_type r \<noteq> P_MapPermissionSet)" for r :: "'c QueryResponse"
    by (cases r) simp_all
  show "payload_MapPermissionSet r = Some x \<Longrightarrow> response_error r = err_of x" for r :: "'c QueryResponse" and x
    by (cases r) simp_all
qed

interpretation conv_MapPermissions: conversion payload_MapPermissions P_MapPermissions
proof
  show "(payload_MapPermissions r = None) = (response_type r \<noteq> P_MapPermissions)" for r :: "'c QueryResponse"
    by (cases r) simp_all
  show "payload_MapPermissions r = Some x \<Longrightarrow> response_error r = err_of x" for r :: "'c QueryResponse" and x
    by (cases r) simp_all
qed

interpretation conv_MapValue: conversion payload_MapValue P_MapValue
proof
  show "(payload_MapValue r = None) = (response_type r \<noteq> P_MapValue)" for r :: "'c QueryResponse"
    by (cases r) simp_all
  show "payload_MapValue r = Some x \<Longrightarrow> response_error r = err_of x" for r :: "'c QueryResponse" and x
    by (cases r) simp_all
qed

interpretation conv_Sequence: conversion payload_Sequence P_Sequence
proof
  show "(payload_Sequence r = None) = (response_type r \<noteq> P_Sequence)" for r :: "'c QueryResponse"
    by (cases r) simp_all
  show "payload_Sequence r = Some x \<Longrightarrow> response_error r = err_of x" for r :: "'c QueryResponse" and x
    by (cases r) simp_all
qed

interpretation conv_SequenceOwner: conversion payload_SequenceOwner P_SequenceOwner
proof
  show "(payload_SequenceOwner r = None) = (response_type r \<noteq> P_SequenceOwner)" for r :: "'c QueryResponse"
    by (cases r) simp_all
  show "payload_SequenceOwner r = Some x \<Longrightarrow> response_error r = err_of x" for r :: "'c QueryResponse" and x
    by (cases r) simp_all
qed

interpretation conv_SequenceEntries: conversion payload_SequenceEntries P_SequenceEntries
proof
  show "(payload_SequenceEntries r = None) = (response_type r \<noteq> P_SequenceEntries)" for r :: "'c QueryResponse"
    by (cases r) simp_all
  show "payload_SequenceEntries r = Some x \<Longrightarrow> response_error r = err_of x" for r :: "'c QueryResponse" and x
    by (cases r) simp_all
qed

interpretation conv_SequenceLastEntry: conversion payload_SequenceLastEntry P_SequenceLastEntry
proof
  show "(payload_SequenceLastEntry r = None) = (response_type r \<noteq> P_SequenceLastEntry)" for r :: "'c QueryResponse"
    by (cases r) simp_all
  show "payload_SequenceLastEntry r = Some x \<Longrightarrow> response_error r = err_of x" for r :: "'c QueryResponse" and x
    by (cases r) simp_all
qed

interpretation conv_SequencePermissions: conversion payload_SequencePermissions P_SequencePermissions
proof
  show "(payload_SequencePermissions r = None) = (response_type r \<noteq> P_SequencePermissions)" for r :: "'c QueryResponse"
    by (cases r) simp_all
  show "payload_SequencePermissions r = Some x \<Longrightarrow> response_error r = err_of x" for r :: "'c QueryResponse" and x
    by (cases r) simp_all
qed

interpretation conv_SequenceUserPermissions: conversion payload_SequenceUserPermissions P_SequenceUserPermissions
proof
  show "(payload_SequenceUserPermissions r = None) = (response_type r \<noteq> P_SequenceUserPermissions)" for r :: "'c QueryResponse"
    by (cases r) simp_all
  show "payload_SequenceUserPermissions r = Some x \<Longrightarrow> response_error r = err_of x" for r :: "'c QueryResponse" and x
    by (cases r) simp_all
qed

interpretation conv_ReplicaPublicKeySet: conversion payload_ReplicaPublicKeySet P_ReplicaPublicKeySet
proof
  show "(payload_ReplicaPublicKeySet r = None) = (response_type r \<noteq> P_ReplicaPublicKeySet)" for r :: "'c QueryResponse"
    by (cases r) simp_all
  show "payload_ReplicaPublicKeySet r = Some x \<Longrightarrow> response_error r = err_of x" for r :: "'c QueryResponse" and x
    by (cases r) simp_all
qed

interpretation conv_Money: conversion payload_Money P_Money
proof
  show "(payload_Money r = None) = (response_type r \<noteq> P_Money)" for r :: "'c QueryResponse"
    by (cases r) simp_all
  show "payload_Money r = Some x \<Longrightarrow> response_error r = err_of x" for r :: "'c QueryResponse" and x
    by (cases r) simp_all
qed

interpretation conv_History: conversion payload_History P_History
proof
  show "(payload_History r = None) = (response_type r \<noteq> P_History)" for r :: "'c QueryResponse"
    by (cases r) simp_all
  show "payload_History r = Some x \<Longrightarrow> response_error r = err_of x" for r :: "'c QueryResponse" and x
    by (cases r) simp_all
qed

interpretation conv_Account: conversion payload_Account P_Account
proof
  show "(payload_Account r = None) = (response_type r \<noteq> P_Account)" for r :: "'c QueryResponse"
    by (cases r) simp_all
  show "payload_Account r = Some x \<Longrightarrow> response_error r = err_of x" for r :: "'c QueryResponse" and x
    by (cases r) simp_all
qed

interpretation conv_AuthKeys: conversion payload_AuthKeys P_AuthKeys
proof
  show "(payload_AuthKeys r = None) = (response_type r \<noteq> P_AuthKeys)" for r :: "'c QueryResponse"
    by (cases r) simp_all
  show "payload_AuthKeys r = Some x \<Longrightarrow> response_error r = err_of x" for r :: "'c QueryResponse" and x
    by (cases r) simp_all
qed

lemmas try_from_defs =
  Blob_try_from_def
  Map_try_from_def
  u64_try_from_def
  MapEntries_try_from_def
  MapKeys_try_from_def
  MapValues_try_from_def
  MapPermissionSet_try_from_def
  MapPermissions_try_from_def
  MapValue_try_from_def
  Sequence_try_from_def
  SequenceOwner_try_from_def
  SequenceEntries_try_from_def
  SequenceLastEntry_try_from_def
  SequencePermissions_try_from_def
  SequenceUserPermissions_try_from_def
  ReplicaPublicKeySet_try_from_def
  Money_try_from_def
  History_try_from_def
  Account_try_from_def
  AuthKeys_try_from_def

lemmas conv_wrong_type =
  conv_Blob.wrong_type
  conv_Map.wrong_type
  conv_u64.wrong_type
  conv_MapEntries.wrong_type
  conv_MapKeys.wrong_type
  conv_MapValues.wrong_type
  conv_MapPermissionSet.wrong_type
  conv_MapPermissions.wrong_type
  conv_MapValue.wrong_type
  conv_Sequence.wrong_type
  conv_SequenceOwner.wrong_type
  conv_SequenceEntries.wrong_type
  conv_SequenceLastEntry.wrong_type
  conv_SequencePermissions.wrong_type
  conv_SequenceUserPermissions.wrong_type
  conv_ReplicaPublicKeySet.wrong_type
  conv_Money.wrong_type
  conv_History.wrong_type
  conv_Account.wrong_type
  conv_AuthKeys.wrong_type

lemmas conv_response_err =
  conv_Blob.response_err
  conv_Map.response_err
  conv_u64.response_err
  conv_MapEntries.response_err
  conv_MapKeys.response_err
  conv_MapValues.response_err
  conv_MapPermissionSet.response_err
  conv_MapPermissions.response_err
  conv_MapValue.response_err
  conv_Sequence.response_err
  conv_SequenceOwner.response_err
  conv_SequenceEntries.response_err
  conv_SequenceLastEntry.response_err
  conv_SequencePermissions.response_err
  conv_SequenceUserPermissions.response_err
  conv_ReplicaPublicKeySet.response_err
  conv_Money.response_err
  conv_History.response_err
  conv_Account.response_err
  conv_AuthKeys.response_err

lemmas conv_failed =
  conv_Blob.failed
  conv_Map.failed
  conv_u64.failed
  conv_MapEntries.failed
  conv_MapKeys.failed
  conv_MapValues.failed
  conv_MapPermissionSet.failed
  conv_MapPermissions.failed
  conv_MapValue.failed
  conv_Sequence.failed
  conv_SequenceOwner.failed
  conv_SequenceEntries.failed
  conv_SequenceLastEntry.failed
  conv_SequencePermissions.failed
  conv_SequenceUserPermissions.failed
  conv_ReplicaPublicKeySet.failed
  conv_Money.failed
  conv_History.failed
  conv_Account.failed
  conv_AuthKeys.failed

lemmas conv_succeeds =
  conv_Blob.succeeds
  conv_Map.succeeds
  conv_u64.succeeds
  conv_MapEntries.succeeds
  conv_MapKeys.succeeds
  conv_MapValues.succeeds
  conv_MapPermissionSet.succeeds
  conv_MapPermissions.succeeds
  conv_MapValue.succeeds
  conv_Sequence.succeeds
  conv_SequenceOwner.succeeds
  conv_SequenceEntries.succeeds
  conv_SequenceLastEntry.succeeds
  conv_SequencePermissions.succeeds
  conv_SequenceUserPermissions.succeeds
  conv_ReplicaPublicKeySet.succeeds
  conv_Money.succeeds
  conv_History.succeeds
  conv_Account.succeeds
  conv_AuthKeys.succeeds

text \<open>
  C20: The conversion of a response to a payload type succeeds exactly on a good response of that
  type, gives back the error of a failed response of that type, and reports the wrong type on every
  other response, for all twenty types; \<open>Map\<close> is the one type that two variants carry.
\<close>

theorem try_from_spec:
  "(is_ok (Blob_try_from r) = (response_type r = P_Blob \<and> response_error r = None)) \<and>
   ((Blob_try_from r = Err TryFromError_WrongType) = (response_type r \<noteq> P_Blob)) \<and>
   ((Blob_try_from r = Err (TryFromError_Response e)) = (response_type r = P_Blob \<and> response_error r = Some e)) \<and>
   (is_ok (Map_try_from r) = (response_type r = P_Map \<and> response_error r = None)) \<and>
   ((Map_try_from r = Err TryFromError_WrongType) = (response_type r \<noteq> P_Map)) \<and>
   ((Map_try_from r = Err (TryFromError_Response e)) = (response_type r = P_Map \<and> response_error r = Some e)) \<and>
   (is_ok (u64_try_from r) = (response_type r = P_u64 \<and> response_error r = None)) \<and>
   ((u64_try_from r = Err TryFromError_WrongType) = (response_type r \<noteq> P_u64)) \<and>
   ((u64_try_from r = Err (TryFromError_Response e)) = (response_type r = P_u64 \<and> response_error r = Some e)) \<and>
   (is_ok (MapEntries_try_from r) = (response_type r = P_MapEntries \<and> response_error r = None)) \<and>
   ((MapEntries_try_from r = Err TryFromError_WrongType) = (response_type r \<noteq> P_MapEntries)) \<and>
   ((MapEntries_try_from r = Err (TryFromError_Response e)) = (response_type r = P_MapEntries \<and> response_error r = Some e)) \<and>
   (is_ok (MapKeys_try_from r) = (response_type r = P_MapKeys \<and> response_error r = None)) \<and>
   ((MapKeys_try_from r = Err TryFromError_WrongType) = (response_type r \<noteq> P_MapKeys)) \<and>
   ((MapKeys_try_from r = Err (TryFromError_Response e)) = (response_type r = P_MapKeys \<and> response_error r = Some e)) \<and>
   (is_ok (MapValues_try_from r) = (response_type r = P_MapValues \<and> response_error r = None)) \<and>
   ((MapValues_try_from r = Err TryFromError_WrongType) = (response_type r \<noteq> P_MapValues)) \<and>
   ((MapValues_try_from r = Err (TryFromError_Response e)) = (response_type r = P_MapValues \<and> response_error r = Some e)) \<and>
   (is_ok (MapPermissionSet_try_from r) = (response_type r = P_MapPermissionSet \<and> response_error r = None)) \<and>
   ((MapPermissionSet_try_from r = Err TryFromError_WrongType) = (response_type r \<noteq> P_MapPermissionSet)) \<and>
   ((MapPermissionSet_try_from r = Err (TryFromError_Response e)) = (response_type r = P_MapPermissionSet \<and> response_error r = Some e)) \<and>
   (is_ok (MapPermissions_try_from r) = (response_type r = P_MapPermissions \<and> response_error r = None)) \<and>
   ((MapPermissions_try_from r = Err TryFromError_WrongType) = (response_type r \<noteq> P_MapPermissions)) \<and>
   ((MapPermissions_try_from r = Err (TryFromError_Response e)) = (response_type r = P_MapPermissions \<and> response_error r = Some e)) \<and>
   (is_ok (MapValue_try_from r) = (response_type r = P_MapValue \<and> response_error r = None)) \<and>
   ((MapValue_try_from r = Err TryFromError_WrongType) = (response_type r \<noteq> P_MapValue)) \<and>
   ((MapValue_try_from r = Err (TryFromError_Response e)) = (response_type r = P_MapValue \<and> response_error r = Some e)) \<and>
   (is_ok (Sequence_try_from r) = (response_type r = P_Sequence \<and> response_error r = None)) \<and>
   ((Sequence_try_from r = Err TryFromError_WrongType) = (response_type r \<noteq> P_Sequence)) \<and>
   ((Sequence_try_from r = Err (TryFromError_Response e)) = (response_type r = P_Sequence \<and> response_error r = Some e)) \<and>
   (is_ok (SequenceOwner_try_from r) = (response_type r = P_SequenceOwner \<and> response_error r = None)) \<and>
   ((SequenceOwner_try_from r = Err TryFromError_WrongType) = (response_type r \<noteq> P_SequenceOwner)) \<and>
   ((SequenceOwner_try_from r = Err (TryFromError_Response e)) = (response_type r = P_SequenceOwner \<and> response_error r = Some e)) \<and>
   (is_ok (SequenceEntries_try_from r) = (response_type r = P_SequenceEntries \<and> response_error r = None)) \<and>
   ((SequenceEntries_try_from r = Err TryFromError_WrongType) = (response_type r \<noteq> P_SequenceEntries)) \<and>
   ((SequenceEntries_try_from r = Err (TryFromError_Response e)) = (response_type r = P_SequenceEntries \<and> response_error r = Some e)) \<and>
   (is_ok (SequenceLastEntry_try_from r) = (response_type r = P_SequenceLastEntry \<and> response_error r = None)) \<and>
   ((SequenceLastEntry_try_from r = Err TryFromError_WrongType) = (response_type r \<noteq> P_SequenceLastEntry)) \<and>
   ((SequenceLastEntry_try_from r = Err (TryFromError_Response e)) = (response_type r = P_SequenceLastEntry \<and> response_error r = Some e)) \<and>
   (is_ok (SequencePermissions_try_from r) = (response_type r = P_SequencePermissions \<and> response_error r = None)) \<and>
   ((SequencePermissions_try_from r = Err TryFromError_WrongType) = (response_type r \<noteq> P_SequencePermissions)) \<and>
   ((SequencePermissions_try_from r = Err (TryFromError_Response e)) = (response_type r = P_SequencePermissions \<and> response_error r = Some e)) \<and>
   (is_ok (SequenceUserPermissions_try_from r) = (response_type r = P_SequenceUserPermissions \<and> response_error r = None)) \<and>
   ((SequenceUserPermissions_try_from r = Err TryFromError_WrongType) = (response_type r \<noteq> P_SequenceUserPermissions)) \<and>
   ((SequenceUserPermissions_try_from r = Err (TryFromError_Response e)) = (response_type r = P_SequenceUserPermissions \<and> response_error r = Some e)) \<and>
   (is_ok (ReplicaPublicKeySet_try_from r) = (response_type r = P_ReplicaPublicKeySet \<and> response_error r = None)) \<and>
   ((ReplicaPublicKeySet_try_from r = Err TryFromError_WrongType) = (response_type r \<noteq> P_ReplicaPublicKeySet)) \<and>
   ((ReplicaPublicKeySet_try_from r = Err (TryFromError_Response e)) = (response_type r = P_ReplicaPublicKeySet \<and> response_error r = Some e)) \<and>
   (is_ok (Money_try_from r) = (response_type r = P_Money \<and> response_error r = None)) \<and>
   ((Money_try_from r = Err TryFromError_WrongType) = (response_type r \<noteq> P_Money)) \<and>
   ((Money_try_from r = Err (TryFromError_Response e)) = (response_type r = P_Money \<and> response_error r = Some e)) \<and>
   (is_ok (History_try_from r) = (response_type r = P_History \<and> response_error r = None)) \<and>
   ((History_try_from r = Err TryFromError_WrongType) = (response_type r \<noteq> P_History)) \<and>
   ((History_try_from r = Err (TryFromError_Response e)) = (response_type r = P_History \<and> response_error r = Some e)) \<and>
   (is_ok (Account_try_from r) = (response_type r = P_Account \<and> response_error r = None)) \<and>
   ((Account_try_from r = Err TryFromError_WrongType) = (response_type r \<noteq> P_Account)) \<and>
   ((Account_try_from r = Err (TryFromError_Response e)) = (response_type r = P_Account \<and> response_error r = Some e)) \<and>
   (is_ok (AuthKeys_try_from r) = (response_type r = P_AuthKeys \<and> response_error r = None)) \<and>
   ((AuthKeys_try_from r = Err TryFromError_WrongType) = (response_type r \<noteq> P_AuthKeys)) \<and>
   ((AuthKeys_try_from r = Err (TryFromError_Response e)) = (response_type r = P_AuthKeys \<and> response_error r = Some e))"
  unfolding try_from_defs by (intro conjI conv_wrong_type conv_response_err conv_succeeds)

lemma query_error_carries: "response_error (Query_error q e) = Some e"
proof (cases q)
  case (Query_Auth a)
  then show ?thesis by (cases a) (simp add: err_of_def)
next
  case (Query_Data d)
  show ?thesis
  proof (cases d)
    case (DataQuery_Blob b)
    then show ?thesis using Query_Data by (simp add: BlobRead_error_def err_of_def)
  next
    case (DataQuery_Map m)
    then show ?thesis using Query_Data by (cases m) (simp_all add: err_of_def)
  next
    case (DataQuery_Sequence s)
    then show ?thesis using Query_Data by (cases s) (simp_all add: err_of_def)
  next
    case (DataQuery_Account a)
    then show ?thesis using Query_Data by (simp add: AccountRead_error_def err_of_def)
  qed
next
  case (Query_Transfer t)
  then show ?thesis by (cases t) (simp_all add: err_of_def)
qed

lemma query_error_variant:
  "response_variant (Query_error q e) = query_variant q" "response_type (Query_error q e) = query_type q"
proof -
  have "response_variant (Query_error q e) = query_variant q \<and> response_type (Query_error q e) = query_type q"
  proof (cases q)
    case (Query_Auth a)
    then show ?thesis by (cases a) (simp add: err_of_def)
  next
    case (Query_Data d)
    show ?thesis
    proof (cases d)
      case (DataQuery_Blob b)
      then show ?thesis using Query_Data by (simp add: BlobRead_error_def err_of_def)
    next
      case (DataQuery_Map m)
      then show ?thesis using Query_Data by (cases m) (simp_all add: err_of_def)
    next
      case (DataQuery_Sequence s)
      then show ?thesis using Query_Data by (cases s) (simp_all add: err_of_def)
    next
      case (DataQuery_Account a)
      then show ?thesis using Query_Data by (simp add: AccountRead_error_def err_of_def)
    qed
  next
    case (Query_Transfer t)
    then show ?thesis by (cases t) (simp_all add: err_of_def)
  qed
  then show "response_variant (Query_error q e) = query_variant q" "response_type (Query_error q e) = query_type q" by blast+
qed

text \<open>
  C19: The error response of a query is of the variant that answers it, a failed map query being told
  from a failed shell query, and carries the error. The conversion to the type the query asks for gives
  back the error, and every other of the twenty conversions reports the wrong type, for each of the
  twenty-one queries, through every level of forwarding.
\<close>

theorem query_error_answers:
  "let r = Query_error q e in
   response_variant r = query_variant q \<and> response_type r = query_type q \<and> response_error r = Some e \<and>
   Blob_try_from r = (if query_type q = P_Blob then Err (TryFromError_Response e) else Err TryFromError_WrongType) \<and>
   Map_try_from r = (if query_type q = P_Map then Err (TryFromError_Response e) else Err TryFromError_WrongType) \<and>
   u64_try_from r = (if query_type q = P_u64 then Err (TryFromError_Response e) else Err TryFromError_WrongType) \<and>
   MapEntries_try_from r = (if query_type q = P_MapEntries then Err (TryFromError_Response e) else Err TryFromError_WrongType) \<and>
   MapKeys_try_from r = (if query_type q = P_MapKeys then Err (TryFromError_Response e) else Err TryFromError_WrongType) \<and>
   MapValues_try_from r = (if query_type q = P_MapValues then Err (TryFromError_Response e) else Err TryFromError_WrongType) \<and>
   MapPermissionSet_try_from r = (if query_type q = P_MapPermissionSet then Err (TryFromError_Response e) else Err TryFromError_WrongType) \<and>
   MapPermissions_try_from r = (if query_type q = P_MapPermissions then Err (TryFromError_Response e) else Err TryFromError_WrongType) \<and>
   MapValue_try_from r = (if query_type q = P_MapValue then Err (TryFromError_Response e) else Err TryFromError_WrongType) \<and>
   Sequence_try_from r = (if query_type q = P_Sequence then Err (TryFromError_Response e) else Err TryFromError_WrongType) \<and>
   SequenceOwner_try_from r = (if query_type q = P_SequenceOwner then Err (TryFromError_Response e) else Err TryFromError_WrongType) \<and>
   SequenceEntries_try_from r = (if query_type q = P_SequenceEntries then Err (TryFromError_Response e) else Err TryFromError_WrongType) \<and>
   SequenceLastEntry_try_from r = (if query_type q = P_SequenceLastEntry then Err (TryFromError_Response e) else Err TryFromError_WrongType) \<and>
   SequencePermissions_try_from r = (if query_type q = P_SequencePermissions then Err (TryFromError_Response e) else Err TryFromError_WrongType) \<and>
   SequenceUserPermissions_try_from r = (if query_type q = P_SequenceUserPermissions then Err (TryFromError_Response e) else Err TryFromError_WrongType) \<and>
   ReplicaPublicKeySet_try_from r = (if query_type q = P_ReplicaPublicKeySet then Err (TryFromError_Response e) else Err TryFromError_WrongType) \<and>
   Money_try_from r = (if query_type q = P_Money then Err (TryFromError_Response e) else Err TryFromError_WrongType) \<and>
   History_try_from r = (if query_type q = P_History then Err (TryFromError_Response e) else Err TryFromError_WrongType) \<and>
   Account_try_from r = (if query_type q = P_Account then Err (TryFromError_Response e) else Err TryFromError_WrongType) \<and>
   AuthKeys_try_from r = (if query_type q = P_AuthKeys then Err (TryFromError_Response e) else Err TryFromError_WrongType)"
  unfolding Let_def try_from_defs
  by (intro conjI query_error_variant query_error_carries conv_failed [OF query_error_carries, unfolded query_error_variant])

section \<open>Authorisation\<close>

text \<open>The query that fetches a data object.\<close>

fun fetch :: "'c Data \<Rightarrow> DataQuery" where
  "fetch (Data_Immutable b) = DataQuery_Blob (BlobRead_Get (Blob_address b))"
| "fetch (Data_Mutable m) = DataQuery_Map (MapRead_Get (Map_address m))"
| "fetch (Data_Sequence s) = DataQuery_Sequence (SequenceRead_Get (Sequence_address s))"

fun create :: "'c Data \<Rightarrow> ('c, 'o) DataCmd" where
  "create (Data_Immutable b) = DataCmd_Blob (BlobWrite_New b)"
| "create (Data_Mutable m) = DataCmd_Map (MapWrite_New m)"
| "create (Data_Sequence s) = DataCmd_Sequence (SequenceWrite_New s)"

lemma map_read_private: "MapRead_authorisation_kind m = AuthorisationKind_Data DataAuthKind_PrivateRead"
  by (cases m) simp_all

lemma account_write_auth: "AccountWrite_authorisation_kind a = AuthorisationKind_Data DataAuthKind_Write"
  by (cases a) simp_all

lemma data_cmd_write: "DataCmd_authorisation_kind c = AuthorisationKind_Data DataAuthKind_Write"
  by (cases c) (simp_all add: BlobWrite_authorisation_kind_def MapWrite_authorisation_kind_def
      SequenceWrite_authorisation_kind_def account_write_auth)

lemma data_query_read:
  "DataQuery_authorisation_kind q \<in>
     {AuthorisationKind_Data DataAuthKind_PublicRead, AuthorisationKind_Data DataAuthKind_PrivateRead}"
proof (cases q)
  case (DataQuery_Blob b)
  then show ?thesis by (cases b rule: BlobRead_authorisation_kind.cases) simp_all
qed (simp_all add: map_read_private SequenceRead_authorisation_kind_def AccountRead_authorisation_kind_def)

lemma fetch_kind:
  "DataQuery_authorisation_kind (fetch d) =
     AuthorisationKind_Data (if Data_is_pub d then DataAuthKind_PublicRead else DataAuthKind_PrivateRead)"
proof (cases d)
  case (Data_Immutable b)
  then show ?thesis
    by (cases "Blob_address b") (simp_all add: Blob_is_pub_def Blob_kind_def BlobKind_is_pub_def)
qed (simp_all add: map_read_private SequenceRead_authorisation_kind_def Sequence_is_pub_def Sequence_kind_def
    SequenceAddress_is_pub_def)

text \<open>
  C21: Authorisation follows visibility. Fetching an object needs the public read authorisation
  exactly when the object is public, every data query needs a read and every data command a write
  authorisation, and changing or listing the keys of apps needs the right to manage them. The only
  commands that need none are the registration of a transfer, which carries the agreement of the
  replicas to the debit, and the simulated payout, a bare transfer that exists with the feature
  simulated-payouts only; the only such query asks for the keys of the replicas.
\<close>

theorem authorisation_spec:
  "DataQuery_authorisation_kind (fetch d) =
     AuthorisationKind_Data (if Data_is_pub d then DataAuthKind_PublicRead else DataAuthKind_PrivateRead) \<and>
   DataQuery_authorisation_kind q \<in>
     {AuthorisationKind_Data DataAuthKind_PublicRead, AuthorisationKind_Data DataAuthKind_PrivateRead} \<and>
   Cmd_authorisation_kind (Cmd_Data c payment) = AuthorisationKind_Data DataAuthKind_Write \<and>
   Cmd_authorisation_kind (Cmd_Auth ac) = AuthorisationKind_Misc MiscAuthKind_ManageAppKeys \<and>
   Query_authorisation_kind (Query_Auth aq) = AuthorisationKind_Misc MiscAuthKind_ManageAppKeys \<and>
   (Query_authorisation_kind query = AuthorisationKind_None) =
     (\<exists>k. query = Query_Transfer (TransferQuery_GetReplicaKeys k)) \<and>
   (Cmd_authorisation_kind cmd = AuthorisationKind_None) =
     ((\<exists>proof. cmd = Cmd_Transfer (TransferCmd_RegisterTransfer proof)) \<or>
      (\<exists>t. cmd = Cmd_Transfer (TransferCmd_SimulatePayout t)))"
proof -
  have "(TransferCmd_authorisation_kind t = AuthorisationKind_None) =
      ((\<exists>proof. t = TransferCmd_RegisterTransfer proof) \<or> (\<exists>p. t = TransferCmd_SimulatePayout p))" for t
    by (cases t) simp_all
  then have "(Cmd_authorisation_kind cmd = AuthorisationKind_None) =
     ((\<exists>proof. cmd = Cmd_Transfer (TransferCmd_RegisterTransfer proof)) \<or>
      (\<exists>t. cmd = Cmd_Transfer (TransferCmd_SimulatePayout t)))"
    by (cases cmd) (simp_all add: AuthCmd_authorisation_kind_def data_cmd_write)
  note cmd = this
  have "(TransferQuery_authorisation_kind t = AuthorisationKind_None) = (\<exists>k. t = TransferQuery_GetReplicaKeys k)" for t
    by (cases t) simp_all
  moreover have "DataQuery_authorisation_kind r \<noteq> AuthorisationKind_None" for r
    using data_query_read [of r] by auto
  ultimately have "(Query_authorisation_kind query = AuthorisationKind_None) =
     (\<exists>k. query = Query_Transfer (TransferQuery_GetReplicaKeys k))"
    by (cases query) (auto simp: AuthQuery_authorisation_kind_def)
  with cmd show ?thesis
    by (simp only: fetch_kind data_query_read Cmd_authorisation_kind.simps Query_authorisation_kind.simps data_cmd_write
        AuthCmd_authorisation_kind_def AuthQuery_authorisation_kind_def simp_thms)
qed

section \<open>Routing\<close>

lemma names:
  "Blob_name b = BlobAddress_name (Blob_address b)" "Map_name m = MapAddress_name (Map_address m)"
  "Sequence_name s = SequenceAddress_name (Sequence_address s)"
  by (simp_all add: Blob_name_def Map_name_def Sequence_name_def)

text \<open>
  Every write to a data object: its creation, and each request that later changes it. A request for a
  sequence carries the operation that the public write on the sequence returned, when it is allowed.
\<close>

inductive writes_to :: "('c, 'o) SeqBackends \<Rightarrow> 'c Data \<Rightarrow> ('c, 'o) DataCmd \<Rightarrow> bool" for SB where
  created: "writes_to SB d (create d)"
| blob_delete: "writes_to SB (Data_Immutable b) (DataCmd_Blob (BlobWrite_DeletePrivate (Blob_address b)))"
| map_delete: "writes_to SB (Data_Mutable m) (DataCmd_Map (MapWrite_Delete (Map_address m)))"
| map_edit: "writes_to SB (Data_Mutable m) (DataCmd_Map (MapWrite_Edit (Map_address m) actions))"
| map_set_permissions:
    "writes_to SB (Data_Mutable m) (DataCmd_Map (MapWrite_SetUserPermissions (Map_address m) user permissions version))"
| map_del_permissions:
    "writes_to SB (Data_Mutable m) (DataCmd_Map (MapWrite_DelUserPermissions (Map_address m) user version))"
| seq_delete: "writes_to SB (Data_Sequence s) (DataCmd_Sequence (SequenceWrite_Delete (Sequence_address s)))"
| seq_edit: "writes_to SB (Data_Sequence s) (DataCmd_Sequence (SequenceWrite_Edit (snd (Sequence_append SB s entry))))"
| seq_set_owner: "writes_to SB (Data_Sequence s) (DataCmd_Sequence (SequenceWrite_SetOwner (snd (Sequence_set_owner SB s owner))))"
| seq_set_public: "snd (Sequence_set_pub_permissions SB s public) = Ok w \<Longrightarrow>
    writes_to SB (Data_Sequence s) (DataCmd_Sequence (SequenceWrite_SetPublicPermissions w))"
| seq_set_private: "snd (Sequence_set_private_permissions SB s private) = Ok w' \<Longrightarrow>
    writes_to SB (Data_Sequence s) (DataCmd_Sequence (SequenceWrite_SetPrivatePermissions w'))"

text \<open>Every query of a data object, of the whole or of a part.\<close>

inductive reads_from :: "'c Data \<Rightarrow> DataQuery \<Rightarrow> bool" where
  read_blob: "reads_from (Data_Immutable b) (DataQuery_Blob (BlobRead_Get (Blob_address b)))"
| read_map: "r \<in> {MapRead_Get a, MapRead_GetValue a key, MapRead_GetShell a, MapRead_GetVersion a, MapRead_ListEntries a,
      MapRead_ListKeys a, MapRead_ListValues a, MapRead_ListPermissions a, MapRead_ListUserPermissions a user} \<Longrightarrow>
    a = Map_address m \<Longrightarrow> reads_from (Data_Mutable m) (DataQuery_Map r)"
| read_sequence: "SequenceRead_address r = Sequence_address s \<Longrightarrow> reads_from (Data_Sequence s) (DataQuery_Sequence r)"

fun data_name :: "'c Data \<Rightarrow> XorName" where
  "data_name (Data_Immutable b) = Blob_name b"
| "data_name (Data_Mutable m) = Map_name m"
| "data_name (Data_Sequence s) = Sequence_name s"

lemma sequence_ops_addressed:
  "wo_address (snd (Sequence_append SB s entry)) = Sequence_address s"
  "wo_address (snd (Sequence_set_owner SB s owner)) = Sequence_address s"
  "snd (Sequence_set_pub_permissions SB s public) = Ok w \<Longrightarrow> wo_address w = Sequence_address s"
  "snd (Sequence_set_private_permissions SB s private) = Ok w' \<Longrightarrow> wo_address w' = Sequence_address s"
  by (cases s; auto simp: split_beta SequenceCrdt_append_def Let_def)+

lemma create_dst: "DataCmd_dst_address (create d) = data_name d"
  by (cases d) (simp_all add: names)

lemma write_dst: "writes_to SB d c \<Longrightarrow> DataCmd_dst_address c = data_name d"
  by (induction rule: writes_to.induct) (simp_all add: names sequence_ops_addressed create_dst)

lemma read_dst: "reads_from d q \<Longrightarrow> DataQuery_dst_address q = data_name d"
  by (induction rule: reads_from.induct) (auto simp: names SequenceRead_dst_address_def)

text \<open>
  C22: Reads and writes of an object meet in the section of its name: there go the query that fetches
  it and every other query of it, the command that created it and every later write to it, deletions,
  entries, permissions and owners alike; those of an account go to the section of its address. Both
  transfer commands go to the section of the sender, where the debit is made, and only the propagation
  to the recipient's.
\<close>

theorem write_read_same_section:
  "DataQuery_dst_address (fetch d) = data_name d \<and>
   (writes_to SB d c \<longrightarrow> DataCmd_dst_address c = DataQuery_dst_address (fetch d)) \<and>
   (reads_from d q \<longrightarrow> DataQuery_dst_address q = DataQuery_dst_address (fetch d)) \<and>
   (a \<in> {AccountWrite_New account, AccountWrite_Update account} \<longrightarrow>
      DataCmd_dst_address (DataCmd_Account a :: ('c, 'o) DataCmd) =
        DataQuery_dst_address (DataQuery_Account (AccountRead_Get (Account_address account)))) \<and>
   TransferCmd_dst_address (TransferCmd_ValidateTransfer (da_signed_transfer p)) =
     TransferCmd_dst_address (TransferCmd_RegisterTransfer p) \<and>
   TransferCmd_dst_address (TransferCmd_RegisterTransfer p) = PublicKey_to_xorname (dot_actor (DebitAgreementProof_id p)) \<and>
   NodeCmd_dst_address (NodeCmd_Transfers (NodeTransferCmd_PropagateTransfer p)) =
     Address_Section (PublicKey_to_xorname (tr_to (st_transfer (da_signed_transfer p))))"
proof -
  have "DataQuery_dst_address (fetch d) = data_name d"
    by (cases d) (simp_all add: names SequenceRead_dst_address_def)
  moreover have "a \<in> {AccountWrite_New account, AccountWrite_Update account} \<Longrightarrow>
      DataCmd_dst_address (DataCmd_Account a :: ('c, 'o) DataCmd) = Account_address account"
    by (auto simp: Account_address_def)
  ultimately show ?thesis
    using write_dst [of SB d c] read_dst [of d q]
    by (simp add: debit.shows_transfer signed.shows_transfer Transfer_from_def)
qed

theorem write_read_same_section_witness:
  "DataCmd_dst_address
       (DataCmd_Sequence (SequenceWrite_Edit (snd (Sequence_append ref_sb (Sequence_new_pub ref_sb (PublicKey_Bls 1) 3 4) [1]))) :: (RefSeq, RefOp) DataCmd) =
     DataQuery_dst_address (DataQuery_Sequence (SequenceRead_GetOwner (SequenceAddress_Public 3 4)))"
proof -
  let ?d = "Data_Sequence (Sequence_new_pub ref_sb (PublicKey_Bls 1) 3 4)"
  have "Sequence_address (Sequence_new_pub ref_sb (PublicKey_Bls 1) 3 4) = SequenceAddress_Public 3 4"
    by (simp add: Sequence_new_pub_def SequenceCrdt_new_def)
  then have reads: "reads_from ?d (DataQuery_Sequence (SequenceRead_GetOwner (SequenceAddress_Public 3 4)))"
    by (intro reads_from.read_sequence) simp
  show ?thesis
    by (rule trans [OF write_read_same_section [of ?d, THEN conjunct2, THEN conjunct1, THEN mp, OF writes_to.seq_edit]
          write_read_same_section [of ?d, THEN conjunct2, THEN conjunct2, THEN conjunct1, THEN mp, OF reads, symmetric]])
qed

text \<open>The way of a data command: which section the most recent sender makes it go to.\<close>

fun next_section :: "Crypto \<Rightarrow> MsgSender \<Rightarrow> MsgSender \<Rightarrow> ('c, 'o) DataCmd \<Rightarrow> DebitAgreementProof \<Rightarrow> XorName" where
  "next_section C origin (MsgSender_Node (Duty_Elder ElderDuties_Gateway) _) cmd payment =
     PublicKey_to_xorname (DebitAgreementProof_from payment)"
| "next_section C origin (MsgSender_Node (Duty_Elder ElderDuties_Payment) _) cmd payment = DataCmd_dst_address cmd"
| "next_section C origin (MsgSender_Section (Duty_Elder ElderDuties_Payment) _) cmd payment = DataCmd_dst_address cmd"
| "next_section C origin _ cmd payment = PublicKey_to_xorname (MsgSender_id C origin)"

lemma cmd_dst_data:
  "MsgEnvelope_cmd_dst C e (Cmd_Data cmd payment) =
     Address_Section (next_section C (me_origin e) (MsgEnvelope_most_recent_sender e) cmd payment)"
  by (cases "(C, me_origin e, MsgEnvelope_most_recent_sender e, cmd, payment)" rule: next_section.cases)
     (simp_all add: MsgEnvelope_cmd_dst_def)

lemma most_recent_with_proxy: "MsgEnvelope_most_recent_sender (MsgEnvelope_with_proxy e p) = p"
  by (simp add: MsgEnvelope_most_recent_sender_def MsgEnvelope_with_proxy_def)

text \<open>
  C17: A data command takes the route of its payment: as sent by the client it goes to the client's
  own section, from a gateway to the section of the account that pays, from the payment elders (one
  of them or their section) to the section of the data; any other sender sends it back to the
  client's section. Adding a proxy appends it to the proxies and never changes the message, its id or
  its origin.
\<close>

theorem data_cmd_route:
  assumes "me_message e = Message_Cmd (Cmd_Data cmd payment) i" "me_origin e = MsgSender_Client proof"
  shows "MsgEnvelope_destination C e =
      Address_Section (if me_proxies e = [] then PublicKey_to_xorname (Proof_id C proof)
        else next_section C (MsgSender_Client proof) (last (me_proxies e)) cmd payment) \<and>
    MsgEnvelope_destination C (MsgEnvelope_with_proxy e (MsgSender_Node (Duty_Elder ElderDuties_Gateway) q)) =
      Address_Section (PublicKey_to_xorname (DebitAgreementProof_from payment)) \<and>
    MsgEnvelope_destination C (MsgEnvelope_with_proxy e (MsgSender_Node (Duty_Elder ElderDuties_Payment) q)) =
      Address_Section (DataCmd_dst_address cmd) \<and>
    me_message (MsgEnvelope_with_proxy e p) = me_message e \<and> MsgEnvelope_id (MsgEnvelope_with_proxy e p) = i \<and>
    me_origin (MsgEnvelope_with_proxy e p) = me_origin e \<and> me_proxies (MsgEnvelope_with_proxy e p) = me_proxies e @ [p]"
proof -
  have keep: "me_message (MsgEnvelope_with_proxy e p) = me_message e" "me_origin (MsgEnvelope_with_proxy e p) = me_origin e"
      "me_proxies (MsgEnvelope_with_proxy e p) = me_proxies e @ [p]" for p
    by (simp_all add: MsgEnvelope_with_proxy_def)
  have dst: "MsgEnvelope_destination C f =
      Address_Section (next_section C (MsgSender_Client proof) (MsgEnvelope_most_recent_sender f) cmd payment)"
    if "me_message f = me_message e" "me_origin f = me_origin e" for f :: "('a, 'b) MsgEnvelope"
    using assms that by (simp add: MsgEnvelope_destination_def cmd_dst_data)
  show ?thesis
    using assms keep by (simp add: dst most_recent_with_proxy MsgEnvelope_id_def) (simp add: MsgEnvelope_most_recent_sender_def assms)
qed

definition demo_route :: "(RefSeq, RefOp) MsgEnvelope" where
  "demo_route =
     \<lparr>me_message = Message_Cmd (Cmd_Data (DataCmd_Blob (BlobWrite_DeletePrivate (BlobAddress_Private 7)))
        \<lparr>da_signed_transfer = demo_signed_transfer, da_debiting_replicas_sig = Signature_Bls 4, da_replica_key = []\<rparr>) (MessageId 9),
      me_origin = MsgSender_Client (Proof_Ed25519 \<lparr>ep_public_key = 5, ep_signature = 0\<rparr>), me_proxies = []\<rparr>"

theorem data_cmd_route_witness:
  "MsgEnvelope_destination demo_crypto demo_route = Address_Section 5"
  using data_cmd_route [of demo_route "DataCmd_Blob (BlobWrite_DeletePrivate (BlobAddress_Private 7))"
      "\<lparr>da_signed_transfer = demo_signed_transfer, da_debiting_replicas_sig = Signature_Bls 4, da_replica_key = []\<rparr>"
      "MessageId 9" "Proof_Ed25519 \<lparr>ep_public_key = 5, ep_signature = 0\<rparr>" demo_crypto]
  by (simp add: demo_route_def Ed25519Proof_id_def)

section \<open>Verification of envelopes\<close>

definition sender_signed :: "Crypto \<Rightarrow> MsgSender \<Rightarrow> bytes \<Rightarrow> bool" where
  "sender_signed C s d \<longleftrightarrow> is_ok (PublicKey_verify C (MsgSender_id C s) (MsgSender_signature s) d)"

lemma verify_origin:
  "me_proxies e = [] \<Longrightarrow> MsgEnvelope_verify C ser_msg ser_env e = sender_signed C (me_origin e) (ser_msg (me_message e))"
  by (simp add: MsgEnvelope_verify_def MsgEnvelope_most_recent_sender_def sender_signed_def serialise_def Let_def)

lemma verify_with_proxy:
  "MsgEnvelope_verify C ser_msg ser_env (MsgEnvelope_with_proxy e p) = sender_signed C p (ser_env e)"
  by (cases e) (simp add: MsgEnvelope_verify_def most_recent_with_proxy MsgEnvelope_with_proxy_def
      MsgEnvelope_most_recent_sender_def sender_signed_def serialise_def)

text \<open>An envelope passed on honestly: signed by its origin, and by each proxy as it was received.\<close>

inductive honest ::
    "Crypto \<Rightarrow> (('c, 'o) Message \<Rightarrow> bytes) \<Rightarrow> (('c, 'o) MsgEnvelope \<Rightarrow> bytes) \<Rightarrow> ('c, 'o) MsgEnvelope \<Rightarrow> bool"
  for C ser_msg ser_env where
  origin: "sender_signed C s (ser_msg m) \<Longrightarrow>
    honest C ser_msg ser_env \<lparr>me_message = m, me_origin = s, me_proxies = []\<rparr>"
| proxy: "honest C ser_msg ser_env e \<Longrightarrow> sender_signed C p (ser_env e) \<Longrightarrow>
    honest C ser_msg ser_env (MsgEnvelope_with_proxy e p)"

inductive_cases honest_cases: "honest C ser_msg ser_env e"

text \<open>The envelope as it was after its first \<open>n\<close> proxies.\<close>

definition at_hop :: "nat \<Rightarrow> ('c, 'o) MsgEnvelope \<Rightarrow> ('c, 'o) MsgEnvelope" where
  "at_hop n e = e\<lparr>me_proxies := take n (me_proxies e)\<rparr>"

lemma at_hop_with_proxy:
  "n \<le> length (me_proxies e) \<Longrightarrow> at_hop n (MsgEnvelope_with_proxy e p) = at_hop n e"
  "at_hop (Suc (length (me_proxies e))) (MsgEnvelope_with_proxy e p) = MsgEnvelope_with_proxy e p"
  by (simp_all add: at_hop_def MsgEnvelope_with_proxy_def)

lemma honest_verifies: "honest C ser_msg ser_env e \<Longrightarrow> MsgEnvelope_verify C ser_msg ser_env e"
  by (induction rule: honest.induct) (simp_all add: verify_origin verify_with_proxy)

lemma honest_hops:
  "honest C ser_msg ser_env e \<Longrightarrow> n \<le> length (me_proxies e) \<Longrightarrow> MsgEnvelope_verify C ser_msg ser_env (at_hop n e)"
proof (induction rule: honest.induct)
  case (origin s m)
  then show ?case by (simp add: at_hop_def verify_origin)
next
  case (proxy e p)
  show ?case
  proof (cases "n \<le> length (me_proxies e)")
    case True
    then show ?thesis using proxy by (simp add: at_hop_with_proxy)
  next
    case False
    then have "n = Suc (length (me_proxies e))" using proxy.prems by (simp add: MsgEnvelope_with_proxy_def)
    then show ?thesis using proxy by (simp add: at_hop_with_proxy verify_with_proxy)
  qed
qed

lemma hops_honest:
  assumes "\<And>n. n \<le> length (me_proxies e) \<Longrightarrow> MsgEnvelope_verify C ser_msg ser_env (at_hop n e)"
  shows "honest C ser_msg ser_env e"
  using assms
proof (induction "me_proxies e" arbitrary: e rule: rev_induct)
  case Nil
  then show ?case
    using honest.origin [of C "me_origin e" ser_msg "me_message e" ser_env] Nil.prems [of 0]
    by (cases e) (simp add: at_hop_def verify_origin)
next
  case (snoc p ps)
  define f where "f = e\<lparr>me_proxies := ps\<rparr>"
  have e: "e = MsgEnvelope_with_proxy f p"
    using snoc.hyps(2) by (simp add: f_def MsgEnvelope_with_proxy_def)
  have "honest C ser_msg ser_env f"
  proof (rule snoc.hyps(1))
    show "ps = me_proxies f" by (simp add: f_def)
    show "MsgEnvelope_verify C ser_msg ser_env (at_hop n f)" if "n \<le> length (me_proxies f)" for n
      using snoc.prems [of n] that at_hop_with_proxy(1) [OF that, of p] unfolding e by (simp add: MsgEnvelope_with_proxy_def)
  qed
  moreover have "MsgEnvelope_verify C ser_msg ser_env e"
    using snoc.prems [of "length (me_proxies e)"] by (simp add: at_hop_def)
  ultimately show ?case unfolding e by (intro honest.proxy) (simp_all add: verify_with_proxy)
qed

text \<open>
  C16: An envelope passed on honestly verifies at its last hop and at every hop before, and an envelope
  that would verify at every hop was passed on honestly. One check alone vouches for the last hop
  only: a proxy's own good signature makes any envelope verify, whatever signatures it holds.
\<close>

theorem envelope_verify_spec:
  "honest C ser_msg ser_env e =
     (\<forall>n \<le> length (me_proxies e). MsgEnvelope_verify C ser_msg ser_env (at_hop n e)) \<and>
   MsgEnvelope_verify C ser_msg ser_env (MsgEnvelope_with_proxy e' p) = sender_signed C p (ser_env e') \<and>
   (honest C ser_msg ser_env e \<longrightarrow> MsgEnvelope_verify C ser_msg ser_env e)"
  using honest_hops hops_honest [of e] honest_verifies by (auto simp: verify_with_proxy)

definition demo_signed_query :: "(RefSeq, RefOp) MsgEnvelope" where
  "demo_signed_query =
     \<lparr>me_message = Message_Query (Query_Transfer (TransferQuery_GetBalance (PublicKey_Bls 1))) (MessageId 1),
      me_origin = MsgSender_Section (Duty_Elder ElderDuties_Payment) \<lparr>bp_public_key = 4, bp_signature = 5\<rparr>, me_proxies = []\<rparr>"

theorem envelope_verify_spec_witness:
  "honest demo_crypto (\<lambda>_. [7]) (\<lambda>_. [8, 9]) demo_signed_query \<and>
   MsgEnvelope_verify demo_crypto (\<lambda>_. [7]) (\<lambda>_. [8, 9]) demo_signed_query \<and>
   MsgEnvelope_verify demo_crypto (\<lambda>_. [7, 7]) (\<lambda>_. [8, 9])
     (MsgEnvelope_with_proxy demo_signed_query
       (MsgSender_Section (Duty_Elder ElderDuties_Payment) \<lparr>bp_public_key = 4, bp_signature = 6\<rparr>)) \<and>
   \<not> MsgEnvelope_verify demo_crypto (\<lambda>_. [7, 7]) (\<lambda>_. [8, 9]) demo_signed_query"
proof -
  have ver: "MsgEnvelope_verify demo_crypto (\<lambda>_. bs) (\<lambda>_. [8, 9]) demo_signed_query = (word_of_nat (length bs) = (1 :: BlsSignature))" for bs
    by (auto simp: demo_signed_query_def verify_origin sender_signed_def PublicKey_verify_def BlsProof_id_def
        BlsProof_signature_def demo_crypto_def)
  have hop: "at_hop n demo_signed_query = demo_signed_query" for n
    by (simp add: at_hop_def demo_signed_query_def)
  have "honest demo_crypto (\<lambda>_. [7]) (\<lambda>_. [8, 9]) demo_signed_query"
    using envelope_verify_spec [of demo_crypto "\<lambda>_. [7]" "\<lambda>_. [8, 9]" demo_signed_query demo_signed_query]
    by (simp add: ver hop)
  moreover have "sender_signed demo_crypto
      (MsgSender_Section (Duty_Elder ElderDuties_Payment) \<lparr>bp_public_key = 4, bp_signature = 6\<rparr>) [8, 9]"
    by (simp add: sender_signed_def PublicKey_verify_def BlsProof_id_def BlsProof_signature_def demo_crypto_def)
  ultimately show ?thesis
    using envelope_verify_spec [of demo_crypto "\<lambda>_. [7, 7]" "\<lambda>_. [8, 9]" demo_signed_query demo_signed_query
      "MsgSender_Section (Duty_Elder ElderDuties_Payment) \<lparr>bp_public_key = 4, bp_signature = 6\<rparr>"]
    by (simp add: ver)
qed

end
