(* ===== verification/Formats.thy ===== *)
theory Formats
  imports IdentitySpec MessagingSpec
begin

text \<open>
  What the crate writes to logs: the \<open>Debug\<close> and \<open>Display\<close> texts of keys, identities, data and requests
  (src/src/keys, identity, blob.rs, map.rs, sequence/mod.rs, money.rs, messaging), and the \<open>From\<close>
  conversions between its types. Texts of types of other crates are the parameter record \<open>Texts\<close>.
\<close>

section \<open>Texts of external types\<close>

text \<open>
  \<open>tx\_hex8\<close> and \<open>tx\_hex8\_bytes\<close> are \<open>{:<8}\<close> of a \<open>HexFmt\<close>; \<open>tx\_name\<close> and \<open>tx\_bls\<close> are \<open>{:?}\<close> of a \<open>XorName\<close>
  and of a BLS public key. \<open>tx\_set\_key\<close> is the public key of a public key set.
\<close>

record Texts =
  tx_hex8 :: "XorName \<Rightarrow> string"
  tx_hex8_bytes :: "bytes \<Rightarrow> string"
  tx_name :: "XorName \<Rightarrow> string"
  tx_bls :: "BlsPublicKey \<Rightarrow> string"
  tx_set_key :: "PublicKeySet \<Rightarrow> BlsPublicKey"

section \<open>Keys\<close>

definition PublicKey_debug :: "Texts \<Rightarrow> PublicKey \<Rightarrow> string" where
  "PublicKey_debug T self =
     ''PublicKey::'' @
     (case self of
        PublicKey_Ed25519 pub_key \<Rightarrow> ''Ed25519('' @ tx_hex8 T pub_key @ '')''
      | PublicKey_Bls pub_key \<Rightarrow> ''Bls('' @ tx_hex8 T (first_32_bytes pub_key) @ '')''
      | PublicKey_BlsShare pub_key \<Rightarrow> ''BlsShare('' @ tx_hex8 T (first_32_bytes pub_key) @ '')'')"

definition PublicKey_display :: "Texts \<Rightarrow> PublicKey \<Rightarrow> string" where
  "PublicKey_display T self = PublicKey_debug T self"

definition Signature_debug :: "Signature \<Rightarrow> string" where
  "Signature_debug self =
     ''Signature::'' @
     (case self of
        Signature_Ed25519 _ \<Rightarrow> ''Ed25519(..)''
      | Signature_Bls _ \<Rightarrow> ''Bls(..)''
      | Signature_BlsShare _ \<Rightarrow> ''BlsShare(..)'')"

definition Keypair_debug :: "Keypair \<Rightarrow> string" where
  "Keypair_debug self =
     ''Keypair::'' @
     (case self of
        Keypair_Ed25519 _ \<Rightarrow> ''Ed25519(..)''
      | Keypair_Bls _ \<Rightarrow> ''Bls(..)''
      | Keypair_BlsShare _ \<Rightarrow> ''BlsShare(..)'')"

definition BlsProofShare_debug :: "Texts \<Rightarrow> BlsProofShare \<Rightarrow> string" where
  "BlsProofShare_debug T self =
     ''ProofShare { public_key: '' @ tx_bls T (tx_set_key T (bps_public_key_set self)) @
     '', index: '' @ show_dec (unat (bps_index self)) @ '', .. }''"

definition PublicKey_from_ed25519 :: "Ed25519PublicKey \<Rightarrow> PublicKey" where
  "PublicKey_from_ed25519 public_key = PublicKey_Ed25519 public_key"

definition PublicKey_from_bls :: "BlsPublicKey \<Rightarrow> PublicKey" where
  "PublicKey_from_bls public_key = PublicKey_Bls public_key"

definition PublicKey_from_bls_share :: "BlsPublicKeyShare \<Rightarrow> PublicKey" where
  "PublicKey_from_bls_share public_key = PublicKey_BlsShare public_key"

definition PublicKey_from_keypair :: "Keypair \<Rightarrow> PublicKey" where
  "PublicKey_from_keypair keypair = Keypair_public_key keypair"

definition Signature_from_bls :: "BlsSignature \<Rightarrow> Signature" where
  "Signature_from_bls sig = Signature_Bls sig"

definition Signature_from_ed25519 :: "Ed25519Signature \<Rightarrow> Signature" where
  "Signature_from_ed25519 sig = Signature_Ed25519 sig"

definition Signature_from_share :: "SignatureShare \<Rightarrow> Signature" where
  "Signature_from_share sig = Signature_BlsShare sig"

section \<open>Identities\<close>

definition ClientPublicId_debug :: "Texts \<Rightarrow> ClientPublicId \<Rightarrow> string" where
  "ClientPublicId_debug T self = ''Client('' @ PublicKey_debug T (cp_public_key self) @ '')''"

definition ClientPublicId_display :: "Texts \<Rightarrow> ClientPublicId \<Rightarrow> string" where
  "ClientPublicId_display T self = ClientPublicId_debug T self"

definition AppPublicId_debug :: "Texts \<Rightarrow> AppPublicId \<Rightarrow> string" where
  "AppPublicId_debug T self =
     ''App('' @ PublicKey_debug T (ap_public_key self) @ '', owner: '' @
     PublicKey_debug T (cp_public_key (ap_owner self)) @ '')''"

definition AppPublicId_display :: "Texts \<Rightarrow> AppPublicId \<Rightarrow> string" where
  "AppPublicId_display T self = AppPublicId_debug T self"

definition NodePublicId_debug :: "Texts \<Rightarrow> NodePublicId \<Rightarrow> string" where
  "NodePublicId_debug T self = ''Node('' @ tx_hex8 T (np_ed25519 self) @ '')''"

definition NodePublicId_display :: "Texts \<Rightarrow> NodePublicId \<Rightarrow> string" where
  "NodePublicId_display T self = NodePublicId_debug T self"

fun PublicId_debug :: "Texts \<Rightarrow> PublicId \<Rightarrow> string" where
  "PublicId_debug T (PublicId_Node pub_id) = NodePublicId_debug T pub_id"
| "PublicId_debug T (PublicId_Client pub_id) = ClientPublicId_debug T pub_id"
| "PublicId_debug T (PublicId_App pub_id) = AppPublicId_debug T pub_id"

definition PublicId_display :: "Texts \<Rightarrow> PublicId \<Rightarrow> string" where
  "PublicId_display T self = PublicId_debug T self"

text \<open>The derived \<open>Debug\<close> of the structs that hold a keypair.\<close>

definition ClientFullId_debug :: "Texts \<Rightarrow> ClientFullId \<Rightarrow> string" where
  "ClientFullId_debug T self =
     ''FullId { keypair: '' @ Keypair_debug (cf_keypair self) @ '', public_id: '' @
     ClientPublicId_debug T (cf_public_id self) @ '' }''"

definition AppFullId_debug :: "Texts \<Rightarrow> AppFullId \<Rightarrow> string" where
  "AppFullId_debug T self =
     ''FullId { keypair: '' @ Keypair_debug (af_keypair self) @ '', public_id: '' @
     AppPublicId_debug T (af_public_id self) @ '' }''"

fun SafeKey_debug :: "Texts \<Rightarrow> SafeKey \<Rightarrow> string" where
  "SafeKey_debug T (SafeKey_Client full_id) = ''Client('' @ ClientFullId_debug T full_id @ '')''"
| "SafeKey_debug T (SafeKey_App full_id) = ''App('' @ AppFullId_debug T full_id @ '')''"

section \<open>Data\<close>

definition Money_debug :: "Money \<Rightarrow> string" where
  "Money_debug self = Money_fmt self"

definition PrivateData_debug :: "Texts \<Rightarrow> PrivateData \<Rightarrow> string" where
  "PrivateData_debug T self = ''PrivateBlob '' @ tx_name T (PrivateData_name self)"

definition PublicData_debug :: "Texts \<Rightarrow> PublicData \<Rightarrow> string" where
  "PublicData_debug T self = ''PublicBloblob '' @ tx_name T (PublicData_name self)"

definition SeqData_debug :: "Texts \<Rightarrow> SeqData \<Rightarrow> string" where
  "SeqData_debug T self = ''SeqMap '' @ tx_name T (MapFlavour_name self)"

definition UnseqData_debug :: "Texts \<Rightarrow> UnseqData \<Rightarrow> string" where
  "UnseqData_debug T self = ''UnseqMap '' @ tx_name T (MapFlavour_name self)"

definition SeqValue_debug :: "Texts \<Rightarrow> SeqValue \<Rightarrow> string" where
  "SeqValue_debug T self = tx_hex8_bytes T (sv_data self) @ '' :: '' @ show_dec (unat (sv_version self))"

definition PubSeqData_debug :: "Texts \<Rightarrow> (PublicPermissions, 'c) SequenceCrdt \<Rightarrow> string" where
  "PubSeqData_debug T self = ''PubSequence '' @ tx_name T (SequenceAddress_name (sq_address self))"

definition PrivSeqData_debug :: "Texts \<Rightarrow> (PrivatePermissions, 'c) SequenceCrdt \<Rightarrow> string" where
  "PrivSeqData_debug T self = ''PrivSequence '' @ tx_name T (SequenceAddress_name (sq_address self))"

section \<open>Requests\<close>

text \<open>The derived \<open>Debug\<close> of blob addresses and of the blob enum, which the texts of requests contain.\<close>

fun BlobAddress_debug :: "Texts \<Rightarrow> BlobAddress \<Rightarrow> string" where
  "BlobAddress_debug T (BlobAddress_Private name) = ''Private('' @ tx_name T name @ '')''"
| "BlobAddress_debug T (BlobAddress_Public name) = ''Public('' @ tx_name T name @ '')''"

fun Blob_debug :: "Texts \<Rightarrow> Blob \<Rightarrow> string" where
  "Blob_debug T (Blob_Private data) = ''Private('' @ PrivateData_debug T data @ '')''"
| "Blob_debug T (Blob_Public data) = ''Public('' @ PublicData_debug T data @ '')''"

fun BlobRead_fmt :: "Texts \<Rightarrow> BlobRead \<Rightarrow> string" where
  "BlobRead_fmt T (BlobRead_Get req) = BlobAddress_debug T req"

fun BlobWrite_fmt :: "Texts \<Rightarrow> BlobWrite \<Rightarrow> string" where
  "BlobWrite_fmt T (BlobWrite_New req) = Blob_debug T req"
| "BlobWrite_fmt T (BlobWrite_DeletePrivate req) = BlobAddress_debug T req"

fun DataCmd_fmt :: "Texts \<Rightarrow> ('c, 'o) DataCmd \<Rightarrow> string" where
  "DataCmd_fmt T (DataCmd_Blob c) = BlobWrite_fmt T c"
| "DataCmd_fmt T (DataCmd_Map c) = MapWrite_fmt c"
| "DataCmd_fmt T (DataCmd_Sequence c) = SequenceWrite_fmt c"
| "DataCmd_fmt T (DataCmd_Account c) = AccountWrite_fmt c"

fun DataQuery_fmt :: "Texts \<Rightarrow> DataQuery \<Rightarrow> string" where
  "DataQuery_fmt T (DataQuery_Blob q) = BlobRead_fmt T q"
| "DataQuery_fmt T (DataQuery_Map q) = MapRead_fmt q"
| "DataQuery_fmt T (DataQuery_Sequence q) = SequenceRead_fmt q"
| "DataQuery_fmt T (DataQuery_Account q) = AccountRead_fmt q"

section \<open>Conversions\<close>

definition Blob_from_private :: "PrivateData \<Rightarrow> Blob" where
  "Blob_from_private data = Blob_Private data"

definition Blob_from_public :: "PublicData \<Rightarrow> Blob" where
  "Blob_from_public data = Blob_Public data"

definition MapValue_from_seq :: "SeqValue \<Rightarrow> MapValue" where
  "MapValue_from_seq v = MapValue_Seq v"

definition MapValue_from_bytes :: "bytes \<Rightarrow> MapValue" where
  "MapValue_from_bytes v = MapValue_Unseq v"

definition MapValues_from_seq :: "SeqValue list \<Rightarrow> MapValues" where
  "MapValues_from_seq vs = MapValues_Seq vs"

definition MapValues_from_bytes :: "bytes list \<Rightarrow> MapValues" where
  "MapValues_from_bytes vs = MapValues_Unseq vs"

definition Map_from_seq :: "SeqData \<Rightarrow> Map" where
  "Map_from_seq data = Map_Seq data"

definition Map_from_unseq :: "UnseqData \<Rightarrow> Map" where
  "Map_from_unseq data = Map_Unseq data"

definition EntryActions_from_seq :: "SeqEntryActions \<Rightarrow> EntryActions" where
  "EntryActions_from_seq entry_actions = EntryActions_Seq entry_actions"

definition EntryActions_from_unseq :: "UnseqEntryActions \<Rightarrow> EntryActions" where
  "EntryActions_from_unseq entry_actions = EntryActions_Unseq entry_actions"

definition MapEntries_from_seq :: "SeqEntries \<Rightarrow> MapEntries" where
  "MapEntries_from_seq entries = MapEntries_Seq entries"

definition MapEntries_from_unseq :: "UnseqEntries \<Rightarrow> MapEntries" where
  "MapEntries_from_unseq entries = MapEntries_Unseq entries"

definition Permissions_from_private :: "PrivatePermissions \<Rightarrow> Permissions" where
  "Permissions_from_private permissions = Permissions_Priv permissions"

definition Permissions_from_public :: "PublicPermissions \<Rightarrow> Permissions" where
  "Permissions_from_public permissions = Permissions_Public permissions"

definition UserPermissions_from_private :: "PrivUserPermissions \<Rightarrow> UserPermissions" where
  "UserPermissions_from_private permission_set = UserPermissions_Priv permission_set"

definition UserPermissions_from_public :: "PubUserPermissions \<Rightarrow> UserPermissions" where
  "UserPermissions_from_public permission_set = UserPermissions_Public permission_set"

definition Sequence_from_public :: "(PublicPermissions, 'c) SequenceCrdt \<Rightarrow> 'c Sequence" where
  "Sequence_from_public data = Sequence_Public data"

definition Sequence_from_private :: "(PrivatePermissions, 'c) SequenceCrdt \<Rightarrow> 'c Sequence" where
  "Sequence_from_private data = Sequence_Private data"

definition Data_from_blob :: "Blob \<Rightarrow> 'c Data" where
  "Data_from_blob data = Data_Immutable data"

definition Data_from_map :: "Map \<Rightarrow> 'c Data" where
  "Data_from_map data = Data_Mutable data"

definition Data_from_sequence :: "'c Sequence \<Rightarrow> 'c Data" where
  "Data_from_sequence data = Data_Sequence data"

section \<open>Logs hide secrets\<close>

text \<open>The kind of a keypair shows in its public key.\<close>

lemma Keypair_debug_public:
  assumes "Keypair_public_key k = Keypair_public_key k'"
  shows "Keypair_debug k = Keypair_debug k'"
  using assms by (cases k; cases k') (simp_all add: Keypair_debug_def)

text \<open>A key that fits a signature shows its kind.\<close>

lemma Signature_debug_fits:
  assumes "PublicKey_verify C k s d \<noteq> Err SigningKeyTypeMismatch" "PublicKey_verify C k s' d' \<noteq> Err SigningKeyTypeMismatch"
  shows "Signature_debug s = Signature_debug s'"
  using assms by (cases k; cases s; cases s') (simp_all add: Signature_debug_def PublicKey_verify_def)

text \<open>
  C37: Log output never depends on a secret. Two client or app identities, behind a \<open>SafeKey\<close>, with the
  same public identity have the same \<open>Debug\<close> text, whatever their secret keys; and the text of a
  signature says only which kind of key made it, so any two signatures that one public key could have
  made, over any data, read the same.
\<close>

theorem logs_hide_secrets:
  assumes "safe_key_wf C i" "safe_key_wf C j" "SafeKey_public_id i = SafeKey_public_id j"
    and "PublicKey_verify C k s d \<noteq> Err SigningKeyTypeMismatch" "PublicKey_verify C k s' d' \<noteq> Err SigningKeyTypeMismatch"
  shows "SafeKey_debug T i = SafeKey_debug T j \<and> Signature_debug s = Signature_debug s'"
proof -
  have "SafeKey_debug T i = SafeKey_debug T j"
    using assms(1-3)
    by (cases i; cases j)
       (auto simp: client_wf_def app_wf_def client_id_def ClientFullId_debug_def AppFullId_debug_def intro: Keypair_debug_public)
  then show ?thesis using Signature_debug_fits [OF assms(4,5)] by simp
qed

definition demo_texts :: Texts where
  "demo_texts = \<lparr>tx_hex8 = \<lambda>n. show_dec (unat n), tx_hex8_bytes = \<lambda>_. ''..'', tx_name = \<lambda>n. show_dec (unat n),
     tx_bls = \<lambda>k. show_dec (unat k), tx_set_key = \<lambda>_. 0\<rparr>"

text \<open>Two secret keys with one public key, under a degenerate scheme.\<close>

definition demo_identity :: "BlsSecretKey \<Rightarrow> SafeKey" where
  "demo_identity sk = SafeKey_Client
     \<lparr>cf_keypair = Keypair_Bls \<lparr>bk_secret = sk, bk_public = 9\<rparr>, cf_public_id = client_id (PublicKey_Bls 9)\<rparr>"

theorem logs_hide_secrets_witness:
  "SafeKey_debug demo_texts (demo_identity 1) = SafeKey_debug demo_texts (demo_identity 2) \<and>
   demo_identity 1 \<noteq> demo_identity 2"
proof
  let ?C = "demo_crypto\<lparr>bls_public_key := \<lambda>_. 9\<rparr>"
  have wf: "safe_key_wf ?C (demo_identity sk)" for sk
    by (simp add: demo_identity_def client_wf_def Keypair_wf_def)
  have "PublicKey_verify ?C (PublicKey_Bls 9) (Signature_Bls 1) [] \<noteq> Err SigningKeyTypeMismatch"
    by (simp add: PublicKey_verify_def)
  note kind = this
  show "SafeKey_debug demo_texts (demo_identity 1) = SafeKey_debug demo_texts (demo_identity 2)"
    by (rule logs_hide_secrets [OF wf wf _ kind kind, THEN conjunct1]) (simp add: demo_identity_def)
  show "demo_identity 1 \<noteq> demo_identity 2" by (simp add: demo_identity_def)
qed

end
