(* ===== verification/Conformance.thy ===== *)
theory Conformance
  imports SeqApi Formats
begin

text \<open>
  The unit tests of the crate, translated like the rest of the code and proved of the model. What a test
  draws at random or takes from another crate (keys, names, the external sequence type, hashing,
  serialisation) is an argument, so a test holds for every choice that meets the stated contract and
  not for one run only. The tests that expect a fixed text to be refused hold exactly when multibase or
  bincode refuses it, and the test of a hash value exactly when the hash function has that value.
\<close>

section \<open>Amounts\<close>

definition test_money_from_str :: bool where
  "test_money_from_str \<longleftrightarrow>
     Money_from_str ''0'' = Ok (Money 0) \<and>
     Money_from_str ''0.'' = Ok (Money 0) \<and>
     Money_from_str ''0.0'' = Ok (Money 0) \<and>
     Money_from_str ''0.000000001'' = Ok (Money 1) \<and>
     Money_from_str ''1'' = Ok (Money 1000000000) \<and>
     Money_from_str ''1.'' = Ok (Money 1000000000) \<and>
     Money_from_str ''1.0'' = Ok (Money 1000000000) \<and>
     Money_from_str ''1.000000001'' = Ok (Money 1000000001) \<and>
     Money_from_str ''1.1'' = Ok (Money 1100000000) \<and>
     Money_from_str ''1.100000001'' = Ok (Money 1100000001) \<and>
     Money_from_str ''4294967295'' = Ok (Money 4294967295000000000) \<and>
     Money_from_str ''4294967295.999999999'' = Ok (Money 4294967295999999999) \<and>
     Money_from_str ''4294967295.9999999990000'' = Ok (Money 4294967295999999999) \<and>
     Money_from_str ''a'' = Err (FailedToParse ''Can't parse Money units'') \<and>
     Money_from_str ''0.a'' = Err (FailedToParse ''Can't parse Money remainder'') \<and>
     Money_from_str ''0.0.0'' = Err (FailedToParse ''Can't parse Money remainder'') \<and>
     Money_from_str ''0.0000000009'' = Err LossOfPrecision \<and>
     Money_from_str ''18446744074'' = Err ExcessiveValue"

definition test_money_display :: bool where
  "test_money_display \<longleftrightarrow>
     Money_fmt (Money 0) = ''0.000000000'' \<and>
     Money_fmt (Money 1) = ''0.000000001'' \<and>
     Money_fmt (Money 10) = ''0.000000010'' \<and>
     Money_fmt (Money 1000000000) = ''1.000000000'' \<and>
     Money_fmt (Money 1000000001) = ''1.000000001'' \<and>
     Money_fmt (Money 4294967295000000000) = ''4294967295.000000000''"

definition test_money_checked_add_sub :: bool where
  "test_money_checked_add_sub \<longleftrightarrow>
     Money_checked_add (Money 1) (Money 2) = Some (Money 3) \<and>
     Money_checked_add (Money (- 1)) (Money 1) = None \<and>
     Money_checked_add (Money (- 1)) (Money (- 1)) = None \<and>
     Money_checked_sub (Money (- 1)) (Money (- 1)) = Some (Money 0) \<and>
     Money_checked_sub (Money 0) (Money (- 1)) = None \<and>
     Money_checked_sub (Money 10) (Money 11) = None"

lemma money_from_str_test: test_money_from_str
  unfolding test_money_from_str_def
  by (intro conjI; subst from_str_reference, simp, simp add: money_reference_def,
      simp add: unsigned_number_def trim_end_zeros_def is_dig_def dig_def)

lemma show_dec_steps:
  "n < 10 \<Longrightarrow> show_dec n = [digit_char n]"
  "10 \<le> n \<Longrightarrow> show_dec n = show_dec (n div 10) @ [digit_char (n mod 10)]"
  by (subst show_dec.simps; simp)+

lemma replicate_zeros: "replicate 8 c = [c, c, c, c, c, c, c, c]" "replicate 7 c = [c, c, c, c, c, c, c]"
  by (simp_all add: numeral_eq_Suc)

lemma money_fmt_nat: "Money_fmt (Money n) = show_dec (unat n div 1000000000) @ ''.'' @ pad9 (show_dec (unat n mod 1000000000))"
  by (simp add: Money_fmt_def MONEY_TO_RAW_CONVERSION_def unat_div unat_mod)

lemma money_display_test: test_money_display
  by (simp add: test_money_display_def money_fmt_nat show_dec_steps pad9_def digit_char_def char_of_def bit_0 replicate_zeros)

lemma money_checked_test: test_money_checked_add_sub
  by (simp add: test_money_checked_add_sub_def Money_checked_add_def Money_checked_sub_def checked_add_def checked_sub_def
      from_nano_def unsigned_minus_1_eq_mask mask_eq_exp_minus_1)

section \<open>Blobs, addresses and keys\<close>

definition test_blob_deterministic_name :: "BlobEnv \<Rightarrow> PublicKey \<Rightarrow> PublicKey \<Rightarrow> bool" where
  "test_blob_deterministic_name E owner1 owner2 \<longleftrightarrow>
     (let data1 = [72, 101, 108, 108, 111]; data2 = [71, 111, 111, 100, 98, 121, 101];
          idata1 = PrivateData_new E data1 owner1;
          idata2 = PrivateData_new E data1 owner2;
          idata3 = PrivateData_new E data2 owner1;
          idata3_clone = PrivateData_new E data2 owner1
      in idata3 = idata3_clone \<and>
         PrivateData_name idata1 \<noteq> PrivateData_name idata2 \<and>
         PrivateData_name idata1 \<noteq> PrivateData_name idata3 \<and>
         PrivateData_name idata2 \<noteq> PrivateData_name idata3)"

text \<open>The hexadecimal text of a name is the crate hex's; the expected value is SHA3-256 of the bytes.\<close>

definition test_blob_deterministic :: "BlobEnv \<Rightarrow> (XorName \<Rightarrow> string) \<Rightarrow> bool" where
  "test_blob_deterministic E hex_encode \<longleftrightarrow>
     (let value = map of_char ''immutable data value''; blob = PublicData_new E value;
          blob_name = hex_encode (PublicData_name blob)
      in blob_name = ''fac2869677ee06277633c37ac7e8e5c655f3d652f707c7a79fab930d584a3016'')"

definition test_blob_serialisation :: "BlobEnv \<Rightarrow> bytes \<Rightarrow> bool" where
  "test_blob_serialisation E value \<longleftrightarrow>
     (let blob = PublicData_new E value; serialised = serialise (PublicData_serialize E) blob
      in PublicData_deserialize E serialised = Ok blob)"

definition test_zbase32_blob_address :: "'b Multibase \<Rightarrow> (BlobAddress \<Rightarrow> bytes) \<Rightarrow> (bytes \<Rightarrow> string + BlobAddress) \<Rightarrow> XorName \<Rightarrow> bool" where
  "test_zbase32_blob_address mb ser de name \<longleftrightarrow>
     (let address = BlobAddress_Public name; encoded = BlobAddress_encode_to_zbase32 mb ser address
      in BlobAddress_decode_from_zbase32 mb de encoded = Ok address)"

definition test_zbase32_map_address :: "'b Multibase \<Rightarrow> (MapAddress \<Rightarrow> bytes) \<Rightarrow> (bytes \<Rightarrow> string + MapAddress) \<Rightarrow> XorName \<Rightarrow> bool" where
  "test_zbase32_map_address mb ser de name \<longleftrightarrow>
     (let address = MapAddress_Seq name 15000; encoded = MapAddress_encode_to_zbase32 mb ser address
      in MapAddress_decode_from_zbase32 mb de encoded = Ok address)"

definition gen_keys :: "Keypair list \<Rightarrow> PublicKey list" where
  "gen_keys keypairs = map PublicKey_from_keypair keypairs"

definition test_zbase32_public_key ::
    "'b Multibase \<Rightarrow> (PublicKey \<Rightarrow> bytes) \<Rightarrow> (bytes \<Rightarrow> string + PublicKey) \<Rightarrow> Keypair list \<Rightarrow> bool" where
  "test_zbase32_public_key mb ser de keypairs \<longleftrightarrow>
     (\<forall>key \<in> set (gen_keys keypairs). PublicKey_decode_from_zbase32 mb de (PublicKey_encode_to_zbase32 mb ser key) = Ok key)"

definition test_serialisation_public_key :: "(PublicKey \<Rightarrow> bytes) \<Rightarrow> (bytes \<Rightarrow> string + PublicKey) \<Rightarrow> Keypair list \<Rightarrow> bool" where
  "test_serialisation_public_key ser de keypairs \<longleftrightarrow>
     (\<forall>key \<in> set (gen_keys keypairs). de (serialise ser key) = Ok key)"

definition test_serialisation_key_pair ::
    "(Ed25519Keypair \<Rightarrow> bytes) \<Rightarrow> (Keypair \<Rightarrow> bytes) \<Rightarrow> (bytes \<Rightarrow> string + Keypair) \<Rightarrow> Keypair list \<Rightarrow> bool" where
  "test_serialisation_key_pair to_bytes ser de keypairs \<longleftrightarrow>
     (\<forall>keypair \<in> set keypairs. case de (serialise ser keypair) of
        Inl _ \<Rightarrow> False
      | Inr decoded \<Rightarrow> Keypair_eq to_bytes decoded keypair)"

text \<open>The inputs that the test hashes.\<close>

definition test_blob_hashed :: "BlobEnv \<Rightarrow> PublicKey \<Rightarrow> PublicKey \<Rightarrow> bytes set" where
  "test_blob_hashed E owner1 owner2 =
     (let data1 = [72, 101, 108, 108, 111]; data2 = [71, 111, 111, 100, 98, 121, 101] in
      {data1, data2, ser_contents E (sha3_256 E data1, owner1), ser_contents E (sha3_256 E data1, owner2),
       ser_contents E (sha3_256 E data2, owner1)})"

lemma blob_tests:
  assumes "blob_env_ok E"
  shows "test_blob_serialisation E value"
    and "owner1 \<noteq> owner2 \<Longrightarrow> inj_on (sha3_256 E) (test_blob_hashed E owner1 owner2) \<Longrightarrow>
      test_blob_deterministic_name E owner1 owner2"
proof -
  show "test_blob_serialisation E value"
    using assms
    by (simp add: test_blob_serialisation_def serialise_def PublicData_serialize_def PublicData_deserialize_def PublicData_new_def
        blob_env_ok_def bincode_ok_def)
  assume owners: "owner1 \<noteq> owner2" and free: "inj_on (sha3_256 E) (test_blob_hashed E owner1 owner2)"
  let ?S = "test_blob_hashed E owner1 owner2"
  let ?h1 = "sha3_256 E [72, 101, 108, 108, 111]" and ?h2 = "sha3_256 E [71, 111, 111, 100, 98, 121, 101]"
  have "?h1 \<noteq> ?h2"
    using inj_onD [OF free, of "[72, 101, 108, 108, 111]" "[71, 111, 111, 100, 98, 121, 101]"]
    by (auto simp: test_blob_hashed_def Let_def)
  moreover have "sha3_256 E (ser_contents E x) = sha3_256 E (ser_contents E y) \<longleftrightarrow> x = y"
    if "ser_contents E x \<in> ?S" "ser_contents E y \<in> ?S" for x y
    using inj_onD [OF free _ that] assms by (auto simp: blob_env_ok_def dest: injD)
  moreover have "ser_contents E (?h1, owner1) \<in> ?S" "ser_contents E (?h1, owner2) \<in> ?S" "ser_contents E (?h2, owner1) \<in> ?S"
    by (simp_all add: test_blob_hashed_def Let_def)
  ultimately show "test_blob_deterministic_name E owner1 owner2"
    using owners by (simp add: test_blob_deterministic_name_def PrivateData_name_def PrivateData_new_def Let_def serialise_def)
qed

text \<open>The name of a public blob is the hash of its bytes, so that test is one of the hash function alone.\<close>

lemma blob_deterministic_test:
  "test_blob_deterministic E hex_encode \<longleftrightarrow>
     hex_encode (sha3_256 E (map of_char ''immutable data value'')) =
       ''fac2869677ee06277633c37ac7e8e5c655f3d652f707c7a79fab930d584a3016''"
  by (simp add: test_blob_deterministic_def PublicData_name_def PublicData_new_def Let_def)

lemma codec_tests:
  assumes "multibase_ok mb"
  shows "bincode_ok sb db \<Longrightarrow> test_zbase32_blob_address mb sb db name"
    and "bincode_ok sm dm \<Longrightarrow> test_zbase32_map_address mb sm dm name"
    and "bincode_ok sk dk \<Longrightarrow> test_zbase32_public_key mb sk dk keypairs"
    and "bincode_ok sk dk \<Longrightarrow> test_serialisation_public_key sk dk keypairs"
    and "bincode_ok sp dp \<Longrightarrow> test_serialisation_key_pair to_bytes sp dp keypairs"
proof -
  have "Keypair_eq to_bytes k k" for k by (cases k) simp_all
  then show "bincode_ok sp dp \<Longrightarrow> test_serialisation_key_pair to_bytes sp dp keypairs"
    by (simp add: test_serialisation_key_pair_def serialise_def bincode_ok_def)
qed (simp_all add: test_zbase32_blob_address_def test_zbase32_map_address_def test_zbase32_public_key_def
    test_serialisation_public_key_def BlobAddress_encode_to_zbase32_def BlobAddress_decode_from_zbase32_def
    MapAddress_encode_to_zbase32_def MapAddress_decode_from_zbase32_def PublicKey_encode_to_zbase32_def
    PublicKey_decode_from_zbase32_def decode_encode [OF assms] serialise_def bincode_ok_def)

section \<open>Texts of identities\<close>

text \<open>
  The generators and the shares of a random key set are arguments. The fixed texts that the tests expect
  to be refused are decoded by multibase, so the tests hold exactly when it and bincode refuse them.
\<close>

definition test_zbase32_client_public_id ::
    "'b Multibase \<Rightarrow> (PublicKey \<Rightarrow> bytes) \<Rightarrow> (bytes \<Rightarrow> string + PublicKey) \<Rightarrow>
     (Ed25519PublicKey \<times> BlsPublicKeyShare option \<Rightarrow> bytes) \<Rightarrow> ('r \<Rightarrow> Ed25519Keypair \<times> 'r) \<Rightarrow> 'r \<Rightarrow> bool" where
  "test_zbase32_client_public_id mb ser de ser_node generate rng \<longleftrightarrow>
     (let (id, rng') = ClientFullId_new_ed25519 generate rng; (node_id, rng'') = NodeFullId_new generate rng' in
      ClientPublicId_decode_from_zbase32 mb de (ClientPublicId_encode_to_zbase32 mb ser (ClientFullId_public_id id)) =
        Ok (ClientFullId_public_id id) \<and>
      (case ClientPublicId_decode_from_zbase32 mb de
              (NodePublicId_encode_to_zbase32 mb ser_node (NodeFullId_public_id node_id)) of
         Inl (FailedToParse _) \<Rightarrow> True
       | _ \<Rightarrow> False) \<and>
      isl (ClientPublicId_decode_from_zbase32 mb de ''sdkjf832939fjs''))"

definition test_zbase32_node_public_id ::
    "'b Multibase \<Rightarrow> (Ed25519PublicKey \<times> BlsPublicKeyShare option \<Rightarrow> bytes) \<Rightarrow>
     (bytes \<Rightarrow> string + Ed25519PublicKey \<times> BlsPublicKeyShare option) \<Rightarrow> Crypto \<Rightarrow> BlsSecretKeyShare \<Rightarrow> PublicKeySet \<Rightarrow>
     ('r \<Rightarrow> Ed25519Keypair \<times> 'r) \<Rightarrow> 'r \<Rightarrow> bool" where
  "test_zbase32_node_public_id mb ser de C share public_keys generate rng \<longleftrightarrow>
     (let (id, rng') = NodeFullId_new generate rng; id' = NodeFullId_set_bls_keys C id share public_keys in
      NodePublicId_decode_from_zbase32 mb de (NodePublicId_encode_to_zbase32 mb ser (NodeFullId_public_id id')) =
        Ok (NodeFullId_public_id id') \<and>
      isl (NodePublicId_decode_from_zbase32 mb de ''7djsk38''))"

definition test_zbase32_app_public_id ::
    "'b Multibase \<Rightarrow> (AppPublicId \<Rightarrow> bytes) \<Rightarrow> (bytes \<Rightarrow> string + AppPublicId) \<Rightarrow> ('r \<Rightarrow> Ed25519Keypair \<times> 'r) \<Rightarrow> 'r \<Rightarrow> bool" where
  "test_zbase32_app_public_id mb ser de generate rng \<longleftrightarrow>
     (let (owner, rng') = ClientFullId_new_ed25519 generate rng;
          (id, rng'') = AppFullId_new_ed25519 generate rng' (ClientFullId_public_id owner) in
      AppPublicId_decode_from_zbase32 mb de (AppPublicId_encode_to_zbase32 mb ser (AppFullId_public_id id)) =
        Ok (AppFullId_public_id id) \<and>
      isl (AppPublicId_decode_from_zbase32 mb de ''7od8fh2''))"

definition test_zbase32_enum_public_id ::
    "'b Multibase \<Rightarrow> (PublicId \<Rightarrow> bytes) \<Rightarrow> (bytes \<Rightarrow> string + PublicId) \<Rightarrow> ('r \<Rightarrow> Ed25519Keypair \<times> 'r) \<Rightarrow> 'r \<Rightarrow> bool" where
  "test_zbase32_enum_public_id mb ser de generate rng \<longleftrightarrow>
     (let id = PublicId_Client (ClientFullId_public_id (fst (ClientFullId_new_ed25519 generate rng))) in
      PublicId_decode_from_zbase32 mb de (PublicId_encode_to_zbase32 mb ser id) = Ok id \<and>
      isl (PublicId_decode_from_zbase32 mb de ''c419cxim9''))"

text \<open>A text is refused when multibase refuses it, reads another base, or bincode refuses the bytes.\<close>

definition refused :: "'b Multibase \<Rightarrow> (bytes \<Rightarrow> string + 'a) \<Rightarrow> string \<Rightarrow> bool" where
  "refused mb de t \<longleftrightarrow> (\<forall>bs. mb_decode mb t = Ok (mb_Base32z mb, bs) \<longrightarrow> isl (de bs))"

lemma isl_results: "isl (map_err f r) \<longleftrightarrow> isl r" "isl (and_then r g) \<longleftrightarrow> isl r \<or> isl (g (projr r))"
  by (cases r; simp)+

lemma refused_decode: "isl (decode mb de t) \<longleftrightarrow> refused mb de t"
  by (cases "mb_decode mb t") (auto simp: decode_def refused_def isl_results)

lemma refused_client: "refused mb (ClientPublicId_deserialize de) t \<longleftrightarrow> refused mb de t"
  by (simp add: refused_def ClientPublicId_deserialize_def isl_results Let_def)

lemma refused_node: "refused mb (NodePublicId_deserialize de) t \<longleftrightarrow> refused mb de t"
  by (simp add: refused_def NodePublicId_deserialize_def isl_results Let_def split_beta)

lemma decode_written:
  assumes "multibase_ok mb"
  shows "decode mb de (encode mb ser x) = map_err FailedToParse (de (ser x))"
  using assms by (simp add: decode_def encode_def serialise_def multibase_ok_def)

lemma identity_tests:
  assumes "multibase_ok mb" "bincode_ok sk dk" "bincode_ok sn dn"
    and "\<And>x. cp_name (ap_owner x) = PublicKey_to_xorname (cp_public_key (ap_owner x)) \<Longrightarrow> da (sa x) = Ok x"
    and "\<And>c. cp_name c = PublicKey_to_xorname (cp_public_key c) \<Longrightarrow> dp (sp (PublicId_Client c)) = Ok (PublicId_Client c)"
  shows "test_zbase32_client_public_id mb sk dk sn generate rng \<longleftrightarrow>
      isl (dk (sn (ed_public (fst (generate (snd (generate rng)))), None))) \<and> refused mb dk ''sdkjf832939fjs''"
    "test_zbase32_node_public_id mb sn dn C share public_keys generate rng \<longleftrightarrow> refused mb dn ''7djsk38''"
    "test_zbase32_app_public_id mb sa da generate rng \<longleftrightarrow> refused mb da ''7od8fh2''"
    "test_zbase32_enum_public_id mb sp dp generate rng \<longleftrightarrow> refused mb dp ''c419cxim9''"
proof -
  note ids = ClientFullId_new_ed25519_def NodeFullId_new_def AppFullId_new_ed25519_def AppFullId_new_def Keypair_new_ed25519_def
    ClientFullId_public_id_def NodeFullId_public_id_def AppFullId_public_id_def NodeFullId_set_bls_keys_def split_beta Let_def
  have own: "dk (sk k) = Ok k" "dn (sn n) = Ok n" for k n using assms(2,3) unfolding bincode_ok_def by blast+
  have client: "dk bs = r \<Longrightarrow> ClientPublicId_deserialize dk bs =
      and_then r (\<lambda>k. Ok \<lparr>cp_name = PublicKey_to_xorname k, cp_public_key = k\<rparr>)" for bs r
    by (simp add: ClientPublicId_deserialize_def Let_def)
  have node: "NodePublicId_deserialize dn (sn (k, b)) = Ok \<lparr>np_name = PublicKey_to_xorname (PublicKey_Ed25519 k), np_ed25519 = k, np_bls = b\<rparr>" for k b
    by (simp add: NodePublicId_deserialize_def own)
  show "test_zbase32_client_public_id mb sk dk sn generate rng \<longleftrightarrow>
      isl (dk (sn (ed_public (fst (generate (snd (generate rng)))), None))) \<and> refused mb dk ''sdkjf832939fjs''"
    by (cases "dk (sn (ed_public (fst (generate (snd (generate rng)))), None))")
       (simp_all add: test_zbase32_client_public_id_def ids own ClientPublicId_decode_from_zbase32_def
          ClientPublicId_encode_to_zbase32_def NodePublicId_encode_to_zbase32_def decode_written [OF assms(1)]
          ClientPublicId_serialize_def NodePublicId_serialize_def client refused_decode refused_client)
  show "test_zbase32_node_public_id mb sn dn C share public_keys generate rng \<longleftrightarrow> refused mb dn ''7djsk38''"
    by (simp add: test_zbase32_node_public_id_def ids own NodePublicId_decode_from_zbase32_def NodePublicId_encode_to_zbase32_def
        decode_written [OF assms(1)] NodePublicId_serialize_def node
        refused_decode refused_node del: PublicKey_to_xorname.simps)
  show "test_zbase32_app_public_id mb sa da generate rng \<longleftrightarrow> refused mb da ''7od8fh2''"
    by (simp add: test_zbase32_app_public_id_def ids AppPublicId_decode_from_zbase32_def AppPublicId_encode_to_zbase32_def
        decode_written [OF assms(1)] assms(4) refused_decode)
  show "test_zbase32_enum_public_id mb sp dp generate rng \<longleftrightarrow> refused mb dp ''c419cxim9''"
    by (simp add: test_zbase32_enum_public_id_def ids PublicId_decode_from_zbase32_def PublicId_encode_to_zbase32_def
        decode_written [OF assms(1)] assms(5) refused_decode)
qed

section \<open>Accounts and responses\<close>

definition test_account_exceed_size_limit :: "Crypto \<Rightarrow> ClientFullId \<Rightarrow> XorName \<Rightarrow> bool" where
  "test_account_exceed_size_limit C our_id address \<longleftrightarrow>
     (let acc_data = replicate (unat (MAX_LOGIN_PACKET_BYTES + 1)) 0; signature = ClientFullId_sign C our_id acc_data
      in case Account_new address (ClientPublicId_public_key (ClientFullId_public_id our_id)) acc_data signature of
           Inl e \<Rightarrow> e = ExceededSize
         | Inr _ \<Rightarrow> False)"

definition test_account_valid :: "Crypto \<Rightarrow> ClientFullId \<Rightarrow> XorName \<Rightarrow> bool" where
  "test_account_valid C our_id address \<longleftrightarrow>
     (let acc_data = replicate 16 1; signature = ClientFullId_sign C our_id acc_data
      in case Account_new address (ClientPublicId_public_key (ClientFullId_public_id our_id)) acc_data signature of
           Inl _ \<Rightarrow> False
         | Inr ad \<Rightarrow> Account_data ad = acc_data)"

text \<open>\<open>dbg\<close> is the derived \<open>Debug\<close> of \<open>Error\<close>.\<close>

definition test_response_debug_format :: "(Error \<Rightarrow> string) \<Rightarrow> bool" where
  "test_response_debug_format dbg \<longleftrightarrow>
     QueryResponse_fmt dbg (QueryResponse_GetSequence (Err AccessDenied) :: unit QueryResponse) =
       ''QueryResponse::GetSequence(AccessDenied)''"

definition test_response_try_from :: "BlobEnv \<Rightarrow> PublicKey \<Rightarrow> bool" where
  "test_response_try_from E owners \<longleftrightarrow>
     (let i_data = Blob_Public (PublicData_new E [1, 3, 1, 4]); e = AccessDenied;
          data = bt_insert [1] [10] bt_new;
          m_data = Map_Unseq (UnseqData_new_with_data (Blob_name i_data) 1 data Map.empty owners)
      in Blob_try_from (QueryResponse_GetBlob (Ok i_data) :: unit QueryResponse) = Ok i_data \<and>
         Blob_try_from (QueryResponse_GetBlob (Err e) :: unit QueryResponse) = Err (TryFromError_Response e) \<and>
         Map_try_from (QueryResponse_GetMap (Ok m_data) :: unit QueryResponse) = Ok m_data \<and>
         Map_try_from (QueryResponse_GetMap (Err e) :: unit QueryResponse) = Err (TryFromError_Response e))"

lemma account_tests: "test_account_exceed_size_limit C our_id address" "test_account_valid C our_id address"
  by (simp_all add: test_account_exceed_size_limit_def test_account_valid_def Account_new_def Account_size_is_valid_def
      MAX_LOGIN_PACKET_BYTES_def Let_def Account_data_def)

lemma response_tests:
  "dbg AccessDenied = ''AccessDenied'' \<Longrightarrow> test_response_debug_format dbg"
  "test_response_try_from E owners"
  by (simp_all add: test_response_debug_format_def test_response_try_from_def ErrorDebug_fmt_def Let_def Blob_try_from_def
      Map_try_from_def try_from_def)

section \<open>Sequences\<close>

text \<open>Two appends on one replica reach a second replica in the opposite order.\<close>

context unique_lseq begin

lemma swapped_appends:
  assumes "ls_append L (ls_new L a LSEQ_TREE_BASE LSEQ_BOUNDARY) v = (s1, x)" "ls_append L s1 w = (s2, y)"
  shows "ls_iter L s2 = [v, w] \<and>
    ls_iter L (ls_apply L x (ls_apply L y (ls_new L a' LSEQ_TREE_BASE LSEQ_BOUNDARY))) = [v, w] \<and>
    ls_is_insert L x \<and> ls_is_insert L y"
proof -
  let ?new = "\<lambda>a. ls_new L a LSEQ_TREE_BASE LSEQ_BOUNDARY"
  have app: "ls_apply L x (?new a) = s1" "ls_apply L y s1 = s2"
    using apply_append [of "?new a" v] apply_append [of s1 w] assms by simp_all
  have ins: "ls_is_insert L x" "ls_is_insert L y"
    using insert_append [of "?new a" v] insert_append [of s1 w] assms by simp_all
  have iter: "ls_iter L s2 = [v, w]"
    using iter_append [of "?new a" v] iter_append [of s1 w] iter_new assms by simp
  have "unrelated hb y x"
    using unique [of "[x]" "[]" a a v w] ins(1) assms app(1) by (simp add: ls_built_def)
  then have "ls_apply L x (ls_apply L y (?new a)) = s2"
    using commute [of x y "?new a"] app by (auto simp: unrelated_def)
  then have "ls_iter L (ls_apply L x (ls_apply L y (?new a'))) = [v, w]"
    using actor_free [of "[y, x]" a' LSEQ_TREE_BASE LSEQ_BOUNDARY a] iter by simp
  with ins iter show ?thesis by simp
qed

end

definition test_sequence_create_public :: "('c, 'o) SeqBackends \<Rightarrow> PublicKey \<Rightarrow> XorName \<Rightarrow> bool" where
  "test_sequence_create_public SB actor sequence_name \<longleftrightarrow>
     (let sequence = Sequence_new_pub SB actor sequence_name 43000;
          sequence_address = SequenceAddress_from_kind SequenceKind_Public sequence_name 43000
      in Sequence_kind sequence = SequenceKind_Public \<and> Sequence_name sequence = sequence_name \<and>
         Sequence_tag sequence = 43000 \<and> Sequence_is_pub sequence \<and> \<not> Sequence_is_private sequence \<and>
         Sequence_address sequence = sequence_address)"

definition test_sequence_create_private :: "('c, 'o) SeqBackends \<Rightarrow> PublicKey \<Rightarrow> XorName \<Rightarrow> bool" where
  "test_sequence_create_private SB actor sequence_name \<longleftrightarrow>
     (let sequence = Sequence_new_private SB actor sequence_name 43000;
          sequence_address = SequenceAddress_from_kind SequenceKind_Private sequence_name 43000
      in Sequence_kind sequence = SequenceKind_Private \<and> Sequence_name sequence = sequence_name \<and>
         Sequence_tag sequence = 43000 \<and> \<not> Sequence_is_pub sequence \<and> Sequence_is_private sequence \<and>
         Sequence_address sequence = sequence_address)"

definition test_sequence_append_entry_and_apply :: "('c, 'o) SeqBackends \<Rightarrow> PublicKey \<Rightarrow> XorName \<Rightarrow> bool" where
  "test_sequence_append_entry_and_apply SB actor sequence_name \<longleftrightarrow>
     (let entry1 = [118, 97, 108, 117, 101, 48]; entry2 = [118, 97, 108, 117, 101, 49];
          (replica1, op1) = Sequence_append SB (Sequence_new_pub SB actor sequence_name 43000) entry1;
          (replica1, op2) = Sequence_append SB replica1 entry2;
          replica2 = Sequence_apply_crdt_op SB (Sequence_new_pub SB actor sequence_name 43000) (wo_crdt_op op2);
          replica2 = Sequence_apply_crdt_op SB replica2 (wo_crdt_op op1);
          index_0 = FromStart 0; index_1 = FromStart 1
      in Sequence_entries_index SB replica1 = 2 \<and> Sequence_entries_index SB replica2 = 2 \<and>
         Sequence_get SB replica1 index_0 = Some entry1 \<and> Sequence_get SB replica1 index_0 = Sequence_get SB replica2 index_0 \<and>
         Sequence_get SB replica1 index_1 = Some entry2 \<and> Sequence_get SB replica1 index_1 = Sequence_get SB replica2 index_1 \<and>
         Sequence_last_entry SB replica1 = Some entry2 \<and> Sequence_last_entry SB replica1 = Sequence_last_entry SB replica2)"

text \<open>One of the checks on permissions, and on owners, that these tests repeat for two indices.\<close>

definition check_pub_entry ::
    "('c, 'o) SeqBackends \<Rightarrow> 'c Sequence \<Rightarrow> 'c Sequence \<Rightarrow> (User \<rightharpoonup> PubUserPermissions) \<Rightarrow> User \<Rightarrow> PubUserPermissions \<Rightarrow> Index \<Rightarrow> bool" where
  "check_pub_entry SB replica1 replica2 perms user user_perms index \<longleftrightarrow>
     (case Sequence_pub_permissions SB replica1 index of
        Inl _ \<Rightarrow> False
      | Inr entry \<Rightarrow>
          pup_permissions entry = perms \<and> pup_entries_index entry = 0 \<and> pup_owners_index entry = 0 \<and>
          Sequence_pub_permissions SB replica2 index = Ok entry \<and>
          Sequence_user_permissions SB replica1 user index = Ok (UserPermissions_Public user_perms))"

definition check_private_entry ::
    "('c, 'o) SeqBackends \<Rightarrow> 'c Sequence \<Rightarrow> 'c Sequence \<Rightarrow> (PublicKey \<rightharpoonup> PrivUserPermissions) \<Rightarrow> PublicKey \<Rightarrow> PrivUserPermissions \<Rightarrow> Index \<Rightarrow> bool" where
  "check_private_entry SB replica1 replica2 perms user user_perms index \<longleftrightarrow>
     (case Sequence_private_permissions SB replica1 index of
        Inl _ \<Rightarrow> False
      | Inr entry \<Rightarrow>
          prp_permissions entry = perms \<and> prp_entries_index entry = 0 \<and> prp_owners_index entry = 0 \<and>
          Sequence_private_permissions SB replica2 index = Ok entry \<and>
          Sequence_user_permissions SB replica1 (User_Key user) index = Ok (UserPermissions_Priv user_perms))"

definition check_owner_entry :: "('c, 'o) SeqBackends \<Rightarrow> 'c Sequence \<Rightarrow> 'c Sequence \<Rightarrow> PublicKey \<Rightarrow> Index \<Rightarrow> bool" where
  "check_owner_entry SB replica1 replica2 owner index \<longleftrightarrow>
     (case Sequence_owner SB replica1 index of
        None \<Rightarrow> False
      | Some entry \<Rightarrow>
          ow_public_key entry = owner \<and> ow_entries_index entry = 0 \<and> ow_permissions_index entry = 0 \<and>
          Sequence_owner SB replica2 index = Some entry)"

definition test_sequence_public_append_perms_and_apply :: "('c, 'o) SeqBackends \<Rightarrow> PublicKey \<Rightarrow> XorName \<Rightarrow> bool" where
  "test_sequence_public_append_perms_and_apply SB actor sequence_name \<longleftrightarrow>
     (let user_perms1 = PubUserPermissions_new (Some True) (Some False); perms1 = [User_Anyone \<mapsto> user_perms1];
          user_perms2 = PubUserPermissions_new (Some False) (Some True); perms2 = [User_Key actor \<mapsto> user_perms2];
          (replica1, r1) = Sequence_set_pub_permissions SB (Sequence_new_pub SB actor sequence_name 43000) perms1;
          (replica1, r2) = Sequence_set_pub_permissions SB replica1 perms2
      in case (r1, r2) of
           (Inr op1, Inr op2) \<Rightarrow>
             (let (replica2, a2) = Sequence_apply_crdt_pub_perms_op SB (Sequence_new_pub SB actor sequence_name 43000) (wo_crdt_op op2);
                  (replica2, a1) = Sequence_apply_crdt_pub_perms_op SB replica2 (wo_crdt_op op1)
              in is_ok a2 \<and> is_ok a1 \<and> Sequence_permissions_index SB replica1 = 2 \<and> Sequence_permissions_index SB replica2 = 2 \<and>
                 check_pub_entry SB replica1 replica2 perms1 User_Anyone user_perms1 (FromStart 0) \<and>
                 check_pub_entry SB replica1 replica2 perms2 (User_Key actor) user_perms2 (FromStart 1))
         | _ \<Rightarrow> False)"

definition test_sequence_private_append_perms_and_apply :: "('c, 'o) SeqBackends \<Rightarrow> PublicKey \<Rightarrow> PublicKey \<Rightarrow> XorName \<Rightarrow> bool" where
  "test_sequence_private_append_perms_and_apply SB actor1 actor2 sequence_name \<longleftrightarrow>
     (let user_perms1 = PrivUserPermissions_new True False True; perms1 = [actor1 \<mapsto> user_perms1];
          user_perms2 = PrivUserPermissions_new False True False; perms2 = [actor2 \<mapsto> user_perms2];
          (replica1, r1) = Sequence_set_private_permissions SB (Sequence_new_private SB actor1 sequence_name 43000) perms1;
          (replica1, r2) = Sequence_set_private_permissions SB replica1 perms2
      in case (r1, r2) of
           (Inr op1, Inr op2) \<Rightarrow>
             (let (replica2, a2) = Sequence_apply_crdt_private_perms_op SB (Sequence_new_private SB actor2 sequence_name 43000) (wo_crdt_op op2);
                  (replica2, a1) = Sequence_apply_crdt_private_perms_op SB replica2 (wo_crdt_op op1)
              in is_ok a2 \<and> is_ok a1 \<and> Sequence_permissions_index SB replica1 = 2 \<and> Sequence_permissions_index SB replica2 = 2 \<and>
                 check_private_entry SB replica1 replica2 perms1 actor1 user_perms1 (FromStart 0) \<and>
                 check_private_entry SB replica1 replica2 perms2 actor2 user_perms2 (FromStart 1))
         | _ \<Rightarrow> False)"

definition test_sequence_append_owner_and_apply :: "('c, 'o) SeqBackends \<Rightarrow> PublicKey \<Rightarrow> PublicKey \<Rightarrow> PublicKey \<Rightarrow> XorName \<Rightarrow> bool" where
  "test_sequence_append_owner_and_apply SB actor owner1 owner2 sequence_name \<longleftrightarrow>
     (let (replica1, op1) = Sequence_set_owner SB (Sequence_new_pub SB actor sequence_name 43000) owner1;
          (replica1, op2) = Sequence_set_owner SB replica1 owner2;
          replica2 = Sequence_apply_crdt_owner_op SB (Sequence_new_pub SB actor sequence_name 43000) (wo_crdt_op op2);
          replica2 = Sequence_apply_crdt_owner_op SB replica2 (wo_crdt_op op1)
      in Sequence_owners_index SB replica1 = 2 \<and> Sequence_owners_index SB replica2 = 2 \<and>
         check_owner_entry SB replica1 replica2 owner1 (FromStart 0) \<and>
         check_owner_entry SB replica1 replica2 owner2 (FromStart 1) \<and>
         is_ok (Sequence_check_is_last_owner SB replica1 owner2) \<and> is_ok (Sequence_check_is_last_owner SB replica2 owner2))"

lemma create_tests: "test_sequence_create_public SB actor name" "test_sequence_create_private SB actor name"
  by (simp_all add: test_sequence_create_public_def test_sequence_create_private_def Sequence_new_pub_def
      Sequence_new_private_def SequenceCrdt_new_def Sequence_kind_def Sequence_name_def Sequence_tag_def Sequence_is_pub_def
      Sequence_is_private_def SequenceKind_is_pub_def SequenceKind_is_private_def Let_def)

text \<open>The core of the other tests: the views of the two replicas.\<close>

lemma swapped_views:
  assumes "backend_unique B he hp ho"
  shows "SequenceCrdt_append B (SequenceCrdt_new B a addr) v = (d1, x) \<Longrightarrow> SequenceCrdt_append B d1 w = (d2, y) \<Longrightarrow>
      let e = SequenceCrdt_apply_crdt_op B (SequenceCrdt_apply_crdt_op B (SequenceCrdt_new B a' addr) y) x in
      seq_view B d2 = \<lparr>vw_address = addr, vw_entries = [v, w], vw_perms = [], vw_owners = []\<rparr> \<and> seq_view B e = seq_view B d2"
    and "SequenceCrdt_append_permissions B (SequenceCrdt_new B a addr) p = (d1, xp) \<Longrightarrow>
      SequenceCrdt_append_permissions B d1 q = (d2, yp) \<Longrightarrow>
      let e = SequenceCrdt_apply_crdt_perms_op B (SequenceCrdt_apply_crdt_perms_op B (SequenceCrdt_new B a' addr) yp) xp in
      seq_view B d2 = \<lparr>vw_address = addr, vw_entries = [], vw_perms = [p, q], vw_owners = []\<rparr> \<and> seq_view B e = seq_view B d2 \<and>
      ls_is_insert (be_perms B) xp \<and> ls_is_insert (be_perms B) yp"
    and "SequenceCrdt_append_owner B (SequenceCrdt_new B a addr) k = (d1, xo) \<Longrightarrow>
      SequenceCrdt_append_owner B d1 l = (d2, yo) \<Longrightarrow>
      let e = SequenceCrdt_apply_crdt_owner_op B (SequenceCrdt_apply_crdt_owner_op B (SequenceCrdt_new B a' addr) yo) xo in
      seq_view B d2 = \<lparr>vw_address = addr, vw_entries = [], vw_perms = [],
        vw_owners = [\<lparr>ow_public_key = k, ow_entries_index = 0, ow_permissions_index = 0\<rparr>,
          \<lparr>ow_public_key = l, ow_entries_index = 0, ow_permissions_index = 0\<rparr>]\<rparr> \<and> seq_view B e = seq_view B d2"
proof -
  note U = backend_uniqueD(1-3) [OF assms] and laws = backend_uniqueD(4) [OF assms]
  have new: "ls_iter (be_entries B) (ls_new (be_entries B) b s t) = []" "ls_iter (be_perms B) (ls_new (be_perms B) b s t) = []"
      "ls_iter (be_owners B) (ls_new (be_owners B) b s t) = []" for b s t
    using laws lseq.iter_new [of "be_entries B" he] lseq.iter_new [of "be_perms B" hp] lseq.iter_new [of "be_owners B" ho]
    by (simp_all add: backend_laws_def)
  have ix: "SequenceCrdt_entries_index B (SequenceCrdt_new B b addr) = 0" "SequenceCrdt_permissions_index B (SequenceCrdt_new B b addr) = 0" for b
    by (simp_all add: view_writes [OF laws])
  show "SequenceCrdt_append B (SequenceCrdt_new B a addr) v = (d1, x) \<Longrightarrow> SequenceCrdt_append B d1 w = (d2, y) \<Longrightarrow>
      let e = SequenceCrdt_apply_crdt_op B (SequenceCrdt_apply_crdt_op B (SequenceCrdt_new B a' addr) y) x in
      seq_view B d2 = \<lparr>vw_address = addr, vw_entries = [v, w], vw_perms = [], vw_owners = []\<rparr> \<and> seq_view B e = seq_view B d2"
    using unique_lseq.swapped_appends [OF U(1), of a v _ x w _ y a']
    by (auto simp: SequenceCrdt_append_def SequenceCrdt_apply_crdt_op_def SequenceCrdt_new_def seq_view_def new apfst_def map_prod_def
        split: prod.splits)
  show "SequenceCrdt_append_permissions B (SequenceCrdt_new B a addr) p = (d1, xp) \<Longrightarrow>
      SequenceCrdt_append_permissions B d1 q = (d2, yp) \<Longrightarrow>
      let e = SequenceCrdt_apply_crdt_perms_op B (SequenceCrdt_apply_crdt_perms_op B (SequenceCrdt_new B a' addr) yp) xp in
      seq_view B d2 = \<lparr>vw_address = addr, vw_entries = [], vw_perms = [p, q], vw_owners = []\<rparr> \<and> seq_view B e = seq_view B d2 \<and>
      ls_is_insert (be_perms B) xp \<and> ls_is_insert (be_perms B) yp"
    using unique_lseq.swapped_appends [OF U(2), of a p _ xp q _ yp a']
    by (auto simp: SequenceCrdt_append_permissions_def SequenceCrdt_apply_crdt_perms_op_def SequenceCrdt_new_def seq_view_def new
        apfst_def map_prod_def split: prod.splits)
  let ?o = "\<lambda>k. \<lparr>ow_public_key = k, ow_entries_index = 0, ow_permissions_index = 0\<rparr>"
  show "SequenceCrdt_append_owner B (SequenceCrdt_new B a addr) k = (d1, xo) \<Longrightarrow>
      SequenceCrdt_append_owner B d1 l = (d2, yo) \<Longrightarrow>
      let e = SequenceCrdt_apply_crdt_owner_op B (SequenceCrdt_apply_crdt_owner_op B (SequenceCrdt_new B a' addr) yo) xo in
      seq_view B d2 = \<lparr>vw_address = addr, vw_entries = [], vw_perms = [], vw_owners = [?o k, ?o l]\<rparr> \<and> seq_view B e = seq_view B d2"
    using unique_lseq.swapped_appends [OF U(3), of a "?o k" _ xo "?o l" _ yo a'] ix
    by (auto simp: SequenceCrdt_append_owner_def SequenceCrdt_apply_crdt_owner_op_def SequenceCrdt_new_def seq_view_def new
        SequenceCrdt_entries_index_def SequenceCrdt_permissions_index_def apfst_def map_prod_def split: prod.splits)
qed

lemma sequence_entry_test:
  assumes "backend_unique (sb_pub SB) he hu ho"
  shows "test_sequence_append_entry_and_apply SB actor name"
proof -
  let ?B = "sb_pub SB" and ?new = "SequenceCrdt_new (sb_pub SB) actor (SequenceAddress_Public name 43000)"
  let ?v = "[118, 97, 108, 117, 101, 48] :: bytes" and ?w = "[118, 97, 108, 117, 101, 49] :: bytes"
  note laws = backend_uniqueD(4) [OF assms]
  obtain d1 x where 1: "SequenceCrdt_append ?B ?new ?v = (d1, x)" by (cases "SequenceCrdt_append ?B ?new ?v")
  obtain d2 y where 2: "SequenceCrdt_append ?B d1 ?w = (d2, y)" by (cases "SequenceCrdt_append ?B d1 ?w")
  define e where "e = SequenceCrdt_apply_crdt_op ?B (SequenceCrdt_apply_crdt_op ?B ?new y) x"
  have view: "seq_view ?B d2 = \<lparr>vw_address = SequenceAddress_Public name 43000, vw_entries = [?v, ?w], vw_perms = [], vw_owners = []\<rparr>"
      "seq_view ?B e = seq_view ?B d2"
    using swapped_views(1) [OF assms 1 2, of actor] by (simp_all add: e_def Let_def)
  have fit: "fits (seq_view ?B d2)" by (simp add: view(1) fits_def)
  note reads = view_reads [OF laws fit] view_reads [OF laws, of e, unfolded view(2), OF fit]
  show ?thesis
    by (simp add: test_sequence_append_entry_and_apply_def Sequence_new_pub_def Let_def 1 2 e_def [symmetric] view_writes(5) [OF laws]
        view reads)
qed

lemma sequence_pub_perms_test:
  assumes "backend_unique (sb_pub SB) he hu ho"
  shows "test_sequence_public_append_perms_and_apply SB actor name"
proof -
  let ?B = "sb_pub SB" and ?new = "SequenceCrdt_new (sb_pub SB) actor (SequenceAddress_Public name 43000)"
  let ?p = "\<lparr>pup_permissions = [User_Anyone \<mapsto> PubUserPermissions_new (Some True) (Some False)], pup_entries_index = 0, pup_owners_index = 0\<rparr>"
  let ?q = "\<lparr>pup_permissions = [User_Key actor \<mapsto> PubUserPermissions_new (Some False) (Some True)], pup_entries_index = 0, pup_owners_index = 0\<rparr>"
  note laws = backend_uniqueD(4) [OF assms]
  obtain d1 x where 1: "SequenceCrdt_append_permissions ?B ?new ?p = (d1, x)" by (cases "SequenceCrdt_append_permissions ?B ?new ?p")
  obtain d2 y where 2: "SequenceCrdt_append_permissions ?B d1 ?q = (d2, y)" by (cases "SequenceCrdt_append_permissions ?B d1 ?q")
  define e where "e = SequenceCrdt_apply_crdt_perms_op ?B (SequenceCrdt_apply_crdt_perms_op ?B ?new y) x"
  have view: "seq_view ?B d2 = \<lparr>vw_address = SequenceAddress_Public name 43000, vw_entries = [], vw_perms = [?p, ?q], vw_owners = []\<rparr>"
      "seq_view ?B e = seq_view ?B d2" "ls_is_insert (be_perms ?B) x" "ls_is_insert (be_perms ?B) y"
    using swapped_views(2) [OF assms 1 2, of actor] by (simp_all add: e_def Let_def)
  have fit: "fits (seq_view ?B d2)" by (simp add: view(1) fits_def)
  note reads = view_reads [OF laws fit] view_reads [OF laws, of e, unfolded view(2), OF fit]
  have "seq_view ?B d1 = \<lparr>vw_address = SequenceAddress_Public name 43000, vw_entries = [], vw_perms = [?p], vw_owners = []\<rparr>"
    using view_writes(2) [OF laws, of ?new ?p] by (simp add: 1 view_writes(4) [OF laws])
  then have ix: "SequenceCrdt_entries_index ?B ?new = 0" "SequenceCrdt_owners_index ?B ?new = 0"
      "SequenceCrdt_entries_index ?B d1 = 0" "SequenceCrdt_owners_index ?B d1 = 0"
    by (simp_all add: view_writes [OF laws])
  show ?thesis
    by (simp add: test_sequence_public_append_perms_and_apply_def Sequence_new_pub_def Let_def ix 1 2 view(3,4) e_def [symmetric]
        view_writes(6) [OF laws] view(1,2) reads check_pub_entry_def PublicPermissions_user_permissions_def)
qed

lemma sequence_private_perms_test:
  assumes "backend_unique (sb_priv SB) he hv ho"
  shows "test_sequence_private_append_perms_and_apply SB actor1 actor2 name"
proof -
  let ?B = "sb_priv SB" and ?new = "\<lambda>a. SequenceCrdt_new (sb_priv SB) a (SequenceAddress_Private name 43000)"
  let ?p = "\<lparr>prp_permissions = [actor1 \<mapsto> PrivUserPermissions_new True False True], prp_entries_index = 0, prp_owners_index = 0\<rparr>"
  let ?q = "\<lparr>prp_permissions = [actor2 \<mapsto> PrivUserPermissions_new False True False], prp_entries_index = 0, prp_owners_index = 0\<rparr>"
  note laws = backend_uniqueD(4) [OF assms]
  obtain d1 x where 1: "SequenceCrdt_append_permissions ?B (?new actor1) ?p = (d1, x)" by (cases "SequenceCrdt_append_permissions ?B (?new actor1) ?p")
  obtain d2 y where 2: "SequenceCrdt_append_permissions ?B d1 ?q = (d2, y)" by (cases "SequenceCrdt_append_permissions ?B d1 ?q")
  define e where "e = SequenceCrdt_apply_crdt_perms_op ?B (SequenceCrdt_apply_crdt_perms_op ?B (?new actor2) y) x"
  have view: "seq_view ?B d2 = \<lparr>vw_address = SequenceAddress_Private name 43000, vw_entries = [], vw_perms = [?p, ?q], vw_owners = []\<rparr>"
      "seq_view ?B e = seq_view ?B d2"
    using swapped_views(2) [OF assms 1 2, of actor2] by (simp_all add: e_def Let_def)
  have fit: "fits (seq_view ?B d2)" by (simp add: view(1) fits_def)
  note reads = view_reads [OF laws fit] view_reads [OF laws, of e, unfolded view(2), OF fit]
  have "seq_view ?B d1 = \<lparr>vw_address = SequenceAddress_Private name 43000, vw_entries = [], vw_perms = [?p], vw_owners = []\<rparr>"
    using view_writes(2) [OF laws, of "?new actor1" ?p] by (simp add: 1 view_writes(4) [OF laws])
  then have ix: "SequenceCrdt_entries_index ?B (?new a) = 0" "SequenceCrdt_owners_index ?B (?new a) = 0"
      "SequenceCrdt_entries_index ?B d1 = 0" "SequenceCrdt_owners_index ?B d1 = 0" for a
    by (simp_all add: view_writes [OF laws])
  show ?thesis
    by (simp add: test_sequence_private_append_perms_and_apply_def Sequence_new_private_def Let_def ix 1 2 e_def [symmetric]
        view_writes(6) [OF laws] view(1,2) reads check_private_entry_def)
qed

lemma sequence_owner_test:
  assumes "backend_unique (sb_pub SB) he hu ho"
  shows "test_sequence_append_owner_and_apply SB actor owner1 owner2 name"
proof -
  let ?B = "sb_pub SB" and ?new = "SequenceCrdt_new (sb_pub SB) actor (SequenceAddress_Public name 43000)"
  let ?o = "\<lambda>k. \<lparr>ow_public_key = k, ow_entries_index = 0, ow_permissions_index = 0\<rparr>"
  note laws = backend_uniqueD(4) [OF assms]
  obtain d1 x where 1: "SequenceCrdt_append_owner ?B ?new owner1 = (d1, x)" by (cases "SequenceCrdt_append_owner ?B ?new owner1")
  obtain d2 y where 2: "SequenceCrdt_append_owner ?B d1 owner2 = (d2, y)" by (cases "SequenceCrdt_append_owner ?B d1 owner2")
  define e where "e = SequenceCrdt_apply_crdt_owner_op ?B (SequenceCrdt_apply_crdt_owner_op ?B ?new y) x"
  have view: "seq_view ?B d2 = \<lparr>vw_address = SequenceAddress_Public name 43000, vw_entries = [], vw_perms = [], vw_owners = [?o owner1, ?o owner2]\<rparr>"
      "seq_view ?B e = seq_view ?B d2"
    using swapped_views(3) [OF assms 1 2, of actor] by (simp_all add: e_def Let_def)
  have fit: "fits (seq_view ?B d2)" by (simp add: view(1) fits_def)
  note reads = view_reads [OF laws fit] view_reads [OF laws, of e, unfolded view(2), OF fit]
    check_is_last_owner_spec [OF laws fit] check_is_last_owner_spec [OF laws, of e, unfolded view(2), OF fit]
  show ?thesis
    by (simp add: test_sequence_append_owner_and_apply_def Sequence_new_pub_def Let_def 1 2 e_def [symmetric]
        view_writes(7) [OF laws] view(1,2) reads check_owner_entry_def is_last_owner_def)
qed

section \<open>Properties\<close>

text \<open>
  C14: The crate's own tests of sequences hold for every actor, name and owner, and over every external
  sequence type that meets the contract: a new sequence has its kind, name, tag and address; and two
  appends of entries, of public permissions, of private permissions (by another actor) or of owners
  reach a second replica in the opposite order and leave both with the same contents, at the expected
  positions, with the expected indices and the last owner in charge.
\<close>

theorem sequence_unit_tests_hold:
  assumes "backend_unique (sb_pub SB) he hu ho" "backend_unique (sb_priv SB) he hv ho"
  shows "test_sequence_create_public SB actor name \<and> test_sequence_create_private SB actor name \<and>
    test_sequence_append_entry_and_apply SB actor name \<and>
    test_sequence_public_append_perms_and_apply SB actor name \<and>
    test_sequence_private_append_perms_and_apply SB actor actor2 name \<and>
    test_sequence_append_owner_and_apply SB actor owner1 owner2 name"
  using create_tests sequence_entry_test [OF assms(1)] sequence_pub_perms_test [OF assms(1)]
    sequence_private_perms_test [OF assms(2)] sequence_owner_test [OF assms(1)] by blast

theorem sequence_unit_tests_hold_witness:
  "test_sequence_append_entry_and_apply ref_sb (PublicKey_Bls 1) 3 \<and>
   test_sequence_private_append_perms_and_apply ref_sb (PublicKey_Bls 1) (PublicKey_Bls 2) 3"
  using sequence_unit_tests_hold [of ref_sb ref_hb ref_hb ref_hb ref_hb "PublicKey_Bls 1" 3 "PublicKey_Bls 2"] ref_backends_unique
  by simp

end
