(* ===== verification/Spec2Isabelle.thy ===== *)
theory Spec2Isabelle
  imports Amounts MapShell MapMutate MapHistory MapRefine SeqNetwork SeqApi Utf8 Formats Conformance
begin

text \<open>
  The Rust crate safe-nd, the data types of the SAFE Network, as it stands under src/src: replicated
  and permissioned data (maps, sequences, blobs), keys and identities, money transfers, and the
  messages in which all of these travel. The crate is a library of value types. State lives in the
  values themselves, every operation is a method of one of them, and the network nodes that own the
  values call these methods.

  \<^bold>\<open>How the parts interact.\<close> A client signs a message (identity/client.rs, keys/) and wraps it in an
  envelope (messaging/mod.rs). Each node it passes signs the envelope again, and the envelope computes
  its next destination from the request inside. The request (messaging/data.rs and the files it
  forwards to) names the authorisation it needs, the section it goes to, and the response variant
  that answers it in case of an error. The section applies it to a map (map.rs), a sequence
  (sequence/) or a blob (blob.rs); a sequence write is broadcast to the other replicas as an operation
  that commutes with concurrent ones. A data command carries a payment (transfer.rs), whose evidence
  wraps a signed transfer of money (money.rs).

  \<^bold>\<open>Theories and the files they model.\<close>
  \<^item> \<open>Prelude\<close>: integers, byte strings, the result type and its combinators; shared lemmas.
  \<^item> \<open>BTree\<close>: ordered maps of the standard library as sorted association lists; the interface is the
    locale \<open>ord\_map\<close>, its client is the entry loop \<open>entry\_loop\<close>.
  \<^item> \<open>Errors\<close> (errors.rs), \<open>Amounts\<close> (money.rs, rewards.rs), \<open>Codec\<close> (utils.rs), \<open>Keys\<close> (keys/mod.rs,
    keys/proof.rs).
  \<^item> \<open>MapTypes\<close>, \<open>MapShell\<close>, \<open>MapMutate\<close>, \<open>MapData\<close> (map.rs): data and shell operations, the versioned
    operations on the shell, bulk mutation (locale \<open>bulk\_mutation\<close>, one instance per flavour), and the enum over both flavours; \<open>MapHistory\<close> follows one
    entry through interleaved operations, and \<open>MapRefine\<close> relates the whole component to an abstract map,
    by the general simulation argument of \<open>Simulation\<close>.
  \<^item> \<open>SeqMeta\<close> (sequence/metadata.rs), \<open>SeqCrdt\<close> (sequence/seq\_crdt.rs), \<open>Sequence\<close> and \<open>SequenceSpec\<close>
    (sequence/mod.rs); \<open>Replication\<close> holds the general arguments for convergence and delivery, \<open>SeqRef\<close> an instance of
    the external sequence type, \<open>SeqNetwork\<close> a network of replicas of the core, and \<open>SeqApi\<close> a network at
    the level of \<open>Sequence\<close> and the commands of messaging/sequence.rs, which simulates the former.
  \<^item> \<open>Blob\<close> (blob.rs), \<open>Transfers\<close> (transfer.rs), \<open>Identity\<close> and \<open>IdentitySpec\<close> (identity/).
  \<^item> \<open>Responses\<close> (the responses of messaging/mod.rs), \<open>Requests\<close> (the request files of messaging/, the
    crate's \<open>Data\<close> of lib.rs), \<open>Envelope\<close> (messaging/mod.rs, network.rs, duty.rs), \<open>MessagingSpec\<close>,
    \<open>Formats\<close> (log texts and conversions of all files), \<open>Utf8\<close> (the text of a sequence, with the lossy
    decoding of the standard library).
  \<^item> \<open>Conformance\<close>: the unit tests of the crate, as definitions, and their proofs.

  A definition \<open>T\_m\<close> models the method \<open>m\<close> of the type \<open>T\<close>; types of the same name in different files
  carry the component's name in front (\<open>MapAddress\<close>, \<open>SequenceAddress\<close>, \<open>BlobAddress\<close>). Structs are
  records, enums are datatypes, \<open>Result\<close> is a sum with \<open>Ok\<close> and \<open>Err\<close>, a method on \<open>\&mut self\<close> returns the
  new value beside its result. Integers are words of the width the source gives them; plain \<open>+\<close> on
  them wraps, as in a release build.

  \<^bold>\<open>What the lemmas show.\<close>
  \<^item> Maps: the component refines an abstract map (C1); a bulk mutation is all or nothing and each key
    is judged by its own verdict (C2, C3); the life of one entry under
    concurrent requesters, where no update is lost (C4); the shell changes one version at a time and
    requests cannot be replayed (C15), while its unvalidated changes are last-writer-wins (C34); who may do what is decided by the accepted
    grants and revocations (C5).
  \<^item> Sequences: reads refine reads of three lists (C9), replicas converge (C8), a network of
    replicas is eventually consistent and loses no write, in the core and behind the public interface
    (C6, C7), writes replay from the operations they return (C13), the local history
    invariant (C12), permissions and how writes change them (C10, C11), and the crate's own
    tests over every external sequence type that meets the contract (C14).
  \<^item> Messages: envelopes and routes (C16, C17, C18, C22), authorisation (C21), error
    answers and conversions (C19, C20).
  \<^item> Identities and keys: signing and verifying (C25, C33), the life of a node (C23, C39), the search
    for a name in a range (C24), serialisation that cannot forge names (C32), total orders that
    agree with equality and hashing, and text forms (C35, C36), logs without secrets (C37).
  \<^item> Amounts, blobs and transfers: parsing and printing (C26, C27, C38), overflow
    (C28, C29), content addresses (C30, C31);
    the wrappers of a transfer show its fields (locale \<open>transfer\_evidence\<close>), on which its routes rest (C22).

  \<^bold>\<open>Parameters and bounds.\<close> Code of other crates is not defined here. The signature schemes are the
  record \<open>Crypto\<close> with the law \<open>crypto\_ok\<close>, hashing and serialisation the record \<open>BlobEnv\<close> and pairs of
  functions with \<open>bincode\_ok\<close>, text encoding the record \<open>Multibase\<close> with \<open>multibase\_ok\<close>, the list CRDT
  the record \<open>LSeqOps\<close> with the locales \<open>lseq\<close> and, for unique identifiers, \<open>unique\_lseq\<close>; random generators are functions on a generator state.
  Every law has a concrete instance, on which the witnesses run. There is no fuel: recursion is on
  lists, and the two search loops of identity/node.rs are partial functions whose termination is
  characterised exactly (C24). The histories of C12 are bounded by the range of a 64-bit length.

  \<^bold>\<open>Not modelled.\<close>
  \<^item> ops.rs: it is not in the module tree of the crate and is not compiled.
  \<^item> Derived \<open>Ord\<close>, \<open>Hash\<close> and \<open>Debug\<close> instances that no code of the crate relies on.
\<close>

section \<open>Properties across components\<close>

subsection \<open>Concrete codecs for addresses\<close>

definition addr_ser :: "bool \<times> XorName \<times> u64 \<Rightarrow> bytes" where
  "addr_ser = (\<lambda>(b, name, tag). demo_ser ((if b then 1 else 0) # replicate (unat tag) 1, PublicKey_Ed25519 name))"

definition addr_de :: "bytes \<Rightarrow> string + bool \<times> XorName \<times> u64" where
  "addr_de bs =
     and_then (demo_de bs) (\<lambda>(v, k). case (v, k) of
        (b # rest, PublicKey_Ed25519 name) \<Rightarrow> Ok (b = 1, name, word_of_nat (length rest))
      | _ \<Rightarrow> Err ''address'')"

lemma addr_codec: "bincode_ok addr_ser addr_de"
  using demo_codec by (auto simp: bincode_ok_def addr_ser_def addr_de_def)

lemma bincode_via:
  assumes "bincode_ok ser de" "\<And>x. absf (rep x) = x"
  shows "bincode_ok (\<lambda>x. ser (rep x)) (\<lambda>bs. and_then (de bs) (\<lambda>y. Ok (absf y)))"
  using assms by (simp add: bincode_ok_def)

definition map_addr_rep :: "MapAddress \<Rightarrow> bool \<times> XorName \<times> u64" where
  "map_addr_rep a = (MapAddress_is_seq a, MapAddress_name a, MapAddress_tag a)"

definition seq_addr_rep :: "SequenceAddress \<Rightarrow> bool \<times> XorName \<times> u64" where
  "seq_addr_rep a = (SequenceAddress_is_pub a, SequenceAddress_name a, SequenceAddress_tag a)"

definition blob_addr_rep :: "BlobAddress \<Rightarrow> bool \<times> XorName \<times> u64" where
  "blob_addr_rep a = (BlobAddress_is_pub a, BlobAddress_name a, 0)"

lemma reps:
  "(\<lambda>(b, n, t). MapAddress_from_kind (MapKind_from_flag b) n t) (map_addr_rep a) = a"
  "(\<lambda>(b, n, t). SequenceAddress_from_kind (if b then SequenceKind_Public else SequenceKind_Private) n t) (seq_addr_rep s) = s"
  "(\<lambda>(b, n, t). BlobAddress_from_kind (BlobKind_from_flag b) n) (blob_addr_rep c) = c"
  by (cases a; cases s; cases c;
      simp add: map_addr_rep_def seq_addr_rep_def blob_addr_rep_def MapAddress_is_seq_def MapKind_is_seq_def
        MapKind_from_flag_def SequenceAddress_is_pub_def SequenceKind_is_pub_def BlobAddress_is_pub_def BlobKind_is_pub_def
        BlobKind_from_flag_def)+

lemmas zbase32_defs =
  MapAddress_decode_from_zbase32_def MapAddress_encode_to_zbase32_def
  SequenceAddress_decode_from_zbase32_def SequenceAddress_encode_to_zbase32_def
  BlobAddress_decode_from_zbase32_def BlobAddress_encode_to_zbase32_def
  PublicKey_decode_from_zbase32_def PublicKey_encode_to_zbase32_def
  ClientPublicId_decode_from_zbase32_def ClientPublicId_encode_to_zbase32_def
  NodePublicId_decode_from_zbase32_def NodePublicId_encode_to_zbase32_def
  AppPublicId_decode_from_zbase32_def PublicId_decode_from_zbase32_def

text \<open>
  C35: Every address and key of the crate survives its z-base-32 text form: decoding what was encoded
  gives it back, for map, sequence and blob addresses, public keys, client and node identities; and
  decoding any text at all, as any of these or as an app or general identity, gives a value or
  \<open>FailedToParse\<close>, never another error.
\<close>

theorem zbase32_roundtrip:
  assumes "multibase_ok mb" "bincode_ok sm dm" "bincode_ok ss ds" "bincode_ok sb db" "bincode_ok sk dk" "bincode_ok sn dn"
  shows "MapAddress_decode_from_zbase32 mb dm (MapAddress_encode_to_zbase32 mb sm a) = Ok a \<and>
    SequenceAddress_decode_from_zbase32 mb ds (SequenceAddress_encode_to_zbase32 mb ss s) = Ok s \<and>
    BlobAddress_decode_from_zbase32 mb db (BlobAddress_encode_to_zbase32 mb sb b) = Ok b \<and>
    PublicKey_decode_from_zbase32 mb dk (PublicKey_encode_to_zbase32 mb sk k) = Ok k \<and>
    ClientPublicId_decode_from_zbase32 mb dk (ClientPublicId_encode_to_zbase32 mb sk (client_id k)) = Ok (client_id k) \<and>
    NodePublicId_decode_from_zbase32 mb dn (NodePublicId_encode_to_zbase32 mb sn (node_id i)) = Ok (node_id i) \<and>
    (MapAddress_decode_from_zbase32 mb dm encoded = Err e \<longrightarrow> (\<exists>msg. e = FailedToParse msg)) \<and>
    (SequenceAddress_decode_from_zbase32 mb ds encoded = Err e \<longrightarrow> (\<exists>msg. e = FailedToParse msg)) \<and>
    (BlobAddress_decode_from_zbase32 mb db encoded = Err e \<longrightarrow> (\<exists>msg. e = FailedToParse msg)) \<and>
    (PublicKey_decode_from_zbase32 mb dk encoded = Err e \<longrightarrow> (\<exists>msg. e = FailedToParse msg)) \<and>
    (ClientPublicId_decode_from_zbase32 mb dk encoded = Err e \<longrightarrow> (\<exists>msg. e = FailedToParse msg)) \<and>
    (NodePublicId_decode_from_zbase32 mb dn encoded = Err e \<longrightarrow> (\<exists>msg. e = FailedToParse msg)) \<and>
    (AppPublicId_decode_from_zbase32 mb da encoded = Err e \<longrightarrow> (\<exists>msg. e = FailedToParse msg)) \<and>
    (PublicId_decode_from_zbase32 mb dp encoded = Err e \<longrightarrow> (\<exists>msg. e = FailedToParse msg))"
proof -
  have node: "NodePublicId_decode_from_zbase32 mb dn (NodePublicId_encode_to_zbase32 mb sn (node_id i)) = Ok (node_id i)"
    using assms(1) content_addressed.reread [OF node_content_addressed [OF assms(6)], of "node_id i"]
    by (cases i)
       (simp add: NodePublicId_decode_from_zbase32_def NodePublicId_encode_to_zbase32_def encode_def decode_def
          multibase_ok_def serialise_def node_id_def)
  have client: "ClientPublicId_decode_from_zbase32 mb dk (ClientPublicId_encode_to_zbase32 mb sk (client_id k)) = Ok (client_id k)"
    using assms(1) content_addressed.reread [OF client_content_addressed [OF assms(5)], of "client_id k"]
    by (simp add: ClientPublicId_decode_from_zbase32_def ClientPublicId_encode_to_zbase32_def encode_def decode_def
          multibase_ok_def serialise_def client_id_def)
  show ?thesis
    unfolding zbase32_defs
    by (intro conjI impI decode_encode assms node [unfolded zbase32_defs] client [unfolded zbase32_defs])
       (erule decode_err)+
qed

theorem zbase32_roundtrip_witness:
  "\<exists>sm dm. MapAddress_decode_from_zbase32 demo_multibase dm (MapAddress_encode_to_zbase32 demo_multibase sm (MapAddress_Seq 3 4)) =
     Ok (MapAddress_Seq 3 4)"
  using zbase32_roundtrip [OF demo_multibase_ok bincode_via [OF addr_codec reps(1)] bincode_via [OF addr_codec reps(2)]
      bincode_via [OF addr_codec reps(3)] key_codec pair_codec, of "MapAddress_Seq 3 4"]
  by blast

text \<open>
  C36: Keys, signatures and well-formed node identities, compared through their serialised form, are
  totally ordered consistently with equality, as the ordered containers that hold them require; and
  their hashes agree with it, as hashed containers require: what a value feeds to a hasher is the same
  for two values exactly when they compare equal, and two Ed25519 proofs that are equal by their bytes
  feed any hasher alike.
\<close>

theorem keys_totally_ordered:
  assumes "bincode_ok sk dk" "bincode_ok sg dg" "bincode_ok sn dn"
  shows "total_cmp (PublicKey_cmp sk) \<and> total_cmp (Signature_cmp sg) \<and>
    (\<forall>n m. node_id_wf n \<and> node_id_wf m \<longrightarrow> (NodePublicId_cmp sn n m = Equal) = (n = m)) \<and>
    NodePublicId_cmp sn m n = reverse (NodePublicId_cmp sn n m) \<and>
    (NodePublicId_cmp sn n m = Less \<and> NodePublicId_cmp sn m o' = Less \<longrightarrow> NodePublicId_cmp sn n o' = Less) \<and>
    (PublicKey_hash sk (#) k fed = PublicKey_hash sk (#) k' fed) = (PublicKey_partial_cmp sk k k' = Some Equal) \<and>
    (Signature_hash sg (#) g fed = Signature_hash sg (#) g' fed) = (Signature_partial_cmp sg g g' = Some Equal) \<and>
    (NodePublicId_hash sn (#) n fed = NodePublicId_hash sn (#) m fed) = (NodePublicId_partial_cmp sn n m = Some Equal) \<and>
    (Ed25519Proof_eq pr pr' \<longrightarrow> Ed25519Proof_hash sp feed pr h = Ed25519Proof_hash sp feed pr' h)"
proof -
  note inj = bincode_ok_inj [OF assms(1)] bincode_ok_inj [OF assms(2)] bincode_ok_inj [OF assms(3)]
  have pk: "PublicKey_cmp sk = (\<lambda>a b. cmp_bytes (sk a) (sk b))" and sig: "Signature_cmp sg = (\<lambda>a b. cmp_bytes (sg a) (sg b))"
    by (intro ext; simp add: PublicKey_cmp_def Signature_cmp_def serialise_def)+
  have "(NodePublicId_cmp sn n m = Equal) = (n = m)" if "node_id_wf n" "node_id_wf m" for n m
    using that inj(3) by (cases n; cases m)
      (auto simp: NodePublicId_cmp_def NodePublicId_serialize_def serialise_def bytes.cmp_equal node_id_wf_def dest: injD)
  moreover have "NodePublicId_cmp sn m n = reverse (NodePublicId_cmp sn n m)"
    by (simp add: NodePublicId_cmp_def) (rule bytes.cmp_reverse)
  moreover have "NodePublicId_cmp sn n m = Less \<and> NodePublicId_cmp sn m o' = Less \<Longrightarrow> NodePublicId_cmp sn n o' = Less"
    unfolding NodePublicId_cmp_def using bytes.cmp_trans by blast
  moreover have "(PublicKey_hash sk (#) k fed = PublicKey_hash sk (#) k' fed) = (PublicKey_partial_cmp sk k k' = Some Equal)"
      "(Signature_hash sg (#) g fed = Signature_hash sg (#) g' fed) = (Signature_partial_cmp sg g g' = Some Equal)"
      "(NodePublicId_hash sn (#) n fed = NodePublicId_hash sn (#) m fed) = (NodePublicId_partial_cmp sn n m = Some Equal)"
    by (simp_all add: PublicKey_hash_def PublicKey_partial_cmp_def PublicKey_cmp_def Signature_hash_def
        Signature_partial_cmp_def Signature_cmp_def NodePublicId_hash_def NodePublicId_partial_cmp_def NodePublicId_cmp_def
        bytes.cmp_equal)
  moreover have "Ed25519Proof_eq pr pr' \<Longrightarrow> pr = pr'"
    by (cases pr; cases pr') (simp add: Ed25519Proof_eq_def)
  ultimately show ?thesis unfolding pk sig using cmp_bytes_total [OF inj(1)] cmp_bytes_total [OF inj(2)] by blast
qed

text \<open>Signatures in unary, for the concrete instance.\<close>

definition sig_ser :: "Signature \<Rightarrow> bytes" where
  "sig_ser g = (case g of
     Signature_Ed25519 s \<Rightarrow> 0 # replicate (unat s) 1
   | Signature_Bls s \<Rightarrow> 1 # replicate (unat s) 1
   | Signature_BlsShare sh \<Rightarrow> 2 # replicate (unat (ss_index sh)) 1 @ 0 # replicate (unat (ss_share sh)) 1)"

definition sig_de :: "bytes \<Rightarrow> string + Signature" where
  "sig_de bs = (case bs of
     [] \<Rightarrow> Err ''empty''
   | t # rest \<Rightarrow>
       if t = 0 then Ok (Signature_Ed25519 (word_of_nat (length rest)))
       else if t = 1 then Ok (Signature_Bls (word_of_nat (length rest)))
       else Ok (Signature_BlsShare \<lparr>ss_index = word_of_nat (length (takeWhile (\<lambda>b. b = 1) rest)),
              ss_share = word_of_nat (length (tl (dropWhile (\<lambda>b. b = 1) rest)))\<rparr>))"

lemma sig_codec: "bincode_ok sig_ser sig_de"
proof -
  have "sig_de (sig_ser g) = Ok g" for g
    by (cases g) (simp_all add: sig_ser_def sig_de_def unary_split)
  then show ?thesis by (simp add: bincode_ok_def)
qed

theorem keys_totally_ordered_witness:
  "total_cmp (PublicKey_cmp key_ser) \<and> NodePublicId_cmp pair_ser (node_id (1, None)) (node_id (2, None)) \<noteq> Equal \<and>
   PublicKey_hash key_ser (#) (PublicKey_Bls 1) [] \<noteq> PublicKey_hash key_ser (#) (PublicKey_BlsShare 1) []"
proof -
  note spec = keys_totally_ordered [OF key_codec sig_codec pair_codec, where k = "PublicKey_Bls 1" and k' = "PublicKey_BlsShare 1"]
  have "node_id_wf (node_id (1, None))" "node_id_wf (node_id (2, None))" "node_id (1, None) \<noteq> node_id (2, None)"
    by (simp_all add: node_id_wf_def node_id_def)
  moreover have "PublicKey_partial_cmp key_ser (PublicKey_Bls 1) (PublicKey_BlsShare 1) \<noteq> Some Equal"
    using bincode_ok_inj [OF key_codec]
    by (simp add: PublicKey_partial_cmp_def PublicKey_cmp_def serialise_def bytes.cmp_equal inj_eq)
  ultimately show ?thesis
    using spec [THEN conjunct1] spec [THEN conjunct2, THEN conjunct2, THEN conjunct1]
      spec [THEN conjunct2, THEN conjunct2, THEN conjunct2, THEN conjunct2, THEN conjunct2, THEN conjunct1, of "[]"] by blast
qed

subsection \<open>From an identity to a verified, routed message\<close>

text \<open>The envelope in which a client sends a message it has signed.\<close>

fun client_proof :: "Crypto \<Rightarrow> ClientFullId \<Rightarrow> bytes \<Rightarrow> Proof option" where
  "client_proof C i d =
     (case (ClientFullId_sign C i d, cp_public_key (cf_public_id i)) of
        (Signature_Ed25519 s, PublicKey_Ed25519 k) \<Rightarrow> Some (Proof_Ed25519 \<lparr>ep_public_key = k, ep_signature = s\<rparr>)
      | (Signature_Bls s, PublicKey_Bls k) \<Rightarrow> Some (Proof_Bls \<lparr>bp_public_key = k, bp_signature = s\<rparr>)
      | _ \<Rightarrow> None)"

text \<open>
  C18: A message a client signs with its full identity travels: the envelope verifies at the first hop,
  its sender address is the client's name, an authorisation or data command goes to the section of
  that name first, a transfer command to the section of the account debited, a query to the section it
  asks; and the envelope is an honest one, so that it keeps verifying as honest proxies pass it on.
\<close>

theorem client_message_verifies:
  assumes "crypto_ok C" "client_wf C i" "client_proof C i (ser_msg m) = Some proof"
    and "e = \<lparr>me_message = m, me_origin = MsgSender_Client proof, me_proxies = []\<rparr>"
  shows "MsgEnvelope_verify C ser_msg ser_env e \<and> honest C ser_msg ser_env e \<and>
    MsgSender_address C (MsgEnvelope_most_recent_sender e) = Address_Client (cp_name (cf_public_id i)) \<and>
    (\<forall>cmd mid. m = Message_Cmd (Cmd_Auth cmd) mid \<longrightarrow>
       MsgEnvelope_destination C e = Address_Section (cp_name (cf_public_id i))) \<and>
    (\<forall>cmd payment mid. m = Message_Cmd (Cmd_Data cmd payment) mid \<longrightarrow>
       MsgEnvelope_destination C e = Address_Section (cp_name (cf_public_id i))) \<and>
    (\<forall>cmd mid. m = Message_Cmd (Cmd_Transfer cmd) mid \<longrightarrow>
       MsgEnvelope_destination C e = Address_Section (TransferCmd_dst_address cmd)) \<and>
    (\<forall>q mid. m = Message_Query q mid \<longrightarrow> MsgEnvelope_destination C e = Address_Section (Query_dst_address q)) \<and>
    (sender_signed C p (ser_env e) \<longrightarrow>
       MsgEnvelope_verify C ser_msg ser_env (MsgEnvelope_with_proxy e p) \<and>
       honest C ser_msg ser_env (MsgEnvelope_with_proxy e p))"
proof -
  have sig: "Proof_signature proof = ClientFullId_sign C i (ser_msg m) \<and> Proof_id C proof = cp_public_key (cf_public_id i)"
    using assms(3)
    by (auto simp: Ed25519Proof_signature_def Ed25519Proof_id_def BlsProof_signature_def BlsProof_id_def
        simp del: ClientFullId_sign.simps split: Signature.splits PublicKey.splits)
  have signed: "sender_signed C (MsgSender_Client proof) (ser_msg m)"
    using crypto_laws.client_signs [OF crypto_laws.intro [OF assms(1)] assms(2), of "ser_msg m"]
    by (simp add: sender_signed_def sig del: ClientFullId_sign.simps)
  have name: "PublicKey_to_xorname (cp_public_key (cf_public_id i)) = cp_name (cf_public_id i)"
    using assms(2) by (simp add: client_wf_def client_id_def)
  have honest: "honest C ser_msg ser_env e" unfolding assms(4) by (rule honest.origin) (rule signed)
  show ?thesis
    using honest honest_verifies [OF honest] honest.proxy [OF honest, of p] name sig verify_with_proxy [of C ser_msg ser_env e p]
    by (simp add: assms(4) MsgEnvelope_most_recent_sender_def MsgEnvelope_destination_def MsgEnvelope_cmd_dst_def)
qed

theorem client_message_verifies_witness:
  "honest demo_crypto (\<lambda>_. [1]) (\<lambda>_. [])
     (\<lparr>me_message = Message_Query (Query_Transfer (TransferQuery_GetBalance (PublicKey_Bls 1))) (MessageId 1),
       me_origin = MsgSender_Client (Proof_Bls \<lparr>bp_public_key = 8, bp_signature = 9\<rparr>), me_proxies = []\<rparr> :: (RefSeq, RefOp) MsgEnvelope)"
proof -
  have p: "client_proof demo_crypto (ClientFullId_from_bls demo_crypto 7) [1] =
      Some (Proof_Bls \<lparr>bp_public_key = 8, bp_signature = 9\<rparr>)"
    by (simp add: ClientFullId_from_bls_def demo_crypto_def)
  show ?thesis
    by (rule client_message_verifies [OF demo_crypto_ok client_new_wf(3) p refl, THEN conjunct2, THEN conjunct1])
qed

end
